(* ===== verification/Prelude.thy ===== *)
theory Prelude
  imports Complex_Main "HOL-Library.State_Monad" "HOL-Library.Word"
    "HOL-Library.Char_ord" "HOL-Library.List_Lexorder" "HOL-Library.Sublist"
begin

text \<open>
  The shared layer of the development.

  It holds the JSON values and HTTP responses the handlers build, the part of the Rust
  standard library on strings the code uses, the statements of SQL that the models issue
  (upsert, insert-or-ignore, delete) on a table kept as a list of rows, and a small program
  logic for the state monad: \<open>wp\<close> is the weakest precondition of a computation and
  \<open>preserves\<close> says that a computation keeps an invariant.  The rules of both are collected in
  the named theorems \<open>wp_rules\<close> and \<open>preserves_rules\<close>, which the component theories extend
  with the facts on their own operations.
\<close>

named_theorems wp_rules \<open>weakest preconditions of the combinators and operations\<close>
named_theorems preserves_rules \<open>introduction rules for invariant preservation\<close>

section \<open>JSON values and responses\<close>

text \<open>
  \<open>serde_json::Value\<close>.  Integers and floating point numbers are separate, as they are in
  \<open>serde_json\<close>; an object is the association list of its members in the order the code
  writes them.
\<close>

datatype json =
    JNull
  | JBool bool
  | JInt int
  | JFloat rat
  | JStr string
  | JArr "json list"
  | JObj "(string \<times> json) list"

datatype body =
    JsonBody json
  | TextBody string
  | BytesBody string "8 word list"
  | NoBody

text \<open>A response: its status code and its body.\<close>

datatype response = Response (resp_status: nat) (resp_body: body)

abbreviation json_response :: "nat \<Rightarrow> json \<Rightarrow> response" where
  "json_response code j \<equiv> Response code (JsonBody j)"

definition jopt :: "string option \<Rightarrow> json" where
  "jopt x = (case x of None \<Rightarrow> JNull | Some s \<Rightarrow> JStr s)"

definition jopt_int :: "int option \<Rightarrow> json" where
  "jopt_int x = (case x of None \<Rightarrow> JNull | Some i \<Rightarrow> JInt i)"

text \<open>The error body every API module builds with its own copy of \<open>err_json\<close>.\<close>

definition err_json :: "nat \<Rightarrow> string \<Rightarrow> response" where
  "err_json code msg = json_response code
     (JObj [(''ErrorModel'', JObj [(''Message'', JStr msg)]), (''Object'', JStr ''error''),
            (''Message'', JStr msg)])"

lemma resp_status_err_json [simp]: "resp_status (err_json code msg) = code"
  by (simp add: err_json_def)

text \<open>A Rust panic aborts the Worker; the runtime answers in its place.\<close>

definition panicked :: response where
  "panicked = Response 500 NoBody"

text \<open>\<open>Value::get\<close> on an object: the last member of that name wins in a parsed object.\<close>

fun json_get :: "string \<Rightarrow> json \<Rightarrow> json option" where
  "json_get k (JObj ms) = map_of (rev ms) k"
| "json_get k _ = None"

section \<open>Strings and machine integers\<close>

definition char_lower :: "char \<Rightarrow> char" where
  "char_lower c = (if CHR ''A'' \<le> c \<and> c \<le> CHR ''Z'' then char_of (of_char c + (32 :: nat)) else c)"

text \<open>\<open>str::to_lowercase\<close> on the ASCII letters; every other byte stays as it is.\<close>

definition to_lowercase :: "string \<Rightarrow> string" where
  "to_lowercase s = map char_lower s"

lemma of_char_lower_range:
  assumes "CHR ''A'' \<le> c" "c \<le> CHR ''Z''"
  shows "65 \<le> (of_char c :: nat)" "(of_char c :: nat) \<le> 90"
  using assms by (simp_all add: less_eq_char_def)

lemma char_lower_idem [simp]: "char_lower (char_lower c) = char_lower c"
proof (cases "CHR ''A'' \<le> c \<and> c \<le> CHR ''Z''")
  case True
  then have r: "65 \<le> (of_char c :: nat)" "(of_char c :: nat) \<le> 90"
    using of_char_lower_range by blast+
  then have "of_char (char_of (of_char c + (32 :: nat)) :: char) = of_char c + (32 :: nat)"
    by (simp add: of_char_of)
  with r have "\<not> (char_of (of_char c + (32 :: nat)) :: char) \<le> CHR ''Z''"
    by (simp add: less_eq_char_def)
  with True show ?thesis
    by (simp add: char_lower_def)
qed (auto simp: char_lower_def)

lemma to_lowercase_idem [simp]: "to_lowercase (to_lowercase s) = to_lowercase s"
  by (simp add: to_lowercase_def)

lemma to_lowercase_Nil [simp]: "to_lowercase s = [] \<longleftrightarrow> s = []"
  by (simp add: to_lowercase_def)

text \<open>\<open>i32\<close> arithmetic wraps in a release build; \<open>as u32\<close> reads the same bits.\<close>

definition wrap_i32 :: "int \<Rightarrow> int" where
  "wrap_i32 x = (x + 2 ^ 31) mod 2 ^ 32 - 2 ^ 31"

definition as_u32 :: "int \<Rightarrow> nat" where
  "as_u32 x = nat (x mod 2 ^ 32)"

lemma wrap_i32_id: "- (2 ^ 31) \<le> x \<Longrightarrow> x < 2 ^ 31 \<Longrightarrow> wrap_i32 x = x"
  by (simp add: wrap_i32_def)

lemma wrap_i32_range: "- (2 ^ 31) \<le> wrap_i32 x \<and> wrap_i32 x < 2 ^ 31"
  by (simp add: wrap_i32_def)

text \<open>\<open>str::trim\<close>, on the ASCII white space.\<close>

definition is_whitespace :: "char \<Rightarrow> bool" where
  "is_whitespace c \<longleftrightarrow> c = CHR '' '' \<or> (CHR 0x09 \<le> c \<and> c \<le> CHR 0x0D)"

definition trim :: "string \<Rightarrow> string" where
  "trim s = rev (dropWhile is_whitespace (rev (dropWhile is_whitespace s)))"

text \<open>\<open>str::split\<close> with a pattern that is not empty.\<close>

function split_on :: "string \<Rightarrow> string \<Rightarrow> string \<Rightarrow> string list" where
  "split_on pat acc [] = [rev acc]"
| "split_on pat acc (c # s) =
     (if pat \<noteq> [] \<and> prefix pat (c # s) then rev acc # split_on pat [] (drop (length pat) (c # s))
      else split_on pat (c # acc) s)"
  by pat_completeness auto
termination
  by (relation "measure (\<lambda>(pat, acc, s). length s)") (auto simp: neq_Nil_conv)

text \<open>\<open>str::split_whitespace\<close>: the words between runs of white space.\<close>

fun words_of :: "string \<Rightarrow> string \<Rightarrow> string list" where
  "words_of acc [] = (if acc = [] then [] else [rev acc])"
| "words_of acc (c # s) =
     (if is_whitespace c then (if acc = [] then words_of [] s else rev acc # words_of [] s)
      else words_of (c # acc) s)"

definition split_whitespace :: "string \<Rightarrow> string list" where
  "split_whitespace s = words_of [] s"

definition to_ascii_uppercase :: "string \<Rightarrow> string" where
  "to_ascii_uppercase s =
     map (\<lambda>c. if CHR ''a'' \<le> c \<and> c \<le> CHR ''z'' then char_of (of_char c - (32 :: nat)) else c) s"

text \<open>
  Strings are the bytes of their UTF-8 encoding: a position is a character boundary when no
  continuation byte starts there.  \<open>str_get_to n s\<close> is \<open>s.get(..n)\<close>.
\<close>

definition is_char_boundary :: "string \<Rightarrow> nat \<Rightarrow> bool" where
  "is_char_boundary s i \<longleftrightarrow> i = 0 \<or> i = length s \<or>
     (i < length s \<and> \<not> (128 \<le> (of_char (s ! i) :: nat) \<and> (of_char (s ! i) :: nat) < 192))"

definition str_get_to :: "nat \<Rightarrow> string \<Rightarrow> string option" where
  "str_get_to n s = (if is_char_boundary s n then Some (take n s) else None)"

text \<open>Decimal text of a number, and \<open>str::parse\<close> for \<open>u64\<close> and \<open>i32\<close>.\<close>

fun nat_digits :: "nat \<Rightarrow> nat \<Rightarrow> string" where
  "nat_digits 0 n = []"
| "nat_digits (Suc fuel) n =
     (if n < 10 then [char_of (48 + n)]
      else nat_digits fuel (n div 10) @ [char_of (48 + n mod 10)])"

definition nat_to_string :: "nat \<Rightarrow> string" where
  "nat_to_string n = nat_digits (Suc n) n"

definition int_to_string :: "int \<Rightarrow> string" where
  "int_to_string i = (if i < 0 then ''-'' @ nat_to_string (nat (- i)) else nat_to_string (nat i))"

definition is_digit :: "char \<Rightarrow> bool" where
  "is_digit c \<longleftrightarrow> CHR ''0'' \<le> c \<and> c \<le> CHR ''9''"

definition digits_value :: "string \<Rightarrow> nat" where
  "digits_value s = foldl (\<lambda>n c. 10 * n + (of_char c - 48)) 0 s"

definition parse_u64 :: "string \<Rightarrow> nat option" where
  "parse_u64 s = (let ds = (if take 1 s = ''+'' then drop 1 s else s) in
     if ds \<noteq> [] \<and> list_all is_digit ds \<and> digits_value ds < 2 ^ 64 then Some (digits_value ds) else None)"

text \<open>The frame around a list of rows in an answer.\<close>

definition json_list :: "json list \<Rightarrow> json" where
  "json_list data = JObj [(''Object'', JStr ''list''), (''Data'', JArr data),
     (''ContinuationToken'', JNull)]"

text \<open>\<open>Option::unwrap_or\<close>.\<close>

definition opt_default :: "'a \<Rightarrow> 'a option \<Rightarrow> 'a" where
  "opt_default d x = (case x of None \<Rightarrow> d | Some v \<Rightarrow> v)"

text \<open>\<open>str::parse\<close> of the signed integers of \<open>w + 1\<close> bits.\<close>

definition parse_signed :: "nat \<Rightarrow> string \<Rightarrow> int option" where
  "parse_signed w s =
     (let neg = (take 1 s = ''-''); ds = (if take 1 s = ''+'' \<or> neg then drop 1 s else s);
          n = int (digits_value ds) in
      if ds \<noteq> [] \<and> list_all is_digit ds \<and> n < (if neg then 2 ^ w + 1 else 2 ^ w)
      then Some (if neg then - n else n) else None)"

abbreviation parse_i32 :: "string \<Rightarrow> int option" where
  "parse_i32 \<equiv> parse_signed 31"

abbreviation parse_i64 :: "string \<Rightarrow> int option" where
  "parse_i64 \<equiv> parse_signed 63"

lemma of_char_digit [simp]: "n < 10 \<Longrightarrow> of_char (char_of (48 + n) :: char) = (48 + n :: nat)"
  by (simp add: of_char_of)

lemma is_digit_char [simp]: "n < 10 \<Longrightarrow> is_digit (char_of (48 + n :: nat))"
  by (simp add: is_digit_def less_eq_char_def)

lemma digits_value_snoc: "digits_value (ds @ [c]) = 10 * digits_value ds + (of_char c - 48)"
  by (simp add: digits_value_def)

lemma nat_digits_value:
  "n < fuel \<Longrightarrow> digits_value (nat_digits fuel n) = n \<and> list_all is_digit (nat_digits fuel n) \<and>
     nat_digits fuel n \<noteq> []"
proof (induction fuel n rule: nat_digits.induct)
  case (2 fuel n)
  show ?case
  proof (cases "n < 10")
    case True
    then show ?thesis by (simp add: digits_value_def)
  next
    case False
    then have "n div 10 < fuel" using 2 by linarith
    with 2(1) [OF False this] False show ?thesis
      by (simp add: digits_value_snoc)
  qed
qed simp

lemma parse_nat_to_string [simp]:
  assumes "n < 2 ^ 64"
  shows "parse_u64 (nat_to_string n) = Some n"
proof -
  let ?s = "nat_to_string n"
  have v: "digits_value ?s = n" "list_all is_digit ?s" "?s \<noteq> []"
    using nat_digits_value [of n "Suc n"] by (simp_all add: nat_to_string_def)
  then have "take 1 ?s \<noteq> ''+''"
    by (cases ?s) (auto simp: is_digit_def less_eq_char_def)
  with v assms show ?thesis by (simp add: parse_u64_def)
qed

text \<open>\<open>filter(|s| !s.is_empty())\<close> on an optional string.\<close>

definition non_empty :: "string option \<Rightarrow> string option" where
  "non_empty x = (case x of None \<Rightarrow> None | Some s \<Rightarrow> if s = [] then None else Some s)"

text \<open>\<open>Map::insert\<close> on a JSON object: the member of that name gets the new value.\<close>

fun json_insert :: "string \<Rightarrow> json \<Rightarrow> json \<Rightarrow> json" where
  "json_insert k v (JObj ms) = JObj (if k \<in> fst ` set ms
     then map (\<lambda>(k', v'). if k' = k then (k', v) else (k', v')) ms else ms @ [(k, v)])"
| "json_insert k v j = j"

section \<open>Tables\<close>

text \<open>
  A table is the list of its rows.  \<open>upsert key merge r\<close> is
  \<open>INSERT ... ON CONFLICT(key) DO UPDATE SET ...\<close>: \<open>merge old new\<close> is the row the
  \<open>SET\<close> clause leaves when a row \<open>old\<close> with the key of \<open>new\<close> is there.
\<close>

definition upsert :: "('r \<Rightarrow> 'k) \<Rightarrow> ('r \<Rightarrow> 'r \<Rightarrow> 'r) \<Rightarrow> 'r \<Rightarrow> 'r list \<Rightarrow> 'r list" where
  "upsert key merge r t =
     (if key r \<in> key ` set t then map (\<lambda>x. if key x = key r then merge x r else x) t
      else t @ [r])"

definition insert_ignore :: "('r \<Rightarrow> 'k) \<Rightarrow> 'r \<Rightarrow> 'r list \<Rightarrow> 'r list" where
  "insert_ignore key r t = (if key r \<in> key ` set t then t else t @ [r])"

definition delete_where :: "('r \<Rightarrow> bool) \<Rightarrow> 'r list \<Rightarrow> 'r list" where
  "delete_where P t = filter (\<lambda>x. \<not> P x) t"

definition update_where :: "('r \<Rightarrow> bool) \<Rightarrow> ('r \<Rightarrow> 'r) \<Rightarrow> 'r list \<Rightarrow> 'r list" where
  "update_where P f t = map (\<lambda>x. if P x then f x else x) t"

lemma set_delete_where [simp]: "set (delete_where P t) = {x \<in> set t. \<not> P x}"
  by (auto simp: delete_where_def)

lemma set_update_where: "set (update_where P f t) = (\<lambda>x. if P x then f x else x) ` set t"
  by (auto simp: update_where_def)

lemma set_insert_ignore:
  "set (insert_ignore key r t) = (if key r \<in> key ` set t then set t else insert r (set t))"
  by (auto simp: insert_ignore_def)

lemma set_insert_ignore_id [simp]: "set (insert_ignore (\<lambda>x. x) r t) = insert r (set t)"
  by (auto simp: insert_ignore_def)

lemma set_upsert:
  "set (upsert key merge r t) =
     (if key r \<in> key ` set t
      then {x \<in> set t. key x \<noteq> key r} \<union> (\<lambda>x. merge x r) ` {x \<in> set t. key x = key r}
      else insert r (set t))"
  by (auto simp: upsert_def image_iff)

lemma distinct_insert_ignore:
  "distinct (map key t) \<Longrightarrow> distinct (map key (insert_ignore key r t))"
  by (auto simp: insert_ignore_def)

lemma distinct_delete_where: "distinct (map key t) \<Longrightarrow> distinct (map key (delete_where P t))"
  by (simp add: delete_where_def distinct_map_filter)

lemma find_Some_iff_distinct:
  assumes "distinct (map key t)"
  shows "find (\<lambda>x. key x = k) t = Some r \<longleftrightarrow> r \<in> set t \<and> key r = k"
  using assms by (induction t) force+

lemma find_SomeD: "find P t = Some r \<Longrightarrow> r \<in> set t \<and> P r"
  by (induction t) (auto split: if_splits)

lemma find_delete_where: "find (\<lambda>x. P x) (delete_where P t) = None"
  by (simp add: delete_where_def find_None_iff)

text \<open>
  The contract of a table with a primary key: the row a conflict leaves has the key of the
  row that was inserted.
\<close>

locale keyed_table =
  fixes key :: "'r \<Rightarrow> 'k" and merge :: "'r \<Rightarrow> 'r \<Rightarrow> 'r"
  assumes key_merge: "key (merge old new) = key new"
begin

lemma keys_upsert:
  "key ` set (upsert key merge r t) = insert (key r) (key ` set t)"
proof (cases "key r \<in> key ` set t")
  case True
  have "map key (upsert key merge r t) = map key t"
    using True by (auto simp: upsert_def key_merge)
  then have "key ` set (upsert key merge r t) = key ` set t"
    by (metis set_map)
  with True show ?thesis by auto
qed (auto simp: upsert_def)

lemma distinct_upsert:
  assumes "distinct (map key t)"
  shows "distinct (map key (upsert key merge r t))"
proof (cases "key r \<in> key ` set t")
  case True
  have "map key (upsert key merge r t) = map key t"
    using True by (auto simp: upsert_def key_merge)
  with assms show ?thesis by simp
qed (use assms in \<open>simp add: upsert_def\<close>)

lemma find_upsert_same:
  "find (\<lambda>x. key x = key r) (upsert key merge r t) =
     Some (case find (\<lambda>x. key x = key r) t of None \<Rightarrow> r | Some x \<Rightarrow> merge x r)"
proof (cases "key r \<in> key ` set t")
  case True
  then show ?thesis
    by (induction t) (auto simp: upsert_def key_merge image_iff)
next
  case False
  then have "find (\<lambda>x. key x = key r) t = None"
    by (auto simp: find_None_iff image_iff)
  with False show ?thesis
    by (induction t) (auto simp: upsert_def)
qed

lemma find_upsert_other:
  assumes "k \<noteq> key r"
  shows "find (\<lambda>x. key x = k) (upsert key merge r t) = find (\<lambda>x. key x = k) t"
proof (cases "key r \<in> key ` set t")
  case True
  have "find (\<lambda>x. key x = k) (map (\<lambda>x. if key x = key r then merge x r else x) t) =
        find (\<lambda>x. key x = k) t" for t
    using assms by (induction t) (auto simp: key_merge)
  with True show ?thesis by (simp add: upsert_def)
next
  case False
  have "find (\<lambda>x. key x = k) (t @ [r]) = find (\<lambda>x. key x = k) t"
    using assms by (induction t) auto
  with False show ?thesis by (simp add: upsert_def)
qed

lemma upsert_existing:
  assumes "distinct (map key t)" "f \<in> set t" "key (g f) = key f"
  shows "upsert key merge (g f) t = update_where (\<lambda>x. key x = key f) (\<lambda>x. merge x (g x)) t"
proof -
  have "x = f" if "x \<in> set t" "key x = key f" for x
    using assms(1,2) that by (auto simp: distinct_map inj_on_def)
  then have "map (\<lambda>x. if key x = key f then merge x (g f) else x) t =
             map (\<lambda>x. if key x = key f then merge x (g x) else x) t"
    by (intro map_cong) auto
  with assms(2,3) show ?thesis
    by (simp add: upsert_def update_where_def)
qed

lemma upsert_other_rows:
  assumes "key x \<noteq> key r"
  shows "x \<in> set (upsert key merge r t) \<longleftrightarrow> x \<in> set t"
  using assms by (auto simp: set_upsert key_merge)

end

end
