(* ===== verification/Program_Logic.thy ===== *)
theory Program_Logic
  imports Prelude
begin

text \<open>
  Control flow of the handlers, in the state monad of the library, and a program logic for it.

  \<open>try_ret m h k\<close> is the \<open>match m { Ok(x) => ..., Err(e) => return ... }\<close> of the source
  (and its \<open>?\<close> operator): on an error the rest \<open>k\<close> is skipped and \<open>h e\<close> is returned.
  \<open>for_each\<close>, \<open>for_ret\<close> and \<open>for_acc\<close> are its \<open>for\<close> loops: one that runs to the end, one
  whose body may return early, and one that carries a local accumulator.
\<close>

abbreviation return :: "'a \<Rightarrow> ('s, 'a) state" where
  "return \<equiv> State_Monad.return"

definition try_ret ::
  "('s, 'e + 'a) state \<Rightarrow> ('e \<Rightarrow> 'r) \<Rightarrow> ('a \<Rightarrow> ('s, 'r) state) \<Rightarrow> ('s, 'r) state" where
  "try_ret m h k = do { r \<leftarrow> m; case r of Inl e \<Rightarrow> return (h e) | Inr x \<Rightarrow> k x }"

text \<open>\<open>m.await.unwrap_or(d)\<close>, and \<open>let _ = m.await\<close>, which drops the outcome.\<close>

definition unwrap_or :: "'a \<Rightarrow> ('s, 'e + 'a) state \<Rightarrow> ('s, 'a) state" where
  "unwrap_or d m = do { r \<leftarrow> m; return (case r of Inl _ \<Rightarrow> d | Inr x \<Rightarrow> x) }"

definition ignore :: "('s, 'a) state \<Rightarrow> ('s, unit) state" where
  "ignore m = do { _ \<leftarrow> m; return () }"

text \<open>\<open>if let Some(x) = v { ... }\<close> with nothing to do otherwise.\<close>

definition if_some :: "'a option \<Rightarrow> ('a \<Rightarrow> ('s, unit) state) \<Rightarrow> ('s, unit) state" where
  "if_some v f = (case v of None \<Rightarrow> return () | Some x \<Rightarrow> f x)"

fun for_each :: "'a list \<Rightarrow> ('a \<Rightarrow> ('s, unit) state) \<Rightarrow> ('s, unit) state" where
  "for_each [] f = return ()"
| "for_each (x # xs) f = do { _ \<leftarrow> f x; for_each xs f }"

fun for_ret :: "'a list \<Rightarrow> ('a \<Rightarrow> ('s, 'e + unit) state) \<Rightarrow> ('s, 'e + unit) state" where
  "for_ret [] f = return (Inr ())"
| "for_ret (x # xs) f = try_ret (f x) Inl (\<lambda>_. for_ret xs f)"

fun for_acc :: "'a list \<Rightarrow> 'b \<Rightarrow> ('a \<Rightarrow> 'b \<Rightarrow> ('s, 'b) state) \<Rightarrow> ('s, 'b) state" where
  "for_acc [] b f = return b"
| "for_acc (x # xs) b f = do { b' \<leftarrow> f x b; for_acc xs b' f }"

section \<open>Weakest preconditions\<close>

definition wp :: "('s, 'a) state \<Rightarrow> ('a \<Rightarrow> 's \<Rightarrow> bool) \<Rightarrow> 's \<Rightarrow> bool" where
  "wp m Q s = (case run_state m s of (r, s') \<Rightarrow> Q r s')"

lemma wpD: "wp m Q s \<Longrightarrow> run_state m s = (r, s') \<Longrightarrow> Q r s'"
  by (simp add: wp_def)

lemma wpI: "(\<And>r s'. run_state m s = (r, s') \<Longrightarrow> Q r s') \<Longrightarrow> wp m Q s"
  by (simp add: wp_def split: prod.splits)

lemma wp_mono: "wp m Q s \<Longrightarrow> (\<And>r s'. Q r s' \<Longrightarrow> Q' r s') \<Longrightarrow> wp m Q' s"
  by (simp add: wp_def split: prod.splits)

lemma wp_conj: "wp m (\<lambda>r s. Q r s \<and> Q' r s) s \<longleftrightarrow> wp m Q s \<and> wp m Q' s"
  by (simp add: wp_def split: prod.splits)

lemma wp_true [simp]: "wp m (\<lambda>_ _. True) s"
  by (simp add: wp_def split: prod.splits)

lemma wp_true_fun [simp]: "wp m (\<lambda>_ _. True) = (\<lambda>_. True)"
  by (simp add: fun_eq_iff)

lemma wp_return [wp_rules, simp]: "wp (return x) Q = Q x"
  by (simp add: wp_def fun_eq_iff)

lemma wp_bind [wp_rules, simp]:
  "wp (State_Monad.bind m f) Q = wp m (\<lambda>r. wp (f r) Q)"
  by (simp add: wp_def fun_eq_iff split: prod.splits)

lemma wp_try_ret [wp_rules, simp]:
  "wp (try_ret m h k) Q = wp m (\<lambda>r. case r of Inl e \<Rightarrow> Q (h e) | Inr x \<Rightarrow> wp (k x) Q)"
  by (simp add: try_ret_def wp_def fun_eq_iff split: prod.splits sum.splits)

lemma wp_unwrap_or [wp_rules, simp]:
  "wp (unwrap_or d m) Q = wp m (\<lambda>r. Q (case r of Inl _ \<Rightarrow> d | Inr x \<Rightarrow> x))"
  by (simp add: unwrap_or_def)

lemma wp_ignore [wp_rules, simp]: "wp (ignore m) Q = wp m (\<lambda>_. Q ())"
  by (simp add: ignore_def)

lemma wp_if_some [wp_rules]:
  "wp (if_some v f) Q = (case v of None \<Rightarrow> Q () | Some x \<Rightarrow> wp (f x) Q)"
  by (simp add: if_some_def split: option.splits)

lemma wp_if [wp_rules]:
  "wp (if b then m else n) Q = (if b then wp m Q else wp n Q)"
  by simp

lemma wp_case_option [wp_rules]:
  "wp (case x of None \<Rightarrow> m | Some y \<Rightarrow> f y) Q =
     (case x of None \<Rightarrow> wp m Q | Some y \<Rightarrow> wp (f y) Q)"
  by (simp split: option.splits)

lemma wp_case_sum [wp_rules]:
  "wp (case x of Inl a \<Rightarrow> f a | Inr b \<Rightarrow> g b) Q =
     (case x of Inl a \<Rightarrow> wp (f a) Q | Inr b \<Rightarrow> wp (g b) Q)"
  by (simp split: sum.splits)

lemma wp_case_prod [wp_rules]:
  "wp (case x of (a, b) \<Rightarrow> f a b) Q = (case x of (a, b) \<Rightarrow> wp (f a b) Q)"
  by (simp split: prod.splits)

lemma wp_for_each_invariant:
  assumes "I s" and "\<And>x s. x \<in> set xs \<Longrightarrow> I s \<Longrightarrow> wp (f x) (\<lambda>_. I) s"
  shows "wp (for_each xs f) (\<lambda>_. I) s"
  using assms
proof (induction xs arbitrary: s)
  case (Cons x xs)
  have "wp (f x) (\<lambda>_. I) s" using Cons.prems by simp
  then show ?case
    by (simp, elim wp_mono) (simp add: Cons.IH Cons.prems(2))
qed simp

lemma wp_for_ret_invariant:
  assumes "I s" and "\<And>x s. x \<in> set xs \<Longrightarrow> I s \<Longrightarrow> wp (f x) (\<lambda>_. I) s"
  shows "wp (for_ret xs f) (\<lambda>_. I) s"
  using assms
proof (induction xs arbitrary: s)
  case (Cons x xs)
  have "wp (f x) (\<lambda>_. I) s" using Cons.prems by simp
  then show ?case
    by (auto intro!: wp_mono [OF \<open>wp (f x) (\<lambda>_. I) s\<close>] Cons.IH Cons.prems(2)
        split: sum.splits)
qed simp

lemma wp_for_acc_invariant:
  assumes "I b s" and "\<And>x b s. x \<in> set xs \<Longrightarrow> I b s \<Longrightarrow> wp (f x b) I s"
  shows "wp (for_acc xs b f) I s"
  using assms
proof (induction xs arbitrary: b s)
  case (Cons x xs)
  have "wp (f x b) I s" using Cons.prems by simp
  then show ?case
    by (simp, elim wp_mono) (simp add: Cons.IH Cons.prems(2))
qed simp

section \<open>Invariants\<close>

definition preserves :: "('s \<Rightarrow> bool) \<Rightarrow> ('s, 'a) state \<Rightarrow> bool" where
  "preserves I m \<longleftrightarrow> (\<forall>s. I s \<longrightarrow> wp m (\<lambda>_. I) s)"

lemma preservesI: "(\<And>s. I s \<Longrightarrow> wp m (\<lambda>_. I) s) \<Longrightarrow> preserves I m"
  by (simp add: preserves_def)

lemma preservesD: "preserves I m \<Longrightarrow> I s \<Longrightarrow> run_state m s = (r, s') \<Longrightarrow> I s'"
  by (auto simp: preserves_def dest: wpD)

lemma preserves_wp: "preserves I m \<Longrightarrow> I s \<Longrightarrow> wp m (\<lambda>_. I) s"
  by (simp add: preserves_def)

lemma preserves_return [preserves_rules]: "preserves I (return x)"
  by (simp add: preserves_def)

lemma preserves_bind [preserves_rules]:
  "preserves I m \<Longrightarrow> (\<And>r. preserves I (f r)) \<Longrightarrow> preserves I (State_Monad.bind m f)"
  by (auto simp: preserves_def intro: wp_mono)

lemma preserves_try_ret [preserves_rules]:
  assumes "preserves I m" "\<And>x. preserves I (k x)"
  shows "preserves I (try_ret m h k)"
proof (rule preservesI)
  fix s assume "I s"
  with assms(1) have "wp m (\<lambda>_. I) s" by (simp add: preserves_def)
  then show "wp (try_ret m h k) (\<lambda>_. I) s"
    using assms(2) by (auto simp: preserves_def elim!: wp_mono split: sum.splits)
qed

lemma preserves_unwrap_or [preserves_rules]: "preserves I m \<Longrightarrow> preserves I (unwrap_or d m)"
  by (simp add: preserves_def)

lemma preserves_ignore [preserves_rules]: "preserves I m \<Longrightarrow> preserves I (ignore m)"
  by (simp add: preserves_def)

lemma preserves_if_some [preserves_rules]:
  "(\<And>x. v = Some x \<Longrightarrow> preserves I (f x)) \<Longrightarrow> preserves I (if_some v f)"
  by (simp add: preserves_def wp_if_some split: option.splits)

lemma preserves_if [preserves_rules]:
  "(b \<Longrightarrow> preserves I m) \<Longrightarrow> (\<not> b \<Longrightarrow> preserves I n) \<Longrightarrow> preserves I (if b then m else n)"
  by simp

lemma preserves_case_option [preserves_rules]:
  "preserves I m \<Longrightarrow> (\<And>y. preserves I (f y)) \<Longrightarrow>
     preserves I (case x of None \<Rightarrow> m | Some y \<Rightarrow> f y)"
  by (simp split: option.splits)

lemma preserves_case_sum [preserves_rules]:
  "(\<And>a. preserves I (f a)) \<Longrightarrow> (\<And>b. preserves I (g b)) \<Longrightarrow>
     preserves I (case x of Inl a \<Rightarrow> f a | Inr b \<Rightarrow> g b)"
  by (simp split: sum.splits)

lemma preserves_case_prod [preserves_rules]:
  "(\<And>a b. preserves I (f a b)) \<Longrightarrow> preserves I (case x of (a, b) \<Rightarrow> f a b)"
  by (simp split: prod.splits)

lemma preserves_let [preserves_rules]:
  "(\<And>y. preserves I (f y)) \<Longrightarrow> preserves I (let y = x in f y)"
  by (simp add: Let_def)

lemma preserves_for_each [preserves_rules]:
  "(\<And>x. preserves I (f x)) \<Longrightarrow> preserves I (for_each xs f)"
  by (auto simp: preserves_def intro!: wp_for_each_invariant)

lemma preserves_for_ret [preserves_rules]:
  "(\<And>x. preserves I (f x)) \<Longrightarrow> preserves I (for_ret xs f)"
  by (auto simp: preserves_def intro!: wp_for_ret_invariant)

lemma preserves_for_acc [preserves_rules]:
  assumes "\<And>x b. preserves I (f x b)"
  shows "preserves I (for_acc xs b f)"
proof (rule preservesI)
  fix s assume "I s"
  then show "wp (for_acc xs b f) (\<lambda>_. I) s"
    using assms by (auto simp: preserves_def intro!: wp_for_acc_invariant [where I = "\<lambda>_. I"])
qed

text \<open>A first step that establishes the invariant, and a rest that keeps it.\<close>

lemma wp_bind_preserves:
  "wp m (\<lambda>_. I) s \<Longrightarrow> (\<And>x. preserves I (k x)) \<Longrightarrow> wp (State_Monad.bind m k) (\<lambda>_. I) s"
  by (auto simp: preserves_def elim: wp_mono)

lemma wp_try_ret_preserves:
  "wp m (\<lambda>_. I) s \<Longrightarrow> (\<And>x. preserves I (k x)) \<Longrightarrow> wp (try_ret m h k) (\<lambda>_. I) s"
  by (auto simp: preserves_def elim!: wp_mono split: sum.splits)

lemma preserves_conj:
  "preserves I m \<Longrightarrow> preserves J m \<Longrightarrow> preserves (\<lambda>s. I s \<and> J s) m"
  by (auto simp: preserves_def wp_conj)

text \<open>
  A computation that only looks: \<open>reads v m R\<close> says that \<open>m\<close> leaves the part \<open>v\<close> of the
  state as it was and that its result is related by \<open>R\<close> to the state it started in.
\<close>

definition reads :: "('s \<Rightarrow> 'v) \<Rightarrow> ('s, 'a) state \<Rightarrow> ('a \<Rightarrow> 's \<Rightarrow> bool) \<Rightarrow> bool" where
  "reads v m R \<longleftrightarrow> (\<forall>s. wp m (\<lambda>r s'. v s' = v s \<and> R r s) s)"

lemma readsI: "(\<And>s. wp m (\<lambda>r s'. v s' = v s \<and> R r s) s) \<Longrightarrow> reads v m R"
  by (simp add: reads_def)

lemma wp_reads:
  assumes "reads v m R" and "\<And>r s'. v s' = v s \<Longrightarrow> R r s \<Longrightarrow> Q r s'"
  shows "wp m Q s"
  using assms by (auto simp: reads_def intro: wp_mono)

end
