(* ===== verification/Schema.thy ===== *)
theory Schema
  imports Program_Logic
begin

text \<open>
  The rows of the database, one record per table of \<open>worker/migrations\<close> and struct of
  \<open>worker/src/db/models\<close>, the database as the record of its tables, and the world a handler
  runs in.  Column names carry a prefix for their table, because a record field is a global
  name.  Columns of type \<open>i32\<close> are \<open>int\<close>; timestamps are the RFC 3339 strings the code
  stores and compares.
\<close>

type_synonym byte = "8 word"

section \<open>Rows\<close>

text \<open>
  The columns of \<open>users\<close> that are read and written as they are; the two BLOB columns come on
  top of them, as bytes in \<open>User\<close> and as hexadecimal text in \<open>UserRow\<close>.
\<close>

record user_cols =
  us_uuid :: string
  us_enabled :: int
  us_created_at :: string
  us_updated_at :: string
  us_verified_at :: "string option"
  us_last_verifying_at :: "string option"
  us_login_verify_count :: int
  us_email :: string
  us_email_new :: "string option"
  us_email_new_token :: "string option"
  us_name :: string
  us_password_iterations :: int
  us_password_hint :: "string option"
  us_akey :: string
  us_private_key :: "string option"
  us_public_key :: "string option"
  us_totp_secret :: "string option"
  us_totp_recover :: "string option"
  us_security_stamp :: string
  us_stamp_exception :: "string option"
  us_equivalent_domains :: string
  us_excluded_globals :: string
  us_client_kdf_type :: int
  us_client_kdf_iter :: int
  us_client_kdf_memory :: "int option"
  us_client_kdf_parallelism :: "int option"
  us_api_key :: "string option"
  us_avatar_color :: "string option"
  us_external_id :: "string option"

record user = user_cols +
  us_password_hash :: "byte list"
  us_salt :: "byte list"

record user_row = user_cols +
  ur_password_hash_hex :: string
  ur_salt_hex :: string

record device =
  de_uuid :: string
  de_created_at :: string
  de_updated_at :: string
  de_user_uuid :: string
  de_name :: string
  de_atype :: int
  de_push_token :: "string option"
  de_refresh_token :: string
  de_twofactor_remember :: "string option"
  de_push_uuid :: "string option"

record folder =
  fo_uuid :: string
  fo_created_at :: string
  fo_updated_at :: string
  fo_user_uuid :: string
  fo_name :: string

record cipher =
  ci_uuid :: string
  ci_created_at :: string
  ci_updated_at :: string
  ci_user_uuid :: "string option"
  ci_organization_uuid :: "string option"
  ci_key :: "string option"
  ci_atype :: int
  ci_name :: string
  ci_notes :: "string option"
  ci_fields :: "string option"
  ci_data :: string
  ci_password_history :: "string option"
  ci_deleted_at :: "string option"
  ci_reprompt :: "int option"

record attachment =
  at_id :: string
  at_cipher_uuid :: string
  at_file_name :: string
  at_file_size :: int
  at_akey :: "string option"

record send =
  se_uuid :: string
  se_user_uuid :: "string option"
  se_organization_uuid :: "string option"
  se_name :: string
  se_notes :: "string option"
  se_atype :: int
  se_data :: string
  se_akey :: string
  se_password_hash :: "byte list"
  se_password_salt :: "byte list"
  se_password_iter :: "int option"
  se_max_access_count :: "int option"
  se_access_count :: int
  se_creation_date :: string
  se_revision_date :: string
  se_expiration_date :: "string option"
  se_deletion_date :: string
  se_disabled :: int
  se_hide_email :: "int option"

record emergency_access =
  ea_uuid :: string
  ea_grantor_uuid :: "string option"
  ea_grantee_uuid :: "string option"
  ea_email :: "string option"
  ea_key_encrypted :: "string option"
  ea_atype :: int
  ea_status :: int
  ea_wait_time_days :: int
  ea_recovery_initiated_at :: "string option"
  ea_last_notification_at :: "string option"
  ea_updated_at :: string
  ea_created_at :: string

record auth_request =
  ar_uuid :: string
  ar_user_uuid :: string
  ar_organization_uuid :: "string option"
  ar_request_device_identifier :: string
  ar_device_type :: int
  ar_request_ip :: string
  ar_response_device_id :: "string option"
  ar_access_code :: string
  ar_public_key :: string
  ar_enc_key :: "string option"
  ar_master_password_hash :: "string option"
  ar_approved :: "int option"
  ar_creation_date :: string
  ar_response_date :: "string option"
  ar_authentication_date :: "string option"

record membership =
  me_uuid :: string
  me_user_uuid :: string
  me_org_uuid :: string
  me_access_all :: int
  me_akey :: string
  me_status :: int
  me_atype :: int
  me_reset_password_key :: "string option"
  me_external_id :: "string option"
  me_invited_by_email :: "string option"

record organization =
  og_uuid :: string
  og_name :: string
  og_billing_email :: string
  og_private_key :: "string option"
  og_public_key :: "string option"

record collection =
  co_uuid :: string
  co_org_uuid :: string
  co_name :: string
  co_external_id :: "string option"

record user_collection =
  uc_user_uuid :: string
  uc_collection_uuid :: string
  uc_read_only :: int
  uc_hide_passwords :: int
  uc_manage :: int

record org_policy =
  op_uuid :: string
  op_org_uuid :: string
  op_atype :: int
  op_enabled :: int
  op_data :: string

record group =
  gr_uuid :: string
  gr_organizations_uuid :: string
  gr_name :: string
  gr_access_all :: int
  gr_external_id :: "string option"
  gr_creation_date :: string
  gr_revision_date :: string

record collection_group =
  cg_collections_uuid :: string
  cg_groups_uuid :: string
  cg_read_only :: int
  cg_hide_passwords :: int
  cg_manage :: int

record org_api_key =
  ok_uuid :: string
  ok_org_uuid :: string
  ok_atype :: int
  ok_api_key :: string
  ok_revision_date :: string

record two_factor =
  tf_uuid :: string
  tf_user_uuid :: string
  tf_atype :: int
  tf_enabled :: int
  tf_data :: string
  tf_last_used :: int

record two_factor_incomplete =
  ti_user_uuid :: string
  ti_device_uuid :: string
  ti_device_name :: string
  ti_login_time :: string
  ti_ip_address :: string
  ti_device_type :: int

record sso_auth =
  sa_state :: string
  sa_client_challenge :: string
  sa_nonce :: string
  sa_redirect_uri :: string
  sa_code_response :: "string option"
  sa_auth_response :: "string option"
  sa_created_at :: string
  sa_updated_at :: string
  sa_binding_hash :: "string option"
  sa_code_response_error :: "string option"

record sso_user =
  su_user_uuid :: string
  su_identifier :: string
  su_created_at :: string

record two_factor_duo_context =
  td_state :: string
  td_user_email :: string
  td_nonce :: string
  td_exp :: int

record event =
  ev_uuid :: string
  ev_event_type :: int
  ev_user_uuid :: "string option"
  ev_org_uuid :: "string option"
  ev_cipher_uuid :: "string option"
  ev_collection_uuid :: "string option"
  ev_group_uuid :: "string option"
  ev_org_user_uuid :: "string option"
  ev_act_user_uuid :: "string option"
  ev_device_type :: "int option"
  ev_ip_address :: "string option"
  ev_event_date :: string
  ev_policy_uuid :: "string option"
  ev_provider_uuid :: "string option"
  ev_provider_user_uuid :: "string option"
  ev_provider_org_uuid :: "string option"

section \<open>The database\<close>

text \<open>
  The junction tables without columns of their own are lists of pairs, in the column order of
  their primary key: \<open>(user, cipher)\<close> for \<open>favorites\<close> and \<open>archives\<close>,
  \<open>(cipher, folder)\<close>, \<open>(cipher, collection)\<close> and \<open>(group, membership)\<close>.
\<close>

record db =
  t_users :: "user list"
  t_devices :: "device list"
  t_folders :: "folder list"
  t_ciphers :: "cipher list"
  t_favorites :: "(string \<times> string) list"
  t_archives :: "(string \<times> string) list"
  t_attachments :: "attachment list"
  t_folders_ciphers :: "(string \<times> string) list"
  t_ciphers_collections :: "(string \<times> string) list"
  t_users_collections :: "user_collection list"
  t_sends :: "send list"
  t_emergency_access :: "emergency_access list"
  t_auth_requests :: "auth_request list"
  t_users_organizations :: "membership list"
  t_organizations :: "organization list"
  t_collections :: "collection list"
  t_org_policies :: "org_policy list"
  t_groups :: "group list"
  t_groups_users :: "(string \<times> string) list"
  t_collections_groups :: "collection_group list"
  t_invitations :: "string list"
  t_organization_api_key :: "org_api_key list"
  t_twofactor :: "two_factor list"
  t_twofactor_incomplete :: "two_factor_incomplete list"
  t_twofactor_duo_ctx :: "two_factor_duo_context list"
  t_sso_auth :: "sso_auth list"
  t_sso_users :: "sso_user list"
  t_event :: "event list"

definition empty_db :: db where
  "empty_db = \<lparr>t_users = [], t_devices = [], t_folders = [], t_ciphers = [], t_favorites = [],
     t_archives = [], t_attachments = [], t_folders_ciphers = [], t_ciphers_collections = [],
     t_users_collections = [], t_sends = [], t_emergency_access = [], t_auth_requests = [],
     t_users_organizations = [], t_organizations = [], t_collections = [], t_org_policies = [],
     t_groups = [], t_groups_users = [], t_collections_groups = [], t_invitations = [],
     t_organization_api_key = [], t_twofactor = [], t_twofactor_incomplete = [],
     t_twofactor_duo_ctx = [], t_sso_auth = [], t_sso_users = [], t_event = []\<rparr>"

section \<open>Referential integrity\<close>

text \<open>
  The REFERENCES clauses of the schema: every value of a referencing column, when it is not
  NULL, is the key of a row of the referenced table.
\<close>

definition refers :: "'r list \<Rightarrow> ('r \<Rightarrow> string option) \<Rightarrow> 'p list \<Rightarrow> ('p \<Rightarrow> string) \<Rightarrow> bool" where
  "refers rows column parents key \<longleftrightarrow>
     (\<forall>r\<in>set rows. case column r of None \<Rightarrow> True | Some k \<Rightarrow> k \<in> key ` set parents)"

definition fk_users :: "db \<Rightarrow> bool" where
  "fk_users d \<longleftrightarrow>
     refers (t_devices d) (Some \<circ> de_user_uuid) (t_users d) us_uuid \<and>
     refers (t_folders d) (Some \<circ> fo_user_uuid) (t_users d) us_uuid \<and>
     refers (t_ciphers d) ci_user_uuid (t_users d) us_uuid \<and>
     refers (t_favorites d) (Some \<circ> fst) (t_users d) us_uuid \<and>
     refers (t_archives d) (Some \<circ> fst) (t_users d) us_uuid \<and>
     refers (t_users_collections d) (Some \<circ> uc_user_uuid) (t_users d) us_uuid \<and>
     refers (t_users_organizations d) (Some \<circ> me_user_uuid) (t_users d) us_uuid \<and>
     refers (t_sends d) se_user_uuid (t_users d) us_uuid \<and>
     refers (t_emergency_access d) ea_grantor_uuid (t_users d) us_uuid \<and>
     refers (t_emergency_access d) ea_grantee_uuid (t_users d) us_uuid \<and>
     refers (t_auth_requests d) (Some \<circ> ar_user_uuid) (t_users d) us_uuid \<and>
     refers (t_twofactor d) (Some \<circ> tf_user_uuid) (t_users d) us_uuid \<and>
     refers (t_twofactor_incomplete d) (Some \<circ> ti_user_uuid) (t_users d) us_uuid \<and>
     refers (t_sso_users d) (Some \<circ> su_user_uuid) (t_users d) us_uuid"

definition fk_ciphers :: "db \<Rightarrow> bool" where
  "fk_ciphers d \<longleftrightarrow>
     refers (t_attachments d) (Some \<circ> at_cipher_uuid) (t_ciphers d) ci_uuid \<and>
     refers (t_folders_ciphers d) (Some \<circ> fst) (t_ciphers d) ci_uuid \<and>
     refers (t_ciphers_collections d) (Some \<circ> fst) (t_ciphers d) ci_uuid \<and>
     refers (t_favorites d) (Some \<circ> snd) (t_ciphers d) ci_uuid \<and>
     refers (t_archives d) (Some \<circ> snd) (t_ciphers d) ci_uuid \<and>
     refers (t_folders_ciphers d) (Some \<circ> snd) (t_folders d) fo_uuid"

definition fk_organizations :: "db \<Rightarrow> bool" where
  "fk_organizations d \<longleftrightarrow>
     refers (t_ciphers d) ci_organization_uuid (t_organizations d) og_uuid \<and>
     refers (t_collections d) (Some \<circ> co_org_uuid) (t_organizations d) og_uuid \<and>
     refers (t_users_organizations d) (Some \<circ> me_org_uuid) (t_organizations d) og_uuid \<and>
     refers (t_org_policies d) (Some \<circ> op_org_uuid) (t_organizations d) og_uuid \<and>
     refers (t_sends d) se_organization_uuid (t_organizations d) og_uuid \<and>
     refers (t_groups d) (Some \<circ> gr_organizations_uuid) (t_organizations d) og_uuid \<and>
     refers (t_organization_api_key d) (Some \<circ> ok_org_uuid) (t_organizations d) og_uuid \<and>
     refers (t_auth_requests d) ar_organization_uuid (t_organizations d) og_uuid"

definition fk_collections :: "db \<Rightarrow> bool" where
  "fk_collections d \<longleftrightarrow>
     refers (t_users_collections d) (Some \<circ> uc_collection_uuid) (t_collections d) co_uuid \<and>
     refers (t_ciphers_collections d) (Some \<circ> snd) (t_collections d) co_uuid \<and>
     refers (t_collections_groups d) (Some \<circ> cg_collections_uuid) (t_collections d) co_uuid \<and>
     refers (t_collections_groups d) (Some \<circ> cg_groups_uuid) (t_groups d) gr_uuid \<and>
     refers (t_groups_users d) (Some \<circ> fst) (t_groups d) gr_uuid \<and>
     refers (t_groups_users d) (Some \<circ> snd) (t_users_organizations d) me_uuid"

definition fk_ok :: "db \<Rightarrow> bool" where
  "fk_ok d \<longleftrightarrow> fk_users d \<and> fk_ciphers d \<and> fk_organizations d \<and> fk_collections d"

lemmas fk_defs = fk_ok_def fk_users_def fk_ciphers_def fk_organizations_def fk_collections_def

lemma fk_ok_event [simp]: "fk_ok (d\<lparr>t_event := es\<rparr>) = fk_ok d"
  by (simp add: fk_defs)

lemma fk_ok_empty [simp]: "fk_ok empty_db"
  by (simp add: fk_defs refers_def empty_db_def)

end
