(* ===== verification/World.thy ===== *)
theory World
  imports Schema
begin

text \<open>
  What a handler runs in.  The \<open>world\<close> is the state a request can change: the database, the
  R2 buckets and the KV store of the rate limiter, and the messages sent to the notification
  objects and the mail provider.  The \<open>env\<close> holds what the code calls and does not define:
  D1, R2 and KV may refuse any single call (\<open>e_fault\<close>, asked with the number of the call), the
  clock, the UUID and random byte generators, PBKDF2, the JSON printer and parser of
  \<open>serde_json\<close>, the JWT codec of \<open>jsonwebtoken\<close>, SQLite's \<open>datetime\<close>, the RFC 3339 parser of
  \<open>chrono\<close> (to seconds and to microseconds), the text of the clock a number of seconds ago
  and SQLite's \<open>CURRENT_TIMESTAMP\<close>,
  TOTP, HMAC-SHA1 and the base 32 and base 64 codecs, the mail templates, HTTP requests to
  other servers, and the configuration.
  Every theorem holds for every environment, in particular for every pattern of refused calls.
\<close>

datatype db_error = D1Error

record mail_message =
  mm_from_email :: string
  mm_from_name :: string
  mm_to :: string
  mm_subject :: string
  mm_text :: string
  mm_html :: "string option"

datatype effect =
    NotifyUser string json
  | NotifyAnon string json
  | SendMail mail_message

record world =
  w_db :: db
  w_tick :: nat
  w_out :: "effect list"
  w_r2_attachments :: "(string \<times> byte list) list"
  w_r2_sends :: "(string \<times> byte list) list"
  w_kv :: "(string \<times> string) list"
  w_config :: "string list"

record env =
  e_fault :: "nat \<Rightarrow> bool"
  e_fk :: bool
  e_now :: "nat \<Rightarrow> string"
  e_unix :: "nat \<Rightarrow> nat"
  e_uuid :: "nat \<Rightarrow> string"
  e_random :: "nat \<Rightarrow> nat \<Rightarrow> byte list"
  e_rows_written :: "nat \<Rightarrow> int option"
  e_pbkdf2 :: "byte list \<Rightarrow> byte list \<Rightarrow> nat \<Rightarrow> byte list"
  e_json_print :: "json \<Rightarrow> string"
  e_json_parse :: "string \<Rightarrow> json option"
  e_jwt_encode :: "json \<Rightarrow> string + string"
  e_jwt_decode :: "nat \<Rightarrow> string \<Rightarrow> string \<Rightarrow> string + json"
  e_serde_error :: "json \<Rightarrow> string"
  e_sql_datetime :: "string \<Rightarrow> string \<Rightarrow> string option"
  e_rfc3339 :: "string \<Rightarrow> int option"
  e_rfc3339_micros :: "string \<Rightarrow> int option"
  e_micros :: "nat \<Rightarrow> int"
  e_ago :: "nat \<Rightarrow> int \<Rightarrow> string"
  e_sql_now :: "nat \<Rightarrow> string"
  e_totp :: "byte list \<Rightarrow> nat \<Rightarrow> string"
  e_hmac_sha1 :: "byte list \<Rightarrow> byte list \<Rightarrow> byte list"
  e_base32_encode :: "byte list \<Rightarrow> string"
  e_base32_decode :: "string \<Rightarrow> byte list option"
  e_base64_encode :: "byte list \<Rightarrow> string"
  e_base64_decode :: "string \<Rightarrow> string + byte list"
  e_base64url_encode :: "byte list \<Rightarrow> string"
  e_http_get :: "nat \<Rightarrow> string \<Rightarrow> string + string"
  e_render :: "string \<Rightarrow> json \<Rightarrow> (string \<times> string) option"
  e_login_issuer :: string
  e_mail_log :: bool
  e_mail_from :: "string \<times> string"
  e_vars :: "string \<Rightarrow> string option"
  e_kv_lag :: "nat \<Rightarrow> nat"
  e_binding :: "string \<Rightarrow> bool"

text \<open>
  The variables that \<open>fetch\<close> copies from the platform into the state of the application, from
  its plain variables and its secrets; \<open>env_var\<close> looks up nothing else.
\<close>

definition app_vars ::
  "(string \<Rightarrow> string option) \<Rightarrow> (string \<Rightarrow> string option) \<Rightarrow> string \<Rightarrow> string option" where
  "app_vars var secret name =
     (if name \<in> {''DOMAIN'', ''VAULTWARDEN_ENV''} then var name
      else if name = ''ADMIN_TOKEN'' then secret name else None)"

type_synonym 'a act = "(world, 'a) state"
type_synonym 'a db_result = "(world, db_error + 'a) state"

definition bump :: "world \<Rightarrow> world" where
  "bump s = s\<lparr>w_tick := Suc (w_tick s)\<rparr>"

lemma bump_simps [simp]:
  "w_db (bump s) = w_db s" "w_out (bump s) = w_out s" "w_tick (bump s) = Suc (w_tick s)"
  "w_r2_attachments (bump s) = w_r2_attachments s" "w_r2_sends (bump s) = w_r2_sends s"
  "w_kv (bump s) = w_kv s" "w_config (bump s) = w_config s"
  by (simp_all add: bump_def)

section \<open>The services\<close>

text \<open>One SELECT: the answer of the query on the tables, or a refusal.\<close>

definition d1_query :: "env \<Rightarrow> (db \<Rightarrow> 'a) \<Rightarrow> 'a db_result" where
  "d1_query env q = State (\<lambda>s.
     (if e_fault env (w_tick s) then Inl D1Error else Inr (q (w_db s)), bump s))"

text \<open>
  One INSERT, UPDATE or DELETE.  \<open>None\<close> is a statement that breaks a UNIQUE constraint of the
  schema.  With foreign keys enforced (\<open>e_fk\<close>, the default of D1) a statement that leaves a
  dangling reference is refused too.  A refused statement leaves the tables as they are.
\<close>

definition accepted :: "env \<Rightarrow> db option \<Rightarrow> bool" where
  "accepted env r = (case r of None \<Rightarrow> False | Some d \<Rightarrow> e_fk env \<longrightarrow> fk_ok d)"

definition d1_exec :: "env \<Rightarrow> (db \<Rightarrow> db option) \<Rightarrow> unit db_result" where
  "d1_exec env f = State (\<lambda>s.
     if e_fault env (w_tick s) \<or> \<not> accepted env (f (w_db s)) then (Inl D1Error, bump s)
     else (Inr (), bump (s\<lparr>w_db := the (f (w_db s))\<rparr>)))"

lemma accepted_simps [simp]:
  "accepted env None = False" "accepted env (Some d) = (e_fk env \<longrightarrow> fk_ok d)"
  by (simp_all add: accepted_def)

text \<open>\<open>format_date(&Utc::now().naive_utc())\<close>: microseconds, with the suffix \<open>Z\<close>.\<close>

definition now_iso :: "env \<Rightarrow> string act" where
  "now_iso env = State (\<lambda>s. (e_now env (w_tick s), bump s))"

definition unix_now :: "env \<Rightarrow> nat act" where
  "unix_now env = State (\<lambda>s. (e_unix env (w_tick s), bump s))"

text \<open>\<open>Utc::now()\<close>: the instant, whose texts and numbers the parameters give.\<close>

definition utc_now :: "env \<Rightarrow> nat act" where
  "utc_now env = State (\<lambda>s. (w_tick s, bump s))"

text \<open>A GET request to another server: the text of the answer, or the text of an error.\<close>

definition http_get :: "env \<Rightarrow> string \<Rightarrow> (string + string) act" where
  "http_get env url = State (\<lambda>s. (e_http_get env (w_tick s) url, bump s))"

definition new_uuid :: "env \<Rightarrow> string act" where
  "new_uuid env = State (\<lambda>s. (e_uuid env (w_tick s), bump s))"

definition random_bytes :: "env \<Rightarrow> nat \<Rightarrow> byte list act" where
  "random_bytes env n = State (\<lambda>s. (e_random env (w_tick s) n, bump s))"

definition rows_written :: "env \<Rightarrow> int act" where
  "rows_written env = State (\<lambda>s.
     (case e_rows_written env (w_tick s) of None \<Rightarrow> 0 | Some v \<Rightarrow> v, bump s))"

text \<open>
  A message to a Durable Object: it arrives, or one of the calls on the way to the object
  fails.  No caller looks at the outcome.
\<close>

definition deliver :: "env \<Rightarrow> effect \<Rightarrow> unit act" where
  "deliver env e = State (\<lambda>s.
     ((), if e_fault env (w_tick s) then bump s else bump (s\<lparr>w_out := w_out s @ [e]\<rparr>)))"

text \<open>\<open>Provider::send\<close>: the log provider always succeeds, the HTTP providers may fail.\<close>

definition mail_send :: "env \<Rightarrow> mail_message \<Rightarrow> (unit + unit) act" where
  "mail_send env m = State (\<lambda>s.
     (if \<not> e_mail_log env \<and> e_fault env (w_tick s) then Inl () else Inr (),
      bump (s\<lparr>w_out := w_out s @ [SendMail m]\<rparr>)))"

text \<open>
  The buckets.  A read without a condition, the only kind in the code, finds an object together with
  its body.
\<close>

definition r2_delete_attachment :: "env \<Rightarrow> string \<Rightarrow> (unit + unit) act" where
  "r2_delete_attachment env k = State (\<lambda>s.
     if e_fault env (w_tick s) then (Inl (), bump s)
     else (Inr (), bump (s\<lparr>w_r2_attachments := filter (\<lambda>(k', _). k' \<noteq> k) (w_r2_attachments s)\<rparr>)))"

definition r2_delete_send :: "env \<Rightarrow> string \<Rightarrow> (unit + unit) act" where
  "r2_delete_send env k = State (\<lambda>s.
     if e_fault env (w_tick s) then (Inl (), bump s)
     else (Inr (), bump (s\<lparr>w_r2_sends := filter (\<lambda>(k', _). k' \<noteq> k) (w_r2_sends s)\<rparr>)))"

definition r2_put_send :: "env \<Rightarrow> string \<Rightarrow> byte list \<Rightarrow> (unit + unit) act" where
  "r2_put_send env k bs = State (\<lambda>s.
     if e_fault env (w_tick s) then (Inl (), bump s)
     else (Inr (), bump (s\<lparr>w_r2_sends := (k, bs) # filter (\<lambda>(k', _). k' \<noteq> k) (w_r2_sends s)\<rparr>)))"

definition r2_get_send :: "env \<Rightarrow> string \<Rightarrow> (unit + byte list option) act" where
  "r2_get_send env k = State (\<lambda>s.
     (if e_fault env (w_tick s) then Inl () else Inr (map_of (w_r2_sends s) k), bump s))"

definition r2_put_attachment :: "env \<Rightarrow> string \<Rightarrow> byte list \<Rightarrow> (unit + unit) act" where
  "r2_put_attachment env k bs = State (\<lambda>s.
     if e_fault env (w_tick s) then (Inl (), bump s)
     else (Inr (), bump (s\<lparr>w_r2_attachments :=
       (k, bs) # filter (\<lambda>(k', _). k' \<noteq> k) (w_r2_attachments s)\<rparr>)))"

definition r2_get_attachment :: "env \<Rightarrow> string \<Rightarrow> (unit + byte list option) act" where
  "r2_get_attachment env k = State (\<lambda>s.
     (if e_fault env (w_tick s) then Inl () else Inr (map_of (w_r2_attachments s) k), bump s))"

text \<open>A listing names the first thousand keys with the prefix, in order.\<close>

definition r2_list_sends :: "env \<Rightarrow> string \<Rightarrow> (unit + string list) act" where
  "r2_list_sends env pre = State (\<lambda>s.
     (if e_fault env (w_tick s) then Inl ()
      else Inr (take 1000 (sort (filter (prefix pre) (map fst (w_r2_sends s))))), bump s))"

text \<open>Reading the body of an object that was found.\<close>

definition r2_read_body :: "env \<Rightarrow> byte list \<Rightarrow> (unit + byte list) act" where
  "r2_read_body env bs = State (\<lambda>s. (if e_fault env (w_tick s) then Inl () else Inr bs, bump s))"

text \<open>
  Workers KV is eventually consistent: a read may miss the latest writes.  The store is the list
  of its writes, latest first, and \<open>e_kv_lag\<close> says how many of them a read does not see yet.
\<close>

definition kv_seen :: "nat \<Rightarrow> world \<Rightarrow> string \<Rightarrow> string option" where
  "kv_seen lag s = map_of (drop lag (w_kv s))"

definition kv_get :: "env \<Rightarrow> string \<Rightarrow> (unit + string option) act" where
  "kv_get env k = State (\<lambda>s.
     (if e_fault env (w_tick s) then Inl () else Inr (kv_seen (e_kv_lag env (w_tick s)) s k), bump s))"

definition kv_put :: "env \<Rightarrow> string \<Rightarrow> string \<Rightarrow> (unit + unit) act" where
  "kv_put env k v = State (\<lambda>s.
     if e_fault env (w_tick s) then (Inl (), bump s)
     else (Inr (), bump (s\<lparr>w_kv := (k, v) # w_kv s\<rparr>)))"

text \<open>
  The second namespace holds one key, the overrides of the configuration: its writes, latest first.
\<close>

definition config_get :: "env \<Rightarrow> (unit + string option) act" where
  "config_get env = State (\<lambda>s.
     (if e_fault env (w_tick s) then Inl ()
      else Inr (case drop (e_kv_lag env (w_tick s)) (w_config s) of [] \<Rightarrow> None | v # _ \<Rightarrow> Some v), bump s))"

definition config_put :: "env \<Rightarrow> string \<Rightarrow> (unit + unit) act" where
  "config_put env v = State (\<lambda>s.
     if e_fault env (w_tick s) then (Inl (), bump s)
     else (Inr (), bump (s\<lparr>w_config := v # w_config s\<rparr>)))"

lemmas service_defs = d1_query_def d1_exec_def now_iso_def unix_now_def utc_now_def http_get_def new_uuid_def
  random_bytes_def rows_written_def deliver_def mail_send_def r2_delete_attachment_def
  r2_delete_send_def r2_put_send_def r2_get_send_def r2_put_attachment_def r2_get_attachment_def
  r2_list_sends_def r2_read_body_def kv_get_def kv_put_def config_get_def config_put_def

section \<open>Their weakest preconditions\<close>

lemma wp_d1_query [wp_rules]:
  "wp (d1_query env q) Q s =
     (if e_fault env (w_tick s) then Q (Inl D1Error) (bump s) else Q (Inr (q (w_db s))) (bump s))"
  by (simp add: wp_def d1_query_def)

lemma wp_d1_exec [wp_rules]:
  "wp (d1_exec env f) Q s =
     (if e_fault env (w_tick s) \<or> \<not> accepted env (f (w_db s)) then Q (Inl D1Error) (bump s)
      else Q (Inr ()) (bump (s\<lparr>w_db := the (f (w_db s))\<rparr>)))"
  by (simp add: wp_def d1_exec_def)

lemma wp_sources [wp_rules]:
  "wp (now_iso env) Q1 s = Q1 (e_now env (w_tick s)) (bump s)"
  "wp (unix_now env) Q2 s = Q2 (e_unix env (w_tick s)) (bump s)"
  "wp (new_uuid env) Q1 s = Q1 (e_uuid env (w_tick s)) (bump s)"
  "wp (random_bytes env n) Q3 s = Q3 (e_random env (w_tick s) n) (bump s)"
  "wp (rows_written env) Q4 s =
     Q4 (case e_rows_written env (w_tick s) of None \<Rightarrow> 0 | Some v \<Rightarrow> v) (bump s)"
  "wp (utc_now env) Q2 s = Q2 (w_tick s) (bump s)"
  "wp (http_get env url) Q5 s = Q5 (e_http_get env (w_tick s) url) (bump s)"
  by (simp_all add: wp_def service_defs)

lemma wp_bind_now:
  "wp (k (e_now env (w_tick s))) Q (bump s) \<Longrightarrow> wp (State_Monad.bind (now_iso env) k) Q s"
  by (simp add: wp_sources)

lemma wp_deliver [wp_rules]:
  "wp (deliver env e) Q s =
     Q () (if e_fault env (w_tick s) then bump s else bump (s\<lparr>w_out := w_out s @ [e]\<rparr>))"
  by (simp add: wp_def deliver_def)

lemma wp_mail_send [wp_rules]:
  "wp (mail_send env m) Q s =
     Q (if \<not> e_mail_log env \<and> e_fault env (w_tick s) then Inl () else Inr ())
       (bump (s\<lparr>w_out := w_out s @ [SendMail m]\<rparr>))"
  by (simp add: wp_def mail_send_def)

lemma wp_r2 [wp_rules]:
  "wp (r2_put_send env k bs) Q1 s =
     (if e_fault env (w_tick s) then Q1 (Inl ()) (bump s)
      else Q1 (Inr ()) (bump (s\<lparr>w_r2_sends := (k, bs) # filter (\<lambda>(k', _). k' \<noteq> k) (w_r2_sends s)\<rparr>)))"
  "wp (r2_get_send env k) Q2 s =
     Q2 (if e_fault env (w_tick s) then Inl () else Inr (map_of (w_r2_sends s) k)) (bump s)"
  "wp (r2_put_attachment env k bs) Q1 s =
     (if e_fault env (w_tick s) then Q1 (Inl ()) (bump s)
      else Q1 (Inr ()) (bump (s\<lparr>w_r2_attachments :=
        (k, bs) # filter (\<lambda>(k', _). k' \<noteq> k) (w_r2_attachments s)\<rparr>)))"
  "wp (r2_get_attachment env k) Q2 s =
     Q2 (if e_fault env (w_tick s) then Inl () else Inr (map_of (w_r2_attachments s) k)) (bump s)"
  "wp (r2_read_body env bs) Q3 s = Q3 (if e_fault env (w_tick s) then Inl () else Inr bs) (bump s)"
  by (simp_all add: wp_def service_defs)

section \<open>What the services leave alone\<close>

text \<open>
  A predicate of the database is kept by everything that is not a D1 statement, and by a D1
  statement that keeps it.
\<close>

lemma preserves_db_services [preserves_rules]:
  fixes P :: "db \<Rightarrow> bool"
  shows
  "preserves (\<lambda>s. P (w_db s)) (d1_query env q)"
  "preserves (\<lambda>s. P (w_db s)) (now_iso env)"
  "preserves (\<lambda>s. P (w_db s)) (unix_now env)"
  "preserves (\<lambda>s. P (w_db s)) (utc_now env)"
  "preserves (\<lambda>s. P (w_db s)) (http_get env url)"
  "preserves (\<lambda>s. P (w_db s)) (new_uuid env)"
  "preserves (\<lambda>s. P (w_db s)) (random_bytes env n)"
  "preserves (\<lambda>s. P (w_db s)) (rows_written env)"
  "preserves (\<lambda>s. P (w_db s)) (deliver env e)"
  "preserves (\<lambda>s. P (w_db s)) (mail_send env m)"
  "preserves (\<lambda>s. P (w_db s)) (r2_delete_attachment env k)"
  "preserves (\<lambda>s. P (w_db s)) (r2_delete_send env k)"
  "preserves (\<lambda>s. P (w_db s)) (r2_put_send env k bs)"
  "preserves (\<lambda>s. P (w_db s)) (r2_get_send env k)"
  "preserves (\<lambda>s. P (w_db s)) (r2_put_attachment env k bs)"
  "preserves (\<lambda>s. P (w_db s)) (r2_get_attachment env k)"
  "preserves (\<lambda>s. P (w_db s)) (r2_list_sends env k)"
  "preserves (\<lambda>s. P (w_db s)) (r2_read_body env bs)"
  "preserves (\<lambda>s. P (w_db s)) (config_get env)"
  "preserves (\<lambda>s. P (w_db s)) (config_put env v)"
  "preserves (\<lambda>s. P (w_db s)) (kv_get env k)"
  "preserves (\<lambda>s. P (w_db s)) (kv_put env k v)"
  by (auto simp: preserves_def wp_def service_defs)

lemma preserves_d1_exec:
  fixes P :: "db \<Rightarrow> bool"
  assumes "\<And>d d'. P d \<Longrightarrow> f d = Some d' \<Longrightarrow> P d'"
  shows "preserves (\<lambda>s. P (w_db s)) (d1_exec env f)"
  using assms by (auto simp: preserves_def wp_d1_exec accepted_def split: option.splits)

section \<open>Requests under failures\<close>

text \<open>Whether some call failed between two states, and a request together with that.\<close>

definition failed :: "env \<Rightarrow> world \<Rightarrow> world \<Rightarrow> bool" where
  "failed env s s' \<longleftrightarrow> list_ex (e_fault env) [w_tick s..<w_tick s']"

definition watched :: "env \<Rightarrow> 'a act \<Rightarrow> ('a \<times> bool) act" where
  "watched env m = State (\<lambda>s. case run_state m s of (r, s') \<Rightarrow> ((r, failed env s s'), s'))"

lemma failedI: "e_fault env n \<Longrightarrow> w_tick s \<le> n \<Longrightarrow> n < w_tick s' \<Longrightarrow> failed env s s'"
  by (auto simp: failed_def list_ex_iff)

lemma wp_watched [simp]: "wp (watched env m) Q s = wp m (\<lambda>r s'. Q (r, failed env s s') s') s"
  by (simp add: watched_def wp_def split: prod.split)

end
