(* ===== verification/Models_Vault.thy ===== *)
theory Models_Vault
  imports World
begin

text \<open>
  \<open>worker/src/db/models\<close>, first part: users, devices, folders, ciphers, favorites, archives,
  attachments and the junction tables of a vault.  Every definition is one function of the
  source; a \<open>save\<close> returns the row as the function has changed it in place.  The primary key
  contract \<open>keyed_table\<close> is discharged here for every table with an upsert.
\<close>

definition opt_is :: "string option \<Rightarrow> string \<Rightarrow> bool" where
  "opt_is x u \<longleftrightarrow> x = Some u"

section \<open>Hexadecimal text of the BLOB columns\<close>

definition hex_nibble :: "char \<Rightarrow> byte" where
  "hex_nibble c = (let b = of_nat (of_char c) :: byte in
     if 48 \<le> b \<and> b \<le> 57 then b - 48
     else if 97 \<le> b \<and> b \<le> 102 then b - 97 + 10
     else if 65 \<le> b \<and> b \<le> 70 then b - 65 + 10
     else 0)"

fun hex_to_bytes :: "string \<Rightarrow> byte list" where
  "hex_to_bytes (h # l # rest) =
     or (push_bit 4 (hex_nibble h)) (hex_nibble l) # hex_to_bytes rest"
| "hex_to_bytes _ = []"

text \<open>SQLite's \<open>hex\<close>: two upper case digits a byte.\<close>

definition hex_digit :: "nat \<Rightarrow> char" where
  "hex_digit n = char_of (if n < 10 then 48 + n else 55 + n)"

definition sql_hex :: "byte list \<Rightarrow> string" where
  "sql_hex bs = concat (map (\<lambda>b. [hex_digit (unat b div 16), hex_digit (unat b mod 16)]) bs)"

section \<open>Users\<close>

definition CLIENT_KDF_TYPE_DEFAULT :: int where "CLIENT_KDF_TYPE_DEFAULT = 0"
definition CLIENT_KDF_ITER_DEFAULT :: int where "CLIENT_KDF_ITER_DEFAULT = 600000"

definition user_new :: "env \<Rightarrow> string \<Rightarrow> string option \<Rightarrow> user act" where
  "user_new env email name = do {
     now \<leftarrow> now_iso env;
     let lower = to_lowercase email;
     uuid \<leftarrow> new_uuid env;
     salt \<leftarrow> random_bytes env 64;
     stamp \<leftarrow> new_uuid env;
     return \<lparr>us_uuid = uuid, us_enabled = 1, us_created_at = now, us_updated_at = now,
       us_verified_at = None, us_last_verifying_at = None, us_login_verify_count = 0,
       us_email = lower, us_email_new = None, us_email_new_token = None,
       us_name = (case name of None \<Rightarrow> lower | Some n \<Rightarrow> n),
       us_password_iterations = CLIENT_KDF_ITER_DEFAULT, us_password_hint = None,
       us_akey = [], us_private_key = None, us_public_key = None,
       us_totp_secret = None, us_totp_recover = None,
       us_security_stamp = stamp, us_stamp_exception = None,
       us_equivalent_domains = ''[]'', us_excluded_globals = ''[]'',
       us_client_kdf_type = CLIENT_KDF_TYPE_DEFAULT, us_client_kdf_iter = CLIENT_KDF_ITER_DEFAULT,
       us_client_kdf_memory = None, us_client_kdf_parallelism = None,
       us_api_key = None, us_avatar_color = None, us_external_id = None,
       us_password_hash = [], us_salt = salt\<rparr> }"

text \<open>The columns the SELECT returns, the two BLOBs through \<open>hex\<close>.\<close>

definition user_select :: "user \<Rightarrow> user_row" where
  "user_select u = user_cols.extend (user_cols.truncate u)
     \<lparr>ur_password_hash_hex = sql_hex (us_password_hash u), ur_salt_hex = sql_hex (us_salt u)\<rparr>"

definition user_from_row :: "user_row \<Rightarrow> user" where
  "user_from_row r = user_cols.extend (user_cols.truncate r)
     \<lparr>us_password_hash = hex_to_bytes (ur_password_hash_hex r),
      us_salt = hex_to_bytes (ur_salt_hex r)\<rparr>"

definition user_find_by_uuid :: "env \<Rightarrow> string \<Rightarrow> user option db_result" where
  "user_find_by_uuid env uuid = d1_query env (\<lambda>d.
     map_option (user_from_row \<circ> user_select) (find (\<lambda>u. us_uuid u = uuid) (t_users d)))"

definition user_find_by_email :: "env \<Rightarrow> string \<Rightarrow> user option db_result" where
  "user_find_by_email env email = (let lower = to_lowercase email in d1_query env (\<lambda>d.
     map_option (user_from_row \<circ> user_select) (find (\<lambda>u. us_email u = lower) (t_users d))))"

definition user_conflict :: "user \<Rightarrow> user \<Rightarrow> user" where
  "user_conflict old new = new\<lparr>us_created_at := us_created_at old\<rparr>"

definition user_save :: "env \<Rightarrow> user \<Rightarrow> user db_result" where
  "user_save env u = do {
     now \<leftarrow> now_iso env;
     let u' = u\<lparr>us_updated_at := now\<rparr>;
     try_ret (d1_exec env (\<lambda>d.
         let t = upsert us_uuid user_conflict u' (t_users d) in
         if distinct (map us_email t) then Some (d\<lparr>t_users := t\<rparr>) else None))
       Inl (\<lambda>_. return (Inr u')) }"

text \<open>\<open>archives\<close> and \<open>sso_users\<close> are the tables with ON DELETE CASCADE.\<close>

definition user_delete :: "env \<Rightarrow> user \<Rightarrow> unit db_result" where
  "user_delete env u = d1_exec env (\<lambda>d. Some (d\<lparr>
     t_users := delete_where (\<lambda>x. us_uuid x = us_uuid u) (t_users d),
     t_archives := (if e_fk env then delete_where (\<lambda>(a, _). a = us_uuid u) (t_archives d)
                    else t_archives d),
     t_sso_users := (if e_fk env then delete_where (\<lambda>x. su_user_uuid x = us_uuid u) (t_sso_users d)
                     else t_sso_users d)\<rparr>))"

section \<open>Devices\<close>

definition device_new :: "env \<Rightarrow> string \<Rightarrow> string \<Rightarrow> int \<Rightarrow> device act" where
  "device_new env user_uuid name atype = do {
     now \<leftarrow> now_iso env;
     uuid \<leftarrow> new_uuid env;
     return \<lparr>de_uuid = uuid, de_created_at = now, de_updated_at = now, de_user_uuid = user_uuid,
       de_name = name, de_atype = atype, de_push_token = None, de_refresh_token = [],
       de_twofactor_remember = None, de_push_uuid = None\<rparr> }"

definition device_find :: "env \<Rightarrow> string \<Rightarrow> string \<Rightarrow> device option db_result" where
  "device_find env uuid user_uuid = d1_query env (\<lambda>d.
     find (\<lambda>x. de_uuid x = uuid \<and> de_user_uuid x = user_uuid) (t_devices d))"

definition device_find_by_user :: "env \<Rightarrow> string \<Rightarrow> device list db_result" where
  "device_find_by_user env user_uuid = d1_query env (\<lambda>d.
     filter (\<lambda>x. de_user_uuid x = user_uuid) (t_devices d))"

definition device_find_by_refresh_token :: "env \<Rightarrow> string \<Rightarrow> device option db_result" where
  "device_find_by_refresh_token env token = d1_query env (\<lambda>d.
     find (\<lambda>x. de_refresh_token x = token) (t_devices d))"

definition device_key :: "device \<Rightarrow> string \<times> string" where
  "device_key x = (de_uuid x, de_user_uuid x)"

definition device_conflict :: "device \<Rightarrow> device \<Rightarrow> device" where
  "device_conflict old new = new\<lparr>de_created_at := de_created_at old\<rparr>"

definition device_save :: "env \<Rightarrow> device \<Rightarrow> device db_result" where
  "device_save env x = do {
     now \<leftarrow> now_iso env;
     let x' = x\<lparr>de_updated_at := now\<rparr>;
     try_ret (d1_exec env (\<lambda>d.
         Some (d\<lparr>t_devices := upsert device_key device_conflict x' (t_devices d)\<rparr>)))
       Inl (\<lambda>_. return (Inr x')) }"

definition device_delete :: "env \<Rightarrow> device \<Rightarrow> unit db_result" where
  "device_delete env x = d1_exec env (\<lambda>d.
     Some (d\<lparr>t_devices := delete_where (\<lambda>y. device_key y = device_key x) (t_devices d)\<rparr>))"

section \<open>Folders\<close>

definition folder_new :: "env \<Rightarrow> string \<Rightarrow> string \<Rightarrow> folder act" where
  "folder_new env user_uuid name = do {
     now \<leftarrow> now_iso env;
     uuid \<leftarrow> new_uuid env;
     return \<lparr>fo_uuid = uuid, fo_created_at = now, fo_updated_at = now, fo_user_uuid = user_uuid,
       fo_name = name\<rparr> }"

definition folder_find_by_uuid :: "env \<Rightarrow> string \<Rightarrow> folder option db_result" where
  "folder_find_by_uuid env uuid = d1_query env (\<lambda>d. find (\<lambda>f. fo_uuid f = uuid) (t_folders d))"

definition folder_find_by_user :: "env \<Rightarrow> string \<Rightarrow> folder list db_result" where
  "folder_find_by_user env user_uuid = d1_query env (\<lambda>d.
     filter (\<lambda>f. fo_user_uuid f = user_uuid) (t_folders d))"

definition folder_conflict :: "folder \<Rightarrow> folder \<Rightarrow> folder" where
  "folder_conflict old new = new\<lparr>fo_created_at := fo_created_at old\<rparr>"

definition folder_save :: "env \<Rightarrow> folder \<Rightarrow> folder db_result" where
  "folder_save env f = do {
     now \<leftarrow> now_iso env;
     let f' = f\<lparr>fo_updated_at := now\<rparr>;
     try_ret (d1_exec env (\<lambda>d.
         Some (d\<lparr>t_folders := upsert fo_uuid folder_conflict f' (t_folders d)\<rparr>)))
       Inl (\<lambda>_. return (Inr f')) }"

definition folder_delete :: "env \<Rightarrow> folder \<Rightarrow> unit db_result" where
  "folder_delete env f = d1_exec env (\<lambda>d.
     Some (d\<lparr>t_folders := delete_where (\<lambda>x. fo_uuid x = fo_uuid f) (t_folders d)\<rparr>))"

section \<open>Ciphers\<close>

definition cipher_new :: "env \<Rightarrow> int \<Rightarrow> string \<Rightarrow> cipher act" where
  "cipher_new env atype name = do {
     now \<leftarrow> now_iso env;
     uuid \<leftarrow> new_uuid env;
     return \<lparr>ci_uuid = uuid, ci_created_at = now, ci_updated_at = now, ci_user_uuid = None,
       ci_organization_uuid = None, ci_key = None, ci_atype = atype, ci_name = name,
       ci_notes = None, ci_fields = None, ci_data = [], ci_password_history = None,
       ci_deleted_at = None, ci_reprompt = None\<rparr> }"

definition cipher_find_by_uuid :: "env \<Rightarrow> string \<Rightarrow> cipher option db_result" where
  "cipher_find_by_uuid env uuid = d1_query env (\<lambda>d. find (\<lambda>c. ci_uuid c = uuid) (t_ciphers d))"

definition cipher_find_owned_by_user :: "env \<Rightarrow> string \<Rightarrow> cipher list db_result" where
  "cipher_find_owned_by_user env user_uuid = d1_query env (\<lambda>d.
     filter (\<lambda>c. opt_is (ci_user_uuid c) user_uuid \<and> ci_organization_uuid c = None) (t_ciphers d))"

text \<open>A LEFT JOIN: a left row without a partner stays, with NULLs.\<close>

definition left_join :: "'a list \<Rightarrow> ('a \<Rightarrow> 'b list) \<Rightarrow> ('a \<times> 'b option) list" where
  "left_join xs f = concat (map (\<lambda>x.
     case f x of [] \<Rightarrow> [(x, None)] | ys \<Rightarrow> map (\<lambda>y. (x, Some y)) ys) xs)"

text \<open>The five joins and the WHERE clause of the query, in its order.\<close>

definition visible_join :: "string \<Rightarrow> db \<Rightarrow>
    (((((cipher \<times> membership option) \<times> (string \<times> string) option) \<times> user_collection option)
       \<times> (string \<times> string) option) \<times> collection_group option) list" where
  "visible_join user_uuid d =
     (let c_m = left_join (t_ciphers d) (\<lambda>c.
            filter (\<lambda>m. opt_is (ci_organization_uuid c) (me_org_uuid m) \<and> me_user_uuid m = user_uuid)
              (t_users_organizations d));
          c_m_cc = left_join c_m (\<lambda>(c, m).
            filter (\<lambda>(ci, co). ci = ci_uuid c) (t_ciphers_collections d));
          c_m_cc_uc = left_join c_m_cc (\<lambda>((c, m), cc).
            filter (\<lambda>uc. map_option snd cc = Some (uc_collection_uuid uc) \<and> uc_user_uuid uc = user_uuid)
              (t_users_collections d));
          c_m_cc_uc_gu = left_join c_m_cc_uc (\<lambda>(((c, m), cc), uc).
            filter (\<lambda>(g, mu). map_option me_uuid m = Some mu) (t_groups_users d))
      in left_join c_m_cc_uc_gu (\<lambda>((((c, m), cc), uc), gu).
            filter (\<lambda>cg. map_option fst gu = Some (cg_groups_uuid cg)
                       \<and> map_option snd cc = Some (cg_collections_uuid cg))
              (t_collections_groups d)))"

definition cipher_find_visible_to_user :: "env \<Rightarrow> string \<Rightarrow> cipher list db_result" where
  "cipher_find_visible_to_user env user_uuid = d1_query env (\<lambda>d.
     remdups (map (\<lambda>(((((c, m), cc), uc), gu), cg). c)
       (filter (\<lambda>(((((c, m), cc), uc), gu), cg).
            opt_is (ci_user_uuid c) user_uuid \<or> map_option me_access_all m = Some 1
              \<or> uc \<noteq> None \<or> cg \<noteq> None)
          (visible_join user_uuid d))))"

definition cipher_find_by_org :: "env \<Rightarrow> string \<Rightarrow> cipher list db_result" where
  "cipher_find_by_org env org_uuid = d1_query env (\<lambda>d.
     filter (\<lambda>c. opt_is (ci_organization_uuid c) org_uuid) (t_ciphers d))"

definition cipher_conflict :: "cipher \<Rightarrow> cipher \<Rightarrow> cipher" where
  "cipher_conflict old new = new\<lparr>ci_created_at := ci_created_at old\<rparr>"

definition cipher_save :: "env \<Rightarrow> cipher \<Rightarrow> cipher db_result" where
  "cipher_save env c = do {
     now \<leftarrow> now_iso env;
     let c' = c\<lparr>ci_updated_at := now\<rparr>;
     try_ret (d1_exec env (\<lambda>d.
         Some (d\<lparr>t_ciphers := upsert ci_uuid cipher_conflict c' (t_ciphers d)\<rparr>)))
       Inl (\<lambda>_. return (Inr c')) }"

definition delete_ciphers :: "env \<Rightarrow> (cipher \<Rightarrow> bool) \<Rightarrow> db \<Rightarrow> db" where
  "delete_ciphers env P d = d\<lparr>
     t_ciphers := delete_where P (t_ciphers d),
     t_archives := (if e_fk env
        then delete_where (\<lambda>(_, u). \<exists>c\<in>set (t_ciphers d). P c \<and> ci_uuid c = u) (t_archives d)
        else t_archives d)\<rparr>"

definition cipher_delete :: "env \<Rightarrow> cipher \<Rightarrow> unit db_result" where
  "cipher_delete env c =
     d1_exec env (\<lambda>d. Some (delete_ciphers env (\<lambda>x. ci_uuid x = ci_uuid c) d))"

definition trashed_before :: "string \<Rightarrow> cipher \<Rightarrow> bool" where
  "trashed_before before c = (case ci_deleted_at c of None \<Rightarrow> False | Some t \<Rightarrow> t < before)"

definition cipher_purge_trashed_before :: "env \<Rightarrow> string \<Rightarrow> int db_result" where
  "cipher_purge_trashed_before env before =
     try_ret (d1_exec env (\<lambda>d. Some (delete_ciphers env (trashed_before before) d))) Inl
       (\<lambda>_. do { n \<leftarrow> rows_written env; return (Inr n) })"

definition cipher_trashed_attachment_keys :: "env \<Rightarrow> string \<Rightarrow> (string \<times> string) list db_result" where
  "cipher_trashed_attachment_keys env before = d1_query env (\<lambda>d.
     concat (map (\<lambda>a. map (\<lambda>c. (at_cipher_uuid a, at_id a))
         (filter (\<lambda>c. ci_uuid c = at_cipher_uuid a \<and> trashed_before before c) (t_ciphers d)))
       (t_attachments d)))"

section \<open>Favorites and archives\<close>

definition favorite_is_favorite :: "env \<Rightarrow> string \<Rightarrow> string \<Rightarrow> bool db_result" where
  "favorite_is_favorite env user_uuid cipher_uuid = d1_query env (\<lambda>d.
     (user_uuid, cipher_uuid) \<in> set (t_favorites d))"

definition favorite_set :: "env \<Rightarrow> string \<Rightarrow> string \<Rightarrow> bool \<Rightarrow> unit db_result" where
  "favorite_set env user_uuid cipher_uuid fav =
     (if fav then d1_exec env (\<lambda>d.
        Some (d\<lparr>t_favorites := insert_ignore (\<lambda>x. x) (user_uuid, cipher_uuid) (t_favorites d)\<rparr>))
      else d1_exec env (\<lambda>d.
        Some (d\<lparr>t_favorites := delete_where (\<lambda>x. x = (user_uuid, cipher_uuid)) (t_favorites d)\<rparr>)))"

definition favorite_cipher_uuids_for_user :: "env \<Rightarrow> string \<Rightarrow> string list db_result" where
  "favorite_cipher_uuids_for_user env user_uuid = d1_query env (\<lambda>d.
     map snd (filter (\<lambda>(u, _). u = user_uuid) (t_favorites d)))"

definition archive_set :: "env \<Rightarrow> string \<Rightarrow> string \<Rightarrow> unit db_result" where
  "archive_set env user_uuid cipher_uuid = d1_exec env (\<lambda>d.
     Some (d\<lparr>t_archives := insert_ignore (\<lambda>x. x) (user_uuid, cipher_uuid) (t_archives d)\<rparr>))"

definition archive_unset :: "env \<Rightarrow> string \<Rightarrow> string \<Rightarrow> unit db_result" where
  "archive_unset env user_uuid cipher_uuid = d1_exec env (\<lambda>d.
     Some (d\<lparr>t_archives := delete_where (\<lambda>x. x = (user_uuid, cipher_uuid)) (t_archives d)\<rparr>))"

definition archive_is_archived :: "env \<Rightarrow> string \<Rightarrow> string \<Rightarrow> bool db_result" where
  "archive_is_archived env user_uuid cipher_uuid = d1_query env (\<lambda>d.
     (user_uuid, cipher_uuid) \<in> set (t_archives d))"

definition archive_archived_cipher_uuids_for_user :: "env \<Rightarrow> string \<Rightarrow> string list db_result" where
  "archive_archived_cipher_uuids_for_user env user_uuid = d1_query env (\<lambda>d.
     map snd (filter (\<lambda>(u, _). u = user_uuid) (t_archives d)))"

section \<open>Attachments\<close>

definition attachment_new ::
  "string \<Rightarrow> string \<Rightarrow> string \<Rightarrow> int \<Rightarrow> string option \<Rightarrow> attachment" where
  "attachment_new aid cipher_uuid file_name file_size akey =
     \<lparr>at_id = aid, at_cipher_uuid = cipher_uuid, at_file_name = file_name,
      at_file_size = file_size, at_akey = akey\<rparr>"

definition attachment_new_random :: "env \<Rightarrow> string \<Rightarrow> string \<Rightarrow> int \<Rightarrow> attachment act" where
  "attachment_new_random env cipher_uuid file_name file_size = do {
     aid \<leftarrow> new_uuid env;
     return (attachment_new aid cipher_uuid file_name file_size None) }"

definition attachment_find_by_id :: "env \<Rightarrow> string \<Rightarrow> attachment option db_result" where
  "attachment_find_by_id env aid = d1_query env (\<lambda>d. find (\<lambda>a. at_id a = aid) (t_attachments d))"

definition attachment_find_by_cipher :: "env \<Rightarrow> string \<Rightarrow> attachment list db_result" where
  "attachment_find_by_cipher env cipher_uuid = d1_query env (\<lambda>d.
     filter (\<lambda>a. at_cipher_uuid a = cipher_uuid) (t_attachments d))"

definition attachment_conflict :: "attachment \<Rightarrow> attachment \<Rightarrow> attachment" where
  "attachment_conflict old new = new"

definition attachment_save :: "env \<Rightarrow> attachment \<Rightarrow> unit db_result" where
  "attachment_save env a = d1_exec env (\<lambda>d.
     Some (d\<lparr>t_attachments := upsert at_id attachment_conflict a (t_attachments d)\<rparr>))"

definition attachment_delete :: "env \<Rightarrow> attachment \<Rightarrow> unit db_result" where
  "attachment_delete env a = d1_exec env (\<lambda>d.
     Some (d\<lparr>t_attachments := delete_where (\<lambda>x. at_id x = at_id a) (t_attachments d)\<rparr>))"

section \<open>Junction tables\<close>

definition folder_cipher_set :: "env \<Rightarrow> string \<Rightarrow> string \<Rightarrow> unit db_result" where
  "folder_cipher_set env cipher_uuid folder_uuid = d1_exec env (\<lambda>d.
     Some (d\<lparr>t_folders_ciphers :=
       insert_ignore (\<lambda>x. x) (cipher_uuid, folder_uuid) (t_folders_ciphers d)\<rparr>))"

definition folder_cipher_unset :: "env \<Rightarrow> string \<Rightarrow> string \<Rightarrow> unit db_result" where
  "folder_cipher_unset env cipher_uuid folder_uuid = d1_exec env (\<lambda>d.
     Some (d\<lparr>t_folders_ciphers :=
       delete_where (\<lambda>x. x = (cipher_uuid, folder_uuid)) (t_folders_ciphers d)\<rparr>))"

definition folder_cipher_list_by_folder :: "env \<Rightarrow> string \<Rightarrow> string list db_result" where
  "folder_cipher_list_by_folder env folder_uuid = d1_query env (\<lambda>d.
     map fst (filter (\<lambda>(_, f). f = folder_uuid) (t_folders_ciphers d)))"

definition folder_cipher_list_by_cipher :: "env \<Rightarrow> string \<Rightarrow> string list db_result" where
  "folder_cipher_list_by_cipher env cipher_uuid = d1_query env (\<lambda>d.
     map snd (filter (\<lambda>(c, _). c = cipher_uuid) (t_folders_ciphers d)))"

definition cipher_collection_set :: "env \<Rightarrow> string \<Rightarrow> string \<Rightarrow> unit db_result" where
  "cipher_collection_set env cipher_uuid collection_uuid = d1_exec env (\<lambda>d.
     Some (d\<lparr>t_ciphers_collections :=
       insert_ignore (\<lambda>x. x) (cipher_uuid, collection_uuid) (t_ciphers_collections d)\<rparr>))"

definition cipher_collection_unset :: "env \<Rightarrow> string \<Rightarrow> string \<Rightarrow> unit db_result" where
  "cipher_collection_unset env cipher_uuid collection_uuid = d1_exec env (\<lambda>d.
     Some (d\<lparr>t_ciphers_collections :=
       delete_where (\<lambda>x. x = (cipher_uuid, collection_uuid)) (t_ciphers_collections d)\<rparr>))"

definition cipher_collection_list_by_cipher :: "env \<Rightarrow> string \<Rightarrow> string list db_result" where
  "cipher_collection_list_by_cipher env cipher_uuid = d1_query env (\<lambda>d.
     map snd (filter (\<lambda>(c, _). c = cipher_uuid) (t_ciphers_collections d)))"

definition cipher_collection_list_by_collection :: "env \<Rightarrow> string \<Rightarrow> string list db_result" where
  "cipher_collection_list_by_collection env collection_uuid = d1_query env (\<lambda>d.
     map fst (filter (\<lambda>(_, c). c = collection_uuid) (t_ciphers_collections d)))"

definition bool_i32 :: "bool \<Rightarrow> int" where
  "bool_i32 b = (if b then 1 else 0)"

definition user_collection_new ::
  "string \<Rightarrow> string \<Rightarrow> bool \<Rightarrow> bool \<Rightarrow> bool \<Rightarrow> user_collection" where
  "user_collection_new user_uuid collection_uuid read_only hide_passwords manage =
     \<lparr>uc_user_uuid = user_uuid, uc_collection_uuid = collection_uuid,
      uc_read_only = bool_i32 read_only, uc_hide_passwords = bool_i32 hide_passwords,
      uc_manage = bool_i32 manage\<rparr>"

definition user_collection_key :: "user_collection \<Rightarrow> string \<times> string" where
  "user_collection_key x = (uc_user_uuid x, uc_collection_uuid x)"

definition user_collection_find_by_user :: "env \<Rightarrow> string \<Rightarrow> user_collection list db_result" where
  "user_collection_find_by_user env user_uuid = d1_query env (\<lambda>d.
     filter (\<lambda>x. uc_user_uuid x = user_uuid) (t_users_collections d))"

definition user_collection_find_by_collection ::
  "env \<Rightarrow> string \<Rightarrow> user_collection list db_result" where
  "user_collection_find_by_collection env collection_uuid = d1_query env (\<lambda>d.
     filter (\<lambda>x. uc_collection_uuid x = collection_uuid) (t_users_collections d))"

definition user_collection_find ::
  "env \<Rightarrow> string \<Rightarrow> string \<Rightarrow> user_collection option db_result" where
  "user_collection_find env user_uuid collection_uuid = d1_query env (\<lambda>d.
     find (\<lambda>x. user_collection_key x = (user_uuid, collection_uuid)) (t_users_collections d))"

definition user_collection_conflict :: "user_collection \<Rightarrow> user_collection \<Rightarrow> user_collection" where
  "user_collection_conflict old new = old\<lparr>uc_user_uuid := uc_user_uuid new,
     uc_collection_uuid := uc_collection_uuid new, uc_read_only := uc_read_only new,
     uc_hide_passwords := uc_hide_passwords new, uc_manage := uc_manage new\<rparr>"

definition user_collection_upsert :: "env \<Rightarrow> user_collection \<Rightarrow> unit db_result" where
  "user_collection_upsert env x = d1_exec env (\<lambda>d. Some (d\<lparr>t_users_collections :=
     upsert user_collection_key user_collection_conflict x (t_users_collections d)\<rparr>))"

definition user_collection_delete :: "env \<Rightarrow> user_collection \<Rightarrow> unit db_result" where
  "user_collection_delete env x = d1_exec env (\<lambda>d. Some (d\<lparr>t_users_collections :=
     delete_where (\<lambda>y. user_collection_key y = user_collection_key x) (t_users_collections d)\<rparr>))"

definition user_collection_delete_all_by_collection :: "env \<Rightarrow> string \<Rightarrow> unit db_result" where
  "user_collection_delete_all_by_collection env collection_uuid = d1_exec env (\<lambda>d.
     Some (d\<lparr>t_users_collections :=
       delete_where (\<lambda>y. uc_collection_uuid y = collection_uuid) (t_users_collections d)\<rparr>))"

section \<open>The primary keys\<close>

interpretation kt_users: keyed_table us_uuid user_conflict
  by unfold_locales (simp add: user_conflict_def)

interpretation kt_devices: keyed_table device_key device_conflict
  by unfold_locales (simp add: device_conflict_def device_key_def)

interpretation kt_folders: keyed_table fo_uuid folder_conflict
  by unfold_locales (simp add: folder_conflict_def)

interpretation kt_ciphers: keyed_table ci_uuid cipher_conflict
  by unfold_locales (simp add: cipher_conflict_def)

interpretation kt_attachments: keyed_table at_id attachment_conflict
  by unfold_locales (simp add: attachment_conflict_def)

interpretation kt_users_collections: keyed_table user_collection_key user_collection_conflict
  by unfold_locales (simp add: user_collection_conflict_def user_collection_key_def)

section \<open>Hexadecimal text reads back\<close>

lemma of_char_hex_digit:
  "n < 16 \<Longrightarrow> (of_char (hex_digit n) :: nat) = (if n < 10 then 48 + n else 55 + n)"
  by (simp add: hex_digit_def of_char_of)

lemma hex_nibble_digit:
  assumes "n < 16"
  shows "hex_nibble (hex_digit n) = of_nat n"
proof -
  have "list_all (\<lambda>k. hex_nibble (hex_digit k) = of_nat k) [0..<16]"
    by (simp add: upt_rec hex_nibble_def hex_digit_def Let_def of_char_of)
  with assms show ?thesis by (simp add: list_all_iff)
qed

lemma byte_of_nibbles:
  fixes b :: byte
  shows "or (push_bit 4 (of_nat (unat b div 16))) (of_nat (unat b mod 16)) = b"
proof -
  have "unat b < 256" using unsigned_less [where 'a = nat, of b] by simp
  then have hi: "of_nat (unat b div 16) = drop_bit 4 b"
    by (subst word_unat_eq_iff) (simp add: unat_of_nat drop_bit_eq_div unat_div take_bit_eq_mod)
  have lo: "of_nat (unat b mod 16) = take_bit 4 b"
    by (rule word_unat_eq_iff [THEN iffD2]) (simp add: unat_of_nat take_bit_eq_mod unat_mod)
  show ?thesis
    unfolding hi lo
    by (rule bit_eqI) (auto simp: bit_simps)
qed

lemma hex_to_bytes_sql_hex [simp]: "hex_to_bytes (sql_hex bs) = bs"
proof (induction bs)
  case (Cons b bs)
  have "unat b < 256" using unsigned_less [where 'a = nat, of b] by simp
  then have "unat b div 16 < 16" "unat b mod 16 < 16" by auto
  with Cons show ?case
    by (simp add: sql_hex_def hex_nibble_digit byte_of_nibbles)
qed (simp add: sql_hex_def)

lemma user_from_row_select [simp]: "user_from_row (user_select u) = u"
  by (simp add: user_from_row_def user_select_def user_cols.defs)

text \<open>
  Saving a user whose row is there, with the address of that row: the constraints of the table and
  the references to it stay intact, so a database that answers accepts the statement.
\<close>

definition users_keyed :: "db \<Rightarrow> bool" where
  "users_keyed d \<longleftrightarrow> distinct (map us_uuid (t_users d)) \<and> distinct (map us_email (t_users d))"

lemma keyed_row_eq: "distinct (map k xs) \<Longrightarrow> x \<in> set xs \<Longrightarrow> y \<in> set xs \<Longrightarrow> k x = k y \<Longrightarrow> x = y"
  by (auto simp: distinct_map inj_on_def)

lemma user_update_emails:
  assumes "distinct (map us_uuid t)" "u0 \<in> set t" "us_uuid v = us_uuid u0" "us_email v = us_email u0"
  shows "map us_email (upsert us_uuid user_conflict v t) = map us_email t"
proof -
  have "us_email x = us_email u0" if "x \<in> set t" "us_uuid x = us_uuid u0" for x
    using keyed_row_eq [OF assms(1) that(1) assms(2) that(2)] by simp
  then have "\<forall>x\<in>set t. us_uuid x = us_uuid u0 \<longrightarrow> us_email v = us_email x"
    using assms(4) by simp
  moreover have "us_uuid u0 \<in> us_uuid ` set t" using assms(2) by simp
  ultimately show ?thesis by (simp add: upsert_def user_conflict_def assms(3))
qed

lemma fk_ok_user_update:
  assumes "fk_ok d" "us_uuid v \<in> us_uuid ` set (t_users d)"
  shows "fk_ok (d\<lparr>t_users := upsert us_uuid user_conflict v (t_users d)\<rparr>)"
proof -
  have "us_uuid ` set (upsert us_uuid user_conflict v (t_users d)) = us_uuid ` set (t_users d)"
    unfolding kt_users.keys_upsert by (rule insert_absorb [OF assms(2)])
  then show ?thesis using assms(1) by (simp add: fk_defs refers_def cong: option.case_cong)
qed

lemma wp_user_updateI:
  assumes "\<And>n. \<not> e_fault env n" "e_fk env \<longrightarrow> fk_ok (w_db s)" "users_keyed (w_db s)"
    and "old \<in> set (t_users (w_db s))" "us_uuid u = us_uuid old" "us_email u = us_email old"
    and "\<And>now s'. w_db s' = (w_db s)\<lparr>t_users := upsert us_uuid user_conflict (u\<lparr>us_updated_at := now\<rparr>) (t_users (w_db s))\<rparr> \<Longrightarrow>
      Q (Inr (u\<lparr>us_updated_at := now\<rparr>)) s'"
  shows "wp (user_save env u) Q s"
proof -
  have "distinct (map us_email (upsert us_uuid user_conflict (u\<lparr>us_updated_at := now\<rparr>) (t_users (w_db s))))" for now
    using assms(3-6) user_update_emails [of "t_users (w_db s)" old "u\<lparr>us_updated_at := now\<rparr>"]
    by (simp add: users_keyed_def)
  moreover have "e_fk env \<longrightarrow> fk_ok ((w_db s)\<lparr>t_users := upsert us_uuid user_conflict (u\<lparr>us_updated_at := now\<rparr>) (t_users (w_db s))\<rparr>)" for now
    using assms(2,4,5) fk_ok_user_update [of "w_db s" "u\<lparr>us_updated_at := now\<rparr>"] by simp
  ultimately show ?thesis
    using assms(1,7) by (simp add: user_save_def wp_rules Let_def)
qed

end
