(* ===== verification/Models_Access.thy ===== *)
theory Models_Access
  imports Models_Vault
begin

text \<open>
  \<open>worker/src/db/models\<close>, second part: sends, emergency access, login requests of another
  device and the audit events.
\<close>

section \<open>Sends\<close>

definition send_new ::
  "env \<Rightarrow> int \<Rightarrow> string \<Rightarrow> string \<Rightarrow> string \<Rightarrow> string \<Rightarrow> send act" where
  "send_new env atype name data akey deletion_date = do {
     now \<leftarrow> now_iso env;
     uuid \<leftarrow> new_uuid env;
     return \<lparr>se_uuid = uuid, se_user_uuid = None, se_organization_uuid = None, se_name = name,
       se_notes = None, se_atype = atype, se_data = data, se_akey = akey,
       se_password_hash = [], se_password_salt = [], se_password_iter = None,
       se_max_access_count = None, se_access_count = 0, se_creation_date = now,
       se_revision_date = now, se_expiration_date = None, se_deletion_date = deletion_date,
       se_disabled = 0, se_hide_email = None\<rparr> }"

text \<open>
  The SELECTs name every column but the two password BLOBs, and the struct skips those when it
  is read: they come back empty.
\<close>

definition send_select :: "send \<Rightarrow> send" where
  "send_select r = r\<lparr>se_password_hash := [], se_password_salt := []\<rparr>"

definition send_find_by_uuid :: "env \<Rightarrow> string \<Rightarrow> send option db_result" where
  "send_find_by_uuid env uuid = d1_query env (\<lambda>d.
     map_option send_select (find (\<lambda>s. se_uuid s = uuid) (t_sends d)))"

definition send_find_by_user :: "env \<Rightarrow> string \<Rightarrow> send list db_result" where
  "send_find_by_user env user_uuid = d1_query env (\<lambda>d.
     map send_select (filter (\<lambda>s. opt_is (se_user_uuid s) user_uuid) (t_sends d)))"

text \<open>
  The INSERT does not name the two BLOB columns either: a new row has none, and a row that is
  updated keeps what it had.
\<close>

definition send_insert_row :: "send \<Rightarrow> send" where
  "send_insert_row s = s\<lparr>se_password_hash := [], se_password_salt := []\<rparr>"

definition send_conflict :: "send \<Rightarrow> send \<Rightarrow> send" where
  "send_conflict old new = new\<lparr>se_creation_date := se_creation_date old,
     se_password_hash := se_password_hash old, se_password_salt := se_password_salt old\<rparr>"

definition send_save :: "env \<Rightarrow> send \<Rightarrow> send db_result" where
  "send_save env s = do {
     now \<leftarrow> now_iso env;
     let s' = s\<lparr>se_revision_date := now\<rparr>;
     try_ret (d1_exec env (\<lambda>d.
         Some (d\<lparr>t_sends := upsert se_uuid send_conflict (send_insert_row s') (t_sends d)\<rparr>)))
       Inl (\<lambda>_. return (Inr s')) }"

definition send_delete :: "env \<Rightarrow> send \<Rightarrow> unit db_result" where
  "send_delete env s = d1_exec env (\<lambda>d.
     Some (d\<lparr>t_sends := delete_where (\<lambda>x. se_uuid x = se_uuid s) (t_sends d)\<rparr>))"

definition send_purge_expired :: "env \<Rightarrow> string \<Rightarrow> int db_result" where
  "send_purge_expired env now =
     try_ret (d1_exec env (\<lambda>d.
         Some (d\<lparr>t_sends := delete_where (\<lambda>x. se_deletion_date x \<le> now) (t_sends d)\<rparr>))) Inl
       (\<lambda>_. do { n \<leftarrow> rows_written env; return (Inr n) })"

definition send_expired_file_send_uuids :: "env \<Rightarrow> string \<Rightarrow> string list db_result" where
  "send_expired_file_send_uuids env now = d1_query env (\<lambda>d.
     map se_uuid (filter (\<lambda>x. se_atype x = 1 \<and> se_deletion_date x \<le> now) (t_sends d)))"

section \<open>Emergency access\<close>

definition emergency_access_new :: "env \<Rightarrow> int \<Rightarrow> int \<Rightarrow> int \<Rightarrow> emergency_access act" where
  "emergency_access_new env atype status wait_time_days = do {
     now \<leftarrow> now_iso env;
     uuid \<leftarrow> new_uuid env;
     return \<lparr>ea_uuid = uuid, ea_grantor_uuid = None, ea_grantee_uuid = None, ea_email = None,
       ea_key_encrypted = None, ea_atype = atype, ea_status = status,
       ea_wait_time_days = wait_time_days, ea_recovery_initiated_at = None,
       ea_last_notification_at = None, ea_updated_at = now, ea_created_at = now\<rparr> }"

definition emergency_access_find_by_uuid ::
  "env \<Rightarrow> string \<Rightarrow> emergency_access option db_result" where
  "emergency_access_find_by_uuid env uuid = d1_query env (\<lambda>d.
     find (\<lambda>e. ea_uuid e = uuid) (t_emergency_access d))"

definition emergency_access_find_by_grantor ::
  "env \<Rightarrow> string \<Rightarrow> emergency_access list db_result" where
  "emergency_access_find_by_grantor env grantor_uuid = d1_query env (\<lambda>d.
     filter (\<lambda>e. opt_is (ea_grantor_uuid e) grantor_uuid) (t_emergency_access d))"

definition emergency_access_find_by_grantee ::
  "env \<Rightarrow> string \<Rightarrow> emergency_access list db_result" where
  "emergency_access_find_by_grantee env grantee_uuid = d1_query env (\<lambda>d.
     filter (\<lambda>e. opt_is (ea_grantee_uuid e) grantee_uuid) (t_emergency_access d))"

definition emergency_access_conflict ::
  "emergency_access \<Rightarrow> emergency_access \<Rightarrow> emergency_access" where
  "emergency_access_conflict old new = new\<lparr>ea_created_at := ea_created_at old\<rparr>"

definition emergency_access_save :: "env \<Rightarrow> emergency_access \<Rightarrow> emergency_access db_result" where
  "emergency_access_save env e = do {
     now \<leftarrow> now_iso env;
     let e' = e\<lparr>ea_updated_at := now\<rparr>;
     try_ret (d1_exec env (\<lambda>d. Some (d\<lparr>t_emergency_access :=
         upsert ea_uuid emergency_access_conflict e' (t_emergency_access d)\<rparr>)))
       Inl (\<lambda>_. return (Inr e')) }"

definition emergency_access_delete :: "env \<Rightarrow> emergency_access \<Rightarrow> unit db_result" where
  "emergency_access_delete env e = d1_exec env (\<lambda>d. Some (d\<lparr>t_emergency_access :=
     delete_where (\<lambda>x. ea_uuid x = ea_uuid e) (t_emergency_access d)\<rparr>))"

text \<open>
  The condition of the timer's UPDATE: SQLite's \<open>datetime\<close> is a parameter and the two texts
  are compared byte by byte.
\<close>

definition recovery_due :: "env \<Rightarrow> string \<Rightarrow> emergency_access \<Rightarrow> bool" where
  "recovery_due env now e \<longleftrightarrow> ea_status e = 3 \<and>
     (case ea_recovery_initiated_at e of
        None \<Rightarrow> False
      | Some t \<Rightarrow>
          (case e_sql_datetime env t (''+'' @ int_to_string (ea_wait_time_days e) @ '' days'') of
             None \<Rightarrow> False
           | Some due \<Rightarrow> due \<le> now))"

definition emergency_access_auto_approve_due :: "env \<Rightarrow> int db_result" where
  "emergency_access_auto_approve_due env = do {
     now \<leftarrow> now_iso env;
     try_ret (d1_exec env (\<lambda>d. Some (d\<lparr>t_emergency_access :=
         update_where (recovery_due env now) (\<lambda>e. e\<lparr>ea_status := 4, ea_updated_at := now\<rparr>)
           (t_emergency_access d)\<rparr>))) Inl
       (\<lambda>_. do { n \<leftarrow> rows_written env; return (Inr n) }) }"

definition reminder_due :: "env \<Rightarrow> string \<Rightarrow> emergency_access \<Rightarrow> bool" where
  "reminder_due env now e \<longleftrightarrow> ea_status e = 3 \<and> ea_recovery_initiated_at e \<noteq> None \<and>
     (case ea_last_notification_at e of
        None \<Rightarrow> True
      | Some t \<Rightarrow>
          (case e_sql_datetime env t ''+15 minutes'' of
             None \<Rightarrow> False
           | Some due \<Rightarrow> due \<le> now))"

definition emergency_access_pending_reminders :: "env \<Rightarrow> emergency_access list db_result" where
  "emergency_access_pending_reminders env = do {
     now \<leftarrow> now_iso env;
     d1_query env (\<lambda>d. filter (reminder_due env now) (t_emergency_access d)) }"

section \<open>Login requests\<close>

definition auth_request_new ::
  "env \<Rightarrow> string \<Rightarrow> string \<Rightarrow> int \<Rightarrow> string \<Rightarrow> string \<Rightarrow> string \<Rightarrow> auth_request act" where
  "auth_request_new env user_uuid device_identifier device_type ip access_code public_key = do {
     uuid \<leftarrow> new_uuid env;
     now \<leftarrow> now_iso env;
     return \<lparr>ar_uuid = uuid, ar_user_uuid = user_uuid, ar_organization_uuid = None,
       ar_request_device_identifier = device_identifier, ar_device_type = device_type,
       ar_request_ip = ip, ar_response_device_id = None, ar_access_code = access_code,
       ar_public_key = public_key, ar_enc_key = None, ar_master_password_hash = None,
       ar_approved = None, ar_creation_date = now, ar_response_date = None,
       ar_authentication_date = None\<rparr> }"

definition auth_request_find_by_uuid :: "env \<Rightarrow> string \<Rightarrow> auth_request option db_result" where
  "auth_request_find_by_uuid env uuid = d1_query env (\<lambda>d.
     find (\<lambda>r. ar_uuid r = uuid) (t_auth_requests d))"

definition auth_request_find_by_user :: "env \<Rightarrow> string \<Rightarrow> auth_request list db_result" where
  "auth_request_find_by_user env user_uuid = d1_query env (\<lambda>d.
     filter (\<lambda>r. ar_user_uuid r = user_uuid) (t_auth_requests d))"

definition auth_request_conflict :: "auth_request \<Rightarrow> auth_request \<Rightarrow> auth_request" where
  "auth_request_conflict old new = new\<lparr>ar_creation_date := ar_creation_date old\<rparr>"

definition auth_request_save :: "env \<Rightarrow> auth_request \<Rightarrow> unit db_result" where
  "auth_request_save env r = d1_exec env (\<lambda>d. Some (d\<lparr>t_auth_requests :=
     upsert ar_uuid auth_request_conflict r (t_auth_requests d)\<rparr>))"

definition auth_request_delete :: "env \<Rightarrow> auth_request \<Rightarrow> unit db_result" where
  "auth_request_delete env r = d1_exec env (\<lambda>d. Some (d\<lparr>t_auth_requests :=
     delete_where (\<lambda>x. ar_uuid x = ar_uuid r) (t_auth_requests d)\<rparr>))"

definition auth_request_purge_old :: "env \<Rightarrow> string \<Rightarrow> unit db_result" where
  "auth_request_purge_old env before = d1_exec env (\<lambda>d. Some (d\<lparr>t_auth_requests :=
     delete_where (\<lambda>x. ar_creation_date x < before) (t_auth_requests d)\<rparr>))"

section \<open>Events\<close>

definition event_new :: "env \<Rightarrow> int \<Rightarrow> event act" where
  "event_new env event_type = do {
     uuid \<leftarrow> new_uuid env;
     now \<leftarrow> now_iso env;
     return \<lparr>ev_uuid = uuid, ev_event_type = event_type, ev_user_uuid = None, ev_org_uuid = None,
       ev_cipher_uuid = None, ev_collection_uuid = None, ev_group_uuid = None,
       ev_org_user_uuid = None, ev_act_user_uuid = None, ev_device_type = None,
       ev_ip_address = None, ev_event_date = now, ev_policy_uuid = None, ev_provider_uuid = None,
       ev_provider_user_uuid = None, ev_provider_org_uuid = None\<rparr> }"

text \<open>\<open>ORDER BY event_date DESC\<close>: newest first, rows of the same date in table order.\<close>

definition by_date_desc :: "event list \<Rightarrow> event list" where
  "by_date_desc es = rev (sort_key ev_event_date (rev es))"

definition in_range :: "string \<Rightarrow> string \<Rightarrow> event \<Rightarrow> bool" where
  "in_range start end e \<longleftrightarrow> start \<le> ev_event_date e \<and> ev_event_date e < end"

definition event_find_by_uuid :: "env \<Rightarrow> string \<Rightarrow> event option db_result" where
  "event_find_by_uuid env uuid = d1_query env (\<lambda>d. find (\<lambda>e. ev_uuid e = uuid) (t_event d))"

definition event_find_by_org_in_range ::
  "env \<Rightarrow> string \<Rightarrow> string \<Rightarrow> string \<Rightarrow> event list db_result" where
  "event_find_by_org_in_range env org_uuid start end = d1_query env (\<lambda>d.
     take 1000 (by_date_desc
       (filter (\<lambda>e. opt_is (ev_org_uuid e) org_uuid \<and> in_range start end e) (t_event d))))"

definition event_find_by_user_in_range ::
  "env \<Rightarrow> string \<Rightarrow> string \<Rightarrow> string \<Rightarrow> event list db_result" where
  "event_find_by_user_in_range env user_uuid start end = d1_query env (\<lambda>d.
     take 1000 (by_date_desc
       (filter (\<lambda>e. opt_is (ev_user_uuid e) user_uuid \<and> in_range start end e) (t_event d))))"

definition event_find_by_cipher_in_range ::
  "env \<Rightarrow> string \<Rightarrow> string \<Rightarrow> string \<Rightarrow> event list db_result" where
  "event_find_by_cipher_in_range env cipher_uuid start end = d1_query env (\<lambda>d.
     take 1000 (by_date_desc
       (filter (\<lambda>e. opt_is (ev_cipher_uuid e) cipher_uuid \<and> in_range start end e) (t_event d))))"

definition event_find_by_org :: "env \<Rightarrow> string \<Rightarrow> event list db_result" where
  "event_find_by_org env org_uuid = d1_query env (\<lambda>d.
     by_date_desc (filter (\<lambda>e. opt_is (ev_org_uuid e) org_uuid) (t_event d)))"

definition event_find_by_user :: "env \<Rightarrow> string \<Rightarrow> event list db_result" where
  "event_find_by_user env user_uuid = d1_query env (\<lambda>d.
     by_date_desc (filter (\<lambda>e. opt_is (ev_user_uuid e) user_uuid) (t_event d)))"

definition event_find_by_cipher :: "env \<Rightarrow> string \<Rightarrow> event list db_result" where
  "event_find_by_cipher env cipher_uuid = d1_query env (\<lambda>d.
     by_date_desc (filter (\<lambda>e. opt_is (ev_cipher_uuid e) cipher_uuid) (t_event d)))"

definition event_conflict :: "event \<Rightarrow> event \<Rightarrow> event" where
  "event_conflict old new = new"

definition event_save :: "env \<Rightarrow> event \<Rightarrow> unit db_result" where
  "event_save env e = d1_exec env (\<lambda>d.
     Some (d\<lparr>t_event := upsert ev_uuid event_conflict e (t_event d)\<rparr>))"

definition event_delete :: "env \<Rightarrow> event \<Rightarrow> unit db_result" where
  "event_delete env e = d1_exec env (\<lambda>d.
     Some (d\<lparr>t_event := delete_where (\<lambda>x. ev_uuid x = ev_uuid e) (t_event d)\<rparr>))"

definition event_delete_old :: "env \<Rightarrow> string \<Rightarrow> unit db_result" where
  "event_delete_old env before = d1_exec env (\<lambda>d.
     Some (d\<lparr>t_event := delete_where (\<lambda>x. ev_event_date x < before) (t_event d)\<rparr>))"

section \<open>The primary keys\<close>

interpretation kt_sends: keyed_table se_uuid send_conflict
  by unfold_locales (simp add: send_conflict_def)

interpretation kt_emergency_access: keyed_table ea_uuid emergency_access_conflict
  by unfold_locales (simp add: emergency_access_conflict_def)

interpretation kt_auth_requests: keyed_table ar_uuid auth_request_conflict
  by unfold_locales (simp add: auth_request_conflict_def)

interpretation kt_event: keyed_table ev_uuid event_conflict
  by unfold_locales (simp add: event_conflict_def)

end
