(* ===== verification/Auth.thy ===== *)
theory Auth
  imports Models_Access
begin

text \<open>
  \<open>worker/src/auth.rs\<close>, \<open>crypto.rs\<close> and the password functions of \<open>user.rs\<close>: the claims of
  the five kinds of token, their issuers, the request guard \<open>Headers\<close> that every
  authenticated handler runs behind, and the check of a master password.  The signature
  and expiry checks of \<open>jsonwebtoken\<close> and PBKDF2 are parameters.
\<close>

section \<open>Passwords\<close>

text \<open>\<open>None\<close> is the panic of the assertion on the number of iterations.\<close>

definition hash_password :: "env \<Rightarrow> byte list \<Rightarrow> byte list \<Rightarrow> nat \<Rightarrow> byte list option" where
  "hash_password env secret salt iterations =
     (if iterations > 0 then Some (e_pbkdf2 env secret salt iterations) else None)"

definition verify_password_hash ::
  "env \<Rightarrow> byte list \<Rightarrow> byte list \<Rightarrow> byte list \<Rightarrow> nat \<Rightarrow> bool option" where
  "verify_password_hash env secret salt previous iterations =
     map_option (\<lambda>candidate. candidate = previous) (hash_password env secret salt iterations)"

definition as_bytes :: "string \<Rightarrow> byte list" where
  "as_bytes s = map of_char s"

definition set_password :: "env \<Rightarrow> user \<Rightarrow> string \<Rightarrow> user option" where
  "set_password env u password =
     map_option (\<lambda>h. u\<lparr>us_password_hash := h\<rparr>)
       (hash_password env (as_bytes password) (us_salt u) (as_u32 (us_password_iterations u)))"

definition check_valid_password :: "env \<Rightarrow> user \<Rightarrow> string \<Rightarrow> bool option" where
  "check_valid_password env u password =
     (if us_password_hash u = [] then Some False
      else verify_password_hash env (as_bytes password) (us_salt u) (us_password_hash u)
             (as_u32 (us_password_iterations u)))"

section \<open>Claims\<close>

definition DEFAULT_ACCESS_VALIDITY_SECS :: int where "DEFAULT_ACCESS_VALIDITY_SECS = 3600"

record login_claims =
  lc_nbf :: int
  lc_exp :: int
  lc_iss :: string
  lc_sub :: string
  lc_premium :: bool
  lc_name :: string
  lc_email :: string
  lc_email_verified :: bool
  lc_sstamp :: string
  lc_device :: string
  lc_devicetype :: string
  lc_client_id :: string
  lc_scope :: "string list"
  lc_amr :: "string list"

definition login_claims_new_for ::
  "env \<Rightarrow> device \<Rightarrow> user \<Rightarrow> string list \<Rightarrow> string option \<Rightarrow> login_claims act" where
  "login_claims_new_for env device user scope client_id = do {
     now \<leftarrow> unix_now env;
     return \<lparr>lc_nbf = int now, lc_exp = int now + DEFAULT_ACCESS_VALIDITY_SECS,
       lc_iss = e_login_issuer env, lc_sub = us_uuid user, lc_premium = True,
       lc_name = us_name user, lc_email = us_email user,
       lc_email_verified = (us_verified_at user \<noteq> None), lc_sstamp = us_security_stamp user,
       lc_device = de_uuid device, lc_devicetype = int_to_string (de_atype device),
       lc_client_id = (case client_id of None \<Rightarrow> ''undefined'' | Some c \<Rightarrow> c),
       lc_scope = scope, lc_amr = [''Application'']\<rparr> }"

definition login_claims_expires_in :: "env \<Rightarrow> login_claims \<Rightarrow> int act" where
  "login_claims_expires_in env c = do { now \<leftarrow> unix_now env; return (lc_exp c - int now) }"

text \<open>The derived \<open>Serialize\<close> and \<open>Deserialize\<close> of the struct.\<close>

definition login_claims_to_json :: "login_claims \<Rightarrow> json" where
  "login_claims_to_json c = JObj [
     (''nbf'', JInt (lc_nbf c)), (''exp'', JInt (lc_exp c)), (''iss'', JStr (lc_iss c)),
     (''sub'', JStr (lc_sub c)), (''premium'', JBool (lc_premium c)), (''name'', JStr (lc_name c)),
     (''email'', JStr (lc_email c)), (''email_verified'', JBool (lc_email_verified c)),
     (''sstamp'', JStr (lc_sstamp c)), (''device'', JStr (lc_device c)),
     (''devicetype'', JStr (lc_devicetype c)), (''client_id'', JStr (lc_client_id c)),
     (''scope'', JArr (map JStr (lc_scope c))), (''amr'', JArr (map JStr (lc_amr c)))]"

fun as_str :: "json option \<Rightarrow> string option" where
  "as_str (Some (JStr s)) = Some s" | "as_str _ = None"

fun as_int :: "json option \<Rightarrow> int option" where
  "as_int (Some (JInt i)) = Some i" | "as_int _ = None"

fun as_bool :: "json option \<Rightarrow> bool option" where
  "as_bool (Some (JBool b)) = Some b" | "as_bool _ = None"

fun all_strs :: "json list \<Rightarrow> string list option" where
  "all_strs [] = Some []"
| "all_strs (JStr s # js) = map_option (Cons s) (all_strs js)"
| "all_strs _ = None"

fun as_strs :: "json option \<Rightarrow> string list option" where
  "as_strs (Some (JArr js)) = all_strs js" | "as_strs _ = None"

definition login_claims_of_json :: "json \<Rightarrow> login_claims option" where
  "login_claims_of_json j =
     (case (as_int (json_get ''nbf'' j), as_int (json_get ''exp'' j), as_str (json_get ''iss'' j),
            as_str (json_get ''sub'' j), as_bool (json_get ''premium'' j),
            as_str (json_get ''name'' j), as_str (json_get ''email'' j)) of
        (Some nbf, Some expiry, Some iss, Some sub, Some premium, Some name, Some email) \<Rightarrow>
          (case (as_bool (json_get ''email_verified'' j), as_str (json_get ''sstamp'' j),
                 as_str (json_get ''device'' j), as_str (json_get ''devicetype'' j),
                 as_str (json_get ''client_id'' j), as_strs (json_get ''scope'' j),
                 as_strs (json_get ''amr'' j)) of
             (Some ev, Some sstamp, Some device, Some devicetype, Some client_id, Some scope, Some amr) \<Rightarrow>
               Some \<lparr>lc_nbf = nbf, lc_exp = expiry, lc_iss = iss, lc_sub = sub, lc_premium = premium,
                 lc_name = name, lc_email = email, lc_email_verified = ev, lc_sstamp = sstamp,
                 lc_device = device, lc_devicetype = devicetype, lc_client_id = client_id,
                 lc_scope = scope, lc_amr = amr\<rparr>
           | _ \<Rightarrow> None)
      | _ \<Rightarrow> None)"

lemma all_strs_map [simp]: "all_strs (map JStr ss) = Some ss"
  by (induction ss) simp_all

lemma login_claims_roundtrip: "login_claims_of_json (login_claims_to_json c) = Some c"
  by (simp add: login_claims_of_json_def login_claims_to_json_def)

section \<open>Issuers\<close>

text \<open>\<open>str::trim_end_matches\<close>: cut the suffix as often as it is there.\<close>

function trim_end_matches :: "string \<Rightarrow> string \<Rightarrow> string" where
  "trim_end_matches pat s =
     (if pat \<noteq> [] \<and> suffix pat s then trim_end_matches pat (take (length s - length pat) s) else s)"
  by pat_completeness auto
termination
  by (relation "measure (\<lambda>(pat, s). length s)")
     (auto simp: suffix_def)

declare trim_end_matches.simps [simp del]

definition issuer_with :: "env \<Rightarrow> string \<Rightarrow> string" where
  "issuer_with env sfx = trim_end_matches ''|login'' (e_login_issuer env) @ sfx"

definition register_verify_issuer :: "env \<Rightarrow> string" where
  "register_verify_issuer env = issuer_with env ''|register_verify''"

definition send_file_issuer :: "env \<Rightarrow> string" where
  "send_file_issuer env = issuer_with env ''|send_file''"

definition verify_email_issuer :: "env \<Rightarrow> string" where
  "verify_email_issuer env = issuer_with env ''|verify_email''"

definition delete_recover_issuer :: "env \<Rightarrow> string" where
  "delete_recover_issuer env = issuer_with env ''|delete_recover''"

record register_verify_claims =
  rv_nbf :: int
  rv_exp :: int
  rv_iss :: string
  rv_sub :: string
  rv_name :: "string option"
  rv_verified :: bool

definition register_verify_claims_new ::
  "env \<Rightarrow> string \<Rightarrow> string option \<Rightarrow> bool \<Rightarrow> register_verify_claims act" where
  "register_verify_claims_new env email name verified = do {
     now \<leftarrow> unix_now env;
     return \<lparr>rv_nbf = int now, rv_exp = int now + 3600, rv_iss = register_verify_issuer env,
       rv_sub = email, rv_name = name, rv_verified = verified\<rparr> }"

record send_file_claims =
  sf_nbf :: int
  sf_exp :: int
  sf_iss :: string
  sf_sub :: string
  sf_fid :: string

definition send_file_claims_new :: "env \<Rightarrow> string \<Rightarrow> string \<Rightarrow> int \<Rightarrow> send_file_claims act" where
  "send_file_claims_new env send_uuid file_id expires = do {
     now \<leftarrow> unix_now env;
     return \<lparr>sf_nbf = int now, sf_exp = expires, sf_iss = send_file_issuer env,
       sf_sub = send_uuid, sf_fid = file_id\<rparr> }"

definition send_file_claims_to_json :: "send_file_claims \<Rightarrow> json" where
  "send_file_claims_to_json c = JObj [
     (''nbf'', JInt (sf_nbf c)), (''exp'', JInt (sf_exp c)), (''iss'', JStr (sf_iss c)),
     (''sub'', JStr (sf_sub c)), (''fid'', JStr (sf_fid c))]"

definition send_file_claims_of_json :: "json \<Rightarrow> send_file_claims option" where
  "send_file_claims_of_json j =
     (case (as_int (json_get ''nbf'' j), as_int (json_get ''exp'' j), as_str (json_get ''iss'' j),
            as_str (json_get ''sub'' j), as_str (json_get ''fid'' j)) of
        (Some nbf, Some expiry, Some iss, Some sub, Some fid) \<Rightarrow>
          Some \<lparr>sf_nbf = nbf, sf_exp = expiry, sf_iss = iss, sf_sub = sub, sf_fid = fid\<rparr>
      | _ \<Rightarrow> None)"

text \<open>The claims of the two links that carry no more than the user.\<close>

record user_link_claims =
  ul_nbf :: int
  ul_exp :: int
  ul_iss :: string
  ul_sub :: string

definition verify_email_claims_new :: "env \<Rightarrow> string \<Rightarrow> user_link_claims act" where
  "verify_email_claims_new env user_uuid = do {
     now \<leftarrow> unix_now env;
     return \<lparr>ul_nbf = int now, ul_exp = int now + 24 * 3600, ul_iss = verify_email_issuer env,
       ul_sub = user_uuid\<rparr> }"

definition delete_recover_claims_new :: "env \<Rightarrow> string \<Rightarrow> user_link_claims act" where
  "delete_recover_claims_new env user_uuid = do {
     now \<leftarrow> unix_now env;
     return \<lparr>ul_nbf = int now, ul_exp = int now + 3600, ul_iss = delete_recover_issuer env,
       ul_sub = user_uuid\<rparr> }"

text \<open>
  \<open>JwtKeys::decode\<close>: the library checks the signature, the expiry against the clock and the
  issuer, then the claims are read.
\<close>

definition jwt_check :: "env \<Rightarrow> nat \<Rightarrow> (json \<Rightarrow> 'c option) \<Rightarrow> string \<Rightarrow> string \<Rightarrow> string + 'c" where
  "jwt_check env now of_json token issuer =
     (case e_jwt_decode env now token issuer of
        Inl msg \<Rightarrow> Inl msg
      | Inr j \<Rightarrow> (case of_json j of None \<Rightarrow> Inl (e_serde_error env j) | Some c \<Rightarrow> Inr c))"

definition jwt_decode :: "env \<Rightarrow> (json \<Rightarrow> 'c option) \<Rightarrow> string \<Rightarrow> string \<Rightarrow> (string + 'c) act" where
  "jwt_decode env of_json token issuer = do {
     now \<leftarrow> unix_now env;
     return (jwt_check env now of_json token issuer) }"

lemma wp_jwt_decode [wp_rules]:
  "wp (jwt_decode env of_json token issuer) Q s =
     Q (jwt_check env (e_unix env (w_tick s)) of_json token issuer) (bump s)"
  by (simp add: jwt_decode_def wp_rules)

lemma preserves_jwt_decode [preserves_rules]:
  fixes P :: "db \<Rightarrow> bool"
  shows "preserves (\<lambda>s. P (w_db s)) (jwt_decode env of_json token issuer)"
  unfolding jwt_decode_def by (intro preserves_rules)

section \<open>The request guard\<close>

record headers =
  hd_user :: user
  hd_device :: device
  hd_claims :: login_claims

definition unauthorized :: "string \<Rightarrow> response" where
  "unauthorized msg = json_response 401 (JObj [(''error'', JStr ''invalid_token''),
     (''error_description'', JStr msg), (''ErrorModel'', JObj [(''Message'', JStr msg)])])"

definition internal_error :: "string \<Rightarrow> response" where
  "internal_error msg = json_response 500 (JObj [(''error'', JStr ''server_error''),
     (''error_description'', JStr msg)])"

lemma resp_status_guard [simp]:
  "resp_status (unauthorized msg) = 401" "resp_status (internal_error msg) = 500"
  by (simp_all add: unauthorized_def internal_error_def)

definition strip_prefix :: "string \<Rightarrow> string \<Rightarrow> string option" where
  "strip_prefix pre s = (if prefix pre s then Some (drop (length pre) s) else None)"

definition bearer_token :: "string \<Rightarrow> string option" where
  "bearer_token h = (case strip_prefix ''Bearer '' h of
     Some t \<Rightarrow> Some t | None \<Rightarrow> strip_prefix ''bearer '' h)"

definition from_request_parts :: "env \<Rightarrow> string option \<Rightarrow> (world, response + headers) state" where
  "from_request_parts env auth_header =
     (case auth_header of
        None \<Rightarrow> return (Inl (unauthorized ''missing Authorization header''))
      | Some h \<Rightarrow>
     (case bearer_token h of
        None \<Rightarrow> return (Inl (unauthorized ''Authorization must be Bearer''))
      | Some token \<Rightarrow>
        try_ret (jwt_decode env login_claims_of_json token (e_login_issuer env))
          (\<lambda>e. Inl (unauthorized (''invalid token: '' @ e))) (\<lambda>claims.
        try_ret (user_find_by_uuid env (lc_sub claims))
          (\<lambda>_. Inl (internal_error ''user lookup failed'')) (\<lambda>r.
        case r of
          None \<Rightarrow> return (Inl (unauthorized ''user not found''))
        | Some user \<Rightarrow>
        if us_security_stamp user \<noteq> lc_sstamp claims
        then return (Inl (unauthorized ''security stamp invalidated''))
        else if us_enabled user = 0
        then return (Inl (unauthorized ''user disabled''))
        else
          try_ret (device_find env (lc_device claims) (us_uuid user))
            (\<lambda>_. Inl (internal_error ''device lookup failed'')) (\<lambda>r.
          case r of
            None \<Rightarrow> return (Inl (unauthorized ''device not found''))
          | Some device \<Rightarrow>
              return (Inr \<lparr>hd_user = user, hd_device = device, hd_claims = claims\<rparr>))))))"

end
