(* ===== verification/Models_Org.thy ===== *)
theory Models_Org
  imports Models_Vault
begin

text \<open>
  \<open>worker/src/db/models\<close>, third part: organizations, memberships, collections, groups,
  policies, invitations and the organization's API key.
\<close>

section \<open>Memberships\<close>

definition membership_new ::
  "env \<Rightarrow> string \<Rightarrow> string \<Rightarrow> string \<Rightarrow> int \<Rightarrow> int \<Rightarrow> membership act" where
  "membership_new env user_uuid org_uuid akey atype status = do {
     uuid \<leftarrow> new_uuid env;
     return \<lparr>me_uuid = uuid, me_user_uuid = user_uuid, me_org_uuid = org_uuid,
       me_access_all = 0, me_akey = akey, me_status = status, me_atype = atype,
       me_reset_password_key = None, me_external_id = None, me_invited_by_email = None\<rparr> }"

definition membership_find_by_uuid :: "env \<Rightarrow> string \<Rightarrow> membership option db_result" where
  "membership_find_by_uuid env uuid = d1_query env (\<lambda>d.
     find (\<lambda>m. me_uuid m = uuid) (t_users_organizations d))"

definition membership_find_by_user_and_org ::
  "env \<Rightarrow> string \<Rightarrow> string \<Rightarrow> membership option db_result" where
  "membership_find_by_user_and_org env user_uuid org_uuid = d1_query env (\<lambda>d.
     find (\<lambda>m. me_user_uuid m = user_uuid \<and> me_org_uuid m = org_uuid) (t_users_organizations d))"

definition membership_find_by_user :: "env \<Rightarrow> string \<Rightarrow> membership list db_result" where
  "membership_find_by_user env user_uuid = d1_query env (\<lambda>d.
     filter (\<lambda>m. me_user_uuid m = user_uuid) (t_users_organizations d))"

definition membership_find_by_org :: "env \<Rightarrow> string \<Rightarrow> membership list db_result" where
  "membership_find_by_org env org_uuid = d1_query env (\<lambda>d.
     filter (\<lambda>m. me_org_uuid m = org_uuid) (t_users_organizations d))"

definition membership_conflict :: "membership \<Rightarrow> membership \<Rightarrow> membership" where
  "membership_conflict old new = new"

text \<open>The table has \<open>UNIQUE (user_uuid, org_uuid)\<close>.\<close>

definition membership_pair :: "membership \<Rightarrow> string \<times> string" where
  "membership_pair m = (me_user_uuid m, me_org_uuid m)"

definition membership_save :: "env \<Rightarrow> membership \<Rightarrow> unit db_result" where
  "membership_save env m = d1_exec env (\<lambda>d.
     let t = upsert me_uuid membership_conflict m (t_users_organizations d) in
     if distinct (map membership_pair t) then Some (d\<lparr>t_users_organizations := t\<rparr>) else None)"

definition membership_delete :: "env \<Rightarrow> membership \<Rightarrow> unit db_result" where
  "membership_delete env m = d1_exec env (\<lambda>d. Some (d\<lparr>t_users_organizations :=
     delete_where (\<lambda>x. me_uuid x = me_uuid m) (t_users_organizations d)\<rparr>))"

section \<open>Organizations\<close>

definition organization_new :: "env \<Rightarrow> string \<Rightarrow> string \<Rightarrow> organization act" where
  "organization_new env name billing_email = do {
     uuid \<leftarrow> new_uuid env;
     return \<lparr>og_uuid = uuid, og_name = name, og_billing_email = to_lowercase billing_email,
       og_private_key = None, og_public_key = None\<rparr> }"

definition organization_find_by_uuid :: "env \<Rightarrow> string \<Rightarrow> organization option db_result" where
  "organization_find_by_uuid env uuid = d1_query env (\<lambda>d.
     find (\<lambda>x. og_uuid x = uuid) (t_organizations d))"

definition organization_conflict :: "organization \<Rightarrow> organization \<Rightarrow> organization" where
  "organization_conflict old new = new"

definition organization_save :: "env \<Rightarrow> organization \<Rightarrow> unit db_result" where
  "organization_save env x = d1_exec env (\<lambda>d. Some (d\<lparr>t_organizations :=
     upsert og_uuid organization_conflict x (t_organizations d)\<rparr>))"

definition organization_delete :: "env \<Rightarrow> organization \<Rightarrow> unit db_result" where
  "organization_delete env x = d1_exec env (\<lambda>d. Some (d\<lparr>t_organizations :=
     delete_where (\<lambda>y. og_uuid y = og_uuid x) (t_organizations d)\<rparr>))"

section \<open>Collections\<close>

definition collection_new :: "env \<Rightarrow> string \<Rightarrow> string \<Rightarrow> collection act" where
  "collection_new env org_uuid name = do {
     uuid \<leftarrow> new_uuid env;
     return \<lparr>co_uuid = uuid, co_org_uuid = org_uuid, co_name = name, co_external_id = None\<rparr> }"

definition collection_find_by_uuid :: "env \<Rightarrow> string \<Rightarrow> collection option db_result" where
  "collection_find_by_uuid env uuid = d1_query env (\<lambda>d.
     find (\<lambda>x. co_uuid x = uuid) (t_collections d))"

definition collection_find_by_org :: "env \<Rightarrow> string \<Rightarrow> collection list db_result" where
  "collection_find_by_org env org_uuid = d1_query env (\<lambda>d.
     filter (\<lambda>x. co_org_uuid x = org_uuid) (t_collections d))"

definition collection_conflict :: "collection \<Rightarrow> collection \<Rightarrow> collection" where
  "collection_conflict old new = new"

definition collection_save :: "env \<Rightarrow> collection \<Rightarrow> unit db_result" where
  "collection_save env x = d1_exec env (\<lambda>d. Some (d\<lparr>t_collections :=
     upsert co_uuid collection_conflict x (t_collections d)\<rparr>))"

definition collection_delete :: "env \<Rightarrow> collection \<Rightarrow> unit db_result" where
  "collection_delete env x = d1_exec env (\<lambda>d. Some (d\<lparr>t_collections :=
     delete_where (\<lambda>y. co_uuid y = co_uuid x) (t_collections d)\<rparr>))"

section \<open>Policies\<close>

definition org_policy_new :: "env \<Rightarrow> string \<Rightarrow> int \<Rightarrow> string \<Rightarrow> org_policy act" where
  "org_policy_new env org_uuid atype data = do {
     uuid \<leftarrow> new_uuid env;
     return \<lparr>op_uuid = uuid, op_org_uuid = org_uuid, op_atype = atype, op_enabled = 0,
       op_data = data\<rparr> }"

definition org_policy_find_by_uuid :: "env \<Rightarrow> string \<Rightarrow> org_policy option db_result" where
  "org_policy_find_by_uuid env uuid = d1_query env (\<lambda>d.
     find (\<lambda>x. op_uuid x = uuid) (t_org_policies d))"

definition org_policy_find_by_org :: "env \<Rightarrow> string \<Rightarrow> org_policy list db_result" where
  "org_policy_find_by_org env org_uuid = d1_query env (\<lambda>d.
     filter (\<lambda>x. op_org_uuid x = org_uuid) (t_org_policies d))"

definition org_policy_find_by_org_and_type ::
  "env \<Rightarrow> string \<Rightarrow> int \<Rightarrow> org_policy option db_result" where
  "org_policy_find_by_org_and_type env org_uuid atype = d1_query env (\<lambda>d.
     find (\<lambda>x. op_org_uuid x = org_uuid \<and> op_atype x = atype) (t_org_policies d))"

definition org_policy_conflict :: "org_policy \<Rightarrow> org_policy \<Rightarrow> org_policy" where
  "org_policy_conflict old new = new"

definition org_policy_pair :: "org_policy \<Rightarrow> string \<times> int" where
  "org_policy_pair x = (op_org_uuid x, op_atype x)"

text \<open>The table has \<open>UNIQUE (org_uuid, atype)\<close>.\<close>

definition org_policy_save :: "env \<Rightarrow> org_policy \<Rightarrow> unit db_result" where
  "org_policy_save env x = d1_exec env (\<lambda>d.
     let t = upsert op_uuid org_policy_conflict x (t_org_policies d) in
     if distinct (map org_policy_pair t) then Some (d\<lparr>t_org_policies := t\<rparr>) else None)"

definition org_policy_delete :: "env \<Rightarrow> org_policy \<Rightarrow> unit db_result" where
  "org_policy_delete env x = d1_exec env (\<lambda>d. Some (d\<lparr>t_org_policies :=
     delete_where (\<lambda>y. op_uuid y = op_uuid x) (t_org_policies d)\<rparr>))"

section \<open>Groups\<close>

definition group_new :: "env \<Rightarrow> string \<Rightarrow> string \<Rightarrow> bool \<Rightarrow> group act" where
  "group_new env org_uuid name access_all = do {
     now \<leftarrow> now_iso env;
     uuid \<leftarrow> new_uuid env;
     return \<lparr>gr_uuid = uuid, gr_organizations_uuid = org_uuid, gr_name = name,
       gr_access_all = bool_i32 access_all, gr_external_id = None, gr_creation_date = now,
       gr_revision_date = now\<rparr> }"

definition group_find_by_uuid :: "env \<Rightarrow> string \<Rightarrow> group option db_result" where
  "group_find_by_uuid env uuid = d1_query env (\<lambda>d. find (\<lambda>x. gr_uuid x = uuid) (t_groups d))"

definition group_find_by_org :: "env \<Rightarrow> string \<Rightarrow> group list db_result" where
  "group_find_by_org env org_uuid = d1_query env (\<lambda>d.
     filter (\<lambda>x. gr_organizations_uuid x = org_uuid) (t_groups d))"

definition group_conflict :: "group \<Rightarrow> group \<Rightarrow> group" where
  "group_conflict old new = new\<lparr>gr_creation_date := gr_creation_date old\<rparr>"

definition group_save :: "env \<Rightarrow> group \<Rightarrow> group db_result" where
  "group_save env x = do {
     now \<leftarrow> now_iso env;
     let x' = x\<lparr>gr_revision_date := now\<rparr>;
     try_ret (d1_exec env (\<lambda>d.
         Some (d\<lparr>t_groups := upsert gr_uuid group_conflict x' (t_groups d)\<rparr>)))
       Inl (\<lambda>_. return (Inr x')) }"

definition group_delete :: "env \<Rightarrow> group \<Rightarrow> unit db_result" where
  "group_delete env x = d1_exec env (\<lambda>d.
     Some (d\<lparr>t_groups := delete_where (\<lambda>y. gr_uuid y = gr_uuid x) (t_groups d)\<rparr>))"

definition group_user_set :: "env \<Rightarrow> string \<Rightarrow> string \<Rightarrow> unit db_result" where
  "group_user_set env groups_uuid member_uuid = d1_exec env (\<lambda>d. Some (d\<lparr>t_groups_users :=
     insert_ignore (\<lambda>x. x) (groups_uuid, member_uuid) (t_groups_users d)\<rparr>))"

definition group_user_unset :: "env \<Rightarrow> string \<Rightarrow> string \<Rightarrow> unit db_result" where
  "group_user_unset env groups_uuid member_uuid = d1_exec env (\<lambda>d. Some (d\<lparr>t_groups_users :=
     delete_where (\<lambda>x. x = (groups_uuid, member_uuid)) (t_groups_users d)\<rparr>))"

definition group_user_list_by_group :: "env \<Rightarrow> string \<Rightarrow> string list db_result" where
  "group_user_list_by_group env groups_uuid = d1_query env (\<lambda>d.
     map snd (filter (\<lambda>(g, _). g = groups_uuid) (t_groups_users d)))"

definition group_user_list_by_member :: "env \<Rightarrow> string \<Rightarrow> string list db_result" where
  "group_user_list_by_member env member_uuid = d1_query env (\<lambda>d.
     map fst (filter (\<lambda>(_, m). m = member_uuid) (t_groups_users d)))"

definition collection_group_new ::
  "string \<Rightarrow> string \<Rightarrow> bool \<Rightarrow> bool \<Rightarrow> bool \<Rightarrow> collection_group" where
  "collection_group_new collections_uuid groups_uuid read_only hide_passwords manage =
     \<lparr>cg_collections_uuid = collections_uuid, cg_groups_uuid = groups_uuid,
      cg_read_only = bool_i32 read_only, cg_hide_passwords = bool_i32 hide_passwords,
      cg_manage = bool_i32 manage\<rparr>"

definition collection_group_key :: "collection_group \<Rightarrow> string \<times> string" where
  "collection_group_key x = (cg_collections_uuid x, cg_groups_uuid x)"

definition collection_group_find_by_collection ::
  "env \<Rightarrow> string \<Rightarrow> collection_group list db_result" where
  "collection_group_find_by_collection env collections_uuid = d1_query env (\<lambda>d.
     filter (\<lambda>x. cg_collections_uuid x = collections_uuid) (t_collections_groups d))"

definition collection_group_find_by_group ::
  "env \<Rightarrow> string \<Rightarrow> collection_group list db_result" where
  "collection_group_find_by_group env groups_uuid = d1_query env (\<lambda>d.
     filter (\<lambda>x. cg_groups_uuid x = groups_uuid) (t_collections_groups d))"

definition collection_group_conflict ::
  "collection_group \<Rightarrow> collection_group \<Rightarrow> collection_group" where
  "collection_group_conflict old new = new"

definition collection_group_set :: "env \<Rightarrow> collection_group \<Rightarrow> unit db_result" where
  "collection_group_set env x = d1_exec env (\<lambda>d. Some (d\<lparr>t_collections_groups :=
     upsert collection_group_key collection_group_conflict x (t_collections_groups d)\<rparr>))"

definition collection_group_delete :: "env \<Rightarrow> collection_group \<Rightarrow> unit db_result" where
  "collection_group_delete env x = d1_exec env (\<lambda>d. Some (d\<lparr>t_collections_groups :=
     delete_where (\<lambda>y. collection_group_key y = collection_group_key x) (t_collections_groups d)\<rparr>))"

definition collection_group_delete_all_by_collection :: "env \<Rightarrow> string \<Rightarrow> unit db_result" where
  "collection_group_delete_all_by_collection env collections_uuid = d1_exec env (\<lambda>d.
     Some (d\<lparr>t_collections_groups :=
       delete_where (\<lambda>y. cg_collections_uuid y = collections_uuid) (t_collections_groups d)\<rparr>))"

section \<open>Invitations and API keys\<close>

definition invitation_new :: "env \<Rightarrow> string \<Rightarrow> unit db_result" where
  "invitation_new env email = d1_exec env (\<lambda>d.
     Some (d\<lparr>t_invitations := insert_ignore (\<lambda>x. x) email (t_invitations d)\<rparr>))"

definition invitation_find :: "env \<Rightarrow> string \<Rightarrow> string option db_result" where
  "invitation_find env email = d1_query env (\<lambda>d. find (\<lambda>x. x = email) (t_invitations d))"

definition invitation_take :: "env \<Rightarrow> string \<Rightarrow> bool db_result" where
  "invitation_take env email =
     try_ret (invitation_find env email) Inl (\<lambda>r.
       if r = None then return (Inr False)
       else try_ret (d1_exec env (\<lambda>d.
              Some (d\<lparr>t_invitations := delete_where (\<lambda>x. x = email) (t_invitations d)\<rparr>)))
            Inl (\<lambda>_. return (Inr True)))"

definition org_api_key_new :: "env \<Rightarrow> string \<Rightarrow> int \<Rightarrow> string \<Rightarrow> org_api_key act" where
  "org_api_key_new env org_uuid atype api_key = do {
     uuid \<leftarrow> new_uuid env;
     now \<leftarrow> now_iso env;
     return \<lparr>ok_uuid = uuid, ok_org_uuid = org_uuid, ok_atype = atype, ok_api_key = api_key,
       ok_revision_date = now\<rparr> }"

definition org_api_key_find_by_org :: "env \<Rightarrow> string \<Rightarrow> org_api_key list db_result" where
  "org_api_key_find_by_org env org_uuid = d1_query env (\<lambda>d.
     filter (\<lambda>x. ok_org_uuid x = org_uuid) (t_organization_api_key d))"

definition org_api_key_key :: "org_api_key \<Rightarrow> string \<times> string" where
  "org_api_key_key x = (ok_uuid x, ok_org_uuid x)"

definition org_api_key_conflict :: "org_api_key \<Rightarrow> org_api_key \<Rightarrow> org_api_key" where
  "org_api_key_conflict old new = new"

definition org_api_key_save :: "env \<Rightarrow> org_api_key \<Rightarrow> org_api_key db_result" where
  "org_api_key_save env x = do {
     now \<leftarrow> now_iso env;
     let x' = x\<lparr>ok_revision_date := now\<rparr>;
     try_ret (d1_exec env (\<lambda>d. Some (d\<lparr>t_organization_api_key :=
         upsert org_api_key_key org_api_key_conflict x' (t_organization_api_key d)\<rparr>)))
       Inl (\<lambda>_. return (Inr x')) }"

definition org_api_key_delete :: "env \<Rightarrow> org_api_key \<Rightarrow> unit db_result" where
  "org_api_key_delete env x = d1_exec env (\<lambda>d. Some (d\<lparr>t_organization_api_key :=
     delete_where (\<lambda>y. org_api_key_key y = org_api_key_key x) (t_organization_api_key d)\<rparr>))"

section \<open>The primary keys\<close>

interpretation kt_users_organizations: keyed_table me_uuid membership_conflict
  by unfold_locales (simp add: membership_conflict_def)

interpretation kt_organizations: keyed_table og_uuid organization_conflict
  by unfold_locales (simp add: organization_conflict_def)

interpretation kt_collections: keyed_table co_uuid collection_conflict
  by unfold_locales (simp add: collection_conflict_def)

interpretation kt_org_policies: keyed_table op_uuid org_policy_conflict
  by unfold_locales (simp add: org_policy_conflict_def)

interpretation kt_groups: keyed_table gr_uuid group_conflict
  by unfold_locales (simp add: group_conflict_def)

interpretation kt_collections_groups: keyed_table collection_group_key collection_group_conflict
  by unfold_locales (simp add: collection_group_conflict_def)

interpretation kt_organization_api_key: keyed_table org_api_key_key org_api_key_conflict
  by unfold_locales (simp add: org_api_key_conflict_def)

end
