(* ===== verification/Notify_Events.thy ===== *)
theory Notify_Events
  imports Models_Access Models_Org
begin

text \<open>
  \<open>worker/src/api/notify.rs\<close>, the messages to the clients of a user, of the confirmed members
  of an organization and of a waiting login request, and the best-effort audit log of
  \<open>worker/src/api/events.rs\<close>.
\<close>

section \<open>Notifications\<close>

datatype kind = SYNC_CIPHER_UPDATE | SYNC_CIPHER_CREATE | SYNC_LOGIN_DELETE | SYNC_FOLDER_DELETE
  | SYNC_CIPHERS | SYNC_VAULT | SYNC_ORG_KEYS | SYNC_FOLDER_CREATE | SYNC_FOLDER_UPDATE
  | SYNC_CIPHER_DELETE | SYNC_SETTINGS | LOG_OUT | SYNC_SEND_CREATE | SYNC_SEND_UPDATE
  | SYNC_SEND_DELETE

fun kind_code :: "kind \<Rightarrow> int" where
  "kind_code SYNC_CIPHER_UPDATE = 0"
| "kind_code SYNC_CIPHER_CREATE = 1"
| "kind_code SYNC_LOGIN_DELETE = 2"
| "kind_code SYNC_FOLDER_DELETE = 3"
| "kind_code SYNC_CIPHERS = 4"
| "kind_code SYNC_VAULT = 5"
| "kind_code SYNC_ORG_KEYS = 6"
| "kind_code SYNC_FOLDER_CREATE = 7"
| "kind_code SYNC_FOLDER_UPDATE = 8"
| "kind_code SYNC_CIPHER_DELETE = 9"
| "kind_code SYNC_SETTINGS = 10"
| "kind_code LOG_OUT = 11"
| "kind_code SYNC_SEND_CREATE = 12"
| "kind_code SYNC_SEND_UPDATE = 13"
| "kind_code SYNC_SEND_DELETE = 14"

definition notify_user :: "env \<Rightarrow> string \<Rightarrow> kind \<Rightarrow> string \<Rightarrow> unit act" where
  "notify_user env user_uuid k payload_id = do {
     now \<leftarrow> now_iso env;
     deliver env (NotifyUser user_uuid (JObj [
       (''Type'', JInt (kind_code k)),
       (''Payload'', JObj [(''Id'', JStr payload_id), (''UserId'', JStr user_uuid),
                           (''RevisionDate'', JStr now)]),
       (''ContextId'', JNull)])) }"

definition notify_org :: "env \<Rightarrow> string \<Rightarrow> kind \<Rightarrow> string \<Rightarrow> unit act" where
  "notify_org env org_uuid k payload_id =
     try_ret (membership_find_by_org env org_uuid) (\<lambda>_. ()) (\<lambda>members.
       for_each (filter (\<lambda>m. me_status m = 2) members)
         (\<lambda>m. notify_user env (me_user_uuid m) k payload_id))"

definition notify_anon :: "env \<Rightarrow> string \<Rightarrow> string \<Rightarrow> unit act" where
  "notify_anon env token payload_id = do {
     now \<leftarrow> now_iso env;
     deliver env (NotifyAnon token (JObj [
       (''Type'', JInt 16),
       (''Payload'', JObj [(''Id'', JStr payload_id), (''RevisionDate'', JStr now)]),
       (''ContextId'', JNull)])) }"

section \<open>The audit log\<close>

datatype event_type = USER_LOGGED_IN | USER_CHANGED_PASSWORD | USER_UPDATED_2FA
  | USER_DISABLED_2FA | USER_RECOVERED_2FA | USER_LOGGED_IN_FAILED | USER_LOGGED_IN_FAILED_2FA
  | USER_CLIENT_EXPORTED_VAULT | USER_REQUESTED_DEVICE_APPROVAL
  | CIPHER_CREATED | CIPHER_UPDATED | CIPHER_DELETED | CIPHER_ATTACHMENT_CREATED
  | CIPHER_ATTACHMENT_DELETED | CIPHER_SHARED | CIPHER_UPDATED_COLLECTIONS
  | CIPHER_SOFT_DELETED | CIPHER_RESTORED
  | COLLECTION_CREATED | COLLECTION_UPDATED | COLLECTION_DELETED
  | GROUP_CREATED | GROUP_UPDATED | GROUP_DELETED
  | ORG_USER_INVITED | ORG_USER_CONFIRMED | ORG_USER_UPDATED | ORG_USER_REMOVED
  | ORG_USER_UPDATED_GROUPS | ORG_USER_UNLINKED_SSO | ORG_USER_RESET_PASSWORD_ENROLL
  | ORG_USER_RESET_PASSWORD_WITHDRAW | ORG_USER_ADMIN_RESET_PASSWORD | ORG_USER_REVOKED
  | ORG_USER_RESTORED | ORG_USER_DELETED | ORG_USER_LEFT
  | ORG_UPDATED | ORG_PURGED_VAULT | ORG_CLIENT_EXPORTED_VAULT | POLICY_UPDATED

fun event_code :: "event_type \<Rightarrow> int" where
  "event_code USER_LOGGED_IN = 1000"
| "event_code USER_CHANGED_PASSWORD = 1001"
| "event_code USER_UPDATED_2FA = 1002"
| "event_code USER_DISABLED_2FA = 1003"
| "event_code USER_RECOVERED_2FA = 1004"
| "event_code USER_LOGGED_IN_FAILED = 1005"
| "event_code USER_LOGGED_IN_FAILED_2FA = 1006"
| "event_code USER_CLIENT_EXPORTED_VAULT = 1007"
| "event_code USER_REQUESTED_DEVICE_APPROVAL = 1010"
| "event_code CIPHER_CREATED = 1100"
| "event_code CIPHER_UPDATED = 1101"
| "event_code CIPHER_DELETED = 1102"
| "event_code CIPHER_ATTACHMENT_CREATED = 1103"
| "event_code CIPHER_ATTACHMENT_DELETED = 1104"
| "event_code CIPHER_SHARED = 1105"
| "event_code CIPHER_UPDATED_COLLECTIONS = 1106"
| "event_code CIPHER_SOFT_DELETED = 1115"
| "event_code CIPHER_RESTORED = 1116"
| "event_code COLLECTION_CREATED = 1300"
| "event_code COLLECTION_UPDATED = 1301"
| "event_code COLLECTION_DELETED = 1302"
| "event_code GROUP_CREATED = 1400"
| "event_code GROUP_UPDATED = 1401"
| "event_code GROUP_DELETED = 1402"
| "event_code ORG_USER_INVITED = 1500"
| "event_code ORG_USER_CONFIRMED = 1501"
| "event_code ORG_USER_UPDATED = 1502"
| "event_code ORG_USER_REMOVED = 1503"
| "event_code ORG_USER_UPDATED_GROUPS = 1504"
| "event_code ORG_USER_UNLINKED_SSO = 1505"
| "event_code ORG_USER_RESET_PASSWORD_ENROLL = 1506"
| "event_code ORG_USER_RESET_PASSWORD_WITHDRAW = 1507"
| "event_code ORG_USER_ADMIN_RESET_PASSWORD = 1508"
| "event_code ORG_USER_REVOKED = 1511"
| "event_code ORG_USER_RESTORED = 1512"
| "event_code ORG_USER_DELETED = 1515"
| "event_code ORG_USER_LEFT = 1516"
| "event_code ORG_UPDATED = 1600"
| "event_code ORG_PURGED_VAULT = 1601"
| "event_code ORG_CLIENT_EXPORTED_VAULT = 1602"
| "event_code POLICY_UPDATED = 1700"

definition log_user_event :: "env \<Rightarrow> event_type \<Rightarrow> string \<Rightarrow> int \<Rightarrow> unit act" where
  "log_user_event env ty user_uuid device_type = do {
     e \<leftarrow> event_new env (event_code ty);
     _ \<leftarrow> event_save env (e\<lparr>ev_user_uuid := Some user_uuid, ev_act_user_uuid := Some user_uuid,
            ev_device_type := Some device_type\<rparr>);
     return () }"

definition log_cipher_event ::
  "env \<Rightarrow> event_type \<Rightarrow> string \<Rightarrow> string \<Rightarrow> string option \<Rightarrow> int \<Rightarrow> unit act" where
  "log_cipher_event env ty cipher_uuid user_uuid org_uuid device_type = do {
     e \<leftarrow> event_new env (event_code ty);
     _ \<leftarrow> event_save env (e\<lparr>ev_cipher_uuid := Some cipher_uuid, ev_user_uuid := Some user_uuid,
            ev_act_user_uuid := Some user_uuid, ev_org_uuid := org_uuid,
            ev_device_type := Some device_type\<rparr>);
     return () }"

definition log_org_event ::
  "env \<Rightarrow> event_type \<Rightarrow> string \<Rightarrow> string \<Rightarrow> string option \<Rightarrow> int \<Rightarrow> unit act" where
  "log_org_event env ty org_uuid actor_uuid target_member device_type = do {
     e \<leftarrow> event_new env (event_code ty);
     _ \<leftarrow> event_save env (e\<lparr>ev_org_uuid := Some org_uuid, ev_act_user_uuid := Some actor_uuid,
            ev_org_user_uuid := target_member, ev_device_type := Some device_type\<rparr>);
     return () }"

section \<open>What they leave alone\<close>

text \<open>
  A predicate of the database that does not look at the event table is kept by the
  notifications and the audit log.
\<close>

definition ignores_events :: "(db \<Rightarrow> bool) \<Rightarrow> bool" where
  "ignores_events P \<longleftrightarrow> (\<forall>d es. P (d\<lparr>t_event := es\<rparr>) = P d)"

lemma preserves_notify [preserves_rules]:
  fixes P :: "db \<Rightarrow> bool"
  shows "preserves (\<lambda>s. P (w_db s)) (notify_user env u k p)"
    and "preserves (\<lambda>s. P (w_db s)) (notify_anon env u p)"
  unfolding notify_user_def notify_anon_def by (intro preserves_rules)+

lemma preserves_notify_org [preserves_rules]:
  fixes P :: "db \<Rightarrow> bool"
  shows "preserves (\<lambda>s. P (w_db s)) (notify_org env org_uuid k p)"
  unfolding notify_org_def membership_find_by_org_def by (intro preserves_rules)

lemma preserves_event_save:
  fixes P :: "db \<Rightarrow> bool"
  assumes "ignores_events P"
  shows "preserves (\<lambda>s. P (w_db s)) (event_save env e)"
  unfolding event_save_def
  by (rule preserves_d1_exec) (use assms in \<open>auto simp: ignores_events_def\<close>)

lemma preserves_log_events [preserves_rules]:
  fixes P :: "db \<Rightarrow> bool"
  assumes "ignores_events P"
  shows "preserves (\<lambda>s. P (w_db s)) (log_user_event env ty u dt)"
    and "preserves (\<lambda>s. P (w_db s)) (log_cipher_event env ty c u g dt)"
    and "preserves (\<lambda>s. P (w_db s)) (log_org_event env ty o' u tm dt)"
  unfolding log_user_event_def log_cipher_event_def log_org_event_def event_new_def
  by (intro preserves_rules preserves_event_save [OF assms])+

text \<open>The same as rules for weakest preconditions: what may follow one of these calls.\<close>

lemma wp_notify_userI:
  assumes "\<And>s'. w_db s' = w_db s \<Longrightarrow> w_r2_attachments s' = w_r2_attachments s \<Longrightarrow>
             w_r2_sends s' = w_r2_sends s \<Longrightarrow> w_kv s' = w_kv s \<Longrightarrow> Q () s'"
  shows "wp (notify_user env u k p) Q s"
  using assms by (simp add: notify_user_def wp_sources wp_deliver)

lemma wp_notify_anonI:
  assumes "\<And>s'. w_db s' = w_db s \<Longrightarrow> Q () s'"
  shows "wp (notify_anon env u p) Q s"
  using assms by (simp add: notify_anon_def wp_sources wp_deliver)

lemma wp_notify_orgI:
  assumes "\<And>s'. w_db s' = w_db s \<Longrightarrow> w_r2_attachments s' = w_r2_attachments s \<Longrightarrow>
             w_r2_sends s' = w_r2_sends s \<Longrightarrow> w_kv s' = w_kv s \<Longrightarrow> Q () s'"
  shows "wp (notify_org env org_uuid k p) Q s"
proof -
  let ?I = "\<lambda>s'. w_db s' = w_db s \<and> w_r2_attachments s' = w_r2_attachments s \<and>
      w_r2_sends s' = w_r2_sends s \<and> w_kv s' = w_kv s"
  have "wp (for_each ms (\<lambda>m. notify_user env (me_user_uuid m) k p)) (\<lambda>_. ?I) s'" if "?I s'"
    for ms :: "membership list" and s'
    using that by (intro wp_for_each_invariant wp_notify_userI) auto
  then have "wp (notify_org env org_uuid k p) (\<lambda>_. ?I) s"
    unfolding notify_org_def membership_find_by_org_def by (auto simp: wp_rules)
  then show ?thesis
    using assms by (auto intro: wp_mono)
qed

lemma wp_log_eventI:
  assumes "\<And>s' es. w_db s' = (w_db s)\<lparr>t_event := es\<rparr> \<Longrightarrow> w_r2_attachments s' = w_r2_attachments s \<Longrightarrow>
             w_r2_sends s' = w_r2_sends s \<Longrightarrow> w_kv s' = w_kv s \<Longrightarrow> Q () s'"
  shows "wp (log_user_event env ty u dt) Q s"
    and "wp (log_cipher_event env ty c u g dt) Q s"
    and "wp (log_org_event env ty o' u tm dt) Q s"
proof -
  have same: "Q () s'" if "w_db s' = w_db s" "w_r2_attachments s' = w_r2_attachments s"
    "w_r2_sends s' = w_r2_sends s" "w_kv s' = w_kv s" for s'
    using that by (intro assms [of s' "t_event (w_db s)"]) simp_all
  have save: "wp (event_save env e) (\<lambda>_. Q ()) s'" if "w_db s' = w_db s"
    "w_r2_attachments s' = w_r2_attachments s" "w_r2_sends s' = w_r2_sends s" "w_kv s' = w_kv s"
    for e s'
  proof -
    have "Q () (bump (s'\<lparr>w_db := (w_db s)\<lparr>t_event := es\<rparr>\<rparr>))" for es
      by (rule assms [where es = es]) (use that in simp_all)
    moreover have "Q () (bump s')"
      by (rule same) (use that in simp_all)
    ultimately show ?thesis
      using that by (simp add: event_save_def wp_d1_exec)
  qed
  show "wp (log_user_event env ty u dt) Q s"
    by (simp add: log_user_event_def event_new_def wp_sources save)
  show "wp (log_cipher_event env ty c u g dt) Q s"
    by (simp add: log_cipher_event_def event_new_def wp_sources save)
  show "wp (log_org_event env ty o' u tm dt) Q s"
    by (simp add: log_org_event_def event_new_def wp_sources save)
qed

lemmas wp_effectI = wp_notify_userI wp_notify_anonI wp_notify_orgI wp_log_eventI

text \<open>Only confirmed members of the organization are told.\<close>

lemma wp_notify_user_out:
  "wp (notify_user env u k p) (\<lambda>_ s'. w_db s' = w_db s \<and>
     (\<exists>es. w_out s' = w_out s @ es \<and> (\<forall>e\<in>set es. \<exists>j. e = NotifyUser u j))) s"
  by (auto simp: notify_user_def wp_sources wp_deliver)

end
