(* ===== verification/Guards.thy ===== *)
theory Guards
  imports Auth Notify_Events
begin

text \<open>
  The contract between a handler and the function that loads the row it works on.  Folders,
  ciphers, sends, emergency accesses and login requests each have such a loader; the handlers
  start with it and return its error.  What follows from the contract is proved once.
\<close>

section \<open>Loaders\<close>

locale guarded_loader =
  fixes load :: "env \<Rightarrow> headers \<Rightarrow> string \<Rightarrow> (world, response + 'r) state"
    and rows :: "db \<Rightarrow> 'r list"
    and key :: "'r \<Rightarrow> string"
    and allowed :: "db \<Rightarrow> headers \<Rightarrow> 'r \<Rightarrow> bool"
  assumes load_reads:
    "reads w_db (load env h uuid) (\<lambda>r s. case r of
       Inl resp \<Rightarrow> resp_status resp \<ge> 400
     | Inr x \<Rightarrow> x \<in> set (rows (w_db s)) \<and> key x = uuid \<and> allowed (w_db s) h x)"
begin

text \<open>A handler behind the loader: its error is the answer, its row starts the rest.\<close>

lemma wp_guarded:
  assumes "\<And>resp s'. w_db s' = w_db s \<Longrightarrow> resp_status resp \<ge> 400 \<Longrightarrow> Q resp s'"
    and "\<And>x s'. w_db s' = w_db s \<Longrightarrow> x \<in> set (rows (w_db s)) \<Longrightarrow> key x = uuid \<Longrightarrow>
           allowed (w_db s) h x \<Longrightarrow> wp (k x) Q s'"
  shows "wp (try_ret (load env h uuid) (\<lambda>e. e) k) Q s"
  using assms
  by (auto intro!: wp_reads [OF load_reads] split: sum.splits)

lemma denied:
  assumes "\<And>x. x \<in> set (rows (w_db s)) \<Longrightarrow> key x = uuid \<Longrightarrow> \<not> allowed (w_db s) h x"
  shows "wp (try_ret (load env h uuid) (\<lambda>e. e) k)
           (\<lambda>resp s'. resp_status resp \<ge> 400 \<and> w_db s' = w_db s) s"
  using assms by (intro wp_guarded) auto

lemma preserves_load [preserves_rules]:
  fixes P :: "db \<Rightarrow> bool"
  shows "preserves (\<lambda>s. P (w_db s)) (load env h uuid)"
  by (auto intro!: preservesI wp_reads [OF load_reads])

end

text \<open>The id of the user a request is authenticated as.\<close>

abbreviation uid :: "headers \<Rightarrow> string" where
  "uid h \<equiv> us_uuid (hd_user h)"

abbreviation dev_type :: "headers \<Rightarrow> int" where
  "dev_type h \<equiv> de_atype (hd_device h)"

end
