(* ===== verification/Sample_Data.thy ===== *)
theory Sample_Data
  imports Guards
begin

text \<open>
  A small server to evaluate the handlers on: two users with a device each, an organization
  that the first user owns, and an environment in which no call is refused.  The witnesses of
  the theorems run on variations of it.
\<close>

definition sample_env :: env where
  "sample_env = \<lparr>e_fault = (\<lambda>_. False), e_fk = False, e_now = (\<lambda>_. ''2026-01-02T03:04:05Z''),
     e_unix = (\<lambda>n. 1000 + n), e_uuid = (\<lambda>n. CHR ''n'' # nat_to_string n),
     e_random = (\<lambda>n k. replicate k 7), e_rows_written = (\<lambda>_. None),
     e_pbkdf2 = (\<lambda>pw salt iter. salt @ pw), e_json_print = (\<lambda>_. ''{}''),
     e_json_parse = (\<lambda>_. Some (JObj [])), e_jwt_encode = (\<lambda>_. Inr ''token''),
     e_jwt_decode = (\<lambda>_ _ _. Inl ''bad''), e_serde_error = (\<lambda>_. ''bad claims''),
     e_sql_datetime = (\<lambda>_ _. None), e_rfc3339 = (\<lambda>_. None),
     e_rfc3339_micros = (\<lambda>_. None), e_micros = (\<lambda>n. 1000 * int n),
     e_ago = (\<lambda>_ _. ''2025-12-01T03:04:05Z''), e_sql_now = (\<lambda>_. ''2026-01-02 03:04:05''),
     e_totp = (\<lambda>_ t. nat_to_string (t div 30)),
     e_hmac_sha1 = (\<lambda>k m. k @ m), e_base32_encode = map (\<lambda>b. char_of (unat b)),
     e_base32_decode = (\<lambda>s. Some (map of_char s)),
     e_base64_encode = map (\<lambda>b. char_of (unat b)), e_base64_decode = (\<lambda>s. Inr (map of_char s)),
     e_base64url_encode = map (\<lambda>b. char_of (unat b)), e_http_get = (\<lambda>_ _. Inl ''offline''),
     e_render = (\<lambda>_ _. None),
     e_login_issuer = ''https://vault|login'',
     e_mail_log = True, e_mail_from = (''vault@example.org'', ''Vault''), e_vars = (\<lambda>_. None),
     e_kv_lag = (\<lambda>_. 0), e_binding = (\<lambda>_. True)\<rparr>"

text \<open>The same server with foreign keys enforced.\<close>

definition sample_env_fk :: env where
  "sample_env_fk = sample_env\<lparr>e_fk := True\<rparr>"

definition sample_user :: "string \<Rightarrow> user" where
  "sample_user u = \<lparr>us_uuid = u, us_enabled = 1, us_created_at = ''2026'', us_updated_at = ''2026'',
     us_verified_at = None, us_last_verifying_at = None, us_login_verify_count = 0,
     us_email = u @ ''@example.org'', us_email_new = None, us_email_new_token = None, us_name = u,
     us_password_iterations = 600000, us_password_hint = None, us_akey = ''key'',
     us_private_key = None, us_public_key = None, us_totp_secret = None, us_totp_recover = None,
     us_security_stamp = ''stamp'', us_stamp_exception = None, us_equivalent_domains = ''[]'',
     us_excluded_globals = ''[]'', us_client_kdf_type = 0, us_client_kdf_iter = 600000,
     us_client_kdf_memory = None, us_client_kdf_parallelism = None, us_api_key = None,
     us_avatar_color = None, us_external_id = None, us_password_hash = [1], us_salt = [2]\<rparr>"

definition sample_device :: "string \<Rightarrow> device" where
  "sample_device u = \<lparr>de_uuid = ''dev'', de_created_at = ''2026'', de_updated_at = ''2026'',
     de_user_uuid = u, de_name = ''web'', de_atype = 9, de_push_token = None,
     de_refresh_token = ''refresh'', de_twofactor_remember = None, de_push_uuid = None\<rparr>"

definition sample_claims :: "string \<Rightarrow> login_claims" where
  "sample_claims u = \<lparr>lc_nbf = 0, lc_exp = 7200, lc_iss = ''https://vault|login'', lc_sub = u,
     lc_premium = True, lc_name = u, lc_email = u @ ''@example.org'', lc_email_verified = True,
     lc_sstamp = ''stamp'', lc_device = ''dev'', lc_devicetype = ''9'', lc_client_id = ''web'',
     lc_scope = [''api''], lc_amr = [''Application'']\<rparr>"

definition sample_headers :: "string \<Rightarrow> headers" where
  "sample_headers u = \<lparr>hd_user = sample_user u, hd_device = sample_device u,
     hd_claims = sample_claims u\<rparr>"

definition sample_folder :: "string \<Rightarrow> string \<Rightarrow> folder" where
  "sample_folder f u = \<lparr>fo_uuid = f, fo_created_at = ''2026'', fo_updated_at = ''2026'',
     fo_user_uuid = u, fo_name = ''mine''\<rparr>"

definition sample_cipher :: "string \<Rightarrow> string option \<Rightarrow> string option \<Rightarrow> cipher" where
  "sample_cipher c u g = \<lparr>ci_uuid = c, ci_created_at = ''2026'', ci_updated_at = ''2026'',
     ci_user_uuid = u, ci_organization_uuid = g, ci_key = None, ci_atype = 1, ci_name = ''n'',
     ci_notes = None, ci_fields = None, ci_data = ''{}'', ci_password_history = None,
     ci_deleted_at = None, ci_reprompt = None\<rparr>"

definition sample_membership :: "string \<Rightarrow> string \<Rightarrow> string \<Rightarrow> int \<Rightarrow> int \<Rightarrow> membership" where
  "sample_membership m u g atype st = \<lparr>me_uuid = m, me_user_uuid = u, me_org_uuid = g,
     me_access_all = 0, me_akey = ''k'', me_status = st, me_atype = atype,
     me_reset_password_key = None, me_external_id = None, me_invited_by_email = None\<rparr>"

definition sample_organization :: "string \<Rightarrow> organization" where
  "sample_organization g = \<lparr>og_uuid = g, og_name = ''team'', og_billing_email = ''b@example.org'',
     og_private_key = None, og_public_key = None\<rparr>"

text \<open>
  Alice owns the folder \<open>fa\<close> with the item \<open>ca\<close> in it and the organization \<open>org\<close>; Bob owns the folder
  \<open>fb\<close> and the item \<open>cb\<close>; the item \<open>co\<close> is the organization's.
\<close>

definition sample_db :: db where
  "sample_db = empty_db\<lparr>
     t_users := [sample_user ''alice'', sample_user ''bob''],
     t_devices := [sample_device ''alice'', sample_device ''bob''],
     t_folders := [sample_folder ''fa'' ''alice'', sample_folder ''fb'' ''bob''],
     t_ciphers := [sample_cipher ''ca'' (Some ''alice'') None,
       sample_cipher ''cb'' (Some ''bob'') None, sample_cipher ''co'' None (Some ''org'')],
     t_folders_ciphers := [(''ca'', ''fa'')],
     t_organizations := [sample_organization ''org''],
     t_users_organizations := [sample_membership ''ma'' ''alice'' ''org'' 0 2]\<rparr>"

definition sample_world :: "db \<Rightarrow> world" where
  "sample_world d = \<lparr>w_db = d, w_tick = 0, w_out = [], w_r2_attachments = [], w_r2_sends = [],
     w_kv = [], w_config = []\<rparr>"

lemmas sample_defs = sample_env_def sample_env_fk_def sample_user_def sample_device_def
  sample_claims_def sample_headers_def sample_folder_def sample_cipher_def sample_membership_def
  sample_organization_def sample_db_def sample_world_def empty_db_def

text \<open>
  To run a handler on the sample data, rewrite with the rules of the program logic, the
  definition of the handler and these facts.
\<close>

lemmas eval_simps = wp_rules sample_defs Let_def bump_def opt_is_def kv_seen_def
  notify_user_def notify_org_def notify_anon_def log_user_event_def log_cipher_event_def
  log_org_event_def event_new_def event_save_def upsert_def update_where_def delete_where_def

lemma wp_run: "wp m Q s \<Longrightarrow> Q (fst (run_state m s)) (snd (run_state m s))"
  by (simp add: wp_def split_beta)

end
