(* ===== verification/Folders.thy ===== *)
theory Folders
  imports Sample_Data
begin

text \<open>
  \<open>worker/src/api/folders.rs\<close>: the folders of a user.  A folder can be read, renamed and
  deleted by its owner only; every other caller gets an error and changes nothing.
\<close>

definition folder_to_json :: "folder \<Rightarrow> json" where
  "folder_to_json f = JObj [(''Object'', JStr ''folder''), (''Id'', JStr (fo_uuid f)),
     (''Name'', JStr (fo_name f)), (''RevisionDate'', JStr (fo_updated_at f))]"

record folder_data = fd_name :: string

definition folder_load_owned :: "env \<Rightarrow> headers \<Rightarrow> string \<Rightarrow> (world, response + folder) state" where
  "folder_load_owned env h uuid =
     try_ret (folder_find_by_uuid env uuid) (\<lambda>_. Inl (err_json 500 ''database error'')) (\<lambda>r.
       case r of
         None \<Rightarrow> return (Inl (err_json 404 ''Folder not found''))
       | Some f \<Rightarrow>
           if fo_user_uuid f \<noteq> uid h then return (Inl (err_json 404 ''Folder not found''))
           else return (Inr f))"

definition list_folders :: "env \<Rightarrow> headers \<Rightarrow> response act" where
  "list_folders env h =
     try_ret (folder_find_by_user env (uid h)) (\<lambda>_. err_json 500 ''database error'') (\<lambda>folders.
       return (json_response 200 (JObj [(''Object'', JStr ''list''),
         (''Data'', JArr (map folder_to_json folders)), (''ContinuationToken'', JNull)])))"

definition post_folder :: "env \<Rightarrow> headers \<Rightarrow> folder_data \<Rightarrow> response act" where
  "post_folder env h body = do {
     folder \<leftarrow> folder_new env (uid h) (fd_name body);
     try_ret (folder_save env folder) (\<lambda>_. err_json 500 ''failed to save folder'') (\<lambda>folder. do {
       _ \<leftarrow> notify_user env (uid h) SYNC_FOLDER_CREATE (fo_uuid folder);
       return (json_response 200 (folder_to_json folder)) }) }"

definition get_folder :: "env \<Rightarrow> headers \<Rightarrow> string \<Rightarrow> response act" where
  "get_folder env h uuid =
     try_ret (folder_load_owned env h uuid) (\<lambda>e. e) (\<lambda>folder.
       return (json_response 200 (folder_to_json folder)))"

definition put_folder :: "env \<Rightarrow> headers \<Rightarrow> string \<Rightarrow> folder_data \<Rightarrow> response act" where
  "put_folder env h uuid body =
     try_ret (folder_load_owned env h uuid) (\<lambda>e. e) (\<lambda>folder.
       try_ret (folder_save env (folder\<lparr>fo_name := fd_name body\<rparr>))
         (\<lambda>_. err_json 500 ''failed to save folder'') (\<lambda>folder. do {
         _ \<leftarrow> notify_user env (uid h) SYNC_FOLDER_UPDATE (fo_uuid folder);
         return (json_response 200 (folder_to_json folder)) }))"

definition delete_folder :: "env \<Rightarrow> headers \<Rightarrow> string \<Rightarrow> response act" where
  "delete_folder env h uuid =
     try_ret (folder_load_owned env h uuid) (\<lambda>e. e) (\<lambda>folder.
       try_ret (folder_delete env folder) (\<lambda>_. err_json 500 ''failed to delete folder'') (\<lambda>_. do {
         _ \<leftarrow> notify_user env (uid h) SYNC_FOLDER_DELETE (fo_uuid folder);
         return (json_response 200 (JObj [])) }))"

section \<open>Lemmas\<close>

interpretation folder_loader: guarded_loader folder_load_owned t_folders fo_uuid
  "\<lambda>d h f. fo_user_uuid f = uid h"
  by unfold_locales
    (auto simp: folder_load_owned_def folder_find_by_uuid_def wp_rules
       intro!: readsI split: option.splits dest: find_SomeD)

lemma wp_folder_save:
  "wp (folder_save env f) Q s =
     (let now = e_now env (w_tick s); f' = f\<lparr>fo_updated_at := now\<rparr>;
          d = (w_db s)\<lparr>t_folders := upsert fo_uuid folder_conflict f' (t_folders (w_db s))\<rparr> in
      if e_fault env (Suc (w_tick s)) \<or> e_fk env \<and> \<not> fk_ok d then Q (Inl D1Error) (bump (bump s))
      else Q (Inr f') (bump ((bump s)\<lparr>w_db := d\<rparr>)))"
  by (simp add: folder_save_def wp_rules Let_def)

lemma folder_upsert_rename:
  assumes "distinct (map fo_uuid t)" "f \<in> set t"
  shows "upsert fo_uuid folder_conflict (f\<lparr>fo_name := n, fo_updated_at := now\<rparr>) t =
         update_where (\<lambda>x. fo_uuid x = fo_uuid f) (\<lambda>x. x\<lparr>fo_name := n, fo_updated_at := now\<rparr>) t"
proof -
  have "folder_conflict x (x\<lparr>fo_name := n, fo_updated_at := now\<rparr>) =
        x\<lparr>fo_name := n, fo_updated_at := now\<rparr>" for x
    by (cases x) (simp add: folder_conflict_def)
  then show ?thesis
    using kt_folders.upsert_existing [OF assms, of "\<lambda>x. x\<lparr>fo_name := n, fo_updated_at := now\<rparr>"]
    by simp
qed

section \<open>Properties\<close>

text \<open>
  Folders are private: when no folder of the caller has the id, reading, renaming and deleting
  by that id answer with an error status and leave the database as it was.
\<close>

theorem folder_requests_of_others_denied:
  assumes "\<forall>f\<in>set (t_folders (w_db s)). fo_uuid f = uuid \<longrightarrow> fo_user_uuid f \<noteq> uid h"
    and "m \<in> {get_folder env h uuid, put_folder env h uuid body, delete_folder env h uuid}"
    and "run_state m s = (resp, s')"
  shows "resp_status resp \<ge> 400 \<and> w_db s' = w_db s"
proof -
  have "wp m (\<lambda>resp s'. resp_status resp \<ge> 400 \<and> w_db s' = w_db s) s"
    using assms(1,2)
    by (auto simp: get_folder_def put_folder_def delete_folder_def intro!: folder_loader.denied)
  then show ?thesis
    using assms(3) by (rule wpD)
qed

theorem folder_requests_of_others_denied_witness:
  "400 \<le> resp_status (fst (run_state
     (get_folder sample_env (sample_headers ''bob'') ''fa'') (sample_world sample_db)))"
proof -
  have "\<forall>f\<in>set (t_folders (w_db (sample_world sample_db))). fo_uuid f = ''fa'' \<longrightarrow> fo_user_uuid f \<noteq> uid (sample_headers ''bob'')"
    by code_simp
  from folder_requests_of_others_denied [OF this, of "get_folder sample_env (sample_headers ''bob'') ''fa''" sample_env]
  show ?thesis by (simp add: prod_eq_iff)
qed

text \<open>
  A successful rename changes the name and the revision date of that one folder, which
  belongs to the caller, and nothing else in the database.
\<close>

theorem put_folder_effect:
  assumes "distinct (map fo_uuid (t_folders (w_db s)))"
    and "run_state (put_folder env h uuid body) s = (resp, s')"
    and "resp_status resp = 200"
  shows "\<exists>now. w_db s' = (w_db s)\<lparr>t_folders :=
           update_where (\<lambda>f. fo_uuid f = uuid)
             (\<lambda>f. f\<lparr>fo_name := fd_name body, fo_updated_at := now\<rparr>) (t_folders (w_db s))\<rparr> \<and>
         (\<exists>f\<in>set (t_folders (w_db s)). fo_uuid f = uuid \<and> fo_user_uuid f = uid h)"
proof -
  have "wp (put_folder env h uuid body) (\<lambda>resp s'. resp_status resp = 200 \<longrightarrow>
      (\<exists>now. w_db s' = (w_db s)\<lparr>t_folders :=
           update_where (\<lambda>f. fo_uuid f = uuid)
             (\<lambda>f. f\<lparr>fo_name := fd_name body, fo_updated_at := now\<rparr>) (t_folders (w_db s))\<rparr> \<and>
         (\<exists>f\<in>set (t_folders (w_db s)). fo_uuid f = uuid \<and> fo_user_uuid f = uid h))) s"
    unfolding put_folder_def
    by (rule folder_loader.wp_guarded)
       (auto simp: wp_folder_save Let_def folder_upsert_rename [OF assms(1)] intro!: wp_notify_userI)
  then show ?thesis
    using assms(2,3) by (auto dest: wpD)
qed

theorem put_folder_effect_witness:
  "\<exists>now. w_db (snd (run_state (put_folder sample_env (sample_headers ''alice'') ''fa'' \<lparr>fd_name = ''x''\<rparr>) (sample_world sample_db))) =
     sample_db\<lparr>t_folders := update_where (\<lambda>f. fo_uuid f = ''fa'')
             (\<lambda>f. f\<lparr>fo_name := ''x'', fo_updated_at := now\<rparr>) (t_folders sample_db)\<rparr>"
proof -
  let ?r = "run_state (put_folder sample_env (sample_headers ''alice'') ''fa'' \<lparr>fd_name = ''x''\<rparr>) (sample_world sample_db)"
  have "distinct (map fo_uuid (t_folders (w_db (sample_world sample_db))))" by code_simp
  moreover have "resp_status (fst ?r) = 200" by code_simp
  ultimately show ?thesis
    using put_folder_effect [OF _ surjective_pairing] by (fastforce simp: sample_world_def)
qed

text \<open>
  With foreign keys enforced, as D1 does by default, a folder that holds an item cannot be
  deleted: the handler does not remove the links first, so the DELETE is refused and the
  caller gets an error.
\<close>

theorem delete_folder_with_items_refused:
  assumes "e_fk env" and "(c, uuid) \<in> set (t_folders_ciphers (w_db s))"
    and "run_state (delete_folder env h uuid) s = (resp, s')"
  shows "resp_status resp \<ge> 400 \<and> w_db s' = w_db s"
proof -
  have "\<not> fk_ok ((w_db s)\<lparr>t_folders := delete_where (\<lambda>x. fo_uuid x = uuid) (t_folders (w_db s))\<rparr>)"
    using assms(2) by (force simp: fk_ok_def fk_ciphers_def refers_def)
  then have "wp (delete_folder env h uuid) (\<lambda>resp s'. resp_status resp \<ge> 400 \<and> w_db s' = w_db s) s"
    unfolding delete_folder_def
    by (intro folder_loader.wp_guarded) (auto simp: folder_delete_def wp_rules assms(1))
  then show ?thesis
    using assms(3) by (rule wpD)
qed

theorem delete_folder_with_items_refused_witness:
  "400 \<le> resp_status (fst (run_state
     (delete_folder sample_env_fk (sample_headers ''alice'') ''fa'') (sample_world sample_db)))"
proof -
  have "e_fk sample_env_fk" "(''ca'', ''fa'') \<in> set (t_folders_ciphers (w_db (sample_world sample_db)))"
    by code_simp+
  from delete_folder_with_items_refused [OF this surjective_pairing] show ?thesis by blast
qed

end
