(* ===== verification/Cipher_Json.thy ===== *)
theory Cipher_Json
  imports Sample_Data
begin

text \<open>
  The wire format of vault items: the body of a create or update request, the text stored in
  the \<open>data\<close> column, and the JSON object a client gets back
  (\<open>worker/src/api/ciphers.rs\<close>, \<open>worker/src/api/attachments.rs\<close>).
\<close>

section \<open>Sizes\<close>

text \<open>
  \<open>format!("{:.p}", n / d)\<close> for a quotient that is exact in \<open>f64\<close> (the divisors are powers of
  two): the decimal expansion is rounded to \<open>p\<close> digits, half to even.
\<close>

definition round_half_even :: "nat \<Rightarrow> nat \<Rightarrow> nat" where
  "round_half_even num den =
     (let q = num div den; r = num mod den in
      if 2 * r < den then q else if 2 * r > den then Suc q else if even q then q else Suc q)"

definition pad_left :: "nat \<Rightarrow> string \<Rightarrow> string" where
  "pad_left n s = replicate (n - length s) (CHR ''0'') @ s"

definition format_fixed :: "nat \<Rightarrow> nat \<Rightarrow> nat \<Rightarrow> string" where
  "format_fixed p num den =
     (let q = round_half_even (num * 10 ^ p) den in
      nat_to_string (q div 10 ^ p) @ ''.'' @ pad_left p (nat_to_string (q mod 10 ^ p)))"

definition format_size :: "int \<Rightarrow> string" where
  "format_size bytes =
     (if bytes < 1024 then int_to_string bytes @ '' Bytes''
      else if bytes < 1024 * 1024 then format_fixed 1 (nat bytes) 1024 @ '' KB''
      else if bytes < 1024 * 1024 * 1024 then format_fixed 1 (nat bytes) (1024 * 1024) @ '' MB''
      else format_fixed 2 (nat bytes) (1024 * 1024 * 1024) @ '' GB'')"

section \<open>Attachments\<close>

definition r2_key :: "string \<Rightarrow> string \<Rightarrow> string" where
  "r2_key cipher_id attachment_id = cipher_id @ ''/'' @ attachment_id"

definition env_var_or_empty :: "env \<Rightarrow> string \<Rightarrow> string" where
  "env_var_or_empty env name = (case e_vars env name of None \<Rightarrow> [] | Some v \<Rightarrow> v)"

definition attachment_json :: "env \<Rightarrow> attachment \<Rightarrow> json" where
  "attachment_json env a =
     (let host = env_var_or_empty env ''DOMAIN'';
          url = host @ ''/api/ciphers/'' @ at_cipher_uuid a @ ''/attachment/'' @ at_id a @ ''/file''
      in JObj [(''Object'', JStr ''attachment''), (''Id'', JStr (at_id a)), (''Url'', JStr url),
           (''FileName'', JStr (at_file_name a)), (''Key'', jopt (at_akey a)),
           (''Size'', JStr (int_to_string (at_file_size a))),
           (''SizeName'', JStr (format_size (at_file_size a)))])"

section \<open>Items\<close>

record cipher_data =
  cd_folder_id :: "string option"
  cd_organization_id :: "string option"
  cd_collection_ids :: "string list option"
  cd_key :: "string option"
  cd_atype :: int
  cd_name :: string
  cd_notes :: "string option"
  cd_fields :: "json option"
  cd_login :: "json option"
  cd_secure_note :: "json option"
  cd_card :: "json option"
  cd_identity :: "json option"
  cd_ssh_key :: "json option"
  cd_favorite :: "bool option"
  cd_reprompt :: "int option"
  cd_password_history :: "json option"

definition or_null :: "json option \<Rightarrow> json" where
  "or_null v = (case v of None \<Rightarrow> JNull | Some j \<Rightarrow> j)"

definition data_text_for :: "env \<Rightarrow> cipher_data \<Rightarrow> string" where
  "data_text_for env d =
     (let v = (if cd_atype d = 1 then or_null (cd_login d)
               else if cd_atype d = 2 then or_null (cd_secure_note d)
               else if cd_atype d = 3 then or_null (cd_card d)
               else if cd_atype d = 4 then or_null (cd_identity d)
               else if cd_atype d = 5 then or_null (cd_ssh_key d)
               else JNull)
      in e_json_print env v)"

definition parse_json_or_null :: "env \<Rightarrow> string option \<Rightarrow> json" where
  "parse_json_or_null env s =
     (case s of None \<Rightarrow> JNull
      | Some t \<Rightarrow> (case e_json_parse env t of None \<Rightarrow> JNull | Some v \<Rightarrow> v))"

definition cipher_to_json_inner ::
  "env \<Rightarrow> cipher \<Rightarrow> bool \<Rightarrow> string list \<Rightarrow> string option \<Rightarrow> json \<Rightarrow> json" where
  "cipher_to_json_inner env c favorite collection_ids folder_id attachments =
     (let data = parse_json_or_null env (Some (ci_data c));
          fields = parse_json_or_null env (ci_fields c);
          password_history = parse_json_or_null env (ci_password_history c);
          typed = (\<lambda>n. if ci_atype c = n then data else JNull)
      in JObj [
        (''Object'', JStr ''cipherDetails''),
        (''Id'', JStr (ci_uuid c)),
        (''Type'', JInt (ci_atype c)),
        (''Name'', JStr (ci_name c)),
        (''Notes'', jopt (ci_notes c)),
        (''Fields'', fields),
        (''Login'', typed 1),
        (''SecureNote'', typed 2),
        (''Card'', typed 3),
        (''Identity'', typed 4),
        (''SshKey'', typed 5),
        (''Key'', jopt (ci_key c)),
        (''FolderId'', jopt folder_id),
        (''OrganizationId'', jopt (ci_organization_uuid c)),
        (''OrganizationUseTotp'', JBool (ci_organization_uuid c \<noteq> None)),
        (''Favorite'', JBool favorite),
        (''Reprompt'', JInt (case ci_reprompt c of None \<Rightarrow> 0 | Some r \<Rightarrow> r)),
        (''Edit'', JBool True),
        (''ViewPassword'', JBool True),
        (''Attachments'', attachments),
        (''PasswordHistory'', password_history),
        (''CollectionIds'', JArr (map JStr collection_ids)),
        (''RevisionDate'', JStr (ci_updated_at c)),
        (''CreationDate'', JStr (ci_created_at c)),
        (''DeletedDate'', jopt (ci_deleted_at c))])"

definition cipher_to_json_full ::
  "env \<Rightarrow> cipher \<Rightarrow> bool \<Rightarrow> string list \<Rightarrow> string option \<Rightarrow> json" where
  "cipher_to_json_full env c favorite collection_ids folder_id =
     cipher_to_json_inner env c favorite collection_ids folder_id JNull"

definition cipher_to_json :: "env \<Rightarrow> cipher \<Rightarrow> bool \<Rightarrow> json" where
  "cipher_to_json env c favorite = cipher_to_json_full env c favorite [] None"

definition cipher_to_json_with_folder ::
  "env \<Rightarrow> cipher \<Rightarrow> bool \<Rightarrow> string list \<Rightarrow> string option \<Rightarrow> json" where
  "cipher_to_json_with_folder env c favorite collection_ids folder_id =
     cipher_to_json_full env c favorite collection_ids folder_id"

definition cipher_to_json_with_attachments ::
  "env \<Rightarrow> cipher \<Rightarrow> bool \<Rightarrow> string list \<Rightarrow> string option \<Rightarrow> json act" where
  "cipher_to_json_with_attachments env c favorite collection_ids folder_id = do {
     rows \<leftarrow> attachment_find_by_cipher env (ci_uuid c);
     let attachments_value = (case rows of
           Inl _ \<Rightarrow> JNull
         | Inr as \<Rightarrow> if as = [] then JNull else JArr (map (attachment_json env) as));
     return (cipher_to_json_inner env c favorite collection_ids folder_id attachments_value) }"

end
