(* ===== verification/Ciphers.thy ===== *)
theory Ciphers
  imports Cipher_Json
begin

text \<open>
  \<open>worker/src/api/ciphers.rs\<close>, the handlers for one vault item: who may touch it
  (\<open>load_owned_cipher\<close>), its folder for one user, create, read, update, trash, restore,
  delete, share with an organization, set its collections, archive.
\<close>

section \<open>Folder links\<close>

definition folder_for_user_cipher :: "env \<Rightarrow> string \<Rightarrow> string \<Rightarrow> string option act" where
  "folder_for_user_cipher env user_uuid cipher_uuid =
     try_ret (folder_cipher_list_by_cipher env cipher_uuid) (\<lambda>_. None) (\<lambda>folder_ids.
       if folder_ids = [] then return None
       else try_ret (folder_find_by_user env user_uuid) (\<lambda>_. None) (\<lambda>user_folders.
         return (find (\<lambda>i. i \<in> fo_uuid ` set user_folders) folder_ids)))"

text \<open>Both lists are read before they are looked at, then the caller's own links are removed.\<close>

definition set_cipher_folder :: "env \<Rightarrow> string \<Rightarrow> string \<Rightarrow> string option \<Rightarrow> unit act" where
  "set_cipher_folder env user_uuid cipher_uuid folder_id = do {
     r1 \<leftarrow> folder_cipher_list_by_cipher env cipher_uuid;
     r2 \<leftarrow> folder_find_by_user env user_uuid;
     _ \<leftarrow> (case (r1, r2) of
         (Inr existing, Inr user_folders) \<Rightarrow>
           for_each (filter (\<lambda>i. i \<in> fo_uuid ` set user_folders) existing)
             (\<lambda>fid. ignore (folder_cipher_unset env cipher_uuid fid))
       | _ \<Rightarrow> return ());
     if_some (non_empty folder_id) (\<lambda>fid. ignore (folder_cipher_set env cipher_uuid fid)) }"

section \<open>Shared steps\<close>

text \<open>The collections of an item, which only an item of an organization has.\<close>

definition cipher_coll_ids :: "env \<Rightarrow> cipher \<Rightarrow> string list act" where
  "cipher_coll_ids env c =
     (if ci_organization_uuid c \<noteq> None
      then unwrap_or [] (cipher_collection_list_by_cipher env (ci_uuid c)) else return [])"

text \<open>Tell the caller, then the members of the item's organization.\<close>

definition notify_cipher :: "env \<Rightarrow> headers \<Rightarrow> kind \<Rightarrow> string \<Rightarrow> string option \<Rightarrow> unit act" where
  "notify_cipher env h k cipher_uuid org = do {
     _ \<leftarrow> notify_user env (uid h) k cipher_uuid;
     if_some org (\<lambda>org_id. notify_org env org_id k cipher_uuid) }"

text \<open>The columns an update takes from the request body.\<close>

definition apply_body :: "env \<Rightarrow> cipher_data \<Rightarrow> cipher \<Rightarrow> cipher" where
  "apply_body env body c = c\<lparr>
     ci_atype := cd_atype body, ci_name := cd_name body, ci_notes := cd_notes body,
     ci_fields := map_option (e_json_print env) (cd_fields body),
     ci_password_history := map_option (e_json_print env) (cd_password_history body),
     ci_reprompt := cd_reprompt body, ci_key := cd_key body, ci_data := data_text_for env body\<rparr>"

text \<open>Remove every collection link of an item, then set the given ones.\<close>

definition clear_collections :: "env \<Rightarrow> string \<Rightarrow> unit act" where
  "clear_collections env cipher_uuid =
     try_ret (cipher_collection_list_by_cipher env cipher_uuid) (\<lambda>_. ()) (\<lambda>existing.
       for_each existing (\<lambda>cid. ignore (cipher_collection_unset env cipher_uuid cid)))"

definition set_collections :: "env \<Rightarrow> string \<Rightarrow> string list \<Rightarrow> unit act" where
  "set_collections env cipher_uuid ids =
     for_each ids (\<lambda>cid. ignore (cipher_collection_set env cipher_uuid cid))"

section \<open>Who may touch an item\<close>

definition load_owned_cipher :: "env \<Rightarrow> headers \<Rightarrow> string \<Rightarrow> (world, response + cipher) state" where
  "load_owned_cipher env h uuid =
     try_ret (cipher_find_by_uuid env uuid) (\<lambda>_. Inl (err_json 500 ''database error'')) (\<lambda>r.
       case r of
         None \<Rightarrow> return (Inl (err_json 404 ''Cipher not found''))
       | Some cipher \<Rightarrow>
         (case ci_user_uuid cipher of
            Some owner \<Rightarrow>
              if owner = uid h then return (Inr cipher)
              else return (Inl (err_json 404 ''Cipher not found''))
          | None \<Rightarrow>
            (case ci_organization_uuid cipher of
               None \<Rightarrow> return (Inl (err_json 404 ''Cipher not found''))
             | Some org \<Rightarrow>
                 try_ret (membership_find_by_user_and_org env (uid h) org)
                   (\<lambda>_. Inl (err_json 500 ''database error'')) (\<lambda>m.
                   if m \<noteq> None then return (Inr cipher)
                   else return (Inl (err_json 404 ''Cipher not found''))))))"

section \<open>Handlers\<close>

definition list_ciphers :: "env \<Rightarrow> headers \<Rightarrow> response act" where
  "list_ciphers env h =
     try_ret (cipher_find_visible_to_user env (uid h)) (\<lambda>_. err_json 500 ''database error'') (\<lambda>ciphers. do {
       favorites \<leftarrow> unwrap_or [] (favorite_cipher_uuids_for_user env (uid h));
       data \<leftarrow> for_acc ciphers [] (\<lambda>c data. do {
         coll_ids \<leftarrow> cipher_coll_ids env c;
         folder \<leftarrow> folder_for_user_cipher env (uid h) (ci_uuid c);
         j \<leftarrow> cipher_to_json_with_attachments env c (ci_uuid c \<in> set favorites) coll_ids folder;
         return (data @ [j]) });
       return (json_response 200 (JObj [(''Object'', JStr ''list''), (''Data'', JArr data),
         (''ContinuationToken'', JNull)])) })"

text \<open>The part of \<open>post_cipher\<close> after the checks on the organization.\<close>

definition create_cipher :: "env \<Rightarrow> headers \<Rightarrow> cipher_data \<Rightarrow> response act" where
  "create_cipher env h body = do {
     cipher0 \<leftarrow> cipher_new env (cd_atype body) (cd_name body);
     let cipher = (apply_body env body cipher0)\<lparr>
       ci_user_uuid := (if cd_organization_id body \<noteq> None then None else Some (uid h)),
       ci_organization_uuid := cd_organization_id body\<rparr>;
     try_ret (cipher_save env cipher) (\<lambda>_. err_json 500 ''failed to save cipher'') (\<lambda>cipher. do {
       linked \<leftarrow> for_acc (case cd_collection_ids body of None \<Rightarrow> [] | Some ids \<Rightarrow> ids) [] (\<lambda>cid linked. do {
         r \<leftarrow> cipher_collection_set env (ci_uuid cipher) cid;
         return (case r of Inl _ \<Rightarrow> linked | Inr _ \<Rightarrow> linked @ [cid]) });
       let favorite = (cd_favorite body = Some True);
       try_ret (if favorite then favorite_set env (uid h) (ci_uuid cipher) True else return (Inr ()))
         (\<lambda>_. err_json 500 ''failed to set favorite'') (\<lambda>_. do {
         _ \<leftarrow> set_cipher_folder env (uid h) (ci_uuid cipher) (cd_folder_id body);
         _ \<leftarrow> notify_cipher env h SYNC_CIPHER_CREATE (ci_uuid cipher) (ci_organization_uuid cipher);
         _ \<leftarrow> log_cipher_event env CIPHER_CREATED (ci_uuid cipher) (uid h)
                (ci_organization_uuid cipher) (dev_type h);
         return (json_response 200
           (cipher_to_json_with_folder env cipher favorite linked (cd_folder_id body))) }) }) }"

definition post_cipher :: "env \<Rightarrow> headers \<Rightarrow> cipher_data \<Rightarrow> response act" where
  "post_cipher env h body =
     (case cd_organization_id body of
        None \<Rightarrow> create_cipher env h body
      | Some org_id \<Rightarrow> do {
          r \<leftarrow> membership_find_by_user_and_org env (uid h) org_id;
          case r of
            Inr (Some _) \<Rightarrow>
              if cd_collection_ids body = None \<or> cd_collection_ids body = Some []
              then return (err_json 400 ''collectionIds is required for org-owned ciphers'')
              else create_cipher env h body
          | _ \<Rightarrow> return (err_json 404 ''Organization not found'') })"

definition get_cipher :: "env \<Rightarrow> headers \<Rightarrow> string \<Rightarrow> response act" where
  "get_cipher env h uuid =
     try_ret (load_owned_cipher env h uuid) (\<lambda>e. e) (\<lambda>cipher. do {
       favorite \<leftarrow> unwrap_or False (favorite_is_favorite env (uid h) (ci_uuid cipher));
       folder \<leftarrow> folder_for_user_cipher env (uid h) (ci_uuid cipher);
       coll_ids \<leftarrow> cipher_coll_ids env cipher;
       j \<leftarrow> cipher_to_json_with_attachments env cipher favorite coll_ids folder;
       return (json_response 200 j) })"

definition put_cipher :: "env \<Rightarrow> headers \<Rightarrow> string \<Rightarrow> cipher_data \<Rightarrow> response act" where
  "put_cipher env h uuid body =
     try_ret (load_owned_cipher env h uuid) (\<lambda>e. e) (\<lambda>cipher.
       try_ret (cipher_save env (apply_body env body cipher))
         (\<lambda>_. err_json 500 ''failed to save cipher'') (\<lambda>cipher. do {
         _ \<leftarrow> if_some (cd_favorite body) (\<lambda>fav. ignore (favorite_set env (uid h) (ci_uuid cipher) fav));
         _ \<leftarrow> set_cipher_folder env (uid h) (ci_uuid cipher) (cd_folder_id body);
         favorite \<leftarrow> unwrap_or False (favorite_is_favorite env (uid h) (ci_uuid cipher));
         folder \<leftarrow> folder_for_user_cipher env (uid h) (ci_uuid cipher);
         coll_ids \<leftarrow> cipher_coll_ids env cipher;
         _ \<leftarrow> notify_cipher env h SYNC_CIPHER_UPDATE (ci_uuid cipher) (ci_organization_uuid cipher);
         _ \<leftarrow> log_cipher_event env CIPHER_UPDATED (ci_uuid cipher) (uid h)
                (ci_organization_uuid cipher) (dev_type h);
         return (json_response 200 (cipher_to_json_with_folder env cipher favorite coll_ids folder)) }))"

definition delete_cipher_soft :: "env \<Rightarrow> headers \<Rightarrow> string \<Rightarrow> response act" where
  "delete_cipher_soft env h uuid =
     try_ret (load_owned_cipher env h uuid) (\<lambda>e. e) (\<lambda>cipher. do {
       now \<leftarrow> now_iso env;
       try_ret (cipher_save env (cipher\<lparr>ci_deleted_at := Some now\<rparr>))
         (\<lambda>_. err_json 500 ''failed to soft-delete cipher'') (\<lambda>cipher. do {
         _ \<leftarrow> notify_cipher env h SYNC_CIPHER_UPDATE (ci_uuid cipher) (ci_organization_uuid cipher);
         _ \<leftarrow> log_cipher_event env CIPHER_SOFT_DELETED (ci_uuid cipher) (uid h)
                (ci_organization_uuid cipher) (dev_type h);
         return (json_response 200 (JObj [])) }) })"

definition restore_cipher :: "env \<Rightarrow> headers \<Rightarrow> string \<Rightarrow> response act" where
  "restore_cipher env h uuid =
     try_ret (load_owned_cipher env h uuid) (\<lambda>e. e) (\<lambda>cipher.
       try_ret (cipher_save env (cipher\<lparr>ci_deleted_at := None\<rparr>))
         (\<lambda>_. err_json 500 ''failed to restore cipher'') (\<lambda>cipher. do {
         favorite \<leftarrow> unwrap_or False (favorite_is_favorite env (uid h) (ci_uuid cipher));
         _ \<leftarrow> notify_cipher env h SYNC_CIPHER_UPDATE (ci_uuid cipher) (ci_organization_uuid cipher);
         _ \<leftarrow> log_cipher_event env CIPHER_RESTORED (ci_uuid cipher) (uid h)
                (ci_organization_uuid cipher) (dev_type h);
         return (json_response 200 (cipher_to_json env cipher favorite)) }))"

text \<open>Best-effort removal of the attachments of an item, object first, then row.\<close>

definition drop_attachments :: "env \<Rightarrow> string \<Rightarrow> unit act" where
  "drop_attachments env cipher_uuid =
     try_ret (attachment_find_by_cipher env cipher_uuid) (\<lambda>_. ()) (\<lambda>attachments.
       for_each attachments (\<lambda>a. do {
         _ \<leftarrow> r2_delete_attachment env (r2_key cipher_uuid (at_id a));
         ignore (attachment_delete env a) }))"

definition delete_cipher_hard :: "env \<Rightarrow> headers \<Rightarrow> string \<Rightarrow> response act" where
  "delete_cipher_hard env h uuid =
     try_ret (load_owned_cipher env h uuid) (\<lambda>e. e) (\<lambda>cipher. do {
       _ \<leftarrow> favorite_set env (uid h) (ci_uuid cipher) False;
       _ \<leftarrow> drop_attachments env (ci_uuid cipher);
       try_ret (cipher_delete env cipher) (\<lambda>_. err_json 500 ''failed to delete cipher'') (\<lambda>_. do {
         _ \<leftarrow> notify_cipher env h SYNC_CIPHER_DELETE (ci_uuid cipher) (ci_organization_uuid cipher);
         _ \<leftarrow> log_cipher_event env CIPHER_DELETED (ci_uuid cipher) (uid h)
                (ci_organization_uuid cipher) (dev_type h);
         return (json_response 200 (JObj [])) }) })"

record partial_update =
  pu_folder_id :: "string option"
  pu_favorite :: "bool option"

definition put_cipher_partial :: "env \<Rightarrow> headers \<Rightarrow> string \<Rightarrow> partial_update \<Rightarrow> response act" where
  "put_cipher_partial env h uuid body =
     try_ret (load_owned_cipher env h uuid) (\<lambda>e. e) (\<lambda>cipher. do {
       _ \<leftarrow> set_cipher_folder env (uid h) (ci_uuid cipher) (pu_folder_id body);
       _ \<leftarrow> if_some (pu_favorite body) (\<lambda>fav. ignore (favorite_set env (uid h) (ci_uuid cipher) fav));
       favorite \<leftarrow> unwrap_or False (favorite_is_favorite env (uid h) (ci_uuid cipher));
       folder \<leftarrow> folder_for_user_cipher env (uid h) (ci_uuid cipher);
       coll_ids \<leftarrow> cipher_coll_ids env cipher;
       _ \<leftarrow> notify_cipher env h SYNC_CIPHER_UPDATE (ci_uuid cipher) (ci_organization_uuid cipher);
       _ \<leftarrow> log_cipher_event env CIPHER_UPDATED (ci_uuid cipher) (uid h)
              (ci_organization_uuid cipher) (dev_type h);
       return (json_response 200 (cipher_to_json_with_folder env cipher favorite coll_ids folder)) })"

definition put_cipher_collections :: "env \<Rightarrow> headers \<Rightarrow> string \<Rightarrow> string list \<Rightarrow> response act" where
  "put_cipher_collections env h uuid collection_ids =
     try_ret (load_owned_cipher env h uuid) (\<lambda>e. e) (\<lambda>cipher.
       case ci_organization_uuid cipher of
         None \<Rightarrow> return (err_json 400 ''Cipher is not org-owned'')
       | Some org_id \<Rightarrow> do {
           _ \<leftarrow> clear_collections env (ci_uuid cipher);
           _ \<leftarrow> set_collections env (ci_uuid cipher) collection_ids;
           favorite \<leftarrow> unwrap_or False (favorite_is_favorite env (uid h) (ci_uuid cipher));
           folder \<leftarrow> folder_for_user_cipher env (uid h) (ci_uuid cipher);
           _ \<leftarrow> notify_user env (uid h) SYNC_CIPHER_UPDATE (ci_uuid cipher);
           _ \<leftarrow> notify_org env org_id SYNC_CIPHER_UPDATE (ci_uuid cipher);
           _ \<leftarrow> log_cipher_event env CIPHER_UPDATED_COLLECTIONS (ci_uuid cipher) (uid h)
                  (Some org_id) (dev_type h);
           return (json_response 200
             (cipher_to_json_with_folder env cipher favorite collection_ids folder)) })"

record share_body =
  sb_cipher :: cipher_data
  sb_collection_ids :: "string list"

definition share_cipher :: "env \<Rightarrow> headers \<Rightarrow> string \<Rightarrow> share_body \<Rightarrow> response act" where
  "share_cipher env h uuid body =
     try_ret (load_owned_cipher env h uuid) (\<lambda>e. e) (\<lambda>cipher.
       case non_empty (cd_organization_id (sb_cipher body)) of
         None \<Rightarrow> return (err_json 400 ''organizationId is required to share'')
       | Some org_id \<Rightarrow>
         if sb_collection_ids body = []
         then return (err_json 400 ''collectionIds is required to share'')
         else do {
           m \<leftarrow> unwrap_or None (membership_find_by_user_and_org env (uid h) org_id);
           if m = None then return (err_json 404 ''Organization not found'')
           else
             try_ret (cipher_save env (apply_body env (sb_cipher body)
                 (cipher\<lparr>ci_organization_uuid := Some org_id, ci_user_uuid := None\<rparr>)))
               (\<lambda>_. err_json 500 ''failed to save cipher'') (\<lambda>cipher. do {
               _ \<leftarrow> clear_collections env (ci_uuid cipher);
               _ \<leftarrow> set_collections env (ci_uuid cipher) (sb_collection_ids body);
               favorite \<leftarrow> unwrap_or False (favorite_is_favorite env (uid h) (ci_uuid cipher));
               folder \<leftarrow> folder_for_user_cipher env (uid h) (ci_uuid cipher);
               _ \<leftarrow> notify_user env (uid h) SYNC_CIPHER_UPDATE (ci_uuid cipher);
               _ \<leftarrow> notify_org env org_id SYNC_CIPHER_UPDATE (ci_uuid cipher);
               _ \<leftarrow> log_cipher_event env CIPHER_SHARED (ci_uuid cipher) (uid h)
                      (Some org_id) (dev_type h);
               return (json_response 200
                 (cipher_to_json_with_folder env cipher favorite (sb_collection_ids body) folder)) }) })"

definition archive_cipher :: "env \<Rightarrow> headers \<Rightarrow> string \<Rightarrow> response act" where
  "archive_cipher env h uuid =
     try_ret (load_owned_cipher env h uuid) (\<lambda>e. e) (\<lambda>cipher. do {
       _ \<leftarrow> archive_set env (uid h) (ci_uuid cipher);
       favorite \<leftarrow> unwrap_or False (favorite_is_favorite env (uid h) (ci_uuid cipher));
       folder \<leftarrow> folder_for_user_cipher env (uid h) (ci_uuid cipher);
       coll \<leftarrow> cipher_coll_ids env cipher;
       _ \<leftarrow> notify_user env (uid h) SYNC_CIPHER_UPDATE (ci_uuid cipher);
       return (json_response 200 (cipher_to_json_with_folder env cipher favorite coll folder)) })"

definition unarchive_cipher :: "env \<Rightarrow> headers \<Rightarrow> string \<Rightarrow> response act" where
  "unarchive_cipher env h uuid =
     try_ret (load_owned_cipher env h uuid) (\<lambda>e. e) (\<lambda>cipher. do {
       _ \<leftarrow> archive_unset env (uid h) (ci_uuid cipher);
       favorite \<leftarrow> unwrap_or False (favorite_is_favorite env (uid h) (ci_uuid cipher));
       folder \<leftarrow> folder_for_user_cipher env (uid h) (ci_uuid cipher);
       coll \<leftarrow> cipher_coll_ids env cipher;
       _ \<leftarrow> notify_user env (uid h) SYNC_CIPHER_UPDATE (ci_uuid cipher);
       return (json_response 200 (cipher_to_json_with_folder env cipher favorite coll folder)) })"

end
