(* ===== verification/Ciphers_Bulk.thy ===== *)
theory Ciphers_Bulk
  imports Ciphers
begin

text \<open>
  \<open>worker/src/api/ciphers.rs\<close>, the handlers for many vault items at once: trash, restore,
  move, share, collections, archive, purge and import.
\<close>

definition bulk_delete_soft :: "env \<Rightarrow> headers \<Rightarrow> string list \<Rightarrow> response act" where
  "bulk_delete_soft env h ids = do {
     now \<leftarrow> now_iso env;
     _ \<leftarrow> for_each ids (\<lambda>i.
       try_ret (load_owned_cipher env h i) (\<lambda>_. ()) (\<lambda>cipher. do {
         _ \<leftarrow> cipher_save env (cipher\<lparr>ci_deleted_at := Some now\<rparr>);
         _ \<leftarrow> notify_cipher env h SYNC_CIPHER_UPDATE (ci_uuid cipher) (ci_organization_uuid cipher);
         log_cipher_event env CIPHER_SOFT_DELETED (ci_uuid cipher) (uid h)
           (ci_organization_uuid cipher) (dev_type h) }));
     return (json_response 200 (JObj [])) }"

definition bulk_restore :: "env \<Rightarrow> headers \<Rightarrow> string list \<Rightarrow> response act" where
  "bulk_restore env h ids = do {
     data \<leftarrow> for_acc ids [] (\<lambda>i data.
       try_ret (load_owned_cipher env h i) (\<lambda>_. data) (\<lambda>cipher.
         try_ret (cipher_save env (cipher\<lparr>ci_deleted_at := None\<rparr>)) (\<lambda>_. data) (\<lambda>cipher. do {
           favorite \<leftarrow> unwrap_or False (favorite_is_favorite env (uid h) (ci_uuid cipher));
           folder \<leftarrow> folder_for_user_cipher env (uid h) (ci_uuid cipher);
           coll \<leftarrow> cipher_coll_ids env cipher;
           _ \<leftarrow> notify_cipher env h SYNC_CIPHER_UPDATE (ci_uuid cipher) (ci_organization_uuid cipher);
           _ \<leftarrow> log_cipher_event env CIPHER_RESTORED (ci_uuid cipher) (uid h)
                  (ci_organization_uuid cipher) (dev_type h);
           return (data @ [cipher_to_json_with_folder env cipher favorite coll folder]) })));
     return (json_response 200 (JObj [(''Object'', JStr ''list''), (''Data'', JArr data),
       (''ContinuationToken'', JNull)])) }"

record bulk_move_body =
  bm_ids :: "string list"
  bm_folder_id :: "string option"

definition bulk_move :: "env \<Rightarrow> headers \<Rightarrow> bulk_move_body \<Rightarrow> response act" where
  "bulk_move env h body = do {
     _ \<leftarrow> for_each (bm_ids body) (\<lambda>i.
       try_ret (load_owned_cipher env h i) (\<lambda>_. ()) (\<lambda>_. do {
         _ \<leftarrow> set_cipher_folder env (uid h) i (bm_folder_id body);
         notify_user env (uid h) SYNC_CIPHER_UPDATE i }));
     return (json_response 200 (JObj [])) }"

record bulk_share_body =
  bs_ids :: "string list"
  bs_organization_id :: "string option"
  bs_collection_ids :: "string list option"

definition bulk_share :: "env \<Rightarrow> headers \<Rightarrow> bulk_share_body \<Rightarrow> response act" where
  "bulk_share env h body =
     (case non_empty (bs_organization_id body) of
        None \<Rightarrow> return (json_response 400 (JObj [(''Message'', JStr ''organizationId is required'')]))
      | Some org_id \<Rightarrow> do {
          let coll_ids = (case bs_collection_ids body of None \<Rightarrow> [] | Some ids \<Rightarrow> ids);
          _ \<leftarrow> for_each (bs_ids body) (\<lambda>i.
            try_ret (load_owned_cipher env h i) (\<lambda>_. ()) (\<lambda>cipher.
            try_ret (cipher_save env (cipher\<lparr>ci_organization_uuid := Some org_id\<rparr>)) (\<lambda>_. ()) (\<lambda>cipher. do {
              existing \<leftarrow> unwrap_or [] (cipher_collection_list_by_cipher env (ci_uuid cipher));
              _ \<leftarrow> for_each existing (\<lambda>cid. ignore (cipher_collection_unset env (ci_uuid cipher) cid));
              _ \<leftarrow> set_collections env (ci_uuid cipher) coll_ids;
              _ \<leftarrow> notify_user env (uid h) SYNC_CIPHER_UPDATE (ci_uuid cipher);
              _ \<leftarrow> notify_org env org_id SYNC_CIPHER_UPDATE (ci_uuid cipher);
              log_cipher_event env CIPHER_SHARED (ci_uuid cipher) (uid h) (Some org_id) (dev_type h) })));
          return (json_response 200 (JObj [])) })"

record bulk_collections_body =
  bc_cipher_ids :: "string list"
  bc_collection_ids :: "string list"
  bc_remove_collections :: "bool option"

definition bulk_collections :: "env \<Rightarrow> headers \<Rightarrow> bulk_collections_body \<Rightarrow> response act" where
  "bulk_collections env h body = do {
     let remove = (bc_remove_collections body = Some True);
     _ \<leftarrow> for_each (bc_cipher_ids body) (\<lambda>i.
       try_ret (load_owned_cipher env h i) (\<lambda>_. ()) (\<lambda>cipher. do {
         _ \<leftarrow> for_each (bc_collection_ids body) (\<lambda>cid.
           if remove then ignore (cipher_collection_unset env (ci_uuid cipher) cid)
           else ignore (cipher_collection_set env (ci_uuid cipher) cid));
         _ \<leftarrow> notify_cipher env h SYNC_CIPHER_UPDATE (ci_uuid cipher) (ci_organization_uuid cipher);
         log_cipher_event env CIPHER_UPDATED_COLLECTIONS (ci_uuid cipher) (uid h)
           (ci_organization_uuid cipher) (dev_type h) }));
     return (json_response 200 (JObj [])) }"

definition list_org_ciphers :: "env \<Rightarrow> headers \<Rightarrow> response act" where
  "list_org_ciphers env h = do {
     ciphers \<leftarrow> unwrap_or [] (cipher_find_visible_to_user env (uid h));
     data \<leftarrow> for_acc (filter (\<lambda>c. ci_organization_uuid c \<noteq> None) ciphers) [] (\<lambda>c data. do {
       favorite \<leftarrow> unwrap_or False (favorite_is_favorite env (uid h) (ci_uuid c));
       coll \<leftarrow> unwrap_or [] (cipher_collection_list_by_cipher env (ci_uuid c));
       folder \<leftarrow> folder_for_user_cipher env (uid h) (ci_uuid c);
       return (data @ [cipher_to_json_with_folder env c favorite coll folder]) });
     return (json_response 200 (JObj [(''Object'', JStr ''list''), (''Data'', JArr data),
       (''ContinuationToken'', JNull)])) }"

text \<open>The purge of an organization's items and of the caller's own ones.\<close>

definition purge_org :: "env \<Rightarrow> headers \<Rightarrow> string \<Rightarrow> response act" where
  "purge_org env h org_id = do {
     r \<leftarrow> membership_find_by_user_and_org env (uid h) org_id;
     case r of
       Inr (Some m) \<Rightarrow>
         if me_atype m = 0 then do {
           ciphers \<leftarrow> unwrap_or [] (cipher_find_by_org env org_id);
           _ \<leftarrow> for_each ciphers (\<lambda>c. do {
             _ \<leftarrow> drop_attachments env (ci_uuid c);
             ignore (cipher_delete env c) });
           _ \<leftarrow> log_org_event env ORG_PURGED_VAULT org_id (uid h) None (dev_type h);
           _ \<leftarrow> notify_user env (uid h) SYNC_VAULT [];
           _ \<leftarrow> notify_org env org_id SYNC_VAULT org_id;
           return (json_response 200 (JObj [])) }
         else return (err_json 403 ''Owner access required'')
     | _ \<Rightarrow> return (err_json 403 ''Owner access required'') }"

definition purge_own :: "env \<Rightarrow> headers \<Rightarrow> response act" where
  "purge_own env h = do {
     ciphers \<leftarrow> unwrap_or [] (cipher_find_owned_by_user env (uid h));
     _ \<leftarrow> for_each ciphers (\<lambda>c. do {
       _ \<leftarrow> drop_attachments env (ci_uuid c);
       _ \<leftarrow> favorite_set env (uid h) (ci_uuid c) False;
       ignore (cipher_delete env c) });
     _ \<leftarrow> notify_user env (uid h) SYNC_VAULT [];
     return (json_response 200 (JObj [])) }"

definition purge_user_ciphers ::
  "env \<Rightarrow> headers \<Rightarrow> string option \<Rightarrow> string option \<Rightarrow> response act" where
  "purge_user_ciphers env h organization_id master_password_hash =
     (case master_password_hash of
        None \<Rightarrow> return (err_json 400 ''masterPasswordHash is required'')
      | Some pw \<Rightarrow>
        (case check_valid_password env (hd_user h) pw of
           None \<Rightarrow> return panicked
         | Some valid \<Rightarrow>
           if \<not> valid then return (err_json 401 ''Invalid password'')
           else case organization_id of
                  Some org_id \<Rightarrow> purge_org env h org_id
                | None \<Rightarrow> purge_own env h))"

section \<open>Import\<close>

record import_collection =
  ic_name :: string
  ic_external_id :: "string option"

record import_body =
  ib_folders :: "string list"
  ib_ciphers :: "cipher_data list"
  ib_folder_relationships :: "(nat \<times> nat) list"
  ib_organization_id :: "string option"
  ib_collections :: "import_collection list"
  ib_collection_relationships :: "(nat \<times> nat) list"

text \<open>\<open>slice.get(i)\<close>.\<close>

definition nth_opt :: "'a list \<Rightarrow> nat \<Rightarrow> 'a option" where
  "nth_opt xs i = (if i < length xs then Some (xs ! i) else None)"

text \<open>
  The loops that create the rows push the new ids on a list and stop with an answer when a row
  cannot be saved: the accumulator is that answer or the list so far.
\<close>

definition import_folders :: "env \<Rightarrow> headers \<Rightarrow> string list \<Rightarrow> (response + string list) act" where
  "import_folders env h names = for_acc names (Inr []) (\<lambda>n acc.
     case acc of
       Inl e \<Rightarrow> return (Inl e)
     | Inr ids \<Rightarrow> do {
         folder \<leftarrow> folder_new env (uid h) n;
         try_ret (folder_save env folder) (\<lambda>_. Inl (err_json 500 ''failed to save folder''))
           (\<lambda>folder. return (Inr (ids @ [fo_uuid folder]))) })"

definition import_collections ::
  "env \<Rightarrow> string \<Rightarrow> import_collection list \<Rightarrow> (response + string list) act" where
  "import_collections env org_id cols = for_acc cols (Inr []) (\<lambda>col acc.
     case acc of
       Inl e \<Rightarrow> return (Inl e)
     | Inr ids \<Rightarrow> do {
         c \<leftarrow> collection_new env org_id (ic_name col);
         try_ret (collection_save env (c\<lparr>co_external_id := ic_external_id col\<rparr>))
           (\<lambda>_. Inl (err_json 500 ''failed to save collection''))
           (\<lambda>_. return (Inr (ids @ [co_uuid c]))) })"

definition import_cipher_rows ::
  "env \<Rightarrow> headers \<Rightarrow> string option \<Rightarrow> cipher_data list \<Rightarrow> (response + string list) act" where
  "import_cipher_rows env h target_org cs = for_acc cs (Inr []) (\<lambda>c acc.
     case acc of
       Inl e \<Rightarrow> return (Inl e)
     | Inr ids \<Rightarrow> do {
         cipher0 \<leftarrow> cipher_new env (cd_atype c) (cd_name c);
         let cipher = (apply_body env c cipher0)\<lparr>
           ci_user_uuid := (if target_org \<noteq> None then None else Some (uid h)),
           ci_organization_uuid := target_org\<rparr>;
         try_ret (cipher_save env cipher) (\<lambda>_. Inl (err_json 500 ''failed to save cipher'')) (\<lambda>cipher. do {
           _ \<leftarrow> (if cd_favorite c = Some True
                then ignore (favorite_set env (uid h) (ci_uuid cipher) True) else return ());
           _ \<leftarrow> log_cipher_event env CIPHER_CREATED (ci_uuid cipher) (uid h)
                  (ci_organization_uuid cipher) (dev_type h);
           return (Inr (ids @ [ci_uuid cipher])) }) })"

definition import_rows :: "env \<Rightarrow> headers \<Rightarrow> import_body \<Rightarrow> string option \<Rightarrow> response act" where
  "import_rows env h body target_org =
     try_ret (if target_org = None then import_folders env h (ib_folders body) else return (Inr []))
       (\<lambda>e. e) (\<lambda>folder_ids.
     try_ret (case target_org of None \<Rightarrow> return (Inr [])
              | Some org_id \<Rightarrow> import_collections env org_id (ib_collections body))
       (\<lambda>e. e) (\<lambda>collection_ids.
     try_ret (import_cipher_rows env h target_org (ib_ciphers body)) (\<lambda>e. e) (\<lambda>cipher_ids. do {
       _ \<leftarrow> (if target_org \<noteq> None
            then for_each (ib_collection_relationships body) (\<lambda>(k, v).
              case (nth_opt cipher_ids k, nth_opt collection_ids v) of
                (Some cid, Some coll_id) \<Rightarrow> ignore (cipher_collection_set env cid coll_id)
              | _ \<Rightarrow> return ())
            else for_each (ib_folder_relationships body) (\<lambda>(k, v).
              case (nth_opt cipher_ids k, nth_opt folder_ids v) of
                (Some cid, Some fid) \<Rightarrow> ignore (folder_cipher_set env cid fid)
              | _ \<Rightarrow> return ()));
       _ \<leftarrow> notify_user env (uid h) SYNC_VAULT [];
       _ \<leftarrow> if_some target_org (\<lambda>org_id. notify_org env org_id SYNC_VAULT org_id);
       return (json_response 200 (JObj [])) })))"

definition import_ciphers :: "env \<Rightarrow> headers \<Rightarrow> import_body \<Rightarrow> response act" where
  "import_ciphers env h body =
     (case non_empty (ib_organization_id body) of
        None \<Rightarrow> import_rows env h body None
      | Some org_id \<Rightarrow> do {
          r \<leftarrow> membership_find_by_user_and_org env (uid h) org_id;
          case r of
            Inr (Some m) \<Rightarrow>
              if me_atype m > 3
              then return (err_json 403 ''Insufficient permissions to import to organization'')
              else import_rows env h body (Some org_id)
          | _ \<Rightarrow> return (err_json 403 ''Not a member of that organization'') })"

section \<open>Archive\<close>

definition bulk_archive :: "env \<Rightarrow> headers \<Rightarrow> string list \<Rightarrow> response act" where
  "bulk_archive env h ids = do {
     _ \<leftarrow> for_each ids (\<lambda>i.
       try_ret (load_owned_cipher env h i) (\<lambda>_. ()) (\<lambda>_. do {
         _ \<leftarrow> archive_set env (uid h) i;
         notify_user env (uid h) SYNC_CIPHER_UPDATE i }));
     return (json_response 200 (JObj [])) }"

definition bulk_unarchive :: "env \<Rightarrow> headers \<Rightarrow> string list \<Rightarrow> response act" where
  "bulk_unarchive env h ids = do {
     _ \<leftarrow> for_each ids (\<lambda>i.
       try_ret (load_owned_cipher env h i) (\<lambda>_. ()) (\<lambda>_. do {
         _ \<leftarrow> archive_unset env (uid h) i;
         notify_user env (uid h) SYNC_CIPHER_UPDATE i }));
     return (json_response 200 (JObj [])) }"

section \<open>The requests\<close>

text \<open>The item requests of the router that change something, and their handlers.\<close>

datatype cipher_op =
    PostCipher cipher_data
  | PutCipher string cipher_data
  | PutPartial string partial_update
  | DeleteSoft string
  | Restore string
  | DeleteHard string
  | PutCollections string "string list"
  | Share string share_body
  | Archive string
  | Unarchive string
  | BulkDeleteSoft "string list"
  | BulkRestore "string list"
  | BulkMove bulk_move_body
  | BulkShare bulk_share_body
  | BulkCollections bulk_collections_body
  | BulkArchive "string list"
  | BulkUnarchive "string list"
  | Purge "string option" "string option"
  | Import import_body

fun exec_cipher_op :: "env \<Rightarrow> headers \<Rightarrow> cipher_op \<Rightarrow> response act" where
  "exec_cipher_op env h (PostCipher body) = post_cipher env h body"
| "exec_cipher_op env h (PutCipher uuid body) = put_cipher env h uuid body"
| "exec_cipher_op env h (PutPartial uuid body) = put_cipher_partial env h uuid body"
| "exec_cipher_op env h (DeleteSoft uuid) = delete_cipher_soft env h uuid"
| "exec_cipher_op env h (Restore uuid) = restore_cipher env h uuid"
| "exec_cipher_op env h (DeleteHard uuid) = delete_cipher_hard env h uuid"
| "exec_cipher_op env h (PutCollections uuid ids) = put_cipher_collections env h uuid ids"
| "exec_cipher_op env h (Share uuid body) = share_cipher env h uuid body"
| "exec_cipher_op env h (Archive uuid) = archive_cipher env h uuid"
| "exec_cipher_op env h (Unarchive uuid) = unarchive_cipher env h uuid"
| "exec_cipher_op env h (BulkDeleteSoft ids) = bulk_delete_soft env h ids"
| "exec_cipher_op env h (BulkRestore ids) = bulk_restore env h ids"
| "exec_cipher_op env h (BulkMove body) = bulk_move env h body"
| "exec_cipher_op env h (BulkShare body) = bulk_share env h body"
| "exec_cipher_op env h (BulkCollections body) = bulk_collections env h body"
| "exec_cipher_op env h (BulkArchive ids) = bulk_archive env h ids"
| "exec_cipher_op env h (BulkUnarchive ids) = bulk_unarchive env h ids"
| "exec_cipher_op env h (Purge org pw) = purge_user_ciphers env h org pw"
| "exec_cipher_op env h (Import body) = import_ciphers env h body"

end
