(* ===== verification/Ciphers_Safety.thy ===== *)
theory Ciphers_Safety
  imports Ciphers_Bulk
begin

text \<open>
  What the item handlers keep.  The facts on the tables they do not touch are proved for every
  predicate that looks at the items and the memberships only; the isolation of items
  and the exclusive ownership of an item are instances.
\<close>

section \<open>Predicates on items and memberships\<close>

definition item_pred :: "(db \<Rightarrow> bool) \<Rightarrow> bool" where
  "item_pred P \<longleftrightarrow> (\<forall>d d'. t_ciphers d = t_ciphers d' \<longrightarrow>
     t_users_organizations d = t_users_organizations d' \<longrightarrow> P d = P d')"

lemma item_predD:
  "item_pred P \<Longrightarrow> P d \<Longrightarrow> t_ciphers d' = t_ciphers d \<Longrightarrow>
     t_users_organizations d' = t_users_organizations d \<Longrightarrow> P d'"
  unfolding item_pred_def by blast

lemma item_pred_events: "item_pred P \<Longrightarrow> ignores_events P"
  unfolding ignores_events_def by (auto elim: item_predD)

lemmas link_defs = favorite_set_def archive_set_def archive_unset_def folder_cipher_set_def
  folder_cipher_unset_def cipher_collection_set_def cipher_collection_unset_def
  attachment_delete_def attachment_save_def folder_save_def collection_save_def

lemmas query_defs = folder_cipher_list_by_cipher_def folder_find_by_user_def
  cipher_collection_list_by_cipher_def attachment_find_by_cipher_def
  favorite_is_favorite_def favorite_cipher_uuids_for_user_def
  membership_find_by_user_and_org_def cipher_find_visible_to_user_def cipher_find_by_uuid_def
  cipher_find_by_org_def cipher_find_owned_by_user_def

lemma preserves_links:
  fixes P :: "db \<Rightarrow> bool"
  assumes "item_pred P"
  shows "preserves (\<lambda>s. P (w_db s)) (favorite_set env u c fav)"
    and "preserves (\<lambda>s. P (w_db s)) (archive_set env u c)"
    and "preserves (\<lambda>s. P (w_db s)) (archive_unset env u c)"
    and "preserves (\<lambda>s. P (w_db s)) (folder_cipher_set env c f)"
    and "preserves (\<lambda>s. P (w_db s)) (folder_cipher_unset env c f)"
    and "preserves (\<lambda>s. P (w_db s)) (cipher_collection_set env c f)"
    and "preserves (\<lambda>s. P (w_db s)) (cipher_collection_unset env c f)"
    and "preserves (\<lambda>s. P (w_db s)) (attachment_delete env a)"
    and "preserves (\<lambda>s. P (w_db s)) (collection_save env co)"
  unfolding link_defs
  by (auto intro!: preserves_d1_exec elim!: item_predD [OF assms])

lemma preserves_folder_save:
  fixes P :: "db \<Rightarrow> bool"
  assumes "item_pred P"
  shows "preserves (\<lambda>s. P (w_db s)) (folder_save env f)"
  unfolding folder_save_def Let_def
  by (intro preserves_rules preserves_d1_exec) (auto elim!: item_predD [OF assms])

lemma preserves_item_logs:
  fixes P :: "db \<Rightarrow> bool"
  assumes "item_pred P"
  shows "preserves (\<lambda>s. P (w_db s)) (log_cipher_event env ty c u g dt)"
    and "preserves (\<lambda>s. P (w_db s)) (log_org_event env ty o' u tm dt)"
  by (intro preserves_log_events item_pred_events assms)+

lemma preserves_item_reads:
  fixes P :: "db \<Rightarrow> bool"
  shows "preserves (\<lambda>s. P (w_db s)) (folder_for_user_cipher env u c)"
    and "preserves (\<lambda>s. P (w_db s)) (cipher_coll_ids env x)"
    and "preserves (\<lambda>s. P (w_db s)) (favorite_is_favorite env u c)"
    and "preserves (\<lambda>s. P (w_db s)) (notify_cipher env h k c g)"
    and "preserves (\<lambda>s. P (w_db s)) (cipher_to_json_with_attachments env x fav ids fo)"
    and "preserves (\<lambda>s. P (w_db s)) (load_owned_cipher env h uuid)"
  unfolding folder_for_user_cipher_def cipher_coll_ids_def notify_cipher_def
    cipher_to_json_with_attachments_def load_owned_cipher_def query_defs Let_def
  by (intro preserves_rules)+

lemma preserves_item_steps:
  fixes P :: "db \<Rightarrow> bool"
  assumes "item_pred P"
  shows "preserves (\<lambda>s. P (w_db s)) (set_cipher_folder env u c fo)"
    and "preserves (\<lambda>s. P (w_db s)) (clear_collections env c)"
    and "preserves (\<lambda>s. P (w_db s)) (set_collections env c ids)"
    and "preserves (\<lambda>s. P (w_db s)) (drop_attachments env c)"
  unfolding set_cipher_folder_def clear_collections_def set_collections_def drop_attachments_def
    query_defs
  by (intro preserves_rules preserves_links assms)+

section \<open>Who may touch an item\<close>

text \<open>Its owner; for an item of an organization, everyone with a membership of it.\<close>

definition may_touch :: "db \<Rightarrow> headers \<Rightarrow> cipher \<Rightarrow> bool" where
  "may_touch d h c = (case ci_user_uuid c of
     Some owner \<Rightarrow> owner = uid h
   | None \<Rightarrow> (\<exists>m\<in>set (t_users_organizations d).
       me_user_uuid m = uid h \<and> ci_organization_uuid c = Some (me_org_uuid m)))"

text \<open>The user's own items and all items of the organizations the user is a member of.\<close>

definition in_reach :: "db \<Rightarrow> headers \<Rightarrow> cipher \<Rightarrow> bool" where
  "in_reach d h c \<longleftrightarrow> ci_user_uuid c = Some (uid h) \<or>
     (\<exists>m\<in>set (t_users_organizations d).
       me_user_uuid m = uid h \<and> ci_organization_uuid c = Some (me_org_uuid m))"

lemma may_touch_in_reach: "may_touch d h c \<Longrightarrow> in_reach d h c"
  by (auto simp: may_touch_def in_reach_def split: option.splits)

text \<open>An item belongs to a user or to an organization, not to both and not to none.\<close>

definition exclusive :: "cipher \<Rightarrow> bool" where
  "exclusive c \<longleftrightarrow> (ci_user_uuid c = None) \<noteq> (ci_organization_uuid c = None)"

interpretation cipher_loader: guarded_loader load_owned_cipher t_ciphers ci_uuid may_touch
  by unfold_locales
    (auto simp: load_owned_cipher_def query_defs wp_rules may_touch_def
       intro!: readsI split: option.splits if_splits dest!: find_SomeD)

lemma may_touch_members:
  "t_users_organizations d' = t_users_organizations d \<Longrightarrow> may_touch d' h c = may_touch d h c"
  by (simp add: may_touch_def split: option.splits)

lemma apply_body_simps [simp]:
  "ci_uuid (apply_body env b c) = ci_uuid c"
  "ci_user_uuid (apply_body env b c) = ci_user_uuid c"
  "ci_organization_uuid (apply_body env b c) = ci_organization_uuid c"
  by (simp_all add: apply_body_def)

section \<open>Invariants of the item requests\<close>

text \<open>
  The contract of an invariant of the items: which rows a request may replace or delete
  (\<open>victim\<close>), and that it survives the three ways a request writes a row: an update that
  leaves the owner alone, a move to an organization, and a new row.
\<close>

locale item_invariant =
  fixes env :: env and h :: headers and P :: "db \<Rightarrow> bool" and victim :: "cipher \<Rightarrow> bool"
  assumes item: "item_pred P"
    and touch_victim: "P d \<Longrightarrow> x \<in> set (t_ciphers d) \<Longrightarrow> may_touch d h x \<Longrightarrow> victim x"
    and org_victim: "P d \<Longrightarrow> x \<in> set (t_ciphers d) \<Longrightarrow> m \<in> set (t_users_organizations d) \<Longrightarrow>
        me_user_uuid m = uid h \<Longrightarrow> ci_organization_uuid x = Some (me_org_uuid m) \<Longrightarrow> victim x"
    and delete: "P d \<Longrightarrow> victim x \<Longrightarrow> P (delete_ciphers env (\<lambda>y. ci_uuid y = ci_uuid x) d)"
    and save_same: "P d \<Longrightarrow> x \<in> set (t_ciphers d) \<Longrightarrow> victim x \<Longrightarrow> ci_uuid y = ci_uuid x \<Longrightarrow>
        ci_user_uuid y = ci_user_uuid x \<Longrightarrow> ci_organization_uuid y = ci_organization_uuid x \<Longrightarrow>
        P (d\<lparr>t_ciphers := upsert ci_uuid cipher_conflict y (t_ciphers d)\<rparr>)"
    and save_share: "P d \<Longrightarrow> x \<in> set (t_ciphers d) \<Longrightarrow> victim x \<Longrightarrow> ci_uuid y = ci_uuid x \<Longrightarrow>
        ci_user_uuid y = None \<Longrightarrow> ci_organization_uuid y \<noteq> None \<Longrightarrow>
        P (d\<lparr>t_ciphers := upsert ci_uuid cipher_conflict y (t_ciphers d)\<rparr>)"
    and create: "P d \<Longrightarrow> exclusive y \<Longrightarrow> ci_uuid y = e_uuid env n \<Longrightarrow>
        P (d\<lparr>t_ciphers := upsert ci_uuid cipher_conflict y (t_ciphers d)\<rparr>)"
begin

lemmas rules = preserves_rules preserves_links [OF item] preserves_folder_save [OF item]
  preserves_item_logs [OF item] preserves_item_reads preserves_item_steps [OF item]
  item_pred_events [OF item]

lemma save_keeps:
  assumes "P (w_db s)"
    and "\<And>now. P ((w_db s)\<lparr>t_ciphers :=
           upsert ci_uuid cipher_conflict (c\<lparr>ci_updated_at := now\<rparr>) (t_ciphers (w_db s))\<rparr>)"
  shows "wp (cipher_save env c) (\<lambda>_ s. P (w_db s)) s"
  using assms by (simp add: cipher_save_def wp_rules Let_def)

lemma delete_keeps: "victim x \<Longrightarrow> preserves (\<lambda>s. P (w_db s)) (cipher_delete env x)"
  unfolding cipher_delete_def by (rule preserves_d1_exec) (auto intro: delete)

lemma guarded:
  assumes "\<And>x s. P (w_db s) \<Longrightarrow> x \<in> set (t_ciphers (w_db s)) \<Longrightarrow> victim x \<Longrightarrow> ci_uuid x = uuid \<Longrightarrow>
             wp (k x) (\<lambda>_ s. P (w_db s)) s"
  shows "preserves (\<lambda>s. P (w_db s)) (try_ret (load_owned_cipher env h uuid) e k)"
proof (rule preservesI)
  fix s :: world assume "P (w_db s)"
  then have "wp (k x) (\<lambda>_ s. P (w_db s)) s'"
    if "w_db s' = w_db s" "x \<in> set (t_ciphers (w_db s))" "ci_uuid x = uuid" "may_touch (w_db s) h x"
    for x s'
    using that assms [of s' x] touch_victim by auto
  then show "wp (try_ret (load_owned_cipher env h uuid) e k) (\<lambda>_ s. P (w_db s)) s"
    using \<open>P (w_db s)\<close>
    by (auto intro!: wp_reads [OF cipher_loader.load_reads] split: sum.splits)
qed

lemma guarded_preserves:
  assumes "\<And>x. victim x \<Longrightarrow> preserves (\<lambda>s. P (w_db s)) (k x)"
  shows "preserves (\<lambda>s. P (w_db s)) (try_ret (load_owned_cipher env h uuid) e k)"
  by (rule guarded) (use assms in \<open>auto simp: preserves_def\<close>)

lemma update_keeps:
  assumes "P (w_db s)" "x \<in> set (t_ciphers (w_db s))" "victim x" "ci_uuid y = ci_uuid x"
    "ci_user_uuid y = ci_user_uuid x" "ci_organization_uuid y = ci_organization_uuid x"
  shows "wp (cipher_save env y) (\<lambda>_ s. P (w_db s)) s"
  by (rule save_keeps) (use assms in \<open>auto intro: save_same\<close>)

lemma put_cipher: "preserves (\<lambda>s. P (w_db s)) (put_cipher env h uuid body)"
  unfolding put_cipher_def
  by (rule guarded, rule wp_try_ret_preserves, rule update_keeps, simp_all) (intro rules)

lemma delete_cipher_soft: "preserves (\<lambda>s. P (w_db s)) (delete_cipher_soft env h uuid)"
  unfolding delete_cipher_soft_def
  by (rule guarded, rule wp_bind_now, rule wp_try_ret_preserves, rule update_keeps, simp_all)
    (intro rules)

lemma restore_cipher: "preserves (\<lambda>s. P (w_db s)) (restore_cipher env h uuid)"
  unfolding restore_cipher_def
  by (rule guarded, rule wp_try_ret_preserves, rule update_keeps, simp_all) (intro rules)

lemma delete_cipher_hard: "preserves (\<lambda>s. P (w_db s)) (delete_cipher_hard env h uuid)"
  unfolding delete_cipher_hard_def
  by (rule guarded_preserves) (intro rules delete_keeps)

lemma put_cipher_partial: "preserves (\<lambda>s. P (w_db s)) (put_cipher_partial env h uuid pbody)"
  unfolding put_cipher_partial_def
  by (rule guarded_preserves) (intro rules)

lemma put_cipher_collections: "preserves (\<lambda>s. P (w_db s)) (put_cipher_collections env h uuid ids)"
  unfolding put_cipher_collections_def
  by (rule guarded_preserves) (intro rules)

lemma archive_cipher: "preserves (\<lambda>s. P (w_db s)) (archive_cipher env h uuid)"
  unfolding archive_cipher_def
  by (rule guarded_preserves) (intro rules)

lemma unarchive_cipher: "preserves (\<lambda>s. P (w_db s)) (unarchive_cipher env h uuid)"
  unfolding unarchive_cipher_def
  by (rule guarded_preserves) (intro rules)

lemma share_cipher: "preserves (\<lambda>s. P (w_db s)) (share_cipher env h uuid sbody)"
proof -
  have save: "wp (cipher_save env y) (\<lambda>_ s. P (w_db s)) s"
    if "P (w_db s)" "x \<in> set (t_ciphers (w_db s))" "victim x" "ci_uuid y = ci_uuid x"
      "ci_user_uuid y = None" "ci_organization_uuid y \<noteq> None" for x y s
    by (rule save_keeps) (use that in \<open>auto intro: save_share\<close>)
  show ?thesis
    unfolding share_cipher_def
    by (rule guarded, auto simp: query_defs wp_rules simp del: wp_try_ret split: option.splits)
      (rule wp_try_ret_preserves, rule save, unfold bump_simps, assumption+, simp_all,
       intro rules [unfolded query_defs])
qed

lemma create_cipher_row:
  assumes "exclusive y" "ci_uuid y = e_uuid env n"
  shows "preserves (\<lambda>s. P (w_db s)) (cipher_save env y)"
  by (intro preservesI save_keeps)
    (use assms in \<open>auto intro: create [of _ _ n] simp: exclusive_def\<close>)

text \<open>The rows that \<open>post_cipher\<close> and the import build: a new id, and one kind of owner.\<close>

lemma create_step:
  assumes "\<And>x. exclusive (f x)" "\<And>x. ci_uuid (f x) = ci_uuid x"
    and "\<And>x. preserves (\<lambda>s. P (w_db s)) (k x)"
  shows "preserves (\<lambda>s. P (w_db s))
           (State_Monad.bind (cipher_new env ty n) (\<lambda>x. try_ret (cipher_save env (f x)) e k))"
proof (rule preservesI)
  fix s :: world assume "P (w_db s)"
  then have "wp (cipher_save env (f x)) (\<lambda>_ s. P (w_db s)) (bump (bump s))"
    if "ci_uuid x = e_uuid env (Suc (w_tick s))" for x
    by (intro preserves_wp [OF create_cipher_row [where n = "Suc (w_tick s)"]])
      (use that assms in auto)
  then have "wp (try_ret (cipher_save env (f x)) e k) (\<lambda>_ s. P (w_db s)) (bump (bump s))"
    if "ci_uuid x = e_uuid env (Suc (w_tick s))" for x
    using that assms(3) by (blast intro: wp_try_ret_preserves)
  then show "wp (State_Monad.bind (cipher_new env ty n) (\<lambda>x. try_ret (cipher_save env (f x)) e k))
      (\<lambda>_ s. P (w_db s)) s"
    by (simp add: cipher_new_def wp_sources del: wp_try_ret)
qed

lemma create_cipher: "preserves (\<lambda>s. P (w_db s)) (create_cipher env h body)"
  unfolding create_cipher_def Let_def
  by (rule create_step) (simp add: exclusive_def, simp, intro rules)

lemma post_cipher: "preserves (\<lambda>s. P (w_db s)) (post_cipher env h body)"
  unfolding post_cipher_def query_defs by (intro rules create_cipher)

lemma import_cipher_rows: "preserves (\<lambda>s. P (w_db s)) (import_cipher_rows env h org cs)"
  unfolding import_cipher_rows_def Let_def
  by (intro preserves_for_acc preserves_case_sum preserves_return create_step)
    (simp add: exclusive_def, simp, intro rules)

lemma import_ciphers: "preserves (\<lambda>s. P (w_db s)) (import_ciphers env h ibody)"
  unfolding import_ciphers_def import_rows_def import_folders_def import_collections_def
    folder_new_def collection_new_def query_defs
  by (intro rules import_cipher_rows)

lemma bulk_delete_soft: "preserves (\<lambda>s. P (w_db s)) (bulk_delete_soft env h ids)"
  unfolding bulk_delete_soft_def
  by (intro preserves_bind preserves_for_each rules guarded wp_bind_preserves update_keeps;
      (assumption | simp | intro rules)?)

lemma bulk_restore: "preserves (\<lambda>s. P (w_db s)) (bulk_restore env h ids)"
  unfolding bulk_restore_def
  by (intro preserves_bind preserves_for_acc rules guarded wp_try_ret_preserves update_keeps;
      (assumption | simp | intro rules)?)

lemma bulk_links:
  "preserves (\<lambda>s. P (w_db s)) (bulk_move env h mbody)"
  "preserves (\<lambda>s. P (w_db s)) (bulk_collections env h cbody)"
  "preserves (\<lambda>s. P (w_db s)) (bulk_archive env h ids)"
  "preserves (\<lambda>s. P (w_db s)) (bulk_unarchive env h ids)"
  unfolding bulk_move_def bulk_collections_def bulk_archive_def bulk_unarchive_def Let_def
  by (intro rules)+

lemma purge_loop:
  assumes "\<And>c. c \<in> set cs \<Longrightarrow> victim c"
    and "\<And>c. preserves (\<lambda>s. P (w_db s)) (f c)"
  shows "preserves (\<lambda>s. P (w_db s))
           (for_each cs (\<lambda>c. State_Monad.bind (f c) (\<lambda>_. ignore (cipher_delete env c))))"
proof (rule preservesI, rule wp_for_each_invariant)
  fix x and s :: world assume "x \<in> set cs" "P (w_db s)"
  then show "wp (State_Monad.bind (f x) (\<lambda>_. ignore (cipher_delete env x))) (\<lambda>_ s. P (w_db s)) s"
    by (intro preserves_wp preserves_bind preserves_ignore delete_keeps assms)
qed

lemma purge_org: "preserves (\<lambda>s. P (w_db s)) (purge_org env h org_id)"
proof (rule preservesI)
  fix s :: world assume P: "P (w_db s)"
  have loop: "wp (State_Monad.bind (for_each cs (\<lambda>c. State_Monad.bind (drop_attachments env (ci_uuid c))
        (\<lambda>_. ignore (cipher_delete env c)))) k) (\<lambda>_ s. P (w_db s)) s'"
    if "find (\<lambda>m. me_user_uuid m = uid h \<and> me_org_uuid m = org_id) (t_users_organizations (w_db s)) = Some m"
      "\<forall>c\<in>set cs. c \<in> set (t_ciphers (w_db s)) \<and> opt_is (ci_organization_uuid c) org_id"
      "w_db s' = w_db s" "\<And>x. preserves (\<lambda>s. P (w_db s)) (k x)" for cs m s' k
  proof -
    have "victim c" if "c \<in> set cs" for c
      using org_victim [OF P, of c m] find_SomeD [OF \<open>find _ _ = Some m\<close>] that
        \<open>\<forall>c\<in>set cs. _\<close> by (auto simp: opt_is_def)
    then have "preserves (\<lambda>s. P (w_db s)) (for_each cs (\<lambda>c.
        State_Monad.bind (drop_attachments env (ci_uuid c)) (\<lambda>_. ignore (cipher_delete env c))))"
      by (intro purge_loop preserves_item_steps [OF item])
    then show ?thesis
      by (rule wp_bind_preserves [OF preserves_wp]) (use P that in auto)
  qed
  show "wp (purge_org env h org_id) (\<lambda>_ s. P (w_db s)) s"
    unfolding purge_org_def query_defs
    by (auto simp: P wp_d1_query wp_unwrap_or wp_bind [of "d1_query _ _"] wp_bind [of "unwrap_or _ _"]
          simp del: wp_bind split: option.splits
          intro!: loop rules)
      (rule preserves_wp, intro rules, simp add: P)
qed

lemma purge_own: "preserves (\<lambda>s. P (w_db s)) (purge_own env h)"
proof (rule preservesI)
  fix s :: world assume P: "P (w_db s)"
  have loop: "wp (State_Monad.bind (for_each cs (\<lambda>c. State_Monad.bind (drop_attachments env (ci_uuid c))
        (\<lambda>_. State_Monad.bind (favorite_set env (uid h) (ci_uuid c) False)
        (\<lambda>_. ignore (cipher_delete env c))))) k) (\<lambda>_ s. P (w_db s)) s'"
    if "\<forall>c\<in>set cs. c \<in> set (t_ciphers (w_db s)) \<and> opt_is (ci_user_uuid c) (uid h)"
      "w_db s' = w_db s" "\<And>x. preserves (\<lambda>s. P (w_db s)) (k x)" for cs s' k
  proof -
    have "victim c" if "c \<in> set cs" for c
      using touch_victim [OF P, of c] that \<open>\<forall>c\<in>set cs. _\<close>
      by (auto simp: opt_is_def may_touch_def)
    then have "preserves (\<lambda>s. P (w_db s)) (for_each cs (\<lambda>c.
        State_Monad.bind (State_Monad.bind (drop_attachments env (ci_uuid c))
          (\<lambda>_. favorite_set env (uid h) (ci_uuid c) False)) (\<lambda>_. ignore (cipher_delete env c))))"
      by (intro purge_loop rules)
    then have "preserves (\<lambda>s. P (w_db s)) (for_each cs (\<lambda>c. State_Monad.bind (drop_attachments env (ci_uuid c))
        (\<lambda>_. State_Monad.bind (favorite_set env (uid h) (ci_uuid c) False)
        (\<lambda>_. ignore (cipher_delete env c)))))"
      by simp
    then show ?thesis
      by (rule wp_bind_preserves [OF preserves_wp]) (use P that in auto)
  qed
  show "wp (purge_own env h) (\<lambda>_ s. P (w_db s)) s"
    unfolding purge_own_def query_defs
    by (auto simp: P wp_d1_query wp_unwrap_or wp_bind [of "unwrap_or _ _"]
          simp del: wp_bind intro!: loop rules)
      (rule preserves_wp, intro rules, simp add: P)
qed

lemma purge_user_ciphers: "preserves (\<lambda>s. P (w_db s)) (purge_user_ciphers env h org pw)"
  unfolding purge_user_ciphers_def by (intro rules purge_org purge_own)

lemmas handlers = post_cipher put_cipher put_cipher_partial delete_cipher_soft restore_cipher
  delete_cipher_hard put_cipher_collections share_cipher archive_cipher unarchive_cipher
  bulk_delete_soft bulk_restore bulk_links purge_user_ciphers import_ciphers

lemma exec_cipher_op:
  assumes "\<forall>body. op \<noteq> BulkShare body"
  shows "preserves (\<lambda>s. P (w_db s)) (exec_cipher_op env h op)"
  using assms by (cases op) (auto intro: handlers)

end

text \<open>\<open>bulk_share\<close> sets the organization and leaves the user in place.\<close>

locale item_invariant_bulk = item_invariant +
  assumes save_bulk: "P d \<Longrightarrow> x \<in> set (t_ciphers d) \<Longrightarrow> victim x \<Longrightarrow> ci_uuid y = ci_uuid x \<Longrightarrow>
    ci_user_uuid y = ci_user_uuid x \<Longrightarrow> ci_organization_uuid y \<noteq> None \<Longrightarrow>
    P (d\<lparr>t_ciphers := upsert ci_uuid cipher_conflict y (t_ciphers d)\<rparr>)"
begin

lemma bulk_share: "preserves (\<lambda>s. P (w_db s)) (bulk_share env h sbody)"
proof -
  have save: "wp (cipher_save env y) (\<lambda>_ s. P (w_db s)) s"
    if "P (w_db s)" "x \<in> set (t_ciphers (w_db s))" "victim x" "ci_uuid y = ci_uuid x"
      "ci_user_uuid y = ci_user_uuid x" "ci_organization_uuid y \<noteq> None" for x y s
    by (rule save_keeps) (use that in \<open>auto intro: save_bulk\<close>)
  show ?thesis
    unfolding bulk_share_def Let_def query_defs
    by (intro preserves_case_option preserves_bind preserves_for_each preserves_return guarded
          wp_try_ret_preserves save; (assumption | (intro rules [unfolded query_defs]; fail) | simp)?)
qed

lemma exec_any_op: "preserves (\<lambda>s. P (w_db s)) (exec_cipher_op env h op)"
  by (cases op) (auto intro: handlers bulk_share)

end

section \<open>Isolation and exclusive ownership\<close>

definition owner_ok :: "db \<Rightarrow> bool" where
  "owner_ok d \<longleftrightarrow> (\<forall>c\<in>set (t_ciphers d). exclusive c)"

definition fresh_uuids :: "env \<Rightarrow> db \<Rightarrow> bool" where
  "fresh_uuids env d \<longleftrightarrow> (\<forall>n. e_uuid env n \<notin> ci_uuid ` set (t_ciphers d))"

definition protected_item :: "db \<Rightarrow> headers \<Rightarrow> cipher \<Rightarrow> bool" where
  "protected_item d h c \<longleftrightarrow> c \<in> set (t_ciphers d) \<and> \<not> in_reach d h c"

text \<open>Since a request started on \<open>d0\<close>, no item out of the caller's reach has changed.\<close>

definition keeps_items :: "env \<Rightarrow> headers \<Rightarrow> db \<Rightarrow> db \<Rightarrow> bool" where
  "keeps_items env h d0 d \<longleftrightarrow>
     t_users_organizations d = t_users_organizations d0 \<and> fresh_uuids env d0 \<and>
     distinct (map ci_uuid (t_ciphers d)) \<and>
     (\<forall>c. protected_item d0 h c \<longrightarrow> c \<in> set (t_ciphers d))"

lemma exclusive_conflict [simp]: "exclusive (cipher_conflict old new) = exclusive new"
  by (simp add: exclusive_def cipher_conflict_def)

lemma owner_ok_upsert:
  "owner_ok d \<Longrightarrow> exclusive y \<Longrightarrow>
     owner_ok (d\<lparr>t_ciphers := upsert ci_uuid cipher_conflict y (t_ciphers d)\<rparr>)"
  by (auto simp: owner_ok_def set_upsert)

interpretation ownership: item_invariant env h owner_ok exclusive for env h
proof unfold_locales
  show "item_pred owner_ok"
    by (simp add: item_pred_def owner_ok_def)
  show "exclusive x" if "owner_ok d" "x \<in> set (t_ciphers d)" for d x
    using that by (simp add: owner_ok_def)
  then show "exclusive x" if "owner_ok d" "x \<in> set (t_ciphers d)" for d x
    using that by blast
  show "owner_ok (delete_ciphers env (\<lambda>y. ci_uuid y = ci_uuid x) d)" if "owner_ok d" for d x
    using that by (auto simp: owner_ok_def delete_ciphers_def)
qed (rule owner_ok_upsert, assumption, simp add: exclusive_def)+

lemma same_item:
  "distinct (map ci_uuid t) \<Longrightarrow> c \<in> set t \<Longrightarrow> x \<in> set t \<Longrightarrow> ci_uuid c = ci_uuid x \<Longrightarrow> c = x"
  by (auto simp: distinct_map inj_on_def)

lemma keeps_items_upsert:
  assumes "keeps_items env h d0 d" "\<forall>c. protected_item d0 h c \<longrightarrow> ci_uuid c \<noteq> ci_uuid y"
  shows "keeps_items env h d0 (d\<lparr>t_ciphers := upsert ci_uuid cipher_conflict y (t_ciphers d)\<rparr>)"
  using assms by (auto simp: keeps_items_def kt_ciphers.distinct_upsert kt_ciphers.upsert_other_rows)

lemma keeps_items_victim:
  assumes "keeps_items env h d0 d" "x \<in> set (t_ciphers d)" and "in_reach d h x"
    and "protected_item d0 h c"
  shows "ci_uuid c \<noteq> ci_uuid x"
proof
  assume "ci_uuid c = ci_uuid x"
  then have "c = x"
    using assms by (auto simp: keeps_items_def intro: same_item)
  then show False
    using assms by (simp add: keeps_items_def protected_item_def in_reach_def)
qed

interpretation isolation: item_invariant_bulk env h "keeps_items env h d0"
  "\<lambda>x. \<forall>c. protected_item d0 h c \<longrightarrow> ci_uuid c \<noteq> ci_uuid x" for env h d0
proof unfold_locales
  show "item_pred (keeps_items env h d0)"
    unfolding item_pred_def keeps_items_def by (intro allI impI) simp
next
  fix d x m
  assume d: "keeps_items env h d0 d" "x \<in> set (t_ciphers d)"
    and m: "m \<in> set (t_users_organizations d)" "me_user_uuid m = uid h"
      "ci_organization_uuid x = Some (me_org_uuid m)"
  have "in_reach d h x"
    using m by (auto simp: in_reach_def)
  then show "\<forall>c. protected_item d0 h c \<longrightarrow> ci_uuid c \<noteq> ci_uuid x"
    using keeps_items_victim [OF d] by simp
next
  fix d y n
  assume d: "keeps_items env h d0 d" "exclusive y" "ci_uuid y = e_uuid env n"
  have "ci_uuid c \<noteq> ci_uuid y" if "c \<in> set (t_ciphers d0)" for c
    using d(1,3) that by (metis fresh_uuids_def image_eqI keeps_items_def)
  then show "keeps_items env h d0 (d\<lparr>t_ciphers := upsert ci_uuid cipher_conflict y (t_ciphers d)\<rparr>)"
    by (intro keeps_items_upsert d(1)) (simp add: protected_item_def)
next
  fix d x
  assume "keeps_items env h d0 d" "\<forall>c. protected_item d0 h c \<longrightarrow> ci_uuid c \<noteq> ci_uuid x"
  then show "keeps_items env h d0 (delete_ciphers env (\<lambda>y. ci_uuid y = ci_uuid x) d)"
    by (auto simp: keeps_items_def delete_ciphers_def distinct_delete_where)
next
  fix d x
  assume d: "keeps_items env h d0 d" "x \<in> set (t_ciphers d)" "may_touch d h x"
  show "\<forall>c. protected_item d0 h c \<longrightarrow> ci_uuid c \<noteq> ci_uuid x"
    using keeps_items_victim [OF d(1,2)] may_touch_in_reach [OF d(3)] by simp
qed (rule keeps_items_upsert, assumption, simp)+

section \<open>Properties\<close>

text \<open>C1.
  Isolation of items: whatever item request a user sends, single or bulk, and whichever of its
  database calls are refused, an item that is neither the user's own nor of an organization
  the user is a member of is in the database afterwards exactly as it was.  Item ids are the
  primary key of their table, and the ids the server draws are new.
\<close>

theorem item_requests_isolated:
  assumes "distinct (map ci_uuid (t_ciphers (w_db s)))" and "fresh_uuids env (w_db s)"
    and "c \<in> set (t_ciphers (w_db s))" and "\<not> in_reach (w_db s) h c"
    and "run_state (exec_cipher_op env h op) s = (resp, s')"
  shows "c \<in> set (t_ciphers (w_db s'))"
proof -
  have "keeps_items env h (w_db s) (w_db s)"
    using assms(1,2) by (simp add: keeps_items_def protected_item_def)
  then have "keeps_items env h (w_db s) (w_db s')"
    using assms(5) by (rule preservesD [OF isolation.exec_any_op])
  then show ?thesis
    using assms(3,4) by (simp add: keeps_items_def protected_item_def)
qed

theorem item_requests_isolated_witness:
  "sample_cipher ''cb'' (Some ''bob'') None \<in> set (t_ciphers (w_db (snd (run_state
     (exec_cipher_op sample_env (sample_headers ''alice'') (DeleteHard ''cb''))
     (sample_world sample_db)))))"
proof (rule item_requests_isolated [OF _ _ _ _ surjective_pairing])
  show "fresh_uuids sample_env (w_db (sample_world sample_db))"
    by (simp add: fresh_uuids_def sample_defs)
qed code_simp+

text \<open>The item requests of any users, one after the other, without \<open>bulk_share\<close>.\<close>

inductive vault_run :: "env \<Rightarrow> world \<Rightarrow> world \<Rightarrow> bool" for env where
  start: "vault_run env s s"
| request: "vault_run env s s'' \<Longrightarrow> \<forall>body. op \<noteq> BulkShare body \<Longrightarrow>
    run_state (exec_cipher_op env h op) s'' = (resp, s') \<Longrightarrow> vault_run env s s'"

text \<open>C17.
  Exclusive ownership: along every sequence of item requests other than \<open>bulk_share\<close>, each
  item keeps exactly one kind of owner, a user or an organization.
\<close>

theorem ownership_stays_exclusive:
  assumes "vault_run env s s'" and "owner_ok (w_db s)"
  shows "owner_ok (w_db s')"
  using assms
proof (induction rule: vault_run.induct)
  case (request s s'' op h resp s')
  then show ?case
    by (auto dest: preservesD [OF ownership.exec_cipher_op])
qed

theorem ownership_stays_exclusive_witness:
  "owner_ok (w_db (snd (run_state
     (exec_cipher_op sample_env (sample_headers ''alice'') (DeleteSoft ''ca'')) (sample_world sample_db))))"
proof (rule ownership_stays_exclusive)
  show "vault_run sample_env (sample_world sample_db) (snd (run_state
      (exec_cipher_op sample_env (sample_headers ''alice'') (DeleteSoft ''ca'')) (sample_world sample_db)))"
    by (rule vault_run.request [OF vault_run.start _ surjective_pairing]) simp
  show "owner_ok (w_db (sample_world sample_db))" by code_simp
qed

text \<open>C23.
  Private items: a caller who may not touch the item of that id gets an error status from
  every handler for one item, and the database stays as it was.
\<close>

theorem item_requests_of_others_denied:
  assumes "\<forall>c\<in>set (t_ciphers (w_db s)). ci_uuid c = uuid \<longrightarrow> \<not> may_touch (w_db s) h c"
    and "m \<in> {get_cipher env h uuid, put_cipher env h uuid body, put_cipher_partial env h uuid pu,
      delete_cipher_soft env h uuid, restore_cipher env h uuid, delete_cipher_hard env h uuid,
      put_cipher_collections env h uuid ids, share_cipher env h uuid sb,
      archive_cipher env h uuid, unarchive_cipher env h uuid}"
    and "run_state m s = (resp, s')"
  shows "resp_status resp \<ge> 400 \<and> w_db s' = w_db s"
proof -
  have "wp m (\<lambda>resp s'. resp_status resp \<ge> 400 \<and> w_db s' = w_db s) s"
    using assms(1,2)
    by (auto simp: get_cipher_def put_cipher_def put_cipher_partial_def delete_cipher_soft_def
          restore_cipher_def delete_cipher_hard_def put_cipher_collections_def share_cipher_def
          archive_cipher_def unarchive_cipher_def intro!: cipher_loader.denied)
  then show ?thesis
    using assms(3) by (rule wpD)
qed

theorem item_requests_of_others_denied_witness:
  "400 \<le> resp_status (fst (run_state
     (delete_cipher_hard sample_env (sample_headers ''bob'') ''ca'') (sample_world sample_db)))"
proof -
  have "\<forall>c\<in>set (t_ciphers (w_db (sample_world sample_db))).
      ci_uuid c = ''ca'' \<longrightarrow> \<not> may_touch (w_db (sample_world sample_db)) (sample_headers ''bob'') c"
    by code_simp
  from item_requests_of_others_denied [OF this _ surjective_pairing, of _ sample_env]
  show ?thesis by simp
qed

end
