(* ===== verification/Ciphers_Effects.thy ===== *)
theory Ciphers_Effects
  imports Ciphers_Safety
begin

text \<open>
  What the item handlers do when they answer with success: the exact change of the tables, the
  folder and collection links, the list a user sees, and the payload that comes back.
\<close>

section \<open>Updates of one row\<close>

lemma wp_cipher_save:
  "wp (cipher_save env c) Q s =
     (let now = e_now env (w_tick s); c' = c\<lparr>ci_updated_at := now\<rparr>;
          d = (w_db s)\<lparr>t_ciphers := upsert ci_uuid cipher_conflict c' (t_ciphers (w_db s))\<rparr> in
      if e_fault env (Suc (w_tick s)) \<or> e_fk env \<and> \<not> fk_ok d then Q (Inl D1Error) (bump (bump s))
      else Q (Inr c') (bump ((bump s)\<lparr>w_db := d\<rparr>)))"
  by (simp add: cipher_save_def wp_rules Let_def)

lemma cipher_conflict_same:
  "ci_created_at y = ci_created_at x \<Longrightarrow> cipher_conflict x y = y"
  by (simp add: cipher_conflict_def)

lemma cipher_upsert_existing:
  assumes "distinct (map ci_uuid t)" "c \<in> set t"
    and "\<And>x. ci_uuid (g x) = ci_uuid x" "\<And>x. ci_created_at (g x) = ci_created_at x"
  shows "upsert ci_uuid cipher_conflict (g c) t = update_where (\<lambda>x. ci_uuid x = ci_uuid c) g t"
  using kt_ciphers.upsert_existing [OF assms(1,2), of g] assms(3,4)
  by (simp add: cipher_conflict_same)

lemma wp_notify_cipherI:
  assumes "\<And>s'. w_db s' = w_db s \<Longrightarrow> Q () s'"
  shows "wp (notify_cipher env h k c g) Q s"
  using assms
  by (auto simp: notify_cipher_def wp_if_some intro!: wp_notify_userI wp_notify_orgI split: option.splits)

lemma wp_finish_item:
  assumes "\<And>s' es. w_db s' = (w_db s)\<lparr>t_event := es\<rparr> \<Longrightarrow> Q r s'"
  shows "wp (State_Monad.bind (notify_cipher env h k c g) (\<lambda>_.
           State_Monad.bind (log_cipher_event env ty c' u g' dt) (\<lambda>_. return r))) Q s"
  using assms by (auto intro!: wp_notify_cipherI wp_log_eventI)

lemma delete_cipher_soft_effect:
  assumes "distinct (map ci_uuid (t_ciphers (w_db s)))"
  shows "wp (delete_cipher_soft env h uuid) (\<lambda>resp s'. resp_status resp = 200 \<longrightarrow>
    (\<exists>t1 t2 es. w_db s' = (w_db s)\<lparr>t_ciphers := update_where (\<lambda>x. ci_uuid x = uuid)
        (\<lambda>x. x\<lparr>ci_deleted_at := Some t1, ci_updated_at := t2\<rparr>) (t_ciphers (w_db s)), t_event := es\<rparr>)) s"
  unfolding delete_cipher_soft_def
  by (rule cipher_loader.wp_guarded)
    (auto simp: wp_sources wp_cipher_save Let_def
        cipher_upsert_existing [OF assms, of _ "\<lambda>x. x\<lparr>ci_deleted_at := _, ci_updated_at := _\<rparr>"]
      intro!: wp_notify_cipherI wp_log_eventI, (intro exI, rule refl)+)

lemma restore_cipher_effect:
  assumes "distinct (map ci_uuid (t_ciphers (w_db s)))"
  shows "wp (restore_cipher env h uuid) (\<lambda>resp s'. resp_status resp = 200 \<longrightarrow>
    (\<exists>t2 es. w_db s' = (w_db s)\<lparr>t_ciphers := update_where (\<lambda>x. ci_uuid x = uuid)
        (\<lambda>x. x\<lparr>ci_deleted_at := None, ci_updated_at := t2\<rparr>) (t_ciphers (w_db s)), t_event := es\<rparr>)) s"
  unfolding restore_cipher_def
  by (rule cipher_loader.wp_guarded)
    (auto simp: wp_cipher_save Let_def favorite_is_favorite_def wp_d1_query
        cipher_upsert_existing [OF assms, of _ "\<lambda>x. x\<lparr>ci_deleted_at := _, ci_updated_at := _\<rparr>"]
      intro!: wp_notify_cipherI wp_log_eventI, (intro exI, rule refl)+)

text \<open>C26.
  Trash and restore are inverse: when both requests succeed, the database is as before, except
  for the revision date of that one item (and the audit log), provided it was not in the
  trash already.
\<close>

theorem trash_restore_roundtrip:
  assumes "distinct (map ci_uuid (t_ciphers (w_db s)))"
    and "\<forall>c\<in>set (t_ciphers (w_db s)). ci_uuid c = uuid \<longrightarrow> ci_deleted_at c = None"
    and "run_state (delete_cipher_soft env h uuid) s = (r1, s1)" and "resp_status r1 = 200"
    and "run_state (restore_cipher env h' uuid) s1 = (r2, s2)" and "resp_status r2 = 200"
  shows "\<exists>now es. w_db s2 = (w_db s)\<lparr>t_ciphers :=
           update_where (\<lambda>x. ci_uuid x = uuid) (\<lambda>x. x\<lparr>ci_updated_at := now\<rparr>) (t_ciphers (w_db s)),
           t_event := es\<rparr>"
proof -
  obtain t1 t2 es where s1: "w_db s1 = (w_db s)\<lparr>t_ciphers := update_where (\<lambda>x. ci_uuid x = uuid)
      (\<lambda>x. x\<lparr>ci_deleted_at := Some t1, ci_updated_at := t2\<rparr>) (t_ciphers (w_db s)), t_event := es\<rparr>"
    using wpD [OF delete_cipher_soft_effect [OF assms(1)] assms(3)] assms(4) by blast
  have "map ci_uuid (t_ciphers (w_db s1)) = map ci_uuid (t_ciphers (w_db s))"
    by (simp add: s1 update_where_def)
  then have "distinct (map ci_uuid (t_ciphers (w_db s1)))"
    using assms(1) by simp
  then obtain t3 es' where s2: "w_db s2 = (w_db s1)\<lparr>t_ciphers := update_where (\<lambda>x. ci_uuid x = uuid)
      (\<lambda>x. x\<lparr>ci_deleted_at := None, ci_updated_at := t3\<rparr>) (t_ciphers (w_db s1)), t_event := es'\<rparr>"
    using wpD [OF restore_cipher_effect assms(5)] assms(6) by blast
  have "update_where (\<lambda>x. ci_uuid x = uuid) (\<lambda>x. x\<lparr>ci_deleted_at := None, ci_updated_at := t3\<rparr>)
      (t_ciphers (w_db s1)) =
    update_where (\<lambda>x. ci_uuid x = uuid) (\<lambda>x. x\<lparr>ci_updated_at := t3\<rparr>) (t_ciphers (w_db s))"
    using assms(2) by (auto simp: s1 update_where_def)
  with s1 s2 show ?thesis by auto
qed

theorem trash_restore_roundtrip_witness:
  "\<exists>now es. w_db (snd (run_state (restore_cipher sample_env (sample_headers ''alice'') ''ca'')
       (snd (run_state (delete_cipher_soft sample_env (sample_headers ''alice'') ''ca'')
         (sample_world sample_db))))) =
     sample_db\<lparr>t_ciphers := update_where (\<lambda>x. ci_uuid x = ''ca'') (\<lambda>x. x\<lparr>ci_updated_at := now\<rparr>)
       (t_ciphers sample_db), t_event := es\<rparr>"
proof -
  let ?s1 = "run_state (delete_cipher_soft sample_env (sample_headers ''alice'') ''ca'')
    (sample_world sample_db)"
  let ?s2 = "run_state (restore_cipher sample_env (sample_headers ''alice'') ''ca'') (snd ?s1)"
  have "distinct (map ci_uuid (t_ciphers (w_db (sample_world sample_db))))"
    "\<forall>c\<in>set (t_ciphers (w_db (sample_world sample_db))). ci_uuid c = ''ca'' \<longrightarrow> ci_deleted_at c = None"
    by code_simp+
  note start = this
  have "wp (delete_cipher_soft sample_env (sample_headers ''alice'') ''ca'') (\<lambda>r1.
      wp (restore_cipher sample_env (sample_headers ''alice'') ''ca'') (\<lambda>r2 _.
        resp_status r1 = 200 \<and> resp_status r2 = 200)) (sample_world sample_db)"
    by (simp add: delete_cipher_soft_def restore_cipher_def load_owned_cipher_def cipher_save_def
        notify_cipher_def cipher_conflict_def query_defs eval_simps)
  then have "resp_status (fst ?s1) = 200" "resp_status (fst ?s2) = 200"
    by (simp_all add: wp_def split_beta)
  from trash_restore_roundtrip [OF start surjective_pairing this(1) surjective_pairing this(2)]
  show ?thesis by (simp add: sample_world_def)
qed

section \<open>Deleting for good\<close>

lemma preserves_other_tables:
  fixes P :: "db \<Rightarrow> bool"
  assumes "\<And>d x. P (d\<lparr>t_favorites := x\<rparr>) = P d" "\<And>d x. P (d\<lparr>t_attachments := x\<rparr>) = P d"
  shows "preserves (\<lambda>s. P (w_db s)) (favorite_set env u c fav)"
    and "preserves (\<lambda>s. P (w_db s)) (drop_attachments env c)"
  unfolding favorite_set_def drop_attachments_def attachment_find_by_cipher_def attachment_delete_def
  by (intro preserves_rules preserves_d1_exec; auto simp: assms)+

text \<open>
  With foreign keys enforced, an item that is in a folder or in a collection cannot be deleted
  for good: the handler removes attachments and the caller's favorite mark only, the DELETE is
  refused, the caller gets an error and the item stays.
\<close>

theorem delete_linked_item_refused:
  assumes "e_fk env"
    and "(uuid, f) \<in> set (t_folders_ciphers (w_db s)) \<union> set (t_ciphers_collections (w_db s))"
    and "run_state (delete_cipher_hard env h uuid) s = (resp, s')"
  shows "resp_status resp \<ge> 400 \<and> t_ciphers (w_db s') = t_ciphers (w_db s)"
proof -
  define L where "L d \<longleftrightarrow> (uuid, f) \<in> set (t_folders_ciphers d) \<union> set (t_ciphers_collections d) \<and>
    t_ciphers d = t_ciphers (w_db s)" for d :: db
  have stays: "preserves (\<lambda>s. L (w_db s)) (favorite_set env u c fav)"
    "preserves (\<lambda>s. L (w_db s)) (drop_attachments env c)" for u c fav
    by (intro preserves_other_tables; simp add: L_def)+
  have refused: "\<not> fk_ok (delete_ciphers env (\<lambda>x. ci_uuid x = uuid) d)" if "L d" for d
    using that by (force simp: L_def fk_ok_def fk_ciphers_def refers_def delete_ciphers_def)
  have items: "t_ciphers d = t_ciphers (w_db s)" if "L d" for d
    using that by (simp add: L_def)
  have "wp (delete_cipher_hard env h uuid)
      (\<lambda>resp s'. resp_status resp \<ge> 400 \<and> t_ciphers (w_db s') = t_ciphers (w_db s)) s"
    unfolding delete_cipher_hard_def
  proof (rule cipher_loader.wp_guarded, goal_cases)
    case (2 x s')
    then have "L (w_db s')" using assms(2) by (simp add: L_def)
    then have "wp (State_Monad.bind (favorite_set env (uid h) (ci_uuid x) False)
        (\<lambda>_. drop_attachments env (ci_uuid x))) (\<lambda>_ s. L (w_db s)) s'"
      by (intro preserves_wp [OF preserves_bind] stays)
    then show ?case
      using 2 assms(1)
      by (auto simp: wp_d1_exec cipher_delete_def items dest: refused elim!: wp_mono)
  qed auto
  then show ?thesis
    using assms(3) by (rule wpD)
qed

theorem delete_linked_item_refused_witness:
  "400 \<le> resp_status (fst (run_state
     (delete_cipher_hard sample_env_fk (sample_headers ''alice'') ''ca'') (sample_world sample_db)))"
proof -
  have "e_fk sample_env_fk" "(''ca'', ''fa'') \<in> set (t_folders_ciphers (w_db (sample_world sample_db))) \<union>
      set (t_ciphers_collections (w_db (sample_world sample_db)))"
    by code_simp+
  from delete_linked_item_refused [OF this surjective_pairing] show ?thesis by blast
qed

section \<open>Folders of an item\<close>

text \<open>The folders of a user, and the links of an item to them.\<close>

definition owns_folder :: "db \<Rightarrow> string \<Rightarrow> string \<Rightarrow> bool" where
  "owns_folder d u f \<longleftrightarrow> (\<exists>x\<in>set (t_folders d). fo_uuid x = f \<and> fo_user_uuid x = u)"

lemma owns_folderI [intro]: "x \<in> set (t_folders d) \<Longrightarrow> owns_folder d (fo_user_uuid x) (fo_uuid x)"
  by (auto simp: owns_folder_def)

text \<open>
  Putting an item into a folder never removes a link of another item, nor a link of the item to
  a folder of somebody else, whichever database calls are refused.
\<close>

theorem set_cipher_folder_keeps_other_links:
  assumes "(c, f) \<in> set (t_folders_ciphers (w_db s))"
    and "c \<noteq> cipher_uuid \<or> \<not> owns_folder (w_db s) user_uuid f"
    and "run_state (set_cipher_folder env user_uuid cipher_uuid folder_id) s = (r, s')"
  shows "(c, f) \<in> set (t_folders_ciphers (w_db s'))"
proof -
  let ?I = "\<lambda>s'. (c, f) \<in> set (t_folders_ciphers (w_db s'))"
  have unset: "wp (folder_cipher_unset env cipher_uuid i) (\<lambda>_. ?I) s'"
    if "?I s'" "owns_folder (w_db s) user_uuid i" for s' i
    using that assms(2) by (auto simp: folder_cipher_unset_def wp_rules)
  have set': "wp (folder_cipher_set env cipher_uuid i) (\<lambda>_. ?I) s'" if "?I s'" for s' i
    using that by (auto simp: folder_cipher_set_def wp_rules)
  have loop: "wp (for_each xs (\<lambda>fid. ignore (folder_cipher_unset env cipher_uuid fid))) (\<lambda>_. ?I) s'"
    if "?I s'" "\<forall>x\<in>set xs. owns_folder (w_db s) user_uuid x" for xs s'
    by (rule wp_for_each_invariant) (use that unset in auto)
  have "wp (set_cipher_folder env user_uuid cipher_uuid folder_id) (\<lambda>_. ?I) s"
    unfolding set_cipher_folder_def folder_cipher_list_by_cipher_def folder_find_by_user_def
    using assms(1)
    by (auto simp: wp_d1_query wp_if_some owns_folderI set' split: option.splits
        intro!: wp_mono [OF loop])
  then show ?thesis
    using assms(3) by (rule wpD)
qed

theorem set_cipher_folder_keeps_other_links_witness:
  "(''ca'', ''fa'') \<in> set (t_folders_ciphers (w_db (snd (run_state
     (set_cipher_folder sample_env ''bob'' ''ca'' (Some ''fb'')) (sample_world sample_db)))))"
proof -
  have "(''ca'', ''fa'') \<in> set (t_folders_ciphers (w_db (sample_world sample_db)))"
    "''ca'' \<noteq> ''ca'' \<or> \<not> owns_folder (w_db (sample_world sample_db)) ''bob'' ''fa''"
    by code_simp+
  from set_cipher_folder_keeps_other_links [OF this surjective_pairing] show ?thesis .
qed

end
