(* ===== verification/Ratelimit.thy ===== *)
theory Ratelimit
  imports Sample_Data
begin

text \<open>
  \<open>worker/src/ratelimit.rs\<close>: the sliding-window limiter on Workers KV.  The estimate is
  computed in \<open>f64\<close> in the source and in rationals here; the counters it reads are below
  the limit, so only a value within the rounding error of the limit could be judged
  differently.  Keys expire after two windows, which is after their last use, so the KV store
  of the model keeps them.
\<close>

record rate_limit =
  rl_kind :: string
  rl_window_secs :: nat
  rl_limit :: nat

definition LOGIN_LIMIT :: rate_limit where
  "LOGIN_LIMIT = \<lparr>rl_kind = ''login'', rl_window_secs = 60, rl_limit = 200\<rparr>"

definition REGISTER_LIMIT :: rate_limit where
  "REGISTER_LIMIT = \<lparr>rl_kind = ''register'', rl_window_secs = 3600, rl_limit = 500\<rparr>"

definition EMAIL_SEND_LIMIT :: rate_limit where
  "EMAIL_SEND_LIMIT = \<lparr>rl_kind = ''mail'', rl_window_secs = 3600, rl_limit = 30\<rparr>"

definition read_count :: "env \<Rightarrow> string \<Rightarrow> nat act" where
  "read_count env key = do {
     r \<leftarrow> kv_get env key;
     return (case r of
       Inr (Some s) \<Rightarrow> (case parse_u64 s of None \<Rightarrow> 0 | Some n \<Rightarrow> n)
     | _ \<Rightarrow> 0) }"

definition rl_key :: "rate_limit \<Rightarrow> string \<Rightarrow> nat \<Rightarrow> string" where
  "rl_key limit identifier window =
     ''rl:'' @ rl_kind limit @ '':'' @ identifier @ '':'' @ nat_to_string window"

definition rl_estimate :: "rate_limit \<Rightarrow> nat \<Rightarrow> nat \<Rightarrow> nat \<Rightarrow> rat" where
  "rl_estimate limit now current prev =
     of_nat current + of_nat prev *
       (1 - of_nat (now mod rl_window_secs limit) / of_nat (rl_window_secs limit))"

definition ratelimit_check :: "env \<Rightarrow> rate_limit \<Rightarrow> string \<Rightarrow> bool act" where
  "ratelimit_check env limit identifier = do {
     now \<leftarrow> unix_now env;
     let current_window = now div rl_window_secs limit;
     let prev_window = current_window - 1;
     current \<leftarrow> read_count env (rl_key limit identifier current_window);
     prev \<leftarrow> read_count env (rl_key limit identifier prev_window);
     if rl_estimate limit now current prev \<ge> of_nat (rl_limit limit) then return False
     else do {
       _ \<leftarrow> kv_put env (rl_key limit identifier current_window) (nat_to_string (current + 1));
       return True } }"

section \<open>Lemmas\<close>

lemma wp_kv [wp_rules]:
  "wp (kv_get env k) Q s =
     Q (if e_fault env (w_tick s) then Inl () else Inr (kv_seen (e_kv_lag env (w_tick s)) s k)) (bump s)"
  "wp (kv_put env k v) Q' s =
     (if e_fault env (w_tick s) then Q' (Inl ()) (bump s)
      else Q' (Inr ()) (bump (s\<lparr>w_kv := (k, v) # w_kv s\<rparr>)))"
  by (simp_all add: wp_def kv_get_def kv_put_def)

text \<open>The counter that a read finds under a key when it misses the latest \<open>lag\<close> writes.\<close>

definition seen_count :: "nat \<Rightarrow> world \<Rightarrow> string \<Rightarrow> nat" where
  "seen_count lag s key = (case kv_seen lag s key of
     None \<Rightarrow> 0 | Some t \<Rightarrow> (case parse_u64 t of None \<Rightarrow> 0 | Some n \<Rightarrow> n))"

lemma seen_count_bump [simp]: "seen_count lag (bump s) = seen_count lag s"
  by (simp add: seen_count_def kv_seen_def fun_eq_iff)

lemma seen_count_put [simp]:
  "seen_count 0 (s\<lparr>w_kv := (k, v) # l\<rparr>) k = (case parse_u64 v of None \<Rightarrow> 0 | Some n \<Rightarrow> n)"
  "seen_count (Suc i) (s'\<lparr>w_kv := x # w_kv s\<rparr>) = seen_count i s"
  by (simp_all add: seen_count_def kv_seen_def fun_eq_iff)

lemma wp_read_count:
  "wp (read_count env key) Q s =
     Q (if e_fault env (w_tick s) then 0 else seen_count (e_kv_lag env (w_tick s)) s key) (bump s)"
  by (simp add: read_count_def wp_rules seen_count_def split: option.splits)

lemma rl_estimate_ge: "of_nat current \<le> rl_estimate limit now current prev"
proof -
  have "(of_nat (now mod rl_window_secs limit) :: rat) \<le> of_nat (rl_window_secs limit)"
    if "rl_window_secs limit > 0"
    using that by (simp add: less_imp_le)
  then have "(of_nat (now mod rl_window_secs limit) :: rat) / of_nat (rl_window_secs limit) \<le> 1"
    by (cases "rl_window_secs limit = 0") (simp_all add: divide_le_eq)
  then show ?thesis
    by (simp add: rl_estimate_def)
qed

lemma preserves_ratelimit [preserves_rules]:
  fixes P :: "db \<Rightarrow> bool"
  shows "preserves (\<lambda>s. P (w_db s)) (ratelimit_check env limit identifier)"
  unfolding ratelimit_check_def read_count_def Let_def by (intro preserves_rules)

lemma wp_ratelimitI:
  assumes "\<And>ok s'. w_db s' = w_db s \<Longrightarrow> Q ok s'"
  shows "wp (ratelimit_check env limit identifier) Q s"
  by (rule wp_mono [OF preserves_wp [OF preserves_ratelimit [where P = "\<lambda>d. d = w_db s"]]])
    (use assms in auto)

lemma wp_ratelimit_later:
  "wp (ratelimit_check env limit identifier) (\<lambda>_ s'. w_db s' = w_db s \<and> w_tick s \<le> w_tick s') s"
  by (simp add: ratelimit_check_def wp_sources wp_read_count wp_kv Let_def)

text \<open>
  One check while no call fails: an admitted request found a counter below the limit and stored
  the next one; a refused request stores nothing.
\<close>

definition counted :: "rate_limit \<Rightarrow> string \<Rightarrow> nat \<Rightarrow> world \<Rightarrow> world \<Rightarrow> bool" where
  "counted limit key lag s s' \<longleftrightarrow> seen_count lag s key < rl_limit limit \<and>
     (\<forall>i. seen_count i s' key =
       (case i of 0 \<Rightarrow> Suc (seen_count lag s key) | Suc j \<Rightarrow> seen_count j s key))"

lemma wp_ratelimit_check:
  assumes "\<And>n. \<not> e_fault env n" and "\<And>n. e_unix env n div rl_window_secs limit = w"
    and "rl_limit limit < 2 ^ 32"
  shows "wp (ratelimit_check env limit identifier) (\<lambda>ok s'.
      if ok then \<exists>n. counted limit (rl_key limit identifier w) (e_kv_lag env n) s s'
      else \<forall>i. seen_count i s' = seen_count i s) s"
proof -
  let ?k = "rl_key limit identifier w"
  have room: "seen_count l s ?k < rl_limit limit"
    if "\<not> of_nat (rl_limit limit) \<le> rl_estimate limit now (seen_count l s ?k) prev" for l now prev
    using rl_estimate_ge [of "seen_count l s ?k" limit now prev] that
    by (metis leI of_nat_le_iff order_trans)
  have parse: "parse_u64 (nat_to_string (Suc n)) = Some (Suc n)" if "n < rl_limit limit" for n
    using that assms(3) by (intro parse_nat_to_string) simp
  have stored: "counted limit ?k l s (bump (s'\<lparr>w_kv := (?k, nat_to_string (Suc (seen_count l s ?k))) # w_kv s\<rparr>))"
    if "seen_count l s ?k < rl_limit limit" for l s'
    using that by (simp add: counted_def parse split: nat.split)
  show ?thesis
    using assms(1)
    by (auto simp: ratelimit_check_def wp_sources wp_read_count wp_kv assms(2) Let_def
        dest!: room intro!: stored exI)
qed

text \<open>The number of requests admitted among \<open>n\<close> in a row.\<close>

fun admitted :: "env \<Rightarrow> rate_limit \<Rightarrow> string \<Rightarrow> nat \<Rightarrow> nat act" where
  "admitted env limit identifier 0 = return 0"
| "admitted env limit identifier (Suc n) = do {
     ok \<leftarrow> ratelimit_check env limit identifier;
     a \<leftarrow> admitted env limit identifier n;
     return (if ok then Suc a else a) }"

text \<open>
  The counters a read can find are those of the latest \<open>L + 1\<close> states of the store.  When all of
  them are at least \<open>m\<close> and the latest \<open>p\<close> of them above \<open>m\<close>, each further admission adds one
  that is above \<open>m\<close>, and after \<open>L + 1 - p\<close> of them all are.
\<close>

definition at_least :: "nat \<Rightarrow> nat \<Rightarrow> nat \<Rightarrow> string \<Rightarrow> world \<Rightarrow> bool" where
  "at_least L m p key s \<longleftrightarrow> (\<forall>i\<le>L. m \<le> seen_count i s key) \<and> (\<forall>i<p. m < seen_count i s key)"

lemma at_least_counted:
  assumes "at_least L m p key s" "lag \<le> L" "counted limit key lag s s'"
  shows "m < rl_limit limit" "at_least L m (Suc p) key s'"
proof -
  have "m \<le> seen_count lag s key"
    using assms(1,2) by (simp add: at_least_def)
  with assms show "m < rl_limit limit" "at_least L m (Suc p) key s'"
    by (auto simp: at_least_def counted_def less_Suc_eq_le split: nat.splits)
qed

lemma at_least_full: "at_least L m (Suc L) key s \<Longrightarrow> at_least L (Suc m) 0 key s"
  by (auto simp: at_least_def less_Suc_eq_le Suc_le_eq)

lemma wp_admitted:
  assumes "\<And>n. \<not> e_fault env n" and "\<And>n. e_unix env n div rl_window_secs limit = w"
    and "rl_limit limit < 2 ^ 32" and lag: "\<And>n. e_kv_lag env n \<le> L"
  shows "at_least L m p (rl_key limit identifier w) s \<Longrightarrow> p \<le> L \<Longrightarrow>
    wp (admitted env limit identifier n) (\<lambda>a _. a \<le> Suc L * (rl_limit limit - m) - p) s"
proof (induction n arbitrary: s m p)
  case (Suc n)
  let ?k = "rl_key limit identifier w"
  let ?Q = "\<lambda>ok a (_::world). (if ok then Suc a else a) \<le> Suc L * (rl_limit limit - m) - p"
  have refused: "wp (admitted env limit identifier n) (?Q False) s'"
    if "\<forall>i. seen_count i s' = seen_count i s" for s'
    using Suc.IH [of m p s'] Suc.prems that by (simp add: at_least_def)
  have passed: "wp (admitted env limit identifier n) (?Q True) s'"
    if "counted limit ?k (e_kv_lag env j) s s'" for j s'
  proof -
    note more = at_least_counted [OF Suc.prems(1) lag that]
    have room: "Suc L * (rl_limit limit - m) = Suc L + Suc L * (rl_limit limit - Suc m)"
      using more(1) by (metis Suc_diff_Suc mult_Suc_right)
    show ?thesis
    proof (cases "p = L")
      case True
      have "at_least L (Suc m) 0 ?k s'"
        using more(2) True by (simp add: at_least_full)
      from Suc.IH [OF this] show ?thesis
        by (rule wp_mono) (use room True in auto)
    next
      case False
      with Suc.prems(2) have "Suc p \<le> L" by simp
      from Suc.IH [OF more(2) this] show ?thesis
        by (rule wp_mono) (use room False Suc.prems(2) in auto)
    qed
  qed
  show ?case
    by (auto intro!: wp_mono [OF wp_ratelimit_check [OF assms(1-3)]] split: if_splits
        dest!: passed refused)
qed simp

section \<open>Properties\<close>

text \<open>C31.
  The limiter limits, up to the staleness of the store: while no KV call fails and every read misses
  at most the latest \<open>L\<close> writes, out of any number of requests of one client in one window at
  most \<open>L + 1\<close> times as many are admitted as the limit has left over the least counter that a
  read can find at the start.  A store that shows every write at once (\<open>L = 0\<close>) admits no more
  than is left.
\<close>

theorem ratelimit_bound:
  assumes "\<And>n. \<not> e_fault env n" and "\<And>n. e_unix env n div rl_window_secs limit = w"
    and "rl_limit limit < 2 ^ 32" and "\<And>n. e_kv_lag env n \<le> L"
    and "\<And>i. i \<le> L \<Longrightarrow> m \<le> seen_count i s (rl_key limit identifier w)"
    and "run_state (admitted env limit identifier n) s = (a, s')"
  shows "a \<le> (L + 1) * (rl_limit limit - m)"
proof -
  have "at_least L m 0 (rl_key limit identifier w) s"
    using assms(5) by (simp add: at_least_def)
  from wpD [OF wp_admitted [OF assms(1-4) this] assms(6)] show ?thesis by simp
qed

theorem ratelimit_bound_witness:
  "fst (run_state (admitted (sample_env\<lparr>e_unix := \<lambda>_. 7200, e_kv_lag := \<lambda>n. n mod 2\<rparr>)
     EMAIL_SEND_LIMIT ''alice'' 400) (sample_world sample_db)) \<le> 60"
  using ratelimit_bound [of "sample_env\<lparr>e_unix := \<lambda>_. 7200, e_kv_lag := \<lambda>n. n mod 2\<rparr>" EMAIL_SEND_LIMIT 2 1
      0 "sample_world sample_db" "''alice''", OF _ _ _ _ _ surjective_pairing, of 400]
  by (simp add: sample_env_def EMAIL_SEND_LIMIT_def)

text \<open>
  The limiter fails open: when the three KV calls of a check fail, the request is admitted
  whatever is stored.
\<close>

theorem ratelimit_fails_open:
  assumes "\<And>n. e_fault env n" and "0 < rl_limit limit"
    and "run_state (ratelimit_check env limit identifier) s = (ok, s')"
  shows "ok"
proof -
  have "wp (ratelimit_check env limit identifier) (\<lambda>ok _. ok) s"
    using assms(1,2)
    by (simp add: ratelimit_check_def wp_sources wp_read_count wp_kv rl_estimate_def Let_def)
  then show ?thesis
    using assms(3) by (rule wpD)
qed

theorem ratelimit_fails_open_witness:
  "fst (run_state (ratelimit_check (sample_env\<lparr>e_fault := \<lambda>_. True\<rparr>) LOGIN_LIMIT ''alice'')
     (sample_world sample_db))"
  using ratelimit_fails_open [of "sample_env\<lparr>e_fault := \<lambda>_. True\<rparr>" LOGIN_LIMIT, OF _ _ surjective_pairing]
  by (simp add: LOGIN_LIMIT_def)

end
