(* ===== verification/Emergency_Access.thy ===== *)
theory Emergency_Access
  imports Cipher_Json Ratelimit
begin

text \<open>
  \<open>worker/src/api/emergency_access.rs\<close>: a grantor names a contact (the grantee), who may
  later ask for access to the grantor's vault; the grantor approves or rejects, and a timer
  approves when nobody reacts.  The status of the row runs through
  invited, accepted, confirmed, recovery initiated, recovery approved.
\<close>

definition STATUS_INVITED :: int where "STATUS_INVITED = 0"
definition STATUS_ACCEPTED :: int where "STATUS_ACCEPTED = 1"
definition STATUS_CONFIRMED :: int where "STATUS_CONFIRMED = 2"
definition STATUS_RECOVERY_INITIATED :: int where "STATUS_RECOVERY_INITIATED = 3"
definition STATUS_RECOVERY_APPROVED :: int where "STATUS_RECOVERY_APPROVED = 4"
definition TYPE_VIEW :: int where "TYPE_VIEW = 0"
definition TYPE_TAKEOVER :: int where "TYPE_TAKEOVER = 1"

lemmas ea_consts = STATUS_INVITED_def STATUS_ACCEPTED_def STATUS_CONFIRMED_def
  STATUS_RECOVERY_INITIATED_def STATUS_RECOVERY_APPROVED_def TYPE_VIEW_def TYPE_TAKEOVER_def

section \<open>JSON\<close>

definition json_ea :: "emergency_access \<Rightarrow> json" where
  "json_ea e = JObj [
     (''Object'', JStr ''emergencyAccess''), (''Id'', JStr (ea_uuid e)),
     (''GrantorId'', jopt (ea_grantor_uuid e)), (''GranteeId'', jopt (ea_grantee_uuid e)),
     (''Email'', jopt (ea_email e)), (''Type'', JInt (ea_atype e)), (''Status'', JInt (ea_status e)),
     (''WaitTimeDays'', JInt (ea_wait_time_days e)), (''KeyEncrypted'', jopt (ea_key_encrypted e)),
     (''RecoveryInitiatedDate'', jopt (ea_recovery_initiated_at e)),
     (''LastNotificationDate'', jopt (ea_last_notification_at e)),
     (''RevisionDate'', JStr (ea_updated_at e)), (''CreationDate'', JStr (ea_created_at e))]"

definition json_ea_with_grantor_details :: "env \<Rightarrow> emergency_access \<Rightarrow> json act" where
  "json_ea_with_grantor_details env e =
     (case ea_grantor_uuid e of
        None \<Rightarrow> return (json_ea e)
      | Some uuid \<Rightarrow> do {
          r \<leftarrow> user_find_by_uuid env uuid;
          return (case r of
            Inr (Some u) \<Rightarrow>
              json_insert ''GrantorAvatarColor'' (jopt (us_avatar_color u))
                (json_insert ''GrantorEmail'' (JStr (us_email u))
                  (json_insert ''GrantorName'' (JStr (us_name u)) (json_ea e)))
          | _ \<Rightarrow> json_ea e) })"

definition json_ea_with_grantee_details :: "env \<Rightarrow> emergency_access \<Rightarrow> json act" where
  "json_ea_with_grantee_details env e =
     (case ea_grantee_uuid e of
        None \<Rightarrow> return (json_ea e)
      | Some uuid \<Rightarrow> do {
          r \<leftarrow> user_find_by_uuid env uuid;
          return (case r of
            Inr (Some u) \<Rightarrow>
              json_insert ''GranteeAvatarColor'' (jopt (us_avatar_color u))
                (json_insert ''Email'' (JStr (us_email u))
                  (json_insert ''GranteeEmail'' (JStr (us_email u))
                    (json_insert ''GranteeName'' (JStr (us_name u)) (json_ea e))))
          | _ \<Rightarrow> json_ea e) })"

definition list_trusted :: "env \<Rightarrow> headers \<Rightarrow> response act" where
  "list_trusted env h = do {
     rows \<leftarrow> unwrap_or [] (emergency_access_find_by_grantor env (uid h));
     data \<leftarrow> for_acc rows [] (\<lambda>e data. do {
       j \<leftarrow> json_ea_with_grantee_details env e; return (data @ [j]) });
     return (json_response 200 (json_list data)) }"

definition list_granted :: "env \<Rightarrow> headers \<Rightarrow> response act" where
  "list_granted env h = do {
     rows \<leftarrow> unwrap_or [] (emergency_access_find_by_grantee env (uid h));
     data \<leftarrow> for_acc rows [] (\<lambda>e data. do {
       j \<leftarrow> json_ea_with_grantor_details env e; return (data @ [j]) });
     return (json_response 200 (json_list data)) }"

section \<open>Guards\<close>

definition ea_load :: "env \<Rightarrow> string \<Rightarrow> (world, response + emergency_access) state" where
  "ea_load env eid = do {
     r \<leftarrow> emergency_access_find_by_uuid env eid;
     return (case r of
       Inr (Some e) \<Rightarrow> Inr e
     | _ \<Rightarrow> Inl (err_json 404 ''Emergency access not found'')) }"

definition assert_grantor :: "emergency_access \<Rightarrow> headers \<Rightarrow> response + unit" where
  "assert_grantor e h = (if ea_grantor_uuid e = Some (uid h) then Inr ()
     else Inl (err_json 403 ''Not the grantor''))"

definition assert_grantee :: "emergency_access \<Rightarrow> headers \<Rightarrow> response + unit" where
  "assert_grantee e h = (if ea_grantee_uuid e = Some (uid h) then Inr ()
     else Inl (err_json 403 ''Not the grantee''))"

text \<open>\<open>load\<close> followed by one of the two assertions.\<close>

definition ea_load_as ::
  "(emergency_access \<Rightarrow> headers \<Rightarrow> response + unit) \<Rightarrow> env \<Rightarrow> headers \<Rightarrow> string \<Rightarrow>
     (world, response + emergency_access) state" where
  "ea_load_as check env h eid = try_ret (ea_load env eid) Inl (\<lambda>e.
     return (case check e h of Inl r \<Rightarrow> Inl r | Inr _ \<Rightarrow> Inr e))"

definition ea_save_and_answer :: "env \<Rightarrow> emergency_access \<Rightarrow> (emergency_access \<Rightarrow> unit act) \<Rightarrow> response act" where
  "ea_save_and_answer env e after =
     try_ret (emergency_access_save env e) (\<lambda>_. err_json 500 ''save failed'') (\<lambda>e. do {
       _ \<leftarrow> after e;
       return (json_response 200 (json_ea e)) })"

text \<open>A mail whose outcome is dropped.\<close>

definition ea_mail :: "env \<Rightarrow> string \<Rightarrow> string \<Rightarrow> string \<Rightarrow> unit act" where
  "ea_mail env to subject body = ignore (mail_send env
     \<lparr>mm_from_email = fst (e_mail_from env), mm_from_name = snd (e_mail_from env), mm_to = to,
      mm_subject = subject, mm_text = body, mm_html = None\<rparr>)"

text \<open>Mail to a user known by id, when there is one.\<close>

definition ea_mail_user :: "env \<Rightarrow> string option \<Rightarrow> string \<Rightarrow> string \<Rightarrow> unit act" where
  "ea_mail_user env target subject body =
     if_some target (\<lambda>uuid. do {
       r \<leftarrow> user_find_by_uuid env uuid;
       case r of
         Inr (Some u) \<Rightarrow> ea_mail env (us_email u) subject body
       | _ \<Rightarrow> return () })"

section \<open>Handlers\<close>

definition get_access :: "env \<Rightarrow> headers \<Rightarrow> string \<Rightarrow> response act" where
  "get_access env h eid =
     try_ret (ea_load env eid) (\<lambda>r. r) (\<lambda>e.
       let is_grantor = (ea_grantor_uuid e = Some (uid h));
           is_grantee = (ea_grantee_uuid e = Some (uid h)) in
       if \<not> is_grantor \<and> \<not> is_grantee
       then return (err_json 403 ''Not your emergency access record'')
       else do {
         body \<leftarrow> (if is_grantor then json_ea_with_grantee_details env e
                 else json_ea_with_grantor_details env e);
         return (json_response 200 body) })"

record ea_update_body =
  ub_atype :: "int option"
  ub_wait_time_days :: "int option"

definition update_access :: "env \<Rightarrow> headers \<Rightarrow> string \<Rightarrow> ea_update_body \<Rightarrow> response act" where
  "update_access env h eid body =
     try_ret (ea_load_as assert_grantor env h eid) (\<lambda>r. r) (\<lambda>e.
       ea_save_and_answer env (e\<lparr>
         ea_atype := (case ub_atype body of None \<Rightarrow> ea_atype e | Some t \<Rightarrow> t),
         ea_wait_time_days := (case ub_wait_time_days body of
           None \<Rightarrow> ea_wait_time_days e | Some d \<Rightarrow> max d 1)\<rparr>) (\<lambda>_. return ()))"

definition delete_access :: "env \<Rightarrow> headers \<Rightarrow> string \<Rightarrow> response act" where
  "delete_access env h eid =
     try_ret (ea_load env eid) (\<lambda>r. r) (\<lambda>e.
       if ea_grantor_uuid e \<noteq> Some (uid h) \<and> ea_grantee_uuid e \<noteq> Some (uid h)
       then return (err_json 403 ''Not your emergency access record'')
       else try_ret (emergency_access_delete env e) (\<lambda>_. err_json 500 ''delete failed'') (\<lambda>_.
         return (json_response 200 (JObj []))))"

record ea_invite_body =
  ib_email :: string
  ib_atype :: int
  ib_wait_time_days :: int

definition ea_invite :: "env \<Rightarrow> headers \<Rightarrow> ea_invite_body \<Rightarrow> response act" where
  "ea_invite env h body = (let email = to_lowercase (trim (ib_email body)) in
     if email = us_email (hd_user h)
     then return (err_json 400 ''Cannot grant emergency access to yourself'')
     else do {
       ok \<leftarrow> ratelimit_check env EMAIL_SEND_LIMIT (uid h);
       if \<not> ok then return (err_json 429 ''Too many invitations'')
       else do {
         e0 \<leftarrow> emergency_access_new env (ib_atype body) STATUS_INVITED (max (ib_wait_time_days body) 1);
         r \<leftarrow> user_find_by_email env email;
         let e = e0\<lparr>ea_grantor_uuid := Some (uid h), ea_email := Some email,
           ea_grantee_uuid := (case r of Inr (Some grantee) \<Rightarrow> Some (us_uuid grantee) | _ \<Rightarrow> None)\<rparr>;
         ea_save_and_answer env e (\<lambda>e.
           ea_mail env email ''You have been invited as an emergency contact''
             (us_email (hd_user h) @ '' invited you as an emergency contact. Open Vaultwarden to accept.''
               @ [CHR 0x0A, CHR 0x0A] @ ''ID: '' @ ea_uuid e)) } })"

definition ea_reinvite :: "env \<Rightarrow> headers \<Rightarrow> string \<Rightarrow> response act" where
  "ea_reinvite env h eid =
     try_ret (ea_load_as assert_grantor env h eid) (\<lambda>r. r) (\<lambda>e. do {
       _ \<leftarrow> if_some (ea_email e) (\<lambda>addr.
         ea_mail env addr ''Reminder: emergency access invitation'' (''Reminder. ID: '' @ ea_uuid e));
       return (json_response 200 (JObj [])) })"

definition ea_accept :: "env \<Rightarrow> headers \<Rightarrow> string \<Rightarrow> response act" where
  "ea_accept env h eid =
     try_ret (ea_load env eid) (\<lambda>r. r) (\<lambda>e.
       if ea_email e \<noteq> Some (us_email (hd_user h))
       then return (err_json 403 ''Not the invited email'')
       else ea_save_and_answer env (e\<lparr>ea_grantee_uuid := Some (uid h),
           ea_status := (if ea_status e = STATUS_INVITED then STATUS_ACCEPTED else ea_status e)\<rparr>)
         (\<lambda>_. return ()))"

definition ea_confirm :: "env \<Rightarrow> headers \<Rightarrow> string \<Rightarrow> string \<Rightarrow> response act" where
  "ea_confirm env h eid key =
     try_ret (ea_load_as assert_grantor env h eid) (\<lambda>r. r) (\<lambda>e.
       if ea_status e \<noteq> STATUS_ACCEPTED
       then return (err_json 400 ''Emergency access not in accepted state'')
       else ea_save_and_answer env (e\<lparr>ea_key_encrypted := Some key, ea_status := STATUS_CONFIRMED\<rparr>)
         (\<lambda>_. return ()))"

definition ea_initiate :: "env \<Rightarrow> headers \<Rightarrow> string \<Rightarrow> response act" where
  "ea_initiate env h eid =
     try_ret (ea_load_as assert_grantee env h eid) (\<lambda>r. r) (\<lambda>e.
       if ea_status e \<noteq> STATUS_CONFIRMED
       then return (err_json 400 ''Emergency access not in confirmed state'')
       else do {
         now \<leftarrow> now_iso env;
         ea_save_and_answer env (e\<lparr>ea_status := STATUS_RECOVERY_INITIATED,
             ea_recovery_initiated_at := Some now\<rparr>)
           (\<lambda>e. ea_mail_user env (ea_grantor_uuid e) ''Emergency access recovery initiated''
             (us_email (hd_user h) @ '' has initiated emergency access recovery. They will gain ''
              @ (if ea_atype e = TYPE_TAKEOVER then ''takeover'' else ''view'') @ '' after ''
              @ int_to_string (ea_wait_time_days e)
              @ '' day(s) unless you approve or reject in Vaultwarden.'' @ [CHR 0x0A, CHR 0x0A]
              @ ''ID: '' @ ea_uuid e)) })"

definition ea_approve :: "env \<Rightarrow> headers \<Rightarrow> string \<Rightarrow> response act" where
  "ea_approve env h eid =
     try_ret (ea_load_as assert_grantor env h eid) (\<lambda>r. r) (\<lambda>e.
       if ea_status e \<noteq> STATUS_RECOVERY_INITIATED
       then return (err_json 400 ''Recovery has not been initiated'')
       else ea_save_and_answer env (e\<lparr>ea_status := STATUS_RECOVERY_APPROVED\<rparr>) (\<lambda>e.
         ea_mail_user env (ea_grantee_uuid e) ''Emergency access recovery approved''
           (us_email (hd_user h) @ '' approved your emergency access recovery. ID: '' @ ea_uuid e)))"

definition ea_reject :: "env \<Rightarrow> headers \<Rightarrow> string \<Rightarrow> response act" where
  "ea_reject env h eid =
     try_ret (ea_load_as assert_grantor env h eid) (\<lambda>r. r) (\<lambda>e.
       if ea_status e \<noteq> STATUS_RECOVERY_INITIATED \<and> ea_status e \<noteq> STATUS_RECOVERY_APPROVED
       then return (err_json 400 ''Recovery is not pending'')
       else ea_save_and_answer env (e\<lparr>ea_status := STATUS_CONFIRMED\<rparr>) (\<lambda>e.
         ea_mail_user env (ea_grantee_uuid e) ''Emergency access recovery rejected''
           (us_email (hd_user h) @ '' rejected your emergency access recovery. ID: '' @ ea_uuid e)))"

text \<open>\<open>User::find_by_uuid(..).await.ok().flatten()\<close> on an optional id.\<close>

definition find_user_opt :: "env \<Rightarrow> string option \<Rightarrow> user option act" where
  "find_user_opt env target = (case target of
     None \<Rightarrow> return None | Some uuid \<Rightarrow> unwrap_or None (user_find_by_uuid env uuid))"

definition ea_view_json :: "env \<Rightarrow> emergency_access \<Rightarrow> string \<Rightarrow> cipher list \<Rightarrow> json" where
  "ea_view_json env e grantor_key ciphers = JObj [(''Object'', JStr ''emergencyAccessView''),
     (''KeyEncrypted'', jopt (ea_key_encrypted e)), (''GrantorKey'', JStr grantor_key),
     (''Ciphers'', JArr (map (\<lambda>c. cipher_to_json_full env c False [] None) ciphers))]"

definition ea_view :: "env \<Rightarrow> headers \<Rightarrow> string \<Rightarrow> response act" where
  "ea_view env h eid =
     try_ret (ea_load_as assert_grantee env h eid) (\<lambda>r. r) (\<lambda>e.
       if ea_atype e \<noteq> TYPE_VIEW \<or> ea_status e \<noteq> STATUS_RECOVERY_APPROVED
       then return (err_json 403 ''Recovery not approved or not a view grant'')
       else do {
         grantor \<leftarrow> find_user_opt env (ea_grantor_uuid e);
         ciphers \<leftarrow> (case grantor of
             Some g \<Rightarrow> unwrap_or [] (cipher_find_owned_by_user env (us_uuid g))
           | None \<Rightarrow> return []);
         return (json_response 200 (ea_view_json env e
           (case grantor of None \<Rightarrow> [] | Some g \<Rightarrow> us_akey g) ciphers)) })"

definition ea_takeover :: "env \<Rightarrow> headers \<Rightarrow> string \<Rightarrow> response act" where
  "ea_takeover env h eid =
     try_ret (ea_load_as assert_grantee env h eid) (\<lambda>r. r) (\<lambda>e.
       if ea_atype e \<noteq> TYPE_TAKEOVER \<or> ea_status e \<noteq> STATUS_RECOVERY_APPROVED
       then return (err_json 403 ''Recovery not approved or not a takeover grant'')
       else do {
         grantor \<leftarrow> find_user_opt env (ea_grantor_uuid e);
         case grantor of
           None \<Rightarrow> return (err_json 404 ''Grantor missing'')
         | Some g \<Rightarrow> return (json_response 200 (JObj [
             (''Object'', JStr ''emergencyAccessTakeover''),
             (''Kdf'', JInt (us_client_kdf_type g)), (''KdfIterations'', JInt (us_client_kdf_iter g)),
             (''KdfMemory'', jopt_int (us_client_kdf_memory g)),
             (''KdfParallelism'', jopt_int (us_client_kdf_parallelism g)),
             (''KeyEncrypted'', jopt (ea_key_encrypted e))])) })"

record takeover_password_body =
  tp_new_master_password_hash :: string
  tp_key :: string

text \<open>The telemetry line at the end of the handler is a log and is left out.\<close>

definition takeover_password ::
  "env \<Rightarrow> headers \<Rightarrow> string \<Rightarrow> takeover_password_body \<Rightarrow> response act" where
  "takeover_password env h eid body =
     try_ret (ea_load_as assert_grantee env h eid) (\<lambda>r. r) (\<lambda>e.
       if ea_atype e \<noteq> TYPE_TAKEOVER \<or> ea_status e \<noteq> STATUS_RECOVERY_APPROVED
       then return (err_json 403 ''Recovery not approved'')
       else do {
         found \<leftarrow> find_user_opt env (ea_grantor_uuid e);
         case found of
           None \<Rightarrow> return (err_json 404 ''Grantor missing'')
         | Some grantor \<Rightarrow>
           (case set_password env grantor (tp_new_master_password_hash body) of
              None \<Rightarrow> return panicked
            | Some grantor \<Rightarrow> do {
                stamp \<leftarrow> new_uuid env;
                try_ret (user_save env (grantor\<lparr>us_akey := tp_key body, us_security_stamp := stamp\<rparr>))
                  (\<lambda>_. err_json 500 ''save failed'') (\<lambda>grantor. do {
                  _ \<leftarrow> notify_user env (us_uuid grantor) LOG_OUT (us_uuid grantor);
                  _ \<leftarrow> log_user_event env USER_CHANGED_PASSWORD (us_uuid grantor) (dev_type h);
                  return (json_response 200 (JObj [])) }) }) })"

definition ea_policies :: "env \<Rightarrow> headers \<Rightarrow> string \<Rightarrow> response act" where
  "ea_policies env h eid =
     try_ret (ea_load_as assert_grantee env h eid) (\<lambda>r. r) (\<lambda>e.
       return (json_response 200 (json_list [])))"

section \<open>Router\<close>

datatype ea_op =
    EaUpdate string ea_update_body
  | EaDelete string
  | EaInvite ea_invite_body
  | EaReinvite string
  | EaAccept string
  | EaConfirm string string
  | EaInitiate string
  | EaApprove string
  | EaReject string
  | EaView string
  | EaTakeover string
  | EaTakeoverPassword string takeover_password_body
  | EaPolicies string
  | EaGet string
  | EaTrusted
  | EaGranted

fun exec_ea_op :: "env \<Rightarrow> headers \<Rightarrow> ea_op \<Rightarrow> response act" where
  "exec_ea_op env h (EaUpdate eid b) = update_access env h eid b"
| "exec_ea_op env h (EaDelete eid) = delete_access env h eid"
| "exec_ea_op env h (EaInvite b) = ea_invite env h b"
| "exec_ea_op env h (EaReinvite eid) = ea_reinvite env h eid"
| "exec_ea_op env h (EaAccept eid) = ea_accept env h eid"
| "exec_ea_op env h (EaConfirm eid key) = ea_confirm env h eid key"
| "exec_ea_op env h (EaInitiate eid) = ea_initiate env h eid"
| "exec_ea_op env h (EaApprove eid) = ea_approve env h eid"
| "exec_ea_op env h (EaReject eid) = ea_reject env h eid"
| "exec_ea_op env h (EaView eid) = ea_view env h eid"
| "exec_ea_op env h (EaTakeover eid) = ea_takeover env h eid"
| "exec_ea_op env h (EaTakeoverPassword eid b) = takeover_password env h eid b"
| "exec_ea_op env h (EaPolicies eid) = ea_policies env h eid"
| "exec_ea_op env h (EaGet eid) = get_access env h eid"
| "exec_ea_op env h EaTrusted = list_trusted env h"
| "exec_ea_op env h EaGranted = list_granted env h"

end
