(* ===== verification/Emergency_Safety.thy ===== *)
theory Emergency_Safety
  imports Emergency_Access
begin

text \<open>
  What emergency access promises, as an abstract machine: which party may move a grant from
  which status to which.  Every handler, under every pattern of refused calls, refines it; the
  facts on whole histories are proved on the machine.
\<close>

section \<open>The abstract machine\<close>

abbreviation grants :: "world \<Rightarrow> emergency_access list" where
  "grants s \<equiv> t_emergency_access (w_db s)"

text \<open>One move of one grant, by the caller \<open>h\<close>.\<close>

inductive ea_step :: "headers \<Rightarrow> ea_op \<Rightarrow> emergency_access \<Rightarrow> emergency_access \<Rightarrow> bool" for h where
  terms: "ea_grantor_uuid e = Some (uid h) \<Longrightarrow> 1 \<le> days \<or> days = ea_wait_time_days e \<Longrightarrow>
    ea_step h (EaUpdate (ea_uuid e) b) e
      (e\<lparr>ea_atype := ty, ea_wait_time_days := days, ea_updated_at := now\<rparr>)"
| accept: "ea_email e = Some (us_email (hd_user h)) \<Longrightarrow> ea_status e = STATUS_INVITED \<Longrightarrow>
    ea_step h (EaAccept (ea_uuid e)) e
      (e\<lparr>ea_grantee_uuid := Some (uid h), ea_status := STATUS_ACCEPTED, ea_updated_at := now\<rparr>)"
| accept_again: "ea_email e = Some (us_email (hd_user h)) \<Longrightarrow> ea_status e \<noteq> STATUS_INVITED \<Longrightarrow>
    ea_step h (EaAccept (ea_uuid e)) e
      (e\<lparr>ea_grantee_uuid := Some (uid h), ea_updated_at := now\<rparr>)"
| confirm: "ea_grantor_uuid e = Some (uid h) \<Longrightarrow> ea_status e = STATUS_ACCEPTED \<Longrightarrow>
    ea_step h (EaConfirm (ea_uuid e) key) e
      (e\<lparr>ea_key_encrypted := Some key, ea_status := STATUS_CONFIRMED, ea_updated_at := now\<rparr>)"
| initiate: "ea_grantee_uuid e = Some (uid h) \<Longrightarrow> ea_status e = STATUS_CONFIRMED \<Longrightarrow>
    ea_step h (EaInitiate (ea_uuid e)) e
      (e\<lparr>ea_status := STATUS_RECOVERY_INITIATED, ea_recovery_initiated_at := Some t,
         ea_updated_at := now\<rparr>)"
| approve: "ea_grantor_uuid e = Some (uid h) \<Longrightarrow> ea_status e = STATUS_RECOVERY_INITIATED \<Longrightarrow>
    ea_step h (EaApprove (ea_uuid e)) e
      (e\<lparr>ea_status := STATUS_RECOVERY_APPROVED, ea_updated_at := now\<rparr>)"
| reject: "ea_grantor_uuid e = Some (uid h) \<Longrightarrow>
    ea_status e = STATUS_RECOVERY_INITIATED \<or> ea_status e = STATUS_RECOVERY_APPROVED \<Longrightarrow>
    ea_step h (EaReject (ea_uuid e)) e (e\<lparr>ea_status := STATUS_CONFIRMED, ea_updated_at := now\<rparr>)"

text \<open>A grant as an invitation leaves it.\<close>

definition ea_invited :: "headers \<Rightarrow> emergency_access \<Rightarrow> bool" where
  "ea_invited h e \<longleftrightarrow> ea_grantor_uuid e = Some (uid h) \<and> ea_status e = STATUS_INVITED \<and>
     1 \<le> ea_wait_time_days e \<and> ea_key_encrypted e = None \<and> ea_recovery_initiated_at e = None \<and>
     ea_email e \<noteq> None \<and> ea_email e \<noteq> Some (us_email (hd_user h))"

text \<open>What one request may do to the table of grants.\<close>

inductive ea_trans ::
  "headers \<Rightarrow> ea_op \<Rightarrow> emergency_access list \<Rightarrow> emergency_access list \<Rightarrow> bool" for h where
  stay: "ea_trans h op t t"
| move: "e \<in> set t \<Longrightarrow> ea_step h op e e' \<Longrightarrow>
    ea_trans h op t (map (\<lambda>x. if ea_uuid x = ea_uuid e then e' else x) t)"
| invite: "ea_invited h e \<Longrightarrow> ea_uuid e \<notin> ea_uuid ` set t \<Longrightarrow> ea_trans h (EaInvite b) t (t @ [e])"
| remove: "e \<in> set t \<Longrightarrow> ea_grantor_uuid e = Some (uid h) \<or> ea_grantee_uuid e = Some (uid h) \<Longrightarrow>
    ea_trans h (EaDelete (ea_uuid e)) t (delete_where (\<lambda>x. ea_uuid x = ea_uuid e) t)"

lemma ea_step_key:
  "ea_step h op e e' \<Longrightarrow> ea_uuid e' = ea_uuid e \<and> ea_grantor_uuid e' = ea_grantor_uuid e"
  by (auto elim!: ea_step.cases)

lemma ea_trans_distinct:
  assumes "ea_trans h op t t'" "distinct (map ea_uuid t)"
  shows "distinct (map ea_uuid t')"
  using assms
proof (cases rule: ea_trans.cases)
  case (move e e')
  have "map ea_uuid t' = map ea_uuid t"
    using move(1) ea_step_key [OF move(3)] by auto
  then show ?thesis using assms(2) by simp
qed (auto simp: distinct_delete_where)

section \<open>The handlers refine it\<close>

interpretation ea_any: guarded_loader "\<lambda>env h. ea_load env" t_emergency_access ea_uuid "\<lambda>d h e. True"
  by unfold_locales
    (auto simp: ea_load_def emergency_access_find_by_uuid_def wp_rules
       intro!: readsI split: option.splits dest: find_SomeD)

interpretation ea_grantor: guarded_loader "ea_load_as assert_grantor" t_emergency_access ea_uuid
  "\<lambda>d h e. ea_grantor_uuid e = Some (uid h)"
  by unfold_locales
    (auto simp: ea_load_as_def assert_grantor_def ea_load_def emergency_access_find_by_uuid_def wp_rules
       intro!: readsI split: option.splits dest: find_SomeD)

interpretation ea_grantee: guarded_loader "ea_load_as assert_grantee" t_emergency_access ea_uuid
  "\<lambda>d h e. ea_grantee_uuid e = Some (uid h)"
  by unfold_locales
    (auto simp: ea_load_as_def assert_grantee_def ea_load_def emergency_access_find_by_uuid_def wp_rules
       intro!: readsI split: option.splits dest: find_SomeD)

lemma preserves_ea_mail:
  fixes P :: "db \<Rightarrow> bool"
  shows "preserves (\<lambda>s. P (w_db s)) (ea_mail env to subject body)"
    and "preserves (\<lambda>s. P (w_db s)) (ea_mail_user env target subject body)"
    and "preserves (\<lambda>s. P (w_db s)) (find_user_opt env target)"
    and "preserves (\<lambda>s. P (w_db s)) (json_ea_with_grantor_details env e)"
    and "preserves (\<lambda>s. P (w_db s)) (json_ea_with_grantee_details env e)"
  unfolding ea_mail_def ea_mail_user_def find_user_opt_def user_find_by_uuid_def
    json_ea_with_grantor_details_def json_ea_with_grantee_details_def
  by (intro preserves_rules)+

lemma wp_ea_save:
  "wp (emergency_access_save env e) Q s =
     (let now = e_now env (w_tick s); e' = e\<lparr>ea_updated_at := now\<rparr>;
          d = (w_db s)\<lparr>t_emergency_access := upsert ea_uuid emergency_access_conflict e' (grants s)\<rparr> in
      if e_fault env (Suc (w_tick s)) \<or> e_fk env \<and> \<not> fk_ok d then Q (Inl D1Error) (bump (bump s))
      else Q (Inr e') (bump ((bump s)\<lparr>w_db := d\<rparr>)))"
  by (simp add: emergency_access_save_def wp_rules Let_def)

lemma ea_upsert_existing:
  assumes "distinct (map ea_uuid t)" "e \<in> set t" "ea_uuid e' = ea_uuid e"
    "ea_created_at e' = ea_created_at e"
  shows "upsert ea_uuid emergency_access_conflict e' t =
         map (\<lambda>x. if ea_uuid x = ea_uuid e then e' else x) t"
proof -
  have "x = e" if "x \<in> set t" "ea_uuid x = ea_uuid e" for x
    using assms(1,2) that by (auto simp: distinct_map inj_on_def)
  moreover have "emergency_access_conflict e e' = e'"
    using assms(4) by (simp add: emergency_access_conflict_def)
  ultimately show ?thesis
    using assms(2,3) by (auto simp: upsert_def)
qed

text \<open>A handler that saves a changed grant makes one move, or none.\<close>

lemma wp_ea_answer:
  assumes "distinct (map ea_uuid (grants s))" "e \<in> set (grants s)" "w_db s' = w_db s"
    and "\<And>now. ea_step h op e (e1\<lparr>ea_updated_at := now\<rparr>)"
    and "ea_created_at e1 = ea_created_at e"
    and "\<And>P x. preserves (\<lambda>s. P (w_db s)) (after x)"
  shows "wp (ea_save_and_answer env e1 after) (\<lambda>_ s'. ea_trans h op (grants s) (grants s')) s'"
proof -
  let ?P = "\<lambda>d. ea_trans h op (grants s) (t_emergency_access d)"
  have "ea_uuid e1 = ea_uuid e"
    using ea_step_key [OF assms(4)] by simp
  then have "upsert ea_uuid emergency_access_conflict (e1\<lparr>ea_updated_at := now\<rparr>) (grants s) =
      map (\<lambda>x. if ea_uuid x = ea_uuid e then e1\<lparr>ea_updated_at := now\<rparr> else x) (grants s)" for now
    by (intro ea_upsert_existing assms) (use assms(5) in simp_all)
  then have "wp (emergency_access_save env e1) (\<lambda>_ s. ?P (w_db s)) s'"
    using assms(2,3,4) by (auto simp: wp_ea_save Let_def intro: ea_trans.stay ea_trans.move)
  then show ?thesis
    unfolding ea_save_and_answer_def
    by (rule wp_try_ret_preserves) (intro preserves_rules assms(6) [where P = ?P])
qed

lemma update_access_refines:
  assumes "distinct (map ea_uuid (grants s))"
  shows "wp (update_access env h eid b) (\<lambda>_ s'. ea_trans h (EaUpdate eid b) (grants s) (grants s')) s"
  unfolding update_access_def
proof (rule ea_grantor.wp_guarded, goal_cases)
  case (2 e s')
  have "ea_step h (EaUpdate (ea_uuid e) b) e (e\<lparr>
      ea_atype := (case ub_atype b of None \<Rightarrow> ea_atype e | Some t \<Rightarrow> t),
      ea_wait_time_days := (case ub_wait_time_days b of None \<Rightarrow> ea_wait_time_days e | Some d \<Rightarrow> max d 1),
      ea_updated_at := now\<rparr>)" for now
    by (rule ea_step.terms) (use 2 in \<open>simp_all split: option.splits\<close>)
  then show ?case
    using 2 by (intro wp_ea_answer [OF assms, where e = e]) (auto intro: preserves_return)
qed (simp add: ea_trans.stay)

lemmas ea_moves = ea_accept_def ea_confirm_def ea_initiate_def ea_approve_def ea_reject_def

lemma ea_moves_refine:
  assumes "distinct (map ea_uuid (grants s))"
  shows "wp (ea_accept env h eid) (\<lambda>_ s'. ea_trans h (EaAccept eid) (grants s) (grants s')) s"
    and "wp (ea_confirm env h eid key) (\<lambda>_ s'. ea_trans h (EaConfirm eid key) (grants s) (grants s')) s"
    and "wp (ea_initiate env h eid) (\<lambda>_ s'. ea_trans h (EaInitiate eid) (grants s) (grants s')) s"
    and "wp (ea_approve env h eid) (\<lambda>_ s'. ea_trans h (EaApprove eid) (grants s) (grants s')) s"
    and "wp (ea_reject env h eid) (\<lambda>_ s'. ea_trans h (EaReject eid) (grants s) (grants s')) s"
  unfolding ea_moves
  by (rule ea_any.wp_guarded ea_grantor.wp_guarded ea_grantee.wp_guarded;
      auto simp: ea_trans.stay wp_sources
        intro!: wp_ea_answer [OF assms] preserves_ea_mail preserves_return
        intro: ea_step.intros)+

definition fresh_ea_ids :: "env \<Rightarrow> db \<Rightarrow> bool" where
  "fresh_ea_ids env d \<longleftrightarrow> (\<forall>n. e_uuid env n \<notin> ea_uuid ` set (t_emergency_access d))"

lemma ea_invite_refines:
  assumes "fresh_ea_ids env (w_db s)"
  shows "wp (ea_invite env h b) (\<lambda>_ s'. ea_trans h (EaInvite b) (grants s) (grants s')) s"
proof -
  let ?P = "\<lambda>d. ea_trans h (EaInvite b) (grants s) (t_emergency_access d)"
  have save: "wp (ea_save_and_answer env e (\<lambda>e. ea_mail env to subject (msg e))) (\<lambda>_ s. ?P (w_db s)) s'"
    if "\<And>now. ea_invited h (e\<lparr>ea_updated_at := now\<rparr>)" "ea_uuid e = e_uuid env n"
      "t_emergency_access (w_db s') = grants s" for e s' n to subject msg
  proof -
    have "ea_uuid e \<notin> ea_uuid ` set (grants s)"
      using assms that(2) by (simp add: fresh_ea_ids_def)
    then have "wp (emergency_access_save env e) (\<lambda>_ s. ?P (w_db s)) s'"
      using that by (auto simp: wp_ea_save Let_def upsert_def intro: ea_trans.stay ea_trans.invite)
    then show ?thesis
      unfolding ea_save_and_answer_def
      by (rule wp_try_ret_preserves) (intro preserves_rules preserves_ea_mail)
  qed
  have "wp (ratelimit_check env EMAIL_SEND_LIMIT (uid h)) (\<lambda>_ s'. w_db s' = w_db s) s"
    by (rule preserves_wp [OF preserves_ratelimit [where P = "\<lambda>d. d = w_db s"]]) simp
  then show ?thesis
    by (auto simp: ea_invite_def Let_def ea_trans.stay emergency_access_new_def user_find_by_email_def
        wp_sources wp_d1_query ea_invited_def elim!: wp_mono intro!: save)
qed

lemma delete_access_refines:
  "wp (delete_access env h eid) (\<lambda>_ s'. ea_trans h (EaDelete eid) (grants s) (grants s')) s"
  unfolding delete_access_def
  by (rule ea_any.wp_guarded)
    (auto simp: ea_trans.stay emergency_access_delete_def wp_d1_exec intro: ea_trans.remove)

text \<open>The other requests do not touch the grants.\<close>

lemma preserves_grants_user_save:
  fixes P :: "db \<Rightarrow> bool"
  assumes "\<And>d x. P (d\<lparr>t_users := x\<rparr>) = P d" "ignores_events P"
  shows "preserves (\<lambda>s. P (w_db s)) (takeover_password env h eid body)"
  unfolding takeover_password_def user_save_def Let_def
  by (intro preserves_rules preserves_ea_mail ea_grantee.preserves_load preserves_d1_exec assms(2))
    (auto simp: assms(1) split: if_splits)

lemma preserves_ea_reads:
  fixes P :: "db \<Rightarrow> bool"
  shows "preserves (\<lambda>s. P (w_db s)) (get_access env h eid)"
    and "preserves (\<lambda>s. P (w_db s)) (list_trusted env h)"
    and "preserves (\<lambda>s. P (w_db s)) (list_granted env h)"
    and "preserves (\<lambda>s. P (w_db s)) (ea_reinvite env h eid)"
    and "preserves (\<lambda>s. P (w_db s)) (ea_view env h eid)"
    and "preserves (\<lambda>s. P (w_db s)) (ea_takeover env h eid)"
    and "preserves (\<lambda>s. P (w_db s)) (ea_policies env h eid)"
  unfolding get_access_def list_trusted_def list_granted_def ea_reinvite_def ea_view_def
    ea_takeover_def ea_policies_def Let_def emergency_access_find_by_grantor_def
    emergency_access_find_by_grantee_def cipher_find_owned_by_user_def
  by (intro preserves_rules preserves_ea_mail ea_grantee.preserves_load ea_grantor.preserves_load
      ea_any.preserves_load)+

lemma ea_stays:
  assumes "preserves (\<lambda>s'. grants s' = grants s) m"
  shows "wp m (\<lambda>_ s'. ea_trans h op (grants s) (grants s')) s"
  by (rule wp_mono [OF preserves_wp [OF assms]]) (simp_all add: ea_trans.stay)

lemma exec_ea_op_refines:
  assumes "distinct (map ea_uuid (grants s))" "fresh_ea_ids env (w_db s)"
  shows "wp (exec_ea_op env h op) (\<lambda>_ s'. ea_trans h op (grants s) (grants s')) s"
  using assms
  by (cases op)
    (auto intro: update_access_refines ea_moves_refine ea_invite_refines delete_access_refines
       intro!: preserves_ea_reads [THEN ea_stays] preserves_grants_user_save [THEN ea_stays]
       simp: ignores_events_def)

section \<open>Histories\<close>

text \<open>
  Requests of any users and runs of the timer, one after the other, each in an environment of its
  own.  The trace lists them, \<open>None\<close> for the timer.
\<close>

inductive ea_history :: "world \<Rightarrow> (headers \<times> ea_op) option list \<Rightarrow> world \<Rightarrow> bool" for s where
  nothing: "ea_history s [] s"
| request: "ea_history s tr s1 \<Longrightarrow> fresh_ea_ids env (w_db s1) \<Longrightarrow>
    run_state (exec_ea_op env h op) s1 = (resp, s2) \<Longrightarrow> ea_history s (tr @ [Some (h, op)]) s2"
| timer: "ea_history s tr s1 \<Longrightarrow>
    run_state (emergency_access_auto_approve_due env) s1 = (r, s2) \<Longrightarrow> ea_history s (tr @ [None]) s2"

text \<open>What the timer does to a grant.\<close>

definition timed_out :: "emergency_access \<Rightarrow> emergency_access \<Rightarrow> bool" where
  "timed_out e e' \<longleftrightarrow> e' = e \<or> ea_status e = STATUS_RECOVERY_INITIATED \<and>
     ea_recovery_initiated_at e \<noteq> None \<and>
     (\<exists>now. e' = e\<lparr>ea_status := STATUS_RECOVERY_APPROVED, ea_updated_at := now\<rparr>)"

lemma auto_approve_effect:
  "wp (emergency_access_auto_approve_due env) (\<lambda>_ s'.
     \<exists>f. grants s' = map f (grants s) \<and> (\<forall>e. timed_out e (f e))) s"
proof -
  have keep: "\<exists>f. grants s = map f (grants s) \<and> (\<forall>e. timed_out e (f e))"
    by (rule exI [of _ "\<lambda>e. e"]) (simp add: timed_out_def)
  have go: "\<exists>f. update_where (recovery_due env now) (\<lambda>e. e\<lparr>ea_status := 4, ea_updated_at := now\<rparr>)
      (grants s) = map f (grants s) \<and> (\<forall>e. timed_out e (f e))" for now
    by (rule exI [of _ "\<lambda>e. if recovery_due env now e then e\<lparr>ea_status := 4, ea_updated_at := now\<rparr> else e"])
      (auto simp: update_where_def timed_out_def recovery_due_def ea_consts split: option.splits)
  show ?thesis
    by (auto simp: emergency_access_auto_approve_due_def wp_rules keep go)
qed

lemma timed_out_key: "timed_out e e' \<Longrightarrow> ea_uuid e' = ea_uuid e \<and> ea_grantor_uuid e' = ea_grantor_uuid e"
  by (auto simp: timed_out_def)

text \<open>A fact on grants that holds at the start holds after every history whose steps keep it.\<close>

lemma ea_history_induct:
  assumes hist: "ea_history s tr s'" and dist: "distinct (map ea_uuid (grants s))"
    and start: "\<forall>e\<in>set (grants s). I [] e"
    and weaken: "\<And>tr l e. I tr e \<Longrightarrow> I (tr @ [l]) e"
    and step: "\<And>tr h op e e'. I tr e \<Longrightarrow> ea_step h op e e' \<Longrightarrow> I (tr @ [Some (h, op)]) e'"
    and invite: "\<And>tr h e b. ea_invited h e \<Longrightarrow> I (tr @ [Some (h, EaInvite b)]) e"
    and timeout: "\<And>tr e e'. I tr e \<Longrightarrow> timed_out e e' \<Longrightarrow> I (tr @ [None]) e'"
  shows "distinct (map ea_uuid (grants s')) \<and> (\<forall>e\<in>set (grants s'). I tr e)"
  using hist
proof (induction rule: ea_history.induct)
  case (request tr s1 env h op resp s2)
  then have "ea_trans h op (grants s1) (grants s2)"
    using wpD [OF exec_ea_op_refines] by blast
  moreover have "\<forall>e\<in>set t'. I (tr @ [Some (h, op)]) e"
    if "ea_trans h op t t'" "\<forall>e\<in>set t. I tr e" for t t'
    using that by (cases rule: ea_trans.cases) (auto intro: weaken step invite)
  ultimately show ?case
    using request.IH ea_trans_distinct by blast
next
  case (timer tr s1 env r s2)
  from wpD [OF auto_approve_effect timer(2)] obtain f where
    f: "grants s2 = map f (grants s1)" "\<forall>e. timed_out e (f e)"
    by blast
  then have "map ea_uuid (grants s2) = map ea_uuid (grants s1)"
    by (simp add: timed_out_key)
  then have "distinct (map ea_uuid (grants s2))"
    using timer.IH by (simp only:)
  with timer.IH f show ?case
    by (auto intro: timeout)
qed (use dist start in simp)

text \<open>Bob is the contact of Alice; \<open>ea\<close> is their grant, of the given type and status.\<close>

definition sample_grant :: "int \<Rightarrow> int \<Rightarrow> emergency_access" where
  "sample_grant ty st = \<lparr>ea_uuid = ''ea'', ea_grantor_uuid = Some ''alice'', ea_grantee_uuid = Some ''bob'',
     ea_email = Some ''bob@example.org'', ea_key_encrypted = Some ''k'', ea_atype = ty, ea_status = st,
     ea_wait_time_days = 7, ea_recovery_initiated_at = Some ''2026-01-01T12:00:00Z'',
     ea_last_notification_at = None, ea_updated_at = ''2026'', ea_created_at = ''2026''\<rparr>"

definition sample_grant_world :: "int \<Rightarrow> int \<Rightarrow> world" where
  "sample_grant_world ty st = sample_world (sample_db\<lparr>t_emergency_access := [sample_grant ty st]\<rparr>)"

lemmas sample_grant_defs = sample_grant_def sample_grant_world_def

lemma sample_grants [simp]:
  "grants (sample_grant_world ty st) = [sample_grant ty st]"
  "t_users (w_db (sample_grant_world ty st)) = t_users sample_db"
  "fresh_ea_ids sample_env (w_db (sample_grant_world ty st))"
  by (simp_all add: sample_grant_defs fresh_ea_ids_def sample_world_def sample_env_def)

section \<open>Properties\<close>

text \<open>C2.
  Emergency access refines its abstract machine: whatever request a user sends, and whichever
  database calls are refused, the table of grants makes one permitted move or stays.
  Accepting needs the invited address, starting a recovery needs the grantee and a confirmed grant,
  approving and rejecting need the grantor, deleting needs one of the two.
\<close>

theorem emergency_requests_refine:
  assumes "distinct (map ea_uuid (grants s))" and "fresh_ea_ids env (w_db s)"
    and "run_state (exec_ea_op env h op) s = (resp, s')"
  shows "ea_trans h op (grants s) (grants s')"
  using wpD [OF exec_ea_op_refines [OF assms(1,2)] assms(3)] .

theorem emergency_requests_refine_witness:
  "ea_trans (sample_headers ''alice'') (EaApprove ''ea'') [sample_grant 1 3]
     (grants (snd (run_state (exec_ea_op sample_env (sample_headers ''alice'') (EaApprove ''ea''))
       (sample_grant_world 1 3))))"
  using emergency_requests_refine [of "sample_grant_world 1 3" sample_env, OF _ _ surjective_pairing]
  by (simp del: exec_ea_op.simps)

text \<open>The well-formed grants: what each status presupposes.\<close>

definition ea_ok :: "emergency_access \<Rightarrow> bool" where
  "ea_ok e \<longleftrightarrow> 0 \<le> ea_status e \<and> ea_status e \<le> 4 \<and> 1 \<le> ea_wait_time_days e \<and>
     ea_grantor_uuid e \<noteq> None \<and>
     (1 \<le> ea_status e \<longrightarrow> ea_grantee_uuid e \<noteq> None) \<and>
     (2 \<le> ea_status e \<longrightarrow> ea_key_encrypted e \<noteq> None) \<and>
     (3 \<le> ea_status e \<longrightarrow> ea_recovery_initiated_at e \<noteq> None)"

lemma ea_ok_step: "ea_ok e \<Longrightarrow> ea_step h op e e' \<Longrightarrow> ea_ok e'"
  by (erule ea_step.cases) (auto simp: ea_ok_def ea_consts)

lemma ea_ok_invited: "ea_invited h e \<Longrightarrow> ea_ok e"
  by (simp add: ea_invited_def ea_ok_def ea_consts)

lemma ea_ok_timeout: "ea_ok e \<Longrightarrow> timed_out e e' \<Longrightarrow> ea_ok e'"
  by (auto simp: timed_out_def ea_ok_def ea_consts)

text \<open>C25.
  Grants stay well-formed along every history: a grant that is accepted has a grantee, one that
  is confirmed has the wrapped key, one whose recovery runs has its starting time.
\<close>

theorem emergency_grants_wellformed:
  assumes "ea_history s tr s'" and "distinct (map ea_uuid (grants s))"
    and "\<forall>e\<in>set (grants s). ea_ok e"
  shows "\<forall>e\<in>set (grants s'). ea_ok e"
proof -
  have "distinct (map ea_uuid (grants s')) \<and> (\<forall>e\<in>set (grants s'). ea_ok e)"
    by (rule ea_history_induct [OF assms(1,2), where I = "\<lambda>_. ea_ok"])
      (fact assms(3), assumption, erule (1) ea_ok_step, erule ea_ok_invited, erule (1) ea_ok_timeout)
  then show ?thesis by blast
qed

theorem emergency_grants_wellformed_witness:
  "list_all ea_ok (grants (snd (run_state (exec_ea_op sample_env (sample_headers ''alice'') (EaReject ''ea''))
     (sample_grant_world 1 3))))"
  unfolding list_all_iff
proof (rule emergency_grants_wellformed)
  show "ea_history (sample_grant_world 1 3) ([] @ [Some (sample_headers ''alice'', EaReject ''ea'')])
      (snd (run_state (exec_ea_op sample_env (sample_headers ''alice'') (EaReject ''ea''))
        (sample_grant_world 1 3)))"
    by (rule ea_history.request [OF ea_history.nothing _ surjective_pairing]) simp
qed (simp_all add: ea_ok_def sample_grant_def)

text \<open>C8.
  No recovery without consent: a grant that is approved at the end of a history, and that no
  recovery was running for at its start, was started with \<open>initiate\<close> and then approved by
  a request of its grantor or by the timer.
\<close>

theorem recovery_needs_consent:
  assumes "ea_history s tr s'" and "distinct (map ea_uuid (grants s))"
    and "\<forall>e\<in>set (grants s). ea_uuid e = eid \<longrightarrow> ea_status e < STATUS_RECOVERY_INITIATED"
    and "e \<in> set (grants s')" and "ea_uuid e = eid" and "ea_status e = STATUS_RECOVERY_APPROVED"
  shows "(\<exists>h. Some (h, EaInitiate eid) \<in> set tr) \<and>
    (None \<in> set tr \<or> (\<exists>h. Some (h, EaApprove eid) \<in> set tr \<and> ea_grantor_uuid e = Some (uid h)))"
proof -
  define I where "I tr e \<longleftrightarrow> ea_uuid e = eid \<longrightarrow>
    (STATUS_RECOVERY_INITIATED \<le> ea_status e \<longrightarrow> (\<exists>h. Some (h, EaInitiate eid) \<in> set tr)) \<and>
    (STATUS_RECOVERY_APPROVED \<le> ea_status e \<longrightarrow> None \<in> set tr \<or>
       (\<exists>h. Some (h, EaApprove eid) \<in> set tr \<and> ea_grantor_uuid e = Some (uid h)))"
    for tr :: "(headers \<times> ea_op) option list" and e :: emergency_access
  have "distinct (map ea_uuid (grants s')) \<and> (\<forall>e\<in>set (grants s'). I tr e)"
  proof (rule ea_history_induct [OF assms(1,2)])
    show "\<forall>e\<in>set (grants s). I [] e"
      using assms(3) by (auto simp: I_def ea_consts)
    show "I (tr @ [l]) e" if "I tr e" for tr l e
      using that by (auto simp: I_def)
    show "I (tr @ [Some (h, op)]) e'" if "I tr e" "ea_step h op e e'" for tr h op e e'
      using that(2,1) by cases (auto simp: I_def ea_consts)
    show "I (tr @ [Some (h, EaInvite b)]) e" if "ea_invited h e" for tr h e b
      using that by (simp add: I_def ea_consts ea_invited_def)
    show "I (tr @ [None]) e'" if "I tr e" "timed_out e e'" for tr e e'
      using that by (auto simp: I_def ea_consts timed_out_def)
  qed
  then show ?thesis
    using assms(4-6) by (auto simp: I_def ea_consts)
qed

theorem recovery_needs_consent_witness:
  "\<exists>h. Some (h, EaInitiate ''ea'') \<in> set [Some (sample_headers ''bob'', EaInitiate ''ea''),
     Some (sample_headers ''alice'', EaApprove ''ea'')]"
proof -
  let ?s1 = "snd (run_state (exec_ea_op sample_env (sample_headers ''bob'') (EaInitiate ''ea''))
    (sample_grant_world 1 2))"
  let ?s2 = "snd (run_state (exec_ea_op sample_env (sample_headers ''alice'') (EaApprove ''ea'')) ?s1)"
  have "wp (exec_ea_op sample_env (sample_headers ''bob'') (EaInitiate ''ea'')) (\<lambda>_ s1.
      fresh_ea_ids sample_env (w_db s1) \<and>
      wp (exec_ea_op sample_env (sample_headers ''alice'') (EaApprove ''ea'')) (\<lambda>_ s2.
        map ea_uuid (grants s2) = [''ea''] \<and> map ea_status (grants s2) = [4]) s1) (sample_grant_world 1 2)"
    by (simp add: ea_initiate_def ea_approve_def ea_load_as_def ea_load_def assert_grantor_def
        assert_grantee_def emergency_access_find_by_uuid_def ea_save_and_answer_def
        emergency_access_save_def emergency_access_conflict_def ea_mail_user_def ea_mail_def
        user_find_by_uuid_def ea_consts fresh_ea_ids_def eval_simps sample_grant_defs)
  then have run: "fresh_ea_ids sample_env (w_db ?s1)" "map ea_uuid (grants ?s2) = [''ea'']"
    "map ea_status (grants ?s2) = [4]"
    by (simp_all add: wp_def split_beta)
  then obtain e where e: "e \<in> set (grants ?s2)" "ea_uuid e = ''ea''" "ea_status e = 4"
    by (cases "grants ?s2") auto
  have "ea_history (sample_grant_world 1 2) ([] @ [Some (sample_headers ''bob'', EaInitiate ''ea'')]) ?s1"
    by (rule ea_history.request [OF ea_history.nothing _ surjective_pairing]) simp
  then have "ea_history (sample_grant_world 1 2) (([] @ [Some (sample_headers ''bob'', EaInitiate ''ea'')]) @
      [Some (sample_headers ''alice'', EaApprove ''ea'')]) ?s2"
    by (rule ea_history.request [OF _ run(1) surjective_pairing])
  from recovery_needs_consent [OF this _ _ e(1,2)] e(3) show ?thesis
    by (simp add: sample_grant_def ea_consts)
qed

text \<open>Every request but the change of the password leaves the other tables alone.\<close>

lemma preserves_ea_other:
  fixes P :: "db \<Rightarrow> bool"
  assumes "\<And>d x. P (d\<lparr>t_emergency_access := x\<rparr>) = P d"
    and "\<forall>eid b. op \<noteq> EaTakeoverPassword eid b"
  shows "preserves (\<lambda>s. P (w_db s)) (exec_ea_op env h op)"
proof -
  have save: "preserves (\<lambda>s. P (w_db s)) (ea_save_and_answer env e after)"
    if "\<And>x. preserves (\<lambda>s. P (w_db s)) (after x)" for e after
    unfolding ea_save_and_answer_def emergency_access_save_def Let_def
    by (intro preserves_rules preserves_d1_exec that) (auto simp: assms(1))
  have delete: "preserves (\<lambda>s. P (w_db s)) (emergency_access_delete env e)" for e
    unfolding emergency_access_delete_def by (rule preserves_d1_exec) (auto simp: assms(1))
  have "preserves (\<lambda>s. P (w_db s)) (update_access env h eid ub)"
    "preserves (\<lambda>s. P (w_db s)) (delete_access env h eid)"
    "preserves (\<lambda>s. P (w_db s)) (ea_invite env h ib)"
    "preserves (\<lambda>s. P (w_db s)) (ea_accept env h eid)"
    "preserves (\<lambda>s. P (w_db s)) (ea_confirm env h eid key)"
    "preserves (\<lambda>s. P (w_db s)) (ea_initiate env h eid)"
    "preserves (\<lambda>s. P (w_db s)) (ea_approve env h eid)"
    "preserves (\<lambda>s. P (w_db s)) (ea_reject env h eid)" for eid key ub ib
    unfolding update_access_def delete_access_def ea_invite_def ea_moves Let_def
      emergency_access_new_def user_find_by_email_def
    by (intro preserves_rules save delete preserves_ea_mail ea_grantee.preserves_load
        ea_grantor.preserves_load ea_any.preserves_load)+
  then show ?thesis
    using assms(2) by (cases op) (auto intro: preserves_ea_reads)
qed

text \<open>C18.
  Taking over an account: the only request of this component that changes a user is
  the change of the password, by the grantee of an approved takeover grant, and the user it
  changes is the grantor of that grant.
\<close>

theorem takeover_changes_grantor_only:
  assumes "run_state (exec_ea_op env h op) s = (resp, s')"
    and "u \<in> set (t_users (w_db s))" and "u \<notin> set (t_users (w_db s'))"
  shows "\<exists>e\<in>set (grants s). \<exists>body. op = EaTakeoverPassword (ea_uuid e) body \<and>
    ea_grantee_uuid e = Some (uid h) \<and> ea_status e = STATUS_RECOVERY_APPROVED \<and>
    ea_atype e = TYPE_TAKEOVER \<and> ea_grantor_uuid e = Some (us_uuid u)"
proof (cases "\<exists>eid body. op = EaTakeoverPassword eid body")
  case False
  then have "preserves (\<lambda>s. u \<in> set (t_users (w_db s))) (exec_ea_op env h op)"
    by (intro preserves_ea_other) auto
  with assms show ?thesis by (auto dest: preservesD)
next
  case True
  then obtain eid body where op: "op = EaTakeoverPassword eid body" by blast
  let ?Q = "\<lambda>_ s'. u \<notin> set (t_users (w_db s')) \<longrightarrow> (\<exists>e\<in>set (grants s).
    ea_uuid e = eid \<and> ea_grantee_uuid e = Some (uid h) \<and> ea_status e = STATUS_RECOVERY_APPROVED \<and>
    ea_atype e = TYPE_TAKEOVER \<and> ea_grantor_uuid e = Some (us_uuid u))"
  have others: "u \<in> set (upsert us_uuid user_conflict v (t_users (w_db s)))" if "us_uuid u \<noteq> us_uuid v" for v
    using that assms(2) by (simp add: kt_users.upsert_other_rows)
  have "wp (takeover_password env h eid body) ?Q s"
    unfolding takeover_password_def
  proof (rule ea_grantee.wp_guarded, goal_cases)
    case (2 e s1)
    then show ?case
      using assms(2)
      by (auto simp: find_user_opt_def user_find_by_uuid_def user_save_def wp_rules Let_def
            set_password_def user_from_row_select
          split: option.splits dest!: find_SomeD
          intro!: others wp_notify_userI wp_log_eventI)
  qed (use assms(2) in simp)
  then show ?thesis
    using assms op by (fastforce dest: wpD)
qed

theorem takeover_changes_grantor_only_witness:
  "\<exists>e\<in>set [sample_grant 1 4]. \<exists>body. EaTakeoverPassword ''ea'' (takeover_password_body.make ''pw'' ''key'') =
     EaTakeoverPassword (ea_uuid e) body \<and> ea_grantor_uuid e = Some ''alice''"
proof -
  let ?op = "EaTakeoverPassword ''ea'' (takeover_password_body.make ''pw'' ''key'')"
  let ?s' = "snd (run_state (exec_ea_op sample_env (sample_headers ''bob'') ?op) (sample_grant_world 1 4))"
  have "wp (exec_ea_op sample_env (sample_headers ''bob'') ?op)
      (\<lambda>_ s'. sample_user ''alice'' \<notin> set (t_users (w_db s'))) (sample_grant_world 1 4)"
    by (simp add: takeover_password_def ea_load_as_def ea_load_def assert_grantee_def
        emergency_access_find_by_uuid_def find_user_opt_def user_find_by_uuid_def user_save_def
        user_conflict_def set_password_def hash_password_def as_u32_def as_bytes_def
        takeover_password_body.defs ea_consts eval_simps sample_grant_defs)
  then have "sample_user ''alice'' \<notin> set (t_users (w_db ?s'))"
    by (simp add: wp_def split_beta)
  from takeover_changes_grantor_only [OF surjective_pairing _ this] show ?thesis
    by (simp add: sample_db_def sample_user_def)
qed

text \<open>C27.
  Viewing a vault: an answer with success needs an approved view grant of the caller, and the items
  in it are items of the grantor of that grant.
\<close>

theorem view_shows_grantor_items:
  assumes "run_state (ea_view env h eid) s = (resp, s')" and "resp_status resp = 200"
  shows "\<exists>e\<in>set (grants s). \<exists>key cs. ea_uuid e = eid \<and> ea_grantee_uuid e = Some (uid h) \<and>
    ea_status e = STATUS_RECOVERY_APPROVED \<and> ea_atype e = TYPE_VIEW \<and>
    (\<forall>c\<in>set cs. c \<in> set (t_ciphers (w_db s)) \<and> ci_user_uuid c = ea_grantor_uuid e) \<and>
    resp_body resp = JsonBody (ea_view_json env e key cs)"
proof -
  let ?R = "\<lambda>resp e. \<exists>key cs. ea_uuid e = eid \<and> ea_grantee_uuid e = Some (uid h) \<and>
    ea_status e = STATUS_RECOVERY_APPROVED \<and> ea_atype e = TYPE_VIEW \<and>
    (\<forall>c\<in>set cs. c \<in> set (t_ciphers (w_db s)) \<and> ci_user_uuid c = ea_grantor_uuid e) \<and>
    resp_body resp = JsonBody (ea_view_json env e key cs)"
  have "wp (ea_view env h eid) (\<lambda>resp s'. resp_status resp = 200 \<longrightarrow> (\<exists>e\<in>set (grants s). ?R resp e)) s"
    unfolding ea_view_def
  proof (rule ea_grantee.wp_guarded, goal_cases)
    case (2 e s1)
    have "\<exists>e\<in>set (grants s). ?R (json_response 200 (ea_view_json env e' key cs)) e"
      if "ea_status e = STATUS_RECOVERY_APPROVED" "ea_atype e = TYPE_VIEW" "e' = e"
        "\<forall>c\<in>set cs. c \<in> set (t_ciphers (w_db s)) \<and> ci_user_uuid c = ea_grantor_uuid e" for key cs e'
      by (rule bexI [OF _ 2(2)]) (use 2 that in auto)
    then show ?case
      using 2(1)
      by (simp add: find_user_opt_def user_find_by_uuid_def cipher_find_owned_by_user_def wp_rules
            opt_is_def split: option.splits) (auto dest!: find_SomeD)
  qed simp
  then show ?thesis
    using assms by (auto dest: wpD)
qed

theorem view_shows_grantor_items_witness:
  "\<exists>e\<in>set [sample_grant 0 4]. ea_grantee_uuid e = Some ''bob'' \<and> ea_atype e = TYPE_VIEW"
proof -
  have "wp (ea_view sample_env (sample_headers ''bob'') ''ea'')
      (\<lambda>resp _. resp_status resp = 200) (sample_grant_world 0 4)"
    by (simp add: ea_view_def ea_load_as_def ea_load_def assert_grantee_def
        emergency_access_find_by_uuid_def find_user_opt_def user_find_by_uuid_def
        cipher_find_owned_by_user_def ea_consts eval_simps sample_grant_defs)
  then have "resp_status (fst (run_state (ea_view sample_env (sample_headers ''bob'') ''ea'')
      (sample_grant_world 0 4))) = 200"
    by (simp add: wp_def split_beta)
  from view_shows_grantor_items [OF surjective_pairing this] show ?thesis
    by (simp add: sample_headers_def sample_user_def)
qed

lemma append_less_eq [simp]: "xs @ ys \<le> xs @ (zs :: string) \<longleftrightarrow> ys \<le> zs"
  by (induction xs) simp_all

lemma fk_ok_timer:
  assumes "fk_ok d"
  shows "fk_ok (d\<lparr>t_emergency_access := update_where P (\<lambda>e. e\<lparr>ea_status := st, ea_updated_at := now\<rparr>) (t_emergency_access d)\<rparr>)"
  using assms by (auto simp: fk_defs refers_def update_where_def split: if_splits)


text \<open>C34.
  The timer compares days, not times: SQLite writes a date with a blank before the time of day and
  the code compares it with a date written with the letter T.  A grant whose waiting time ends at
  any time of a day is approved by a run of the timer at any earlier time of that day, when the
  database takes the UPDATE: the call does not fail, and where foreign keys are enforced they hold.
\<close>

theorem timer_approves_early:
  assumes "e \<in> set (grants s)" and "ea_status e = STATUS_RECOVERY_INITIATED"
    and "ea_recovery_initiated_at e = Some t"
    and "e_sql_datetime env t (''+'' @ int_to_string (ea_wait_time_days e) @ '' days'') =
           Some (day @ '' '' @ due_time)"
    and "e_now env (w_tick s) = day @ ''T'' @ time"
    and "\<not> e_fault env (Suc (w_tick s))" and "e_fk env \<longrightarrow> fk_ok (w_db s)"
    and "run_state (emergency_access_auto_approve_due env) s = (r, s')"
  shows "\<exists>e'\<in>set (grants s'). ea_uuid e' = ea_uuid e \<and> ea_status e' = STATUS_RECOVERY_APPROVED"
proof -
  have "recovery_due env (e_now env (w_tick s)) e"
    using assms(2-5) by (simp add: recovery_due_def ea_consts less_eq_char_def)
  then have "wp (emergency_access_auto_approve_due env) (\<lambda>_ s'. \<exists>e'\<in>set (grants s').
      ea_uuid e' = ea_uuid e \<and> ea_status e' = STATUS_RECOVERY_APPROVED) s"
    using assms(1,6,7)
    by (auto simp: emergency_access_auto_approve_due_def wp_rules set_update_where ea_consts fk_ok_timer
        intro!: bexI [of _ "e\<lparr>ea_status := 4, ea_updated_at := e_now env (w_tick s)\<rparr>"])
  then show ?thesis
    using assms(8) by (rule wpD)
qed

theorem timer_approves_early_witness:
  "\<exists>e'\<in>set (grants (snd (run_state (emergency_access_auto_approve_due (sample_env_fk\<lparr>
       e_now := \<lambda>_. ''2026-01-08T00:00:01Z'', e_sql_datetime := \<lambda>_ _. Some ''2026-01-08 12:00:00''\<rparr>))
       (sample_grant_world 1 3)))). ea_uuid e' = ''ea'' \<and> ea_status e' = STATUS_RECOVERY_APPROVED"
  using timer_approves_early [OF _ _ _ _ _ _ _ surjective_pairing, of "sample_grant 1 3"
      "sample_grant_world 1 3" "''2026-01-01T12:00:00Z''" "sample_env_fk\<lparr>
       e_now := \<lambda>_. ''2026-01-08T00:00:01Z'', e_sql_datetime := \<lambda>_ _. Some ''2026-01-08 12:00:00''\<rparr>"
      "''2026-01-08''" "''12:00:00''" "''00:00:01Z''"]
  by (simp add: sample_env_fk_def sample_env_def sample_grant_def sample_grant_world_def sample_defs fk_defs
      refers_def ea_consts)

end
