(* ===== verification/Multipart.thy ===== *)
theory Multipart
  imports World
begin

text \<open>
  The extraction of an upload from a \<open>multipart/form-data\<close> body, from
  \<open>worker/src/api/sends.rs\<close>.  Bytes are words; a string is the list of its UTF-8 bytes as
  characters, so \<open>str::from_utf8\<close> is the check of the encoding.  A byte_slice whose end lies before
  its start panics: \<open>None\<close> on the outside of a result.
\<close>

section \<open>Bytes and strings\<close>

definition is_cont :: "byte \<Rightarrow> bool" where
  "is_cont b \<longleftrightarrow> 0x80 \<le> b \<and> b \<le> 0xBF"

fun utf8_valid :: "byte list \<Rightarrow> bool" where
  "utf8_valid [] = True"
| "utf8_valid (a # as) =
     (if a < 0x80 then utf8_valid as
      else case as of
        [] \<Rightarrow> False
      | b # bs \<Rightarrow>
        if 0xC2 \<le> a \<and> a \<le> 0xDF then is_cont b \<and> utf8_valid bs
        else case bs of
          [] \<Rightarrow> False
        | c # cs \<Rightarrow>
          if 0xE0 \<le> a \<and> a \<le> 0xEF then
            (if a = 0xE0 then 0xA0 \<le> b \<and> b \<le> 0xBF
             else if a = 0xED then 0x80 \<le> b \<and> b \<le> 0x9F else is_cont b) \<and> is_cont c \<and> utf8_valid cs
          else case cs of
            [] \<Rightarrow> False
          | d # ds \<Rightarrow>
            0xF0 \<le> a \<and> a \<le> 0xF4 \<and>
            (if a = 0xF0 then 0x90 \<le> b \<and> b \<le> 0xBF
             else if a = 0xF4 then 0x80 \<le> b \<and> b \<le> 0x8F else is_cont b) \<and>
            is_cont c \<and> is_cont d \<and> utf8_valid ds)"

definition bytes_of :: "string \<Rightarrow> byte list" where
  "bytes_of s = map of_char s"

definition from_utf8 :: "byte list \<Rightarrow> string option" where
  "from_utf8 bs = (if utf8_valid bs then Some (map (\<lambda>b. char_of (unat b)) bs) else None)"

lemma char_of_of_char_byte [simp]: "char_of (unat (of_char c :: byte)) = c"
proof -
  have "(of_char c :: byte) = of_nat (of_char c)"
    by (simp add: of_nat_of_char)
  then have "unat (of_char c :: byte) = of_char c"
    by (simp add: unat_of_nat take_bit_eq_mod)
  then show ?thesis by simp
qed

definition string_contains :: "string \<Rightarrow> string \<Rightarrow> bool" where
  "string_contains s pat \<longleftrightarrow> sublist pat s"

definition trim_matches :: "char \<Rightarrow> string \<Rightarrow> string" where
  "trim_matches c s = rev (dropWhile (\<lambda>x. x = c) (rev (dropWhile (\<lambda>x. x = c) s)))"

section \<open>Searching\<close>

text \<open>\<open>haystack.windows(needle.len()).position(|w| w == needle)\<close>.\<close>

fun find_window :: "byte list \<Rightarrow> byte list \<Rightarrow> nat \<Rightarrow> nat option" where
  "find_window [] needle i = (if needle = [] then Some i else None)"
| "find_window (b # bs) needle i =
     (if prefix needle (b # bs) then Some i else find_window bs needle (Suc i))"

definition find_subsequence :: "byte list \<Rightarrow> byte list \<Rightarrow> nat option" where
  "find_subsequence haystack needle =
     (if needle = [] \<or> length haystack < length needle then None
      else find_window haystack needle 0)"

lemma find_window_Some:
  "find_window h n i = Some j \<Longrightarrow>
     \<exists>k. j = i + k \<and> prefix n (drop k h) \<and> k \<le> length h \<and> (\<forall>k'<k. \<not> prefix n (drop k' h))"
proof (induction h n i rule: find_window.induct)
  case (2 b bs needle i)
  show ?case
  proof (cases "prefix needle (b # bs)")
    case True
    with 2(2) show ?thesis by (intro exI [of _ 0]) auto
  next
    case False
    with 2 obtain k where k: "j = Suc i + k" "prefix needle (drop k bs)" "k \<le> length bs"
      "\<forall>k'<k. \<not> prefix needle (drop k' bs)" by auto
    have "\<not> prefix needle (drop k' (b # bs))" if "k' < Suc k" for k'
      using False k(4) that by (cases k') auto
    with k show ?thesis by (intro exI [of _ "Suc k"]) auto
  qed
qed (auto split: if_splits)

lemma find_window_first:
  "prefix n (drop k h) \<Longrightarrow> k < length h \<Longrightarrow> \<forall>k'<k. \<not> prefix n (drop k' h) \<Longrightarrow>
     find_window h n i = Some (i + k)"
proof (induction h n i arbitrary: k rule: find_window.induct)
  case (2 b bs needle i)
  show ?case
  proof (cases k)
    case 0
    with 2 show ?thesis by simp
  next
    case (Suc m)
    have "\<forall>k'<m. \<not> prefix needle (drop k' bs)"
      using 2(4) Suc by (metis Suc_less_eq drop_Suc_Cons)
    moreover have "\<not> prefix needle (b # bs)"
      using 2(4) Suc by (metis drop0 zero_less_Suc)
    ultimately show ?thesis
      using 2 Suc by simp
  qed
qed simp

lemma find_subsequence_bound:
  assumes "find_subsequence h n = Some i"
  shows "n \<noteq> [] \<and> i + length n \<le> length h \<and> prefix n (drop i h)"
proof -
  have w: "n \<noteq> []" "find_window h n 0 = Some i"
    using assms by (auto simp: find_subsequence_def split: if_splits)
  then have p: "prefix n (drop i h)" "i \<le> length h"
    using find_window_Some [OF w(2)] by auto
  from prefix_length_le [OF p(1)] p(2) have "i + length n \<le> length h" by simp
  with w p show ?thesis by simp
qed

lemma find_subsequence_first:
  assumes "n \<noteq> []" "prefix n (drop i h)" "\<forall>k<i. \<not> prefix n (drop k h)"
  shows "find_subsequence h n = Some i"
proof -
  have "length n \<le> length h - i"
    using prefix_length_le [OF assms(2)] by simp
  moreover have "0 < length n" using assms(1) by simp
  ultimately have "i < length h" "\<not> length h < length n" by linarith+
  then show ?thesis
    using assms find_window_first [of n i h 0] by (simp add: find_subsequence_def)
qed

section \<open>Parts\<close>

definition parse_multipart_boundary :: "string \<Rightarrow> string option" where
  "parse_multipart_boundary content_type =
     (if \<not> string_contains (to_lowercase content_type) ''multipart/form-data'' then None
      else (case find (prefix ''boundary='') (map trim (split_on '';'' [] content_type)) of
        None \<Rightarrow> None
      | Some piece \<Rightarrow> Some (trim_matches (CHR 0x22) (drop (length ''boundary='') piece))))"

definition CRLF :: string where "CRLF = [CHR 0x0D, CHR 0x0A]"

text \<open>Only the first \<open>Content-Disposition\<close> line with \<open>form-data\<close> decides.\<close>

definition part_matches_name :: "string \<Rightarrow> string \<Rightarrow> bool" where
  "part_matches_name headers part_name =
     (case find (\<lambda>lower. prefix ''content-disposition:'' lower \<and>
              string_contains (drop (length ''content-disposition:'') lower) ''form-data'')
            (map to_lowercase (split_on CRLF [] headers)) of
        None \<Rightarrow> False
      | Some lower \<Rightarrow>
          string_contains lower (''name='' @ [CHR 0x22] @ to_lowercase part_name @ [CHR 0x22]))"

definition byte_slice :: "byte list \<Rightarrow> nat \<Rightarrow> nat \<Rightarrow> byte list" where
  "byte_slice xs start stop = take (stop - start) (drop start xs)"

text \<open>The end of a payload, without the line end before the next boundary.\<close>

definition payload_end_of :: "byte list \<Rightarrow> nat \<Rightarrow> nat" where
  "payload_end_of body e =
     (if 2 \<le> e \<and> byte_slice body (e - 2) e = bytes_of CRLF then e - 2 else e)"

lemma payload_end_bounds: "payload_end_of body e \<le> e" "e - 2 \<le> payload_end_of body e"
  by (auto simp: payload_end_of_def)

text \<open>
  One round of the loop: \<open>Inl\<close> is the answer of the function, with \<open>None\<close> for a panic, and
  \<open>Inr\<close> the cursor of the next round.
\<close>

definition multipart_step ::
  "byte list \<Rightarrow> byte list \<Rightarrow> string \<Rightarrow> nat \<Rightarrow> byte list option option + nat" where
  "multipart_step body delim part_name cursor =
     (case find_subsequence (drop cursor body) delim of
        None \<Rightarrow> Inl (Some None)
      | Some part_start \<Rightarrow>
        let abs_part_start = cursor + part_start + length delim in
        if abs_part_start + 2 > length body then Inl (Some None)
        else if byte_slice body abs_part_start (abs_part_start + 2) = bytes_of ''--'' then Inl (Some None)
        else
          let header_start = abs_part_start + 2 in
          (case find_subsequence (drop header_start body) (bytes_of (CRLF @ CRLF)) of
             None \<Rightarrow> Inl (Some None)
           | Some header_end \<Rightarrow>
             let payload_start = header_start + header_end + 4 in
             (case from_utf8 (byte_slice body header_start (header_start + header_end)) of
                None \<Rightarrow> Inl (Some None)
              | Some headers \<Rightarrow>
                (case find_subsequence (drop payload_start body) delim of
                   None \<Rightarrow> Inl (Some None)
                 | Some next_delim \<Rightarrow>
                   let payload_end = payload_end_of body (payload_start + next_delim) in
                   if part_matches_name headers part_name
                   then Inl (if payload_end < payload_start then None
                             else Some (Some (byte_slice body payload_start payload_end)))
                   else Inr payload_end))))"

text \<open>A round that goes on has passed a boundary, two bytes and a blank line, and may step back over one line end.\<close>

lemma multipart_progress:
  assumes "multipart_step body delim part_name cursor = Inr c"
  shows "cursor + length delim + 4 \<le> c \<and> c < length body"
proof -
  obtain a b n where n: "find_subsequence (drop (cursor + a + length delim + 2 + b + 4) body) delim = Some n"
    "c = payload_end_of body (cursor + a + length delim + 2 + b + 4 + n)"
    using assms by (auto simp: multipart_step_def Let_def split: option.splits if_splits)
  let ?p = "cursor + a + length delim + 2 + b + 4"
  have "0 < length delim" "n + length delim \<le> length body - ?p"
    using find_subsequence_bound [OF n(1)] by auto
  then have "?p + n < length body" by linarith
  then show ?thesis
    using payload_end_bounds(1) [of body "?p + n"] payload_end_bounds(2) [of "?p + n" body] n(2) by linarith
qed

function multipart_loop ::
  "byte list \<Rightarrow> byte list \<Rightarrow> string \<Rightarrow> nat \<Rightarrow> byte list option option" where
  "multipart_loop body delim part_name cursor =
     (case multipart_step body delim part_name cursor of
        Inl r \<Rightarrow> r
      | Inr payload_end \<Rightarrow> multipart_loop body delim part_name payload_end)"
  by pat_completeness auto

termination
  by (relation "measure (\<lambda>(body, delim, part_name, cursor). length body - cursor)")
    (auto dest!: multipart_progress)

declare multipart_loop.simps [simp del]

definition extract_multipart_part :: "byte list \<Rightarrow> string \<Rightarrow> string \<Rightarrow> byte list option option" where
  "extract_multipart_part body boundary part_name =
     (let delim_bytes = bytes_of (''--'' @ boundary) in
      case find_subsequence body delim_bytes of
        None \<Rightarrow> Some None
      | Some cursor \<Rightarrow> multipart_loop body delim_bytes part_name cursor)"

section \<open>Lemmas\<close>

lemma prefix_append_long: "length n \<le> length x \<Longrightarrow> prefix n (x @ y) \<longleftrightarrow> prefix n x"
  by (auto simp: prefix_def append_eq_append_conv2)

text \<open>Text in front of a needle that does not complete an earlier occurrence of it.\<close>

definition clear_of :: "byte list \<Rightarrow> byte list \<Rightarrow> bool" where
  "clear_of x n \<longleftrightarrow> (\<forall>k<length x. \<not> prefix n (drop k (x @ n)))"

lemma find_subsequence_clear:
  assumes "n \<noteq> []" "clear_of x n"
  shows "find_subsequence (x @ n @ rest) n = Some (length x)"
proof (rule find_subsequence_first [OF assms(1)])
  show "\<forall>k<length x. \<not> prefix n (drop k (x @ n @ rest))"
  proof (intro allI impI)
    fix k assume k: "k < length x"
    then have "drop k (x @ n @ rest) = drop k (x @ n) @ rest" "length n \<le> length (drop k (x @ n))"
      by auto
    with assms(2) k show "\<not> prefix n (drop k (x @ n @ rest))"
      by (simp only: clear_of_def prefix_append_long) blast
  qed
qed simp

lemma clear_of_Nil [simp]: "clear_of [] n"
  by (simp add: clear_of_def)

lemma bytes_of_length [simp]: "length (bytes_of s) = length s"
  by (simp add: bytes_of_def)

lemma length_CRLF [simp]: "length CRLF = 2"
  by (simp add: CRLF_def)

lemma bytes_of_append [simp]: "bytes_of (s @ t) = bytes_of s @ bytes_of t"
  by (simp add: bytes_of_def)

lemma bytes_of_Cons: "bytes_of (c # s) = of_char c # bytes_of s"
  by (simp add: bytes_of_def)

lemma bytes_of_Nil [simp]: "bytes_of s = [] \<longleftrightarrow> s = []"
  by (simp add: bytes_of_def)

text \<open>One round of the loop on a body that starts with a part.\<close>

lemma multipart_first_part:
  fixes boundary headers hdr rest
  defines "delim \<equiv> bytes_of (''--'' @ boundary)"
    and "sep \<equiv> bytes_of CRLF @ bytes_of CRLF"
  defines "start \<equiv> length delim + 2 + length hdr + 4"
  assumes "from_utf8 hdr = Some headers" "part_matches_name headers part_name"
    and "clear_of hdr sep" "clear_of content delim"
  shows "extract_multipart_part (delim @ bytes_of CRLF @ hdr @ sep @ content @ delim @ rest) boundary part_name =
    (let body = delim @ bytes_of CRLF @ hdr @ sep @ content @ delim @ rest;
         stop = payload_end_of body (start + length content) in
     if stop < start then None else Some (Some (byte_slice body start stop)))"
proof -
  let ?body = "delim @ bytes_of CRLF @ hdr @ sep @ content @ delim @ rest"
  have ne: "delim \<noteq> []" "sep \<noteq> []" "length sep = 4" "length (bytes_of CRLF) = 2"
    by (simp_all add: delim_def sep_def CRLF_def)
  have first: "find_subsequence ?body delim = Some 0"
    using find_subsequence_clear [OF ne(1), of "[]"] by simp
  have "find_subsequence (hdr @ sep @ content @ delim @ rest) sep = Some (length hdr)"
    using find_subsequence_clear [OF ne(2) assms(6)] by simp
  moreover have "drop (length delim + 2) ?body = hdr @ sep @ content @ delim @ rest"
    by (simp add: ne)
  moreover have "find_subsequence (drop start ?body) delim = Some (length content)"
    using find_subsequence_clear [OF ne(1) assms(7)] by (simp add: ne start_def)
  moreover have "byte_slice ?body (length delim + 2) (length delim + 2 + length hdr) = hdr"
    by (simp add: byte_slice_def ne)
  moreover have "byte_slice ?body (length delim) (length delim + 2) = bytes_of CRLF"
    by (simp add: byte_slice_def ne)
  moreover have "bytes_of CRLF \<noteq> bytes_of ''--''" "\<not> length delim + 2 > length ?body"
    by (simp_all add: bytes_of_def CRLF_def)
  ultimately have "multipart_loop ?body delim part_name 0 =
     (let stop = payload_end_of ?body (start + length content) in
      if stop < start then None else Some (Some (byte_slice ?body start stop)))"
    using first assms(4,5)
    by (subst multipart_loop.simps) (simp add: multipart_step_def sep_def start_def Let_def add.assoc del: append_assoc)
  then show ?thesis
    using first by (simp add: extract_multipart_part_def Let_def delim_def)
qed

section \<open>Bodies of several parts\<close>

text \<open>
  The body of RFC 7578: each part after a boundary, its headers, a blank line, its payload and a line
  end; the last one is followed by a boundary again.
\<close>

fun multipart_body :: "string \<Rightarrow> (byte list \<times> byte list) list \<Rightarrow> byte list \<Rightarrow> byte list" where
  "multipart_body boundary [] rest = bytes_of (''--'' @ boundary) @ rest"
| "multipart_body boundary ((hdr, payload) # parts) rest =
     bytes_of (''--'' @ boundary) @ bytes_of CRLF @ hdr @ bytes_of (CRLF @ CRLF) @ payload @ bytes_of CRLF @
     multipart_body boundary parts rest"

text \<open>
  A part that the scan reads as a whole: its headers are UTF-8 and have no blank line in them, and its
  payload does not contain the boundary with the two dashes.
\<close>

definition scannable :: "string \<Rightarrow> byte list \<times> byte list \<Rightarrow> bool" where
  "scannable boundary part \<longleftrightarrow> (case part of (hdr, payload) \<Rightarrow> from_utf8 hdr \<noteq> None \<and>
     clear_of hdr (bytes_of (CRLF @ CRLF)) \<and> clear_of (payload @ bytes_of CRLF) (bytes_of (''--'' @ boundary)))"

definition part_named :: "string \<Rightarrow> byte list \<times> byte list \<Rightarrow> bool" where
  "part_named part_name part \<longleftrightarrow> (case from_utf8 (fst part) of
     None \<Rightarrow> False | Some headers \<Rightarrow> part_matches_name headers part_name)"

lemma multipart_body_delim:
  "\<exists>tail. multipart_body boundary parts rest = bytes_of (''--'' @ boundary) @ tail"
  by (cases parts) auto

lemma clear_of_CRLF: "clear_of (bytes_of CRLF) (bytes_of (''--'' @ boundary))"
  unfolding clear_of_def
proof (intro allI impI)
  fix k assume "k < length (bytes_of CRLF)"
  then have "k = 0 \<or> k = 1" by auto
  then show "\<not> prefix (bytes_of (''--'' @ boundary)) (drop k (bytes_of CRLF @ bytes_of (''--'' @ boundary)))"
    by (auto simp: CRLF_def bytes_of_def)
qed

lemma drop_at: "drop c xs = ys \<Longrightarrow> drop (c + n) xs = drop n ys"
  by (metis add.commute drop_drop)

text \<open>One round on a part: the cursor may stand in front of the line end before its boundary.\<close>

lemma multipart_step_part:
  fixes boundary rest
  defines "delim \<equiv> bytes_of (''--'' @ boundary)"
  assumes at: "drop c body = pre @ multipart_body boundary ((hdr, payload) # parts) rest"
    and pre: "clear_of pre delim" and ok: "scannable boundary (hdr, payload)"
  defines "stop \<equiv> c + length pre + length delim + 2 + length hdr + 4 + length payload"
  shows "multipart_step body delim part_name c =
      (if part_named part_name (hdr, payload) then Inl (Some (Some payload)) else Inr stop)"
    and "drop stop body = bytes_of CRLF @ multipart_body boundary parts rest"
proof -
  obtain tail where tail: "multipart_body boundary parts rest = delim @ tail"
    using multipart_body_delim unfolding delim_def by blast
  let ?sep = "bytes_of (CRLF @ CRLF)" and ?line = "bytes_of CRLF"
  let ?a = "c + length pre + length delim" and ?start = "c + length pre + length delim + 2 + length hdr + 4"
  have ne: "delim \<noteq> []" "?sep \<noteq> []" "length ?sep = 4" "length ?line = 2"
    by (simp_all add: delim_def CRLF_def)
  obtain headers where h: "from_utf8 hdr = Some headers" and clear: "clear_of hdr ?sep" "clear_of (payload @ ?line) delim"
    using ok by (auto simp: scannable_def delim_def)
  have d0: "drop c body = pre @ delim @ ?line @ hdr @ ?sep @ (payload @ ?line) @ delim @ tail"
    by (simp only: at tail multipart_body.simps append_assoc delim_def)
  have d1: "drop ?a body = ?line @ hdr @ ?sep @ (payload @ ?line) @ delim @ tail"
    using drop_at [OF d0, of "length pre + length delim"] by (simp add: add.assoc)
  have d2: "drop (?a + 2) body = hdr @ ?sep @ (payload @ ?line) @ delim @ tail"
    using drop_at [OF d1, of 2] ne by simp
  have d3: "drop ?start body = (payload @ ?line) @ delim @ tail"
    using drop_at [OF d2, of "length hdr + 4"] ne by (simp add: add.assoc)
  show stop: "drop stop body = ?line @ multipart_body boundary parts rest"
    using drop_at [OF d3, of "length payload"] by (simp add: stop_def tail)
  have "length (drop ?a body) \<ge> 2" unfolding d1 by (simp add: ne)
  then have len: "\<not> ?a + 2 > length body" by simp
  have "byte_slice body (stop + 2 - 2) (stop + 2) = ?line"
    by (simp add: byte_slice_def stop ne)
  then have end_at: "payload_end_of body (?start + length (payload @ ?line)) = stop"
    by (simp add: payload_end_of_def stop_def ne)
  have "byte_slice body ?start stop = payload"
    unfolding byte_slice_def d3 by (simp add: stop_def)
  moreover have "byte_slice body ?a (?a + 2) = ?line" "byte_slice body (?a + 2) (?a + 2 + length hdr) = hdr"
    unfolding byte_slice_def d1 d2 by (simp_all add: ne)
  moreover have "?line \<noteq> bytes_of ''--''" by (simp add: bytes_of_def CRLF_def)
  moreover have "find_subsequence (drop c body) delim = Some (length pre)"
    unfolding d0 by (rule find_subsequence_clear [OF ne(1) pre])
  moreover have "find_subsequence (drop (?a + 2) body) ?sep = Some (length hdr)"
    unfolding d2 by (rule find_subsequence_clear [OF ne(2) clear(1)])
  moreover have "find_subsequence (drop ?start body) delim = Some (length (payload @ ?line))"
    unfolding d3 by (rule find_subsequence_clear [OF ne(1) clear(2)])
  moreover have "\<not> stop < ?start" by (simp add: stop_def)
  ultimately show "multipart_step body delim part_name c =
      (if part_named part_name (hdr, payload) then Inl (Some (Some payload)) else Inr stop)"
    using h len end_at
    unfolding multipart_step_def part_named_def Let_def by (simp only: option.case fst_conv if_False if_True)
qed

lemma multipart_loop_parts:
  assumes "\<forall>part\<in>set (before @ [(hdr, payload)]). scannable boundary part"
    and "\<forall>part\<in>set before. \<not> part_named part_name part" and "part_named part_name (hdr, payload)"
  shows "drop c body = pre @ multipart_body boundary (before @ (hdr, payload) # after) rest \<Longrightarrow>
    clear_of pre (bytes_of (''--'' @ boundary)) \<Longrightarrow>
    multipart_loop body (bytes_of (''--'' @ boundary)) part_name c = Some (Some payload)"
  using assms
proof (induction before arbitrary: c pre)
  case Nil
  then show ?case
    using multipart_step_part(1) [of c body pre boundary hdr payload after rest part_name]
    by (subst multipart_loop.simps) simp
next
  case (Cons part before)
  obtain h p where part: "part = (h, p)" by fastforce
  note step = multipart_step_part [of c body pre boundary h p "before @ (hdr, payload) # after" rest]
  have "multipart_loop body (bytes_of (''--'' @ boundary)) part_name
      (c + length pre + length (bytes_of (''--'' @ boundary)) + 2 + length h + 4 + length p) = Some (Some payload)"
    by (rule Cons.IH [OF step(2) clear_of_CRLF]) (use Cons.prems part in auto)
  then show ?case
    using step(1) [of part_name] Cons.prems part by (subst multipart_loop.simps) simp
qed

section \<open>The number of rounds\<close>

text \<open>The same loop cut off after a number of rounds; \<open>None\<close> when it is still running.\<close>

fun multipart_rounds ::
  "nat \<Rightarrow> byte list \<Rightarrow> byte list \<Rightarrow> string \<Rightarrow> nat \<Rightarrow> byte list option option option" where
  "multipart_rounds 0 body delim part_name cursor = None"
| "multipart_rounds (Suc n) body delim part_name cursor =
     (case multipart_step body delim part_name cursor of
        Inl r \<Rightarrow> Some r
      | Inr payload_end \<Rightarrow> multipart_rounds n body delim part_name payload_end)"

definition extract_within :: "nat \<Rightarrow> byte list \<Rightarrow> string \<Rightarrow> string \<Rightarrow> byte list option option option" where
  "extract_within n body boundary part_name =
     (let delim_bytes = bytes_of (''--'' @ boundary) in
      case find_subsequence body delim_bytes of
        None \<Rightarrow> Some (Some None)
      | Some cursor \<Rightarrow> multipart_rounds n body delim_bytes part_name cursor)"

lemma multipart_rounds_enough:
  assumes "length body - cursor < 6 * n" "2 \<le> length delim"
  shows "multipart_rounds n body delim part_name cursor = Some (multipart_loop body delim part_name cursor)"
  using assms(1)
proof (induction n arbitrary: cursor)
  case (Suc n)
  show ?case
  proof (cases "multipart_step body delim part_name cursor")
    case (Inr c)
    note progress = multipart_progress [OF Inr, THEN conjunct1] multipart_progress [OF Inr, THEN conjunct2]
    have "length body - c < 6 * n" using progress assms(2) Suc.prems unfolding mult_Suc_right by linarith
    with Inr show ?thesis by (simp add: Suc.IH multipart_loop.simps [of body delim part_name cursor])
  qed (simp add: multipart_loop.simps)
qed simp

section \<open>Properties\<close>

text \<open>C21.
  The scan of a multipart body ends, on every input: a round that goes on moves the cursor by six
  bytes or more, so one more round than a sixth of the length of the body is
  enough, and the answer is that of the unbounded loop.
\<close>

theorem multipart_scan_terminates:
  "extract_within (Suc (length body div 6)) body boundary part_name =
     Some (extract_multipart_part body boundary part_name)"
  by (auto simp: extract_within_def extract_multipart_part_def Let_def split: option.splits
      simp del: multipart_rounds.simps intro!: multipart_rounds_enough)

text \<open>C20.
  Round trip of an upload: from a body of parts as RFC 7578 lays them out, the extraction returns the
  payload of the first part of the wanted name, byte for byte.  Up to that part the headers are UTF-8
  without a blank line in them, and neither the text before the first boundary nor a payload contains
  the boundary with its two dashes; nothing is asked of the parts after it.
\<close>

theorem extract_multipart_roundtrip:
  assumes "clear_of preamble (bytes_of (''--'' @ boundary))"
    and "\<forall>part\<in>set (before @ [(hdr, payload)]). scannable boundary part"
    and "\<forall>part\<in>set before. \<not> part_named part_name part" and "part_named part_name (hdr, payload)"
  shows "extract_multipart_part (preamble @ multipart_body boundary (before @ (hdr, payload) # after) rest)
    boundary part_name = Some (Some payload)"
proof -
  let ?parts = "multipart_body boundary (before @ (hdr, payload) # after) rest"
  obtain tail where tail: "?parts = bytes_of (''--'' @ boundary) @ tail"
    using multipart_body_delim by blast
  have "find_subsequence (preamble @ ?parts) (bytes_of (''--'' @ boundary)) = Some (length preamble)"
    unfolding tail by (rule find_subsequence_clear [OF _ assms(1)]) simp
  moreover have "multipart_loop (preamble @ ?parts) (bytes_of (''--'' @ boundary)) part_name (length preamble) =
      Some (Some payload)"
    by (rule multipart_loop_parts [OF assms(2-4), where pre = "[]"]) simp_all
  ultimately show ?thesis by (simp add: extract_multipart_part_def Let_def)
qed

text \<open>The headers of a part named \<open>data\<close>, as the clients send them.\<close>

definition sample_part_headers :: string where
  "sample_part_headers = ''Content-Disposition: form-data; name='' @ [CHR 0x22] @ ''data'' @ [CHR 0x22]"

text \<open>The wanted part stands behind another one, and a part that is no UTF-8 follows it.\<close>

theorem extract_multipart_roundtrip_witness:
  "extract_multipart_part (bytes_of ''i'' @ multipart_body ''b'' ([(bytes_of ''X: 1'', [9])] @
     (bytes_of sample_part_headers, [1, 2, 3]) # [([0xFF], [])]) (bytes_of ''--'')) ''b'' ''data'' =
   Some (Some [1, 2, 3])"
proof (rule extract_multipart_roundtrip)
  have "scannable ''b'' (bytes_of ''X: 1'', [9])" "scannable ''b'' (bytes_of sample_part_headers, [1, 2, 3])"
    by code_simp+
  then show "\<forall>part\<in>set ([(bytes_of ''X: 1'', [9])] @ [(bytes_of sample_part_headers, [1, 2, 3])]). scannable ''b'' part"
    by simp
qed code_simp+

text \<open>C35.
  A part whose boundary follows the blank line of its headers at once, with no line end of its
  own, makes the extraction panic: the line end it strips is the one of the headers, and the
  slice ends before it starts.
\<close>

theorem extract_multipart_panics:
  assumes "from_utf8 hdr = Some headers" and "part_matches_name headers part_name"
    and "clear_of hdr (bytes_of (CRLF @ CRLF))"
  shows "extract_multipart_part (bytes_of (''--'' @ boundary @ CRLF) @ hdr @ bytes_of (CRLF @ CRLF) @
      bytes_of (''--'' @ boundary) @ rest) boundary part_name = None"
proof -
  let ?d = "bytes_of (''--'' @ boundary)"
  let ?start = "length ?d + 2 + length hdr + 4"
  let ?body = "?d @ bytes_of CRLF @ hdr @ (bytes_of CRLF @ bytes_of CRLF) @ [] @ ?d @ rest"
  have "byte_slice ?body (?start - 2) ?start = bytes_of CRLF"
    by (simp add: byte_slice_def)
  then have "payload_end_of ?body ?start < ?start"
    by (simp add: payload_end_of_def)
  then have "extract_multipart_part ?body boundary part_name = None"
    using multipart_first_part [OF assms(1,2), of "[]" boundary rest] assms(3)
    by (simp add: Let_def)
  then show ?thesis by (simp add: bytes_of_Cons)
qed

theorem extract_multipart_panics_witness:
  "extract_multipart_part (bytes_of (''--'' @ ''b'' @ CRLF) @ bytes_of sample_part_headers @
     bytes_of (CRLF @ CRLF) @ bytes_of (''--'' @ ''b'') @ bytes_of ''--'') ''b'' ''data'' = None"
proof (rule extract_multipart_panics)
  show "from_utf8 (bytes_of sample_part_headers) = Some sample_part_headers" by code_simp
  show "part_matches_name sample_part_headers ''data''" by code_simp
  show "clear_of (bytes_of sample_part_headers) (bytes_of (CRLF @ CRLF))" by code_simp
qed

end
