(* ===== verification/Sends.thy ===== *)
theory Sends
  imports Cipher_Json Ratelimit Multipart
begin

text \<open>
  \<open>worker/src/api/sends.rs\<close>: one-off shares of a text or a file.  The owner manages them
  behind the request guard; whoever knows the id reads them without an account, within the
  limits the owner set.
\<close>

definition SEND_TYPE_TEXT :: int where "SEND_TYPE_TEXT = 0"
definition MAX_FILE_SEND_BYTES :: nat where "MAX_FILE_SEND_BYTES = 100 * 1024 * 1024"
definition SEND_PW_ITERATIONS :: int where "SEND_PW_ITERATIONS = 100000"

record send_body =
  sb_name :: string
  sb_notes :: "string option"
  sb_atype :: int
  sb_text :: "json option"
  sb_file :: "json option"
  sb_key :: string
  sb_deletion_date :: string
  sb_expiration_date :: "string option"
  sb_password :: "string option"
  sb_max_access_count :: "int option"
  sb_hide_email :: "bool option"
  sb_disabled :: "bool option"

section \<open>Passwords\<close>

definition apply_send_password :: "env \<Rightarrow> send \<Rightarrow> string \<Rightarrow> send act" where
  "apply_send_password env s password = do {
     salt \<leftarrow> random_bytes env 64;
     return (s\<lparr>se_password_salt := salt,
       se_password_hash := e_pbkdf2 env (as_bytes password) salt (nat SEND_PW_ITERATIONS),
       se_password_iter := Some SEND_PW_ITERATIONS\<rparr>) }"

text \<open>\<open>None\<close> is the panic of \<open>hash_password\<close> on no iterations.\<close>

definition verify_send_password :: "env \<Rightarrow> send \<Rightarrow> string option \<Rightarrow> bool option" where
  "verify_send_password env s supplied =
     (if se_password_hash s = [] then Some True
      else case supplied of
        None \<Rightarrow> Some False
      | Some pw \<Rightarrow>
        if pw = [] then Some False
        else verify_password_hash env (as_bytes pw) (se_password_salt s) (se_password_hash s)
          (as_u32 (case se_password_iter s of None \<Rightarrow> SEND_PW_ITERATIONS | Some i \<Rightarrow> i)))"

text \<open>\<open>password.as_deref().filter(|p| !p.is_empty())\<close> guards the call.\<close>

definition with_password :: "env \<Rightarrow> string option \<Rightarrow> send \<Rightarrow> send act" where
  "with_password env pw s = (case pw of
     None \<Rightarrow> return s | Some p \<Rightarrow> if p = [] then return s else apply_send_password env s p)"

section \<open>JSON\<close>

definition data_text :: "env \<Rightarrow> send_body \<Rightarrow> response + string" where
  "data_text env body =
     (if sb_atype body = 0
      then (case sb_text body of
              None \<Rightarrow> Inl (err_json 400 ''text payload required'')
            | Some v \<Rightarrow> Inr (e_json_print env v))
      else if sb_atype body = 1
      then (case sb_file body of
              None \<Rightarrow> Inl (err_json 400 ''file payload required (file sends not yet supported)'')
            | Some v \<Rightarrow> Inr (e_json_print env v))
      else Inl (err_json 400 ''unknown send type''))"

text \<open>Rows written with capitalised keys get the lowercase ones as well.\<close>

definition project_key :: "string \<times> string \<Rightarrow> json \<Rightarrow> json" where
  "project_key ks j = (case ks of (cap, lower) \<Rightarrow>
     if json_get lower j = None
     then (case json_get cap j of None \<Rightarrow> j | Some v \<Rightarrow> json_insert lower v j) else j)"

definition project_file_keys :: "json \<Rightarrow> json" where
  "project_file_keys j = fold project_key [(''Id'', ''id''), (''Size'', ''size''),
     (''SizeName'', ''sizeName''), (''FileName'', ''fileName'')] j"

definition text_and_file :: "env \<Rightarrow> send \<Rightarrow> json \<times> json" where
  "text_and_file env s =
     (let parsed_data = parse_json_or_null env (Some (se_data s)) in
      if se_atype s = 0 then (parsed_data, JNull) else (JNull, project_file_keys parsed_data))"

definition send_json :: "env \<Rightarrow> send \<Rightarrow> json" where
  "send_json env s = (case text_and_file env s of (txt, file) \<Rightarrow> JObj [
     (''Object'', JStr ''send''), (''Id'', JStr (se_uuid s)), (''AccessId'', JStr (se_uuid s)),
     (''Type'', JInt (se_atype s)), (''Name'', JStr (se_name s)), (''Notes'', jopt (se_notes s)),
     (''Text'', txt), (''File'', file), (''Key'', JStr (se_akey s)),
     (''MaxAccessCount'', jopt_int (se_max_access_count s)), (''AccessCount'', JInt (se_access_count s)),
     (''Password'', if se_password_hash s = [] then JNull else JStr ''present''),
     (''Disabled'', JBool (se_disabled s = 1)),
     (''HideEmail'', JBool (se_hide_email s = Some 1)),
     (''RevisionDate'', JStr (se_revision_date s)), (''DeletionDate'', JStr (se_deletion_date s)),
     (''ExpirationDate'', jopt (se_expiration_date s))])"

section \<open>The owner's requests\<close>

definition send_load_owned :: "env \<Rightarrow> headers \<Rightarrow> string \<Rightarrow> (world, response + send) state" where
  "send_load_owned env h uuid =
     try_ret (send_find_by_uuid env uuid) (\<lambda>_. Inl (err_json 500 ''database error'')) (\<lambda>r.
       case r of
         None \<Rightarrow> return (Inl (err_json 404 ''Send not found''))
       | Some s \<Rightarrow>
           if se_user_uuid s \<noteq> Some (uid h) then return (Inl (err_json 404 ''Send not found''))
           else return (Inr s))"

definition list_sends :: "env \<Rightarrow> headers \<Rightarrow> response act" where
  "list_sends env h =
     try_ret (send_find_by_user env (uid h)) (\<lambda>_. err_json 500 ''database error'') (\<lambda>sends.
       return (json_response 200 (JObj [(''Object'', JStr ''list''),
         (''Data'', JArr (map (send_json env) sends)), (''ContinuationToken'', JNull)])))"

definition post_send :: "env \<Rightarrow> headers \<Rightarrow> send_body \<Rightarrow> response act" where
  "post_send env h body =
     (if sb_atype body \<noteq> SEND_TYPE_TEXT
      then return (err_json 400 ''Only text sends are supported on this endpoint'')
      else case data_text env body of
        Inl e \<Rightarrow> return e
      | Inr data \<Rightarrow> do {
          s0 \<leftarrow> send_new env (sb_atype body) (sb_name body) data (sb_key body) (sb_deletion_date body);
          s1 \<leftarrow> with_password env (sb_password body) (s0\<lparr>se_user_uuid := Some (uid h),
            se_notes := sb_notes body, se_expiration_date := sb_expiration_date body,
            se_max_access_count := sb_max_access_count body,
            se_hide_email := map_option bool_i32 (sb_hide_email body),
            se_disabled := (case sb_disabled body of None \<Rightarrow> 0 | Some b \<Rightarrow> bool_i32 b)\<rparr>);
          try_ret (send_save env s1) (\<lambda>_. err_json 500 ''failed to save send'') (\<lambda>s. do {
            _ \<leftarrow> notify_user env (uid h) SYNC_SEND_CREATE (se_uuid s);
            return (json_response 200 (send_json env s)) }) })"

definition get_send :: "env \<Rightarrow> headers \<Rightarrow> string \<Rightarrow> response act" where
  "get_send env h uuid =
     try_ret (send_load_owned env h uuid) (\<lambda>e. e) (\<lambda>s. return (json_response 200 (send_json env s)))"

definition put_send :: "env \<Rightarrow> headers \<Rightarrow> string \<Rightarrow> send_body \<Rightarrow> response act" where
  "put_send env h uuid body =
     try_ret (send_load_owned env h uuid) (\<lambda>e. e) (\<lambda>s.
       if sb_atype body \<noteq> se_atype s then return (err_json 400 ''send type cannot change'')
       else case data_text env body of
         Inl e \<Rightarrow> return e
       | Inr data \<Rightarrow> do {
           s1 \<leftarrow> with_password env (sb_password body) (s\<lparr>se_name := sb_name body,
             se_notes := sb_notes body, se_data := data, se_akey := sb_key body,
             se_deletion_date := sb_deletion_date body,
             se_expiration_date := sb_expiration_date body,
             se_max_access_count := sb_max_access_count body,
             se_hide_email := map_option bool_i32 (sb_hide_email body),
             se_disabled := (case sb_disabled body of None \<Rightarrow> se_disabled s | Some b \<Rightarrow> bool_i32 b)\<rparr>);
           now \<leftarrow> now_iso env;
           try_ret (send_save env (s1\<lparr>se_revision_date := now\<rparr>))
             (\<lambda>_. err_json 500 ''failed to save send'') (\<lambda>s. do {
             _ \<leftarrow> notify_user env (uid h) SYNC_SEND_UPDATE (se_uuid s);
             return (json_response 200 (send_json env s)) }) })"

definition drop_send_files :: "env \<Rightarrow> string \<Rightarrow> unit act" where
  "drop_send_files env send_uuid =
     try_ret (r2_list_sends env (send_uuid @ ''/'')) (\<lambda>_. ()) (\<lambda>keys.
       for_each keys (\<lambda>k. ignore (r2_delete_send env k)))"

definition delete_send :: "env \<Rightarrow> headers \<Rightarrow> string \<Rightarrow> response act" where
  "delete_send env h uuid =
     try_ret (send_load_owned env h uuid) (\<lambda>e. e) (\<lambda>s.
       try_ret (send_delete env s) (\<lambda>_. err_json 500 ''failed to delete send'') (\<lambda>_. do {
         _ \<leftarrow> (if se_atype s = 1 then drop_send_files env (se_uuid s) else return ());
         _ \<leftarrow> notify_user env (uid h) SYNC_SEND_DELETE (se_uuid s);
         return (json_response 200 (JObj [])) }))"

definition remove_password :: "env \<Rightarrow> headers \<Rightarrow> string \<Rightarrow> response act" where
  "remove_password env h uuid =
     try_ret (send_load_owned env h uuid) (\<lambda>e. e) (\<lambda>s.
       try_ret (send_save env (s\<lparr>se_password_hash := [], se_password_salt := [],
           se_password_iter := None\<rparr>))
         (\<lambda>_. err_json 500 ''failed to save send'') (\<lambda>s. do {
         _ \<leftarrow> notify_user env (uid h) SYNC_SEND_UPDATE (se_uuid s);
         return (json_response 200 (send_json env s)) }))"

section \<open>Anonymous access\<close>

definition invalid_password :: response where
  "invalid_password = json_response 401 (JObj [(''Object'', JStr ''error''),
     (''Message'', JStr ''Invalid password.''),
     (''ErrorModel'', JObj [(''Message'', JStr ''Invalid password.'')])])"

text \<open>
  The checks both anonymous handlers make, in their order, up to the count of the access.
  \<open>unavailable\<close> is the answer for a send that is disabled or of the wrong kind.  The
  outcome of the save is dropped.
\<close>

definition open_send ::
  "env \<Rightarrow> (send \<Rightarrow> response option) \<Rightarrow> string \<Rightarrow> string option \<Rightarrow> (world, response + send) state" where
  "open_send env unavailable access_id password = do {
     ok \<leftarrow> ratelimit_check env LOGIN_LIMIT access_id;
     if \<not> ok then return (Inl (err_json 429 ''Too many access attempts''))
     else do {
       r \<leftarrow> send_find_by_uuid env access_id;
       case r of
         Inr (Some s) \<Rightarrow>
           (case unavailable s of
              Some resp \<Rightarrow> return (Inl resp)
            | None \<Rightarrow> do {
                now \<leftarrow> now_iso env;
                if se_deletion_date s \<le> now then return (Inl (err_json 404 ''Send expired''))
                else if (case se_max_access_count s of None \<Rightarrow> False | Some mx \<Rightarrow> se_access_count s \<ge> mx)
                then return (Inl (err_json 404 ''Send access limit reached''))
                else case verify_send_password env s password of
                  None \<Rightarrow> return (Inl panicked)
                | Some False \<Rightarrow> return (Inl invalid_password)
                | Some True \<Rightarrow> do {
                    let s' = s\<lparr>se_access_count := wrap_i32 (se_access_count s + 1)\<rparr>;
                    r \<leftarrow> send_save env s';
                    return (Inr (case r of Inl _ \<Rightarrow> s' | Inr s'' \<Rightarrow> s'')) } })
       | _ \<Rightarrow> return (Inl (err_json 404 ''Send not found'')) } }"

definition public_access :: "env \<Rightarrow> string \<Rightarrow> string option \<Rightarrow> response act" where
  "public_access env access_id password =
     try_ret (open_send env (\<lambda>s. if se_disabled s = 1 then Some (err_json 404 ''Send disabled'') else None)
         access_id password) (\<lambda>e. e) (\<lambda>s.
       return (json_response 200 (case text_and_file env s of (txt, file) \<Rightarrow> JObj [
         (''Object'', JStr ''send-access''), (''Id'', JStr (se_uuid s)), (''Type'', JInt (se_atype s)),
         (''Name'', JStr (se_name s)), (''Text'', txt), (''File'', file),
         (''ExpirationDate'', jopt (se_expiration_date s)), (''CreatorIdentifier'', JNull)])))"

section \<open>File sends\<close>

record file_send_body =
  fb_name :: string
  fb_notes :: "string option"
  fb_file :: json
  fb_file_length :: "int option"
  fb_key :: string
  fb_deletion_date :: string
  fb_expiration_date :: "string option"
  fb_password :: "string option"
  fb_max_access_count :: "int option"
  fb_hide_email :: "bool option"
  fb_disabled :: "bool option"

definition file_send_data :: "file_send_body \<Rightarrow> string \<Rightarrow> json" where
  "file_send_data body file_id =
     (let d = json_insert ''id'' (JStr file_id) (fb_file body) in
      case fb_file_length body of
        None \<Rightarrow> d
      | Some len \<Rightarrow> json_insert ''sizeName'' (JStr (format_size len))
                     (json_insert ''size'' (JStr (int_to_string len)) d))"

text \<open>\<open>Uuid::simple\<close> writes an id without its hyphens.\<close>

definition uuid_simple :: "string \<Rightarrow> string" where
  "uuid_simple u = filter (\<lambda>c. c \<noteq> CHR ''-'') u"

definition post_file_send :: "env \<Rightarrow> headers \<Rightarrow> file_send_body \<Rightarrow> response act" where
  "post_file_send env h body = do {
     u \<leftarrow> new_uuid env;
     let file_id = uuid_simple u;
     s0 \<leftarrow> send_new env 1 (fb_name body) (e_json_print env (file_send_data body file_id))
             (fb_key body) (fb_deletion_date body);
     s1 \<leftarrow> with_password env (fb_password body) (s0\<lparr>se_user_uuid := Some (uid h),
       se_notes := fb_notes body, se_expiration_date := fb_expiration_date body,
       se_max_access_count := fb_max_access_count body,
       se_hide_email := map_option bool_i32 (fb_hide_email body),
       se_disabled := (case fb_disabled body of None \<Rightarrow> 0 | Some b \<Rightarrow> bool_i32 b)\<rparr>);
     try_ret (send_save env s1) (\<lambda>_. err_json 500 ''failed to save send'') (\<lambda>s. do {
       let upload_url = env_var_or_empty env ''DOMAIN'' @ ''/api/sends/'' @ se_uuid s @ ''/file/'' @ file_id;
       _ \<leftarrow> notify_user env (uid h) SYNC_SEND_CREATE (se_uuid s);
       return (json_response 200 (JObj [(''Object'', JStr ''send-fileUpload''),
         (''FileUploadType'', JInt 0), (''Url'', JStr upload_url),
         (''SendResponse'', send_json env s)])) }) }"

text \<open>An upload: the content type header, and the body unless reading it failed.\<close>

record upload_request =
  up_content_type :: "string option"
  up_body :: "byte list option"

definition upload_bytes :: "upload_request \<Rightarrow> response + byte list" where
  "upload_bytes req =
     (case up_body req of
        None \<Rightarrow> Inl (err_json 400 ''failed to read body'')
      | Some body_bytes \<Rightarrow>
        (case parse_multipart_boundary (case up_content_type req of None \<Rightarrow> [] | Some t \<Rightarrow> t) of
           Some boundary \<Rightarrow>
             (case extract_multipart_part body_bytes boundary ''data'' of
                None \<Rightarrow> Inl panicked
              | Some None \<Rightarrow> Inl (err_json 400 (''missing '' @ [CHR 0x60] @ ''data'' @ [CHR 0x60]
                  @ '' part in multipart body''))
              | Some (Some b) \<Rightarrow> Inr b)
         | None \<Rightarrow> Inr body_bytes))"

definition send_file_key :: "string \<Rightarrow> string \<Rightarrow> string" where
  "send_file_key send_uuid file_id = send_uuid @ ''/'' @ file_id"

definition upload_file_send :: "env \<Rightarrow> headers \<Rightarrow> string \<Rightarrow> string \<Rightarrow> upload_request \<Rightarrow> response act" where
  "upload_file_send env h send_uuid file_id req = do {
     r \<leftarrow> send_find_by_uuid env send_uuid;
     case r of
       Inr (Some s) \<Rightarrow>
         if se_user_uuid s \<noteq> Some (uid h) then return (err_json 404 ''Send not found'')
         else if se_atype s \<noteq> 1 then return (err_json 400 ''Send is not a file send'')
         else case upload_bytes req of
           Inl e \<Rightarrow> return e
         | Inr bytes \<Rightarrow>
             if bytes = [] \<or> length bytes > MAX_FILE_SEND_BYTES
             then return (err_json 400 ''Invalid upload size'')
             else try_ret (r2_put_send env (send_file_key (se_uuid s) file_id) bytes)
               (\<lambda>_. err_json 500 ''R2 upload failed'') (\<lambda>_. do {
               _ \<leftarrow> notify_user env (uid h) SYNC_SEND_UPDATE (se_uuid s);
               return (json_response 200 (JObj [])) })
     | _ \<Rightarrow> return (err_json 404 ''Send not found'') }"

definition public_access_file_init :: "env \<Rightarrow> string \<Rightarrow> string \<Rightarrow> string option \<Rightarrow> response act" where
  "public_access_file_init env access_id file_id password =
     try_ret (open_send env (\<lambda>s. if se_disabled s = 1 \<or> se_atype s \<noteq> 1
           then Some (err_json 404 ''Send not available'') else None) access_id password)
       (\<lambda>e. e) (\<lambda>s. do {
       expires \<leftarrow> (case e_rfc3339 env (se_deletion_date s) of
           Some d \<Rightarrow> return d
         | None \<Rightarrow> do { now \<leftarrow> unix_now env; return (int now + 3600) });
       claims \<leftarrow> send_file_claims_new env (se_uuid s) file_id expires;
       case e_jwt_encode env (send_file_claims_to_json claims) of
         Inl _ \<Rightarrow> return (err_json 500 ''jwt encode failed'')
       | Inr token \<Rightarrow>
           (let url = env_var_or_empty env ''DOMAIN'' @ ''/api/sends/'' @ se_uuid s @ ''/'' @ file_id
              @ ''?t='' @ token
            in return (json_response 200 (JObj [(''Object'', JStr ''send-fileAccess''),
              (''Id'', JStr (se_uuid s)), (''Type'', JInt (se_atype s)), (''Name'', JStr (se_name s)),
              (''File'', parse_json_or_null env (Some (se_data s))),
              (''ExpirationDate'', jopt (se_expiration_date s)), (''Url'', JStr url)]))) })"

definition public_access_file_download ::
  "env \<Rightarrow> string \<Rightarrow> string \<Rightarrow> string option \<Rightarrow> response act" where
  "public_access_file_download env send_uuid file_id t =
     (case non_empty t of
        None \<Rightarrow> return (err_json 403 ''Token required'')
      | Some token \<Rightarrow>
        try_ret (jwt_decode env send_file_claims_of_json token (send_file_issuer env))
          (\<lambda>_. err_json 403 ''Invalid token'') (\<lambda>claims.
           if sf_sub claims \<noteq> send_uuid \<or> sf_fid claims \<noteq> file_id
           then return (err_json 403 (''Token doesn'' @ [CHR 0x27] @ ''t match path''))
           else
             try_ret (r2_get_send env (send_file_key send_uuid file_id))
               (\<lambda>_. err_json 500 ''R2 read failed'') (\<lambda>obj.
               case obj of
                 None \<Rightarrow> return (err_json 404 ''File missing from storage'')
               | Some bs \<Rightarrow>
                   try_ret (r2_read_body env bs) (\<lambda>_. err_json 500 ''R2 stream failed'') (\<lambda>bytes.
                     return (Response 200 (BytesBody ''application/octet-stream'' bytes))))))"

end
