(* ===== verification/Sends_Safety.thy ===== *)
theory Sends_Safety
  imports Sends
begin

text \<open>
  What the handlers for sends promise: the owner's requests are private, anonymous access keeps to
  the owner's limits, and a file comes back as it was uploaded.
\<close>

section \<open>Lemmas\<close>

interpretation send_loader: guarded_loader send_load_owned "\<lambda>d. map send_select (t_sends d)" se_uuid
  "\<lambda>d h s. se_user_uuid s = Some (uid h)"
  by unfold_locales
    (auto simp: send_load_owned_def send_find_by_uuid_def wp_rules send_select_def
       intro!: readsI split: option.splits dest!: find_SomeD)

lemma send_select_simps [simp]:
  "se_uuid (send_select r) = se_uuid r" "se_user_uuid (send_select r) = se_user_uuid r"
  "se_organization_uuid (send_select r) = se_organization_uuid r"
  "se_password_hash (send_select r) = []" "se_disabled (send_select r) = se_disabled r"
  "se_atype (send_select r) = se_atype r" "se_deletion_date (send_select r) = se_deletion_date r"
  "se_max_access_count (send_select r) = se_max_access_count r"
  "se_access_count (send_select r) = se_access_count r"
  by (simp_all add: send_select_def)

lemma wp_send_save:
  "wp (send_save env x) Q s =
     (let now = e_now env (w_tick s); x' = x\<lparr>se_revision_date := now\<rparr>;
          d = (w_db s)\<lparr>t_sends := upsert se_uuid send_conflict (send_insert_row x') (t_sends (w_db s))\<rparr> in
      if e_fault env (Suc (w_tick s)) \<or> e_fk env \<and> \<not> fk_ok d then Q (Inl D1Error) (bump (bump s))
      else Q (Inr x') (bump ((bump s)\<lparr>w_db := d\<rparr>)))"
  by (simp add: send_save_def wp_rules Let_def)

text \<open>Every row a SELECT returns passes the password check, whatever is supplied.\<close>

lemma verify_selected [simp]: "verify_send_password env (send_select r) pw = Some True"
  by (simp add: verify_send_password_def)

section \<open>Counting accesses\<close>

text \<open>The limit and the counter of a send.\<close>

definition send_counts :: "db \<Rightarrow> string \<Rightarrow> (int option \<times> int) option" where
  "send_counts d uuid = map_option (\<lambda>r. (se_max_access_count r, se_access_count r))
     (find (\<lambda>r. se_uuid r = uuid) (t_sends d))"

text \<open>Saving a row with the references of the row it replaces keeps the references intact.\<close>

lemma fk_ok_send_upsert:
  assumes "fk_ok d" "r \<in> set (t_sends d)" "se_user_uuid x = se_user_uuid r"
    "se_organization_uuid x = se_organization_uuid r"
  shows "fk_ok (d\<lparr>t_sends := upsert se_uuid send_conflict x (t_sends d)\<rparr>)"
proof -
  have refs: "refers (upsert se_uuid send_conflict x (t_sends d)) col p key"
    if "refers (t_sends d) col p key" "col x = col r" "\<And>old. col (send_conflict old x) = col x"
    for col and p :: "'p list" and key
    using that assms(2) by (fastforce simp: refers_def set_upsert split: if_splits)
  show ?thesis
    using assms(1) by (simp add: fk_defs refs assms(3,4) send_conflict_def)
qed

lemma send_counts_upsert:
  "se_uuid x = uuid \<Longrightarrow> send_counts (d\<lparr>t_sends := upsert se_uuid send_conflict x (t_sends d)\<rparr>) uuid =
     Some (se_max_access_count x, se_access_count x)"
  using kt_sends.find_upsert_same [of x "t_sends d"]
  by (auto simp: send_counts_def send_conflict_def split: option.splits)

text \<open>
  What a request to open a send does to its counter: an answer without the send leaves it, the send
  is given out below the limit only, and it is counted unless a call failed.
\<close>

lemma wp_open_send_counts:
  assumes "e_fk env \<longrightarrow> fk_ok (w_db s)" "send_counts (w_db s) uuid = Some (Some mx, k)"
    and "- (2 ^ 31) \<le> k" "mx < 2 ^ 31" "\<And>x resp. unavailable x = Some resp \<Longrightarrow> resp_status resp \<noteq> 200"
  shows "wp (open_send env unavailable uuid pw) (\<lambda>r s'. (e_fk env \<longrightarrow> fk_ok (w_db s')) \<and>
      (case r of Inl resp \<Rightarrow> resp_status resp \<noteq> 200 \<and> send_counts (w_db s') uuid = Some (Some mx, k)
       | Inr _ \<Rightarrow> k < mx \<and> (send_counts (w_db s') uuid = Some (Some mx, k + 1) \<or>
           failed env s s' \<and> send_counts (w_db s') uuid = Some (Some mx, k)))) s"
proof -
  obtain r where r: "find (\<lambda>r. se_uuid r = uuid) (t_sends (w_db s)) = Some r"
    "se_max_access_count r = Some mx" "se_access_count r = k"
    using assms(2) by (auto simp: send_counts_def)
  then have row: "r \<in> set (t_sends (w_db s))" "se_uuid r = uuid"
    by (auto dest: find_SomeD)
  let ?x = "\<lambda>now. send_insert_row ((send_select r)\<lparr>se_access_count := k + 1, se_revision_date := now\<rparr>)"
  let ?d = "\<lambda>now. (w_db s)\<lparr>t_sends := upsert se_uuid send_conflict (?x now) (t_sends (w_db s))\<rparr>"
  have "e_fk env \<longrightarrow> fk_ok (?d now)" "send_counts (?d now) uuid = Some (Some mx, k + 1)" for now
    using fk_ok_send_upsert [OF _ row(1), of "?x now"] send_counts_upsert [of "?x now" uuid] row(2) r assms(1)
    by (simp_all add: send_insert_row_def)
  moreover have "wrap_i32 (k + 1) = k + 1" if "k < mx"
    using that assms(3,4) by (intro wrap_i32_id) auto
  ultimately show ?thesis
    using assms(1,2,5) r
    by (auto simp: open_send_def send_find_by_uuid_def wp_rules wp_send_save Let_def
        split: option.splits intro!: wp_mono [OF wp_ratelimit_later]) (erule failedI; simp)+
qed

text \<open>
  Of \<open>n\<close> requests to read a send, the number of answers with success and the number of requests
  in which a call failed.
\<close>

fun accesses :: "env \<Rightarrow> string \<Rightarrow> string option \<Rightarrow> nat \<Rightarrow> (nat \<times> nat) act" where
  "accesses env uuid pw 0 = return (0, 0)"
| "accesses env uuid pw (Suc n) = do {
     (resp, bad) \<leftarrow> watched env (public_access env uuid pw);
     (a, f) \<leftarrow> accesses env uuid pw n;
     return (if resp_status resp = 200 then Suc a else a, if bad then Suc f else f) }"

lemma wp_public_access_counts:
  assumes "e_fk env \<longrightarrow> fk_ok (w_db s)" "send_counts (w_db s) uuid = Some (Some mx, k)"
    and "- (2 ^ 31) \<le> k" "mx < 2 ^ 31"
  shows "wp (public_access env uuid pw) (\<lambda>resp s'. (e_fk env \<longrightarrow> fk_ok (w_db s')) \<and>
      (\<exists>k'. send_counts (w_db s') uuid = Some (Some mx, k') \<and> (k' = k \<or> k' = k + 1) \<and>
        (resp_status resp = 200 \<longrightarrow> k < mx \<and> (k' = k + 1 \<or> failed env s s')))) s"
  unfolding public_access_def
  by (auto intro!: wp_mono [OF wp_open_send_counts [OF assms]] split: sum.splits if_splits)

lemma wp_accesses:
  assumes "e_fk env \<longrightarrow> fk_ok (w_db s)" "send_counts (w_db s) uuid = Some (Some mx, k)"
    and "- (2 ^ 31) \<le> k" "mx < 2 ^ 31"
  shows "wp (accesses env uuid pw n) (\<lambda>(a, f) _. a \<le> nat (mx - k) + f) s"
  using assms(1-3)
proof (induction n arbitrary: s k)
  case (Suc n)
  have "wp (accesses env uuid pw n) (\<lambda>(a, f) _. (if ok then Suc a else a) \<le> nat (mx - k) + (if bad then Suc f else f)) s'"
    if "e_fk env \<longrightarrow> fk_ok (w_db s')" "send_counts (w_db s') uuid = Some (Some mx, k')" "k' = k \<or> k' = k + 1"
      "ok \<longrightarrow> k < mx \<and> (k' = k + 1 \<or> bad)" for s' ok bad k'
    by (rule wp_mono [OF Suc.IH [OF that(1,2)]]) (use that(3,4) Suc.prems(3) in auto)
  note rest = this
  show ?case
    unfolding accesses.simps wp_bind wp_watched case_prod_conv
  proof (rule wp_mono [OF wp_public_access_counts [OF Suc.prems assms(4)]])
    fix resp s'
    assume "(e_fk env \<longrightarrow> fk_ok (w_db s')) \<and>
      (\<exists>k'. send_counts (w_db s') uuid = Some (Some mx, k') \<and> (k' = k \<or> k' = k + 1) \<and>
        (resp_status resp = 200 \<longrightarrow> k < mx \<and> (k' = k + 1 \<or> failed env s s')))"
    then have "wp (accesses env uuid pw n) (\<lambda>(a, f) _. (if resp_status resp = 200 then Suc a else a) \<le>
        nat (mx - k) + (if failed env s s' then Suc f else f)) s'"
      by (elim conjE exE) (rule rest)
    then show "wp (accesses env uuid pw n) (\<lambda>r. wp (case r of (a, f) \<Rightarrow>
        return (if resp_status resp = 200 then Suc a else a, if failed env s s' then Suc f else f))
        (\<lambda>(a, f) _. a \<le> nat (mx - k) + f)) s'"
      by (rule wp_mono) auto
  qed
qed simp

section \<open>Sample sends\<close>

definition sample_send :: "int option \<Rightarrow> int \<Rightarrow> send" where
  "sample_send mx ty = \<lparr>se_uuid = ''se'', se_user_uuid = Some ''alice'', se_organization_uuid = None,
     se_name = ''n'', se_notes = None, se_atype = ty, se_data = ''{}'', se_akey = ''k'',
     se_password_hash = [], se_password_salt = [], se_password_iter = Some 100000,
     se_max_access_count = mx, se_access_count = 0, se_creation_date = ''2025'',
     se_revision_date = ''2025'', se_expiration_date = Some ''2025'', se_deletion_date = ''2027'',
     se_disabled = 0, se_hide_email = None\<rparr>"

definition sample_send_world :: "int option \<Rightarrow> int \<Rightarrow> world" where
  "sample_send_world mx ty = sample_world (sample_db\<lparr>t_sends := [sample_send mx ty]\<rparr>)"

lemmas sample_send_defs = sample_send_def sample_send_world_def

section \<open>Properties\<close>

text \<open>
  A send can be read, changed and deleted by its owner only: every other authenticated caller
  gets an error status, and the database stays as it was.
\<close>

theorem send_requests_of_others_denied:
  assumes "\<forall>x\<in>set (t_sends (w_db s)). se_uuid x = uuid \<longrightarrow> se_user_uuid x \<noteq> Some (uid h)"
    and "m \<in> {get_send env h uuid, put_send env h uuid body, delete_send env h uuid,
      remove_password env h uuid, upload_file_send env h uuid fid req}"
    and "run_state m s = (resp, s')"
  shows "resp_status resp \<ge> 400 \<and> w_db s' = w_db s"
proof -
  have "wp (upload_file_send env h uuid fid req) (\<lambda>resp s'. resp_status resp \<ge> 400 \<and> w_db s' = w_db s) s"
    using assms(1)
    by (auto simp: upload_file_send_def send_find_by_uuid_def wp_rules split: option.splits dest: find_SomeD)
  moreover have "wp (try_ret (send_load_owned env h uuid) (\<lambda>e. e) k)
      (\<lambda>resp s'. resp_status resp \<ge> 400 \<and> w_db s' = w_db s) s" for k
    using assms(1) by (intro send_loader.denied) auto
  ultimately have "wp m (\<lambda>resp s'. resp_status resp \<ge> 400 \<and> w_db s' = w_db s) s"
    using assms(2) by (auto simp: get_send_def put_send_def delete_send_def remove_password_def)
  then show ?thesis
    using assms(3) by (rule wpD)
qed

theorem send_requests_of_others_denied_witness:
  "400 \<le> resp_status (fst (run_state (delete_send sample_env (sample_headers ''bob'') ''se'')
     (sample_send_world None 0)))"
proof -
  have "\<forall>x\<in>set (t_sends (w_db (sample_send_world None 0))).
      se_uuid x = ''se'' \<longrightarrow> se_user_uuid x \<noteq> Some (uid (sample_headers ''bob''))"
    by (simp add: sample_send_defs sample_defs)
  from send_requests_of_others_denied [OF this _ surjective_pairing, of _ sample_env] show ?thesis
    by simp
qed

text \<open>C14.
  The access limit holds up to the failures: out of any number of anonymous requests for a send,
  with whatever password, no more succeed than the owner's limit leaves over the counter, plus
  the requests in which a call to a service failed.  When none fails the limit is exact; a
  request whose save fails is answered all the same and not counted.
\<close>

theorem send_access_bound:
  assumes "e_fk env \<longrightarrow> fk_ok (w_db s)"
    and "send_counts (w_db s) uuid = Some (Some mx, k)" and "- (2 ^ 31) \<le> k" and "mx < 2 ^ 31"
    and "run_state (accesses env uuid pw n) s = ((a, f), s')"
  shows "a \<le> nat (mx - k) + f"
  using wpD [OF wp_accesses [OF assms(1-4)] assms(5)] by simp

theorem send_access_bound_witness:
  "fst (fst (run_state (accesses (sample_env_fk\<lparr>e_fault := \<lambda>n. n = 6\<rparr>) ''se'' None 9) (sample_send_world (Some 3) 0))) \<le>
   3 + snd (fst (run_state (accesses (sample_env_fk\<lparr>e_fault := \<lambda>n. n = 6\<rparr>) ''se'' None 9) (sample_send_world (Some 3) 0)))"
proof -
  let ?r = "run_state (accesses (sample_env_fk\<lparr>e_fault := \<lambda>n. n = 6\<rparr>) ''se'' None 9) (sample_send_world (Some 3) 0)"
  let ?a = "fst ?r"
  have "fk_ok (w_db (sample_send_world (Some 3) 0))"
    by (simp add: fk_defs refers_def sample_send_defs sample_defs)
  moreover have "send_counts (w_db (sample_send_world (Some 3) 0)) ''se'' = Some (Some 3, 0)"
    by (simp add: send_counts_def sample_send_defs sample_world_def)
  ultimately show ?thesis
    using send_access_bound [of "sample_env_fk\<lparr>e_fault := \<lambda>n. n = 6\<rparr>" "sample_send_world (Some 3) 0" "''se''" 3 0
        None 9 "fst ?a" "snd ?a" "snd ?r"] by simp
qed

text \<open>A send that the owner lets be read at this time.\<close>

definition send_readable :: "string \<Rightarrow> string \<Rightarrow> send \<Rightarrow> bool" where
  "send_readable now uuid x \<longleftrightarrow> se_uuid x = uuid \<and> se_disabled x \<noteq> 1 \<and> now < se_deletion_date x \<and>
     (case se_max_access_count x of None \<Rightarrow> True | Some mx \<Rightarrow> se_access_count x < mx)"

text \<open>The clock was read during the request.\<close>

definition read_during :: "env \<Rightarrow> world \<Rightarrow> world \<Rightarrow> string \<Rightarrow> bool" where
  "read_during env s s' now \<longleftrightarrow> now \<in> e_now env ` {w_tick s..<w_tick s'}"

text \<open>C28.
  Anonymous answers respect the owner: an answer with success means that at a reading of the clock
  during the request the send is there, not disabled, before its deletion date and below its limit.
\<close>

theorem public_access_sound:
  assumes "run_state (public_access env uuid pw) s = (resp, s')" and "resp_status resp = 200"
  shows "\<exists>x\<in>set (t_sends (w_db s)). \<exists>now. read_during env s s' now \<and> send_readable now uuid x"
proof -
  define Q where "Q s' \<longleftrightarrow> (\<exists>x\<in>set (t_sends (w_db s)). \<exists>now. read_during env s s' now \<and> send_readable now uuid x)" for s'
  have QI: "Q s'" if "x \<in> set (t_sends (w_db s))" "uuid = se_uuid x" "se_disabled x \<noteq> 1" "w_tick s \<le> n" "n < w_tick s'"
    "se_max_access_count x = None \<or> (\<exists>mx. se_max_access_count x = Some mx \<and> se_access_count x < mx)"
    "e_now env n < se_deletion_date x" for x n s'
    unfolding Q_def
    by (rule bexI [OF _ that(1)], rule exI [of _ "e_now env n"])
      (use that in \<open>auto simp: send_readable_def read_during_def\<close>)
  have "wp (open_send env (\<lambda>s. if se_disabled s = 1 then Some (err_json 404 ''Send disabled'') else None) uuid pw)
      (\<lambda>r s'. case r of Inl resp \<Rightarrow> resp_status resp \<noteq> 200 | Inr _ \<Rightarrow> Q s') s"
    by (auto simp: open_send_def send_find_by_uuid_def wp_rules wp_send_save Let_def not_le
        split: option.splits dest!: find_SomeD intro!: wp_mono [OF wp_ratelimit_later])
      (rule QI; simp)+
  then have "wp (public_access env uuid pw) (\<lambda>resp s'. resp_status resp = 200 \<longrightarrow> Q s') s"
    unfolding public_access_def by (auto elim!: wp_mono split: sum.splits)
  then show ?thesis
    using assms unfolding Q_def [symmetric] by (auto dest: wpD)
qed

lemma sample_public_access:
  "wp (public_access sample_env ''se'' None) (\<lambda>resp _. resp_status resp = 200) (sample_send_world mx 0)"
  if "mx = None \<or> mx = Some 1"
  using that
  by (elim disjE; simp add: public_access_def open_send_def ratelimit_check_def read_count_def send_find_by_uuid_def
      rl_estimate_def LOGIN_LIMIT_def wp_send_save send_select_def verify_send_password_def
      text_and_file_def wp_kv eval_simps sample_send_defs less_eq_char_def)

theorem public_access_sound_witness:
  "send_readable ''2026-01-02T03:04:05Z'' ''se'' (sample_send (Some 1) 0)"
proof -
  have "resp_status (fst (run_state (public_access sample_env ''se'' None) (sample_send_world (Some 1) 0))) = 200"
    using sample_public_access [of "Some 1"] by (simp add: wp_def split_beta)
  from public_access_sound [OF surjective_pairing this] show ?thesis
    by (auto simp: sample_send_world_def sample_world_def sample_env_def read_during_def)
qed

text \<open>C33.
  The password of a send is never asked for: neither the INSERT nor the SELECTs name the two columns
  that hold it, so an anonymous request gets the same answer with any password as with none.
\<close>

theorem send_password_never_checked:
  "public_access env uuid pw = public_access env uuid None"
proof -
  have "open_send env f uuid pw = open_send env f uuid None" for f
    unfolding open_send_def send_find_by_uuid_def
    by (intro state.expand ext)
      (simp add: run_state_bind d1_query_def split: prod.splits sum.splits option.splits)
  then show ?thesis by (simp add: public_access_def)
qed

text \<open>C32.
  The limits are the only ones: while the database answers and the rate limiter admits the
  request, a send that is not disabled, before its deletion date and below its limit is
  handed out.  Its expiration date plays no part.
\<close>

theorem public_access_complete:
  assumes "\<And>n. \<not> e_fault env n"
    and "find (\<lambda>x. se_uuid x = uuid) (t_sends (w_db s)) = Some x" and "se_disabled x \<noteq> 1"
    and "\<And>n. e_now env n < se_deletion_date x"
    and "case se_max_access_count x of None \<Rightarrow> True | Some mx \<Rightarrow> se_access_count x < mx"
    and "fst (run_state (ratelimit_check env LOGIN_LIMIT uuid) s)"
    and "run_state (public_access env uuid pw) s = (resp, s')"
  shows "resp_status resp = 200"
proof -
  have "wp (ratelimit_check env LOGIN_LIMIT uuid) (\<lambda>ok s'. ok \<and> w_db s' = w_db s) s"
  proof -
    have "wp (ratelimit_check env LOGIN_LIMIT uuid) (\<lambda>ok _. ok) s"
      using assms(6) by (simp add: wp_def split_beta)
    moreover have "wp (ratelimit_check env LOGIN_LIMIT uuid) (\<lambda>_ s'. w_db s' = w_db s) s"
      by (rule wp_ratelimitI)
    ultimately show ?thesis by (simp add: wp_conj)
  qed
  then have "wp (public_access env uuid pw) (\<lambda>resp _. resp_status resp = 200) s"
    using assms(1-5)
    by (auto simp: public_access_def open_send_def send_find_by_uuid_def wp_rules wp_send_save
        Let_def not_le split: option.splits elim!: wp_mono)
  then show ?thesis
    using assms(7) by (rule wpD)
qed

theorem public_access_complete_witness:
  "resp_status (fst (run_state (public_access sample_env ''se'' None) (sample_send_world (Some 1) 0))) = 200"
proof (rule public_access_complete [OF _ _ _ _ _ _ surjective_pairing])
  show "find (\<lambda>x. se_uuid x = ''se'') (t_sends (w_db (sample_send_world (Some 1) 0))) = Some (sample_send (Some 1) 0)"
    by (simp add: sample_send_defs sample_world_def)
  have "wp (ratelimit_check sample_env LOGIN_LIMIT ''se'') (\<lambda>ok _. ok) (sample_send_world (Some 1) 0)"
    by (simp add: ratelimit_check_def read_count_def rl_estimate_def LOGIN_LIMIT_def wp_kv eval_simps
        sample_send_defs)
  then show "fst (run_state (ratelimit_check sample_env LOGIN_LIMIT ''se'') (sample_send_world (Some 1) 0))"
    by (simp add: wp_def split_beta)
qed (simp_all add: sample_send_def sample_env_def)

text \<open>C29.
  Round trip of a file: when an upload by the owner succeeds, a download with a token for that
  send and file returns the bytes of the upload, while the storage answers.
\<close>

theorem send_file_roundtrip:
  assumes "run_state (upload_file_send env h uuid fid req) s = (r1, s1)" and "resp_status r1 = 200"
    and "upload_bytes req = Inr bytes"
    and "non_empty t = Some token"
    and "jwt_check env' (e_unix env' (w_tick s1)) send_file_claims_of_json token (send_file_issuer env') = Inr claims"
    and "sf_sub claims = uuid" and "sf_fid claims = fid" and "\<And>n. \<not> e_fault env' n"
    and "run_state (public_access_file_download env' uuid fid t) s1 = (r2, s2)"
  shows "r2 = Response 200 (BytesBody ''application/octet-stream'' bytes)"
proof -
  have "wp (upload_file_send env h uuid fid req) (\<lambda>r s'. resp_status r = 200 \<longrightarrow>
      map_of (w_r2_sends s') (send_file_key uuid fid) = Some bytes) s"
    using assms(3)
    by (auto simp: upload_file_send_def send_find_by_uuid_def wp_rules split: option.splits
        dest!: find_SomeD intro!: wp_notify_userI)
  then have "map_of (w_r2_sends s1) (send_file_key uuid fid) = Some bytes"
    using assms(1,2) by (auto dest: wpD)
  then have "wp (public_access_file_download env' uuid fid t)
      (\<lambda>r _. r = Response 200 (BytesBody ''application/octet-stream'' bytes)) s1"
    using assms(4-8) by (simp add: public_access_file_download_def wp_rules)
  then show ?thesis
    using assms(9) by (rule wpD)
qed

text \<open>The claims of a token for the file \<open>f\<close> of the sample send.\<close>

definition sample_file_claims :: send_file_claims where
  "sample_file_claims = \<lparr>sf_nbf = 0, sf_exp = 9, sf_iss = ''i'', sf_sub = ''se'', sf_fid = ''f''\<rparr>"

theorem send_file_roundtrip_witness:
  "fst (run_state (public_access_file_download (sample_env\<lparr>e_jwt_decode :=
       \<lambda>_ _ _. Inr (send_file_claims_to_json sample_file_claims)\<rparr>) ''se'' ''f'' (Some ''tok''))
     (snd (run_state (upload_file_send sample_env (sample_headers ''alice'') ''se'' ''f''
       \<lparr>up_content_type = None, up_body = Some [1, 2]\<rparr>) (sample_send_world None 1)))) =
   Response 200 (BytesBody ''application/octet-stream'' [1, 2])"
proof (rule send_file_roundtrip [OF surjective_pairing _ _ _ _ _ _ _ surjective_pairing])
  have bytes: "upload_bytes \<lparr>up_content_type = None, up_body = Some [1, 2]\<rparr> = Inr [1, 2]"
    by code_simp
  have "wp (upload_file_send sample_env (sample_headers ''alice'') ''se'' ''f''
      \<lparr>up_content_type = None, up_body = Some [1, 2]\<rparr>) (\<lambda>r _. resp_status r = 200) (sample_send_world None 1)"
    using bytes
    by (simp add: upload_file_send_def send_find_by_uuid_def send_select_def MAX_FILE_SEND_BYTES_def
        eval_simps sample_send_defs)
  then show "resp_status (fst (run_state (upload_file_send sample_env (sample_headers ''alice'') ''se'' ''f''
      \<lparr>up_content_type = None, up_body = Some [1, 2]\<rparr>) (sample_send_world None 1))) = 200"
    by (simp add: wp_def split_beta)
  show "upload_bytes \<lparr>up_content_type = None, up_body = Some [1, 2]\<rparr> = Inr [1, 2]" by (rule bytes)
  show "jwt_check (sample_env\<lparr>e_jwt_decode := \<lambda>_ _ _. Inr (send_file_claims_to_json sample_file_claims)\<rparr>) now
      send_file_claims_of_json ''tok'' (send_file_issuer (sample_env\<lparr>e_jwt_decode :=
        \<lambda>_ _ _. Inr (send_file_claims_to_json sample_file_claims)\<rparr>)) = Inr sample_file_claims" for now
    by (simp add: jwt_check_def send_file_claims_of_json_def send_file_claims_to_json_def sample_file_claims_def)
qed (simp_all add: sample_file_claims_def sample_env_def non_empty_def)

end
