(* ===== verification/Auth_Safety.thy ===== *)
theory Auth_Safety
  imports Sample_Data
begin

text \<open>
  What the guard of the authenticated requests promises, why a token of one kind is no token of
  another kind, and that a stored user comes back from the database as it went in.
\<close>

section \<open>The request guard\<close>

text \<open>C3.
  Who gets past the guard: the header carries a bearer token that the library accepts for the login
  issuer at the time of the request, its subject is a user that is enabled and whose security stamp is the one in
  the token, and the device in the token is a device of that user.
\<close>

theorem guard_sound:
  assumes "run_state (from_request_parts env auth) s = (Inr h, s')"
  shows "(\<exists>header token. auth = Some header \<and> bearer_token header = Some token \<and>
      jwt_check env (e_unix env (w_tick s)) login_claims_of_json token (e_login_issuer env) =
        Inr (hd_claims h)) \<and>
    hd_user h \<in> set (t_users (w_db s)) \<and> uid h = lc_sub (hd_claims h) \<and>
    us_enabled (hd_user h) \<noteq> 0 \<and> us_security_stamp (hd_user h) = lc_sstamp (hd_claims h) \<and>
    hd_device h \<in> set (t_devices (w_db s)) \<and> de_uuid (hd_device h) = lc_device (hd_claims h) \<and>
    de_user_uuid (hd_device h) = uid h \<and> w_db s' = w_db s"
proof -
  have "wp (from_request_parts env auth) (\<lambda>r s'. case r of Inl _ \<Rightarrow> True | Inr h \<Rightarrow>
      (\<exists>header token. auth = Some header \<and> bearer_token header = Some token \<and>
        jwt_check env (e_unix env (w_tick s)) login_claims_of_json token (e_login_issuer env) =
        Inr (hd_claims h)) \<and>
      hd_user h \<in> set (t_users (w_db s)) \<and> uid h = lc_sub (hd_claims h) \<and>
      us_enabled (hd_user h) \<noteq> 0 \<and> us_security_stamp (hd_user h) = lc_sstamp (hd_claims h) \<and>
      hd_device h \<in> set (t_devices (w_db s)) \<and> de_uuid (hd_device h) = lc_device (hd_claims h) \<and>
      de_user_uuid (hd_device h) = uid h \<and> w_db s' = w_db s) s"
    by (auto simp: from_request_parts_def user_find_by_uuid_def device_find_def wp_rules
        split: option.splits sum.splits dest!: find_SomeD)
  from wpD [OF this assms] show ?thesis by simp
qed

text \<open>An environment in which every token is a login of the sample user \<open>alice\<close>.\<close>

definition sample_login_env :: env where
  "sample_login_env = sample_env\<lparr>e_jwt_decode :=
     \<lambda>_ _ _. Inr (login_claims_to_json (sample_claims ''alice''))\<rparr>"

theorem guard_sound_witness:
  "us_enabled (sample_user ''alice'') \<noteq> 0 \<and> sample_user ''alice'' \<in> set (t_users sample_db)"
proof -
  have "wp (from_request_parts sample_login_env (Some ''Bearer t'')) (\<lambda>r _. r = Inr (sample_headers ''alice''))
      (sample_world sample_db)"
    by (simp add: from_request_parts_def bearer_token_def strip_prefix_def jwt_check_def
        sample_login_env_def login_claims_roundtrip user_find_by_uuid_def device_find_def eval_simps)
  then have "run_state (from_request_parts sample_login_env (Some ''Bearer t'')) (sample_world sample_db) =
      (Inr (sample_headers ''alice''), snd (run_state (from_request_parts sample_login_env
        (Some ''Bearer t'')) (sample_world sample_db)))"
    by (simp add: wp_def split_beta prod_eq_iff)
  from guard_sound [OF this] show ?thesis
    by (simp add: sample_headers_def sample_world_def)
qed

section \<open>Issuers\<close>

lemma last_issuer:
  "last (register_verify_issuer env) = CHR ''y''" "last (send_file_issuer env) = CHR ''e''"
  "last (verify_email_issuer env) = CHR ''l''" "last (delete_recover_issuer env) = CHR ''r''"
  by (simp_all add: register_verify_issuer_def send_file_issuer_def verify_email_issuer_def
      delete_recover_issuer_def issuer_with_def)

lemma issuers_distinct:
  assumes "e_login_issuer env = domain @ ''|login''"
  shows "distinct [e_login_issuer env, register_verify_issuer env, send_file_issuer env,
    verify_email_issuer env, delete_recover_issuer env]"
proof -
  have "last (e_login_issuer env) = CHR ''n''" by (simp add: assms)
  then show ?thesis
    using last_issuer [of env] by (auto dest: arg_cong [where f = last])
qed

section \<open>Master passwords\<close>

text \<open>
  A password that was set is the one that is accepted: after \<open>set_password\<close> the check says
  yes to exactly those passwords whose PBKDF2 hash, with the user's salt and iterations, is
  the stored one, in particular to the password itself.
\<close>

theorem set_password_check:
  assumes "set_password env u pw = Some u'" and "us_password_hash u' \<noteq> []"
  shows "check_valid_password env u' pw' = Some
    (e_pbkdf2 env (as_bytes pw') (us_salt u) (as_u32 (us_password_iterations u)) =
     e_pbkdf2 env (as_bytes pw) (us_salt u) (as_u32 (us_password_iterations u)))"
  using assms
  by (auto simp: set_password_def check_valid_password_def verify_password_hash_def hash_password_def
      split: if_splits)

theorem set_password_check_witness:
  "check_valid_password sample_env ((sample_user ''alice'')\<lparr>us_password_hash := [2, 112, 119]\<rparr>) ''pw'' =
   Some True"
proof -
  have "set_password sample_env (sample_user ''alice'') ''pw'' =
      Some ((sample_user ''alice'')\<lparr>us_password_hash := [2, 112, 119]\<rparr>)"
    by (simp add: set_password_def hash_password_def sample_env_def sample_user_def as_u32_def as_bytes_def)
  from set_password_check [OF this, of "''pw''"] show ?thesis by simp
qed

section \<open>Users in the database\<close>

text \<open>
  Round trip of a user: after a save that succeeded, a lookup by id returns the row that was
  saved, with both BLOB columns decoded from their hexadecimal text; a row that was there
  before keeps its creation date.
\<close>

theorem user_save_find_roundtrip:
  assumes "run_state (user_save env u) s = (Inr u', s1)" and "\<not> e_fault env (w_tick s1)"
    and "run_state (user_find_by_uuid env (us_uuid u)) s1 = (r, s2)"
  shows "r = Inr (Some (case find (\<lambda>x. us_uuid x = us_uuid u) (t_users (w_db s)) of
    None \<Rightarrow> u' | Some old \<Rightarrow> u'\<lparr>us_created_at := us_created_at old\<rparr>))"
proof -
  have "wp (user_save env u) (\<lambda>r s1. \<forall>u'. r = Inr u' \<longrightarrow> us_uuid u' = us_uuid u \<and>
      t_users (w_db s1) = upsert us_uuid user_conflict u' (t_users (w_db s))) s"
    by (simp add: user_save_def wp_rules Let_def)
  then have t: "us_uuid u' = us_uuid u" "t_users (w_db s1) = upsert us_uuid user_conflict u' (t_users (w_db s))"
    using assms(1) by (auto dest: wpD)
  have "wp (user_find_by_uuid env (us_uuid u)) (\<lambda>r _. r = Inr (Some
      (case find (\<lambda>x. us_uuid x = us_uuid u') (t_users (w_db s)) of None \<Rightarrow> u' | Some x \<Rightarrow> user_conflict x u'))) s1"
    using assms(2) kt_users.find_upsert_same [of u' "t_users (w_db s)"]
    by (simp add: user_find_by_uuid_def wp_rules t(2) flip: t(1))
  from wpD [OF this assms(3)] show ?thesis
    by (simp add: t(1) user_conflict_def split: option.splits)
qed

theorem user_save_find_roundtrip_witness:
  "fst (run_state (user_find_by_uuid sample_env ''carol'')
     (snd (run_state (user_save sample_env (sample_user ''carol'')) (sample_world sample_db)))) =
   Inr (Some ((sample_user ''carol'')\<lparr>us_updated_at := ''2026-01-02T03:04:05Z''\<rparr>))"
proof -
  let ?r = "run_state (user_save sample_env (sample_user ''carol'')) (sample_world sample_db)"
  have "wp (user_save sample_env (sample_user ''carol'')) (\<lambda>r _. r = Inr ((sample_user ''carol'')
      \<lparr>us_updated_at := ''2026-01-02T03:04:05Z''\<rparr>)) (sample_world sample_db)"
    by (simp add: user_save_def eval_simps)
  then have "?r = (Inr ((sample_user ''carol'')\<lparr>us_updated_at := ''2026-01-02T03:04:05Z''\<rparr>), snd ?r)"
    by (simp add: wp_def split_beta prod_eq_iff)
  from user_save_find_roundtrip [OF this _ surjective_pairing] show ?thesis
    by (simp add: sample_env_def sample_user_def sample_world_def sample_db_def)
qed

end
