(* ===== verification/Models_Factors.thy ===== *)
theory Models_Factors
  imports Models_Access
begin

text \<open>
  \<open>worker/src/db/models\<close>, fourth part: the second factors of a user, the logins that wait for
  one, and the tables of the single sign-on and Duo flows, which only the cron jobs touch.
\<close>

section \<open>Second factors\<close>

definition two_factor_new :: "env \<Rightarrow> string \<Rightarrow> int \<Rightarrow> string \<Rightarrow> two_factor act" where
  "two_factor_new env user_uuid atype data = do {
     uuid \<leftarrow> new_uuid env;
     return \<lparr>tf_uuid = uuid, tf_user_uuid = user_uuid, tf_atype = atype, tf_enabled = 1,
       tf_data = data, tf_last_used = 0\<rparr> }"

definition two_factor_find_by_uuid :: "env \<Rightarrow> string \<Rightarrow> two_factor option db_result" where
  "two_factor_find_by_uuid env uuid = d1_query env (\<lambda>d.
     find (\<lambda>f. tf_uuid f = uuid) (t_twofactor d))"

definition two_factor_find_by_user :: "env \<Rightarrow> string \<Rightarrow> two_factor list db_result" where
  "two_factor_find_by_user env user_uuid = d1_query env (\<lambda>d.
     filter (\<lambda>f. tf_user_uuid f = user_uuid) (t_twofactor d))"

definition two_factor_find_by_user_and_type ::
  "env \<Rightarrow> string \<Rightarrow> int \<Rightarrow> two_factor option db_result" where
  "two_factor_find_by_user_and_type env user_uuid atype = d1_query env (\<lambda>d.
     find (\<lambda>f. tf_user_uuid f = user_uuid \<and> tf_atype f = atype) (t_twofactor d))"

definition two_factor_conflict :: "two_factor \<Rightarrow> two_factor \<Rightarrow> two_factor" where
  "two_factor_conflict old new = new"

text \<open>The table has UNIQUE (user_uuid, atype) besides its primary key.\<close>

definition factor_slot :: "two_factor \<Rightarrow> string \<times> int" where
  "factor_slot f = (tf_user_uuid f, tf_atype f)"

definition two_factor_save :: "env \<Rightarrow> two_factor \<Rightarrow> unit db_result" where
  "two_factor_save env f = d1_exec env (\<lambda>d.
     let t = upsert tf_uuid two_factor_conflict f (t_twofactor d) in
     if distinct (map factor_slot t) then Some (d\<lparr>t_twofactor := t\<rparr>) else None)"

definition two_factor_delete :: "env \<Rightarrow> two_factor \<Rightarrow> unit db_result" where
  "two_factor_delete env f = d1_exec env (\<lambda>d.
     Some (d\<lparr>t_twofactor := delete_where (\<lambda>x. tf_uuid x = tf_uuid f) (t_twofactor d)\<rparr>))"

section \<open>Logins that wait for a second factor\<close>

definition two_factor_incomplete_new ::
  "env \<Rightarrow> string \<Rightarrow> string \<Rightarrow> string \<Rightarrow> string \<Rightarrow> int \<Rightarrow> two_factor_incomplete act" where
  "two_factor_incomplete_new env user_uuid device_uuid device_name ip_address device_type = do {
     now \<leftarrow> now_iso env;
     return \<lparr>ti_user_uuid = user_uuid, ti_device_uuid = device_uuid, ti_device_name = device_name,
       ti_login_time = now, ti_ip_address = ip_address, ti_device_type = device_type\<rparr> }"

definition incomplete_key :: "two_factor_incomplete \<Rightarrow> string \<times> string" where
  "incomplete_key x = (ti_user_uuid x, ti_device_uuid x)"

definition two_factor_incomplete_find ::
  "env \<Rightarrow> string \<Rightarrow> string \<Rightarrow> two_factor_incomplete option db_result" where
  "two_factor_incomplete_find env user_uuid device_uuid = d1_query env (\<lambda>d.
     find (\<lambda>x. ti_user_uuid x = user_uuid \<and> ti_device_uuid x = device_uuid)
       (t_twofactor_incomplete d))"

definition two_factor_incomplete_find_by_user ::
  "env \<Rightarrow> string \<Rightarrow> two_factor_incomplete list db_result" where
  "two_factor_incomplete_find_by_user env user_uuid = d1_query env (\<lambda>d.
     filter (\<lambda>x. ti_user_uuid x = user_uuid) (t_twofactor_incomplete d))"

definition two_factor_incomplete_conflict ::
  "two_factor_incomplete \<Rightarrow> two_factor_incomplete \<Rightarrow> two_factor_incomplete" where
  "two_factor_incomplete_conflict old new = new"

definition two_factor_incomplete_save :: "env \<Rightarrow> two_factor_incomplete \<Rightarrow> unit db_result" where
  "two_factor_incomplete_save env x = d1_exec env (\<lambda>d. Some (d\<lparr>t_twofactor_incomplete :=
     upsert incomplete_key two_factor_incomplete_conflict x (t_twofactor_incomplete d)\<rparr>))"

definition two_factor_incomplete_delete :: "env \<Rightarrow> two_factor_incomplete \<Rightarrow> unit db_result" where
  "two_factor_incomplete_delete env x = d1_exec env (\<lambda>d. Some (d\<lparr>t_twofactor_incomplete :=
     delete_where (\<lambda>y. incomplete_key y = incomplete_key x) (t_twofactor_incomplete d)\<rparr>))"

section \<open>Single sign-on and Duo\<close>

definition sso_auth_new :: "string \<Rightarrow> string \<Rightarrow> string \<Rightarrow> string \<Rightarrow> sso_auth" where
  "sso_auth_new state client_challenge nonce redirect_uri =
     \<lparr>sa_state = state, sa_client_challenge = client_challenge, sa_nonce = nonce,
      sa_redirect_uri = redirect_uri, sa_code_response = None, sa_auth_response = None,
      sa_created_at = [], sa_updated_at = [], sa_binding_hash = None,
      sa_code_response_error = None\<rparr>"

definition sso_auth_find_by_state :: "env \<Rightarrow> string \<Rightarrow> sso_auth option db_result" where
  "sso_auth_find_by_state env state = d1_query env (\<lambda>d.
     find (\<lambda>x. sa_state x = state) (t_sso_auth d))"

text \<open>The dates are not bound: a new row gets the default of both columns.\<close>

definition sso_auth_conflict :: "sso_auth \<Rightarrow> sso_auth \<Rightarrow> sso_auth" where
  "sso_auth_conflict old new = new\<lparr>sa_created_at := sa_created_at old\<rparr>"

definition sso_auth_save :: "env \<Rightarrow> sso_auth \<Rightarrow> unit db_result" where
  "sso_auth_save env x = do {
     now \<leftarrow> utc_now env;
     d1_exec env (\<lambda>d. Some (d\<lparr>t_sso_auth := upsert sa_state sso_auth_conflict
       (x\<lparr>sa_created_at := e_sql_now env now, sa_updated_at := e_sql_now env now\<rparr>)
       (t_sso_auth d)\<rparr>)) }"

definition sso_auth_delete :: "env \<Rightarrow> sso_auth \<Rightarrow> unit db_result" where
  "sso_auth_delete env x = d1_exec env (\<lambda>d.
     Some (d\<lparr>t_sso_auth := delete_where (\<lambda>y. sa_state y = sa_state x) (t_sso_auth d)\<rparr>))"

definition sso_auth_purge_old :: "env \<Rightarrow> string \<Rightarrow> unit db_result" where
  "sso_auth_purge_old env before = d1_exec env (\<lambda>d.
     Some (d\<lparr>t_sso_auth := delete_where (\<lambda>y. sa_created_at y < before) (t_sso_auth d)\<rparr>))"

definition sso_user_new :: "string \<Rightarrow> string \<Rightarrow> sso_user" where
  "sso_user_new user_uuid identifier =
     \<lparr>su_user_uuid = user_uuid, su_identifier = identifier, su_created_at = []\<rparr>"

definition sso_user_find_by_user_uuid :: "env \<Rightarrow> string \<Rightarrow> sso_user option db_result" where
  "sso_user_find_by_user_uuid env user_uuid = d1_query env (\<lambda>d.
     find (\<lambda>x. su_user_uuid x = user_uuid) (t_sso_users d))"

definition sso_user_find_by_identifier :: "env \<Rightarrow> string \<Rightarrow> sso_user option db_result" where
  "sso_user_find_by_identifier env identifier = d1_query env (\<lambda>d.
     find (\<lambda>x. su_identifier x = identifier) (t_sso_users d))"

definition sso_user_conflict :: "sso_user \<Rightarrow> sso_user \<Rightarrow> sso_user" where
  "sso_user_conflict old new = new\<lparr>su_created_at := su_created_at old\<rparr>"

definition sso_user_save :: "env \<Rightarrow> sso_user \<Rightarrow> unit db_result" where
  "sso_user_save env x = do {
     now \<leftarrow> utc_now env;
     d1_exec env (\<lambda>d.
       let t = upsert su_user_uuid sso_user_conflict (x\<lparr>su_created_at := e_sql_now env now\<rparr>)
                 (t_sso_users d) in
       if distinct (map su_identifier t) then Some (d\<lparr>t_sso_users := t\<rparr>) else None) }"

definition sso_user_delete :: "env \<Rightarrow> sso_user \<Rightarrow> unit db_result" where
  "sso_user_delete env x = d1_exec env (\<lambda>d.
     Some (d\<lparr>t_sso_users := delete_where (\<lambda>y. su_user_uuid y = su_user_uuid x) (t_sso_users d)\<rparr>))"

definition duo_context_new :: "string \<Rightarrow> string \<Rightarrow> string \<Rightarrow> int \<Rightarrow> two_factor_duo_context" where
  "duo_context_new state user_email nonce expiry =
     \<lparr>td_state = state, td_user_email = user_email, td_nonce = nonce, td_exp = expiry\<rparr>"

definition duo_context_find_by_state ::
  "env \<Rightarrow> string \<Rightarrow> two_factor_duo_context option db_result" where
  "duo_context_find_by_state env state = d1_query env (\<lambda>d.
     find (\<lambda>x. td_state x = state) (t_twofactor_duo_ctx d))"

definition duo_context_conflict ::
  "two_factor_duo_context \<Rightarrow> two_factor_duo_context \<Rightarrow> two_factor_duo_context" where
  "duo_context_conflict old new = new"

definition duo_context_save :: "env \<Rightarrow> two_factor_duo_context \<Rightarrow> unit db_result" where
  "duo_context_save env x = d1_exec env (\<lambda>d. Some (d\<lparr>t_twofactor_duo_ctx :=
     upsert td_state duo_context_conflict x (t_twofactor_duo_ctx d)\<rparr>))"

definition duo_context_delete :: "env \<Rightarrow> two_factor_duo_context \<Rightarrow> unit db_result" where
  "duo_context_delete env x = d1_exec env (\<lambda>d. Some (d\<lparr>t_twofactor_duo_ctx :=
     delete_where (\<lambda>y. td_state y = td_state x) (t_twofactor_duo_ctx d)\<rparr>))"

definition duo_context_purge_expired :: "env \<Rightarrow> int \<Rightarrow> unit db_result" where
  "duo_context_purge_expired env now = d1_exec env (\<lambda>d. Some (d\<lparr>t_twofactor_duo_ctx :=
     delete_where (\<lambda>y. td_exp y < now) (t_twofactor_duo_ctx d)\<rparr>))"

section \<open>Referential integrity\<close>

lemma fk_ok_twofactor:
  assumes "fk_ok d" "tf_user_uuid ` set ts \<subseteq> us_uuid ` set (t_users d)"
  shows "fk_ok (d\<lparr>t_twofactor := ts\<rparr>)"
  using assms by (simp add: fk_defs) (auto simp: refers_def)

lemma fk_ok_twofactorD: "fk_ok d \<Longrightarrow> tf_user_uuid ` set (t_twofactor d) \<subseteq> us_uuid ` set (t_users d)"
  by (auto simp: fk_defs refers_def)

section \<open>The primary keys\<close>

interpretation kt_twofactor: keyed_table tf_uuid two_factor_conflict
  by unfold_locales (simp add: two_factor_conflict_def)

interpretation kt_incomplete: keyed_table incomplete_key two_factor_incomplete_conflict
  by unfold_locales (simp add: two_factor_incomplete_conflict_def)

interpretation kt_sso_auth: keyed_table sa_state sso_auth_conflict
  by unfold_locales (simp add: sso_auth_conflict_def)

interpretation kt_sso_users: keyed_table su_user_uuid sso_user_conflict
  by unfold_locales (simp add: sso_user_conflict_def)

interpretation kt_duo_ctx: keyed_table td_state duo_context_conflict
  by unfold_locales (simp add: duo_context_conflict_def)

end
