(* ===== verification/Two_Factor.thy ===== *)
theory Two_Factor
  imports Sample_Data Models_Factors Ratelimit
begin

text \<open>
  \<open>worker/src/api/two_factor.rs\<close> and \<open>webauthn.rs\<close>: enrolment and removal of the second
  factors of a user, the codes sent by mail, the recovery code, the tokens that let a device
  skip the second factor, and the checks the login calls for each kind of factor.
\<close>

definition TWOFACTOR_TYPE_AUTHENTICATOR :: int where "TWOFACTOR_TYPE_AUTHENTICATOR = 0"
definition TWOFACTOR_TYPE_EMAIL :: int where "TWOFACTOR_TYPE_EMAIL = 1"
definition TWOFACTOR_TYPE_YUBIKEY :: int where "TWOFACTOR_TYPE_YUBIKEY = 3"
definition TWOFACTOR_TYPE_REMEMBER :: int where "TWOFACTOR_TYPE_REMEMBER = 5"
definition TWOFACTOR_TYPE_WEBAUTHN :: int where "TWOFACTOR_TYPE_WEBAUTHN = 7"
definition TWOFACTOR_TYPE_EMAIL_VERIFICATION_CHALLENGE :: int where
  "TWOFACTOR_TYPE_EMAIL_VERIFICATION_CHALLENGE = 1000"
definition TWOFACTOR_TYPE_WEBAUTHN_REGISTER_CHALLENGE :: int where
  "TWOFACTOR_TYPE_WEBAUTHN_REGISTER_CHALLENGE = 1001"
definition EMAIL_TOKEN_LEN :: nat where "EMAIL_TOKEN_LEN = 6"
definition EMAIL_TOKEN_TTL_SECS :: int where "EMAIL_TOKEN_TTL_SECS = 600"
definition EMAIL_ATTEMPT_LIMIT :: int where "EMAIL_ATTEMPT_LIMIT = 3"

lemmas factor_types = TWOFACTOR_TYPE_AUTHENTICATOR_def TWOFACTOR_TYPE_EMAIL_def
  TWOFACTOR_TYPE_YUBIKEY_def TWOFACTOR_TYPE_REMEMBER_def TWOFACTOR_TYPE_WEBAUTHN_def
  TWOFACTOR_TYPE_EMAIL_VERIFICATION_CHALLENGE_def TWOFACTOR_TYPE_WEBAUTHN_REGISTER_CHALLENGE_def

section \<open>Confirmation with the master password\<close>

record password_or_otp =
  po_master_password_hash :: "string option"
  po_otp :: "string option"

definition check_password_or_otp :: "env \<Rightarrow> user \<Rightarrow> password_or_otp \<Rightarrow> response + unit" where
  "check_password_or_otp env user body =
     (case po_master_password_hash body of
        None \<Rightarrow> Inl (err_json 400 ''master password is required'')
      | Some password \<Rightarrow>
          (case check_valid_password env user password of
             None \<Rightarrow> Inl panicked
           | Some True \<Rightarrow> Inr ()
           | Some False \<Rightarrow> Inl (err_json 401 ''Invalid password'')))"

text \<open>A handler that starts with the check.\<close>

definition with_password :: "env \<Rightarrow> headers \<Rightarrow> password_or_otp \<Rightarrow> response act \<Rightarrow> response act" where
  "with_password env h body k =
     (case check_password_or_otp env (hd_user h) body of Inl e \<Rightarrow> return e | Inr _ \<Rightarrow> k)"

text \<open>
  \<open>if let Ok(Some(tf)) = find_by_user_and_type(..) && tf.delete(..).is_err()\<close>: a factor that is
  there is removed; only a refused DELETE is an error.
\<close>

definition drop_factor :: "env \<Rightarrow> string \<Rightarrow> int \<Rightarrow> (world, unit + unit) state" where
  "drop_factor env user_uuid atype = do {
     r \<leftarrow> two_factor_find_by_user_and_type env user_uuid atype;
     case r of
       Inr (Some f) \<Rightarrow> try_ret (two_factor_delete env f) (\<lambda>_. Inl ()) (\<lambda>_. return (Inr ()))
     | _ \<Rightarrow> return (Inr ()) }"

definition random_b32_secret :: "env \<Rightarrow> string act" where
  "random_b32_secret env = do { buf \<leftarrow> random_bytes env 20; return (e_base32_encode env buf) }"

definition list_methods :: "env \<Rightarrow> headers \<Rightarrow> response act" where
  "list_methods env h = do {
     factors \<leftarrow> unwrap_or [] (two_factor_find_by_user env (uid h));
     return (json_response 200 (JObj [(''Object'', JStr ''list''),
       (''Data'', JArr (map (\<lambda>f. JObj [(''Object'', JStr ''twoFactorProvider''),
          (''Enabled'', JBool (tf_enabled f = 1)), (''Type'', JInt (tf_atype f))]) factors)),
       (''ContinuationToken'', JNull)])) }"

section \<open>Authenticator apps\<close>

definition authenticator_json :: "bool \<Rightarrow> string \<Rightarrow> json" where
  "authenticator_json enabled key = JObj [(''Object'', JStr ''twoFactorAuthenticator''),
     (''Enabled'', JBool enabled), (''Key'', JStr key)]"

definition provider_off :: "int \<Rightarrow> json" where
  "provider_off atype = JObj [(''Object'', JStr ''twoFactorProvider''), (''Type'', JInt atype),
     (''Enabled'', JBool False)]"

definition get_authenticator :: "env \<Rightarrow> headers \<Rightarrow> password_or_otp \<Rightarrow> response act" where
  "get_authenticator env h body = with_password env h body (do {
     existing \<leftarrow> unwrap_or None
       (two_factor_find_by_user_and_type env (uid h) TWOFACTOR_TYPE_AUTHENTICATOR);
     case existing of
       Some f \<Rightarrow> return (json_response 200 (authenticator_json (tf_enabled f = 1) (tf_data f)))
     | None \<Rightarrow> do {
         key \<leftarrow> random_b32_secret env;
         return (json_response 200 (authenticator_json False key)) } })"

record enable_authenticator_data =
  ad_key :: string
  ad_token :: string
  ad_master_password_hash :: "string option"
  ad_otp :: "string option"

definition totp_at :: "env \<Rightarrow> string \<Rightarrow> nat \<Rightarrow> string option" where
  "totp_at env secret_b32 time =
     map_option (\<lambda>key. e_totp env key time) (e_base32_decode env secret_b32)"

text \<open>\<open>now.saturating_add_signed(delta * 30)\<close> for the three steps around now.\<close>

definition totp_times :: "nat \<Rightarrow> nat list" where
  "totp_times now = [now - 30, now, min (now + 30) (2 ^ 64 - 1)]"

definition verify_totp :: "env \<Rightarrow> string \<Rightarrow> string \<Rightarrow> bool act" where
  "verify_totp env secret_b32 code = do {
     now \<leftarrow> unix_now env;
     return (list_ex (\<lambda>t. totp_at env secret_b32 t = Some code) (totp_times now)) }"

definition activate_authenticator ::
  "env \<Rightarrow> headers \<Rightarrow> enable_authenticator_data \<Rightarrow> response act" where
  "activate_authenticator env h body =
     with_password env h (password_or_otp.make (ad_master_password_hash body) (ad_otp body)) (
     let key_upper = to_ascii_uppercase (ad_key body) in
     case e_base32_decode env key_upper of
       None \<Rightarrow> return (err_json 400 ''Invalid totp secret'')
     | Some decoded \<Rightarrow>
       if length decoded \<noteq> 20 then return (err_json 400 ''Invalid key length'')
       else do {
         ok \<leftarrow> verify_totp env key_upper (trim (ad_token body));
         if \<not> ok then return (err_json 400 ''Invalid TOTP code'')
         else do {
           f \<leftarrow> two_factor_new env (uid h) TWOFACTOR_TYPE_AUTHENTICATOR key_upper;
           try_ret (two_factor_save env f) (\<lambda>_. err_json 500 ''failed to save 2FA'') (\<lambda>_. do {
             _ \<leftarrow> log_user_event env USER_UPDATED_2FA (uid h) (dev_type h);
             return (json_response 200 (authenticator_json True key_upper)) }) } })"

definition disable_authenticator :: "env \<Rightarrow> headers \<Rightarrow> password_or_otp \<Rightarrow> response act" where
  "disable_authenticator env h body = with_password env h body (
     try_ret (drop_factor env (uid h) TWOFACTOR_TYPE_AUTHENTICATOR)
       (\<lambda>_. err_json 500 ''failed to disable'') (\<lambda>_. do {
       _ \<leftarrow> log_user_event env USER_DISABLED_2FA (uid h) (dev_type h);
       return (json_response 200 (provider_off TWOFACTOR_TYPE_AUTHENTICATOR)) }))"

record disable_method_data =
  dm_atype :: int
  dm_master_password_hash :: "string option"
  dm_otp :: "string option"

definition disable_method :: "env \<Rightarrow> headers \<Rightarrow> disable_method_data \<Rightarrow> response act" where
  "disable_method env h body =
     with_password env h (password_or_otp.make (dm_master_password_hash body) (dm_otp body)) (
     try_ret (drop_factor env (uid h) (dm_atype body))
       (\<lambda>_. err_json 500 ''failed to disable'') (\<lambda>_. do {
       _ \<leftarrow> log_user_event env USER_DISABLED_2FA (uid h) (dev_type h);
       return (json_response 200 (provider_off (dm_atype body))) }))"

section \<open>Codes by mail\<close>

text \<open>
  The \<open>data\<close> of the row is the JSON of this struct.  The row has the type \<open>Email\<close> once the
  address is verified and \<open>EmailVerificationChallenge\<close> before.
\<close>

record email_token_data =
  et_email :: string
  et_last_token :: "string option"
  et_token_sent :: int
  et_attempts :: int

definition now_ts :: "env \<Rightarrow> int act" where
  "now_ts env = do { now \<leftarrow> unix_now env; return (int now) }"

definition email_token_new :: "env \<Rightarrow> string \<Rightarrow> string \<Rightarrow> email_token_data act" where
  "email_token_new env email token = do {
     now \<leftarrow> now_ts env;
     return \<lparr>et_email = email, et_last_token = Some token, et_token_sent = now, et_attempts = 0\<rparr> }"

text \<open>An optional member may be missing or null.\<close>

definition opt_str_member :: "string \<Rightarrow> json \<Rightarrow> string option option" where
  "opt_str_member k j = (case json_get k j of
     None \<Rightarrow> Some None | Some JNull \<Rightarrow> Some None | Some (JStr s) \<Rightarrow> Some (Some s) | _ \<Rightarrow> None)"

definition email_token_of_value :: "json \<Rightarrow> email_token_data option" where
  "email_token_of_value j =
     (case (as_str (json_get ''email'' j), opt_str_member ''last_token'' j,
            as_int (json_get ''token_sent'' j), as_int (json_get ''attempts'' j)) of
        (Some email, Some tok, Some sent, Some attempts) \<Rightarrow>
          if - (2 ^ 63) \<le> sent \<and> sent < 2 ^ 63 \<and> 0 \<le> attempts \<and> attempts < 2 ^ 32
          then Some \<lparr>et_email = email, et_last_token = tok, et_token_sent = sent,
                 et_attempts = attempts\<rparr>
          else None
      | _ \<Rightarrow> None)"

definition email_token_from_json :: "env \<Rightarrow> string \<Rightarrow> email_token_data option" where
  "email_token_from_json env s =
     (case e_json_parse env s of None \<Rightarrow> None | Some j \<Rightarrow> email_token_of_value j)"

definition email_token_to_value :: "email_token_data \<Rightarrow> json" where
  "email_token_to_value d = JObj [(''email'', JStr (et_email d)),
     (''last_token'', jopt (et_last_token d)), (''token_sent'', JInt (et_token_sent d)),
     (''attempts'', JInt (et_attempts d))]"

definition email_token_to_json :: "env \<Rightarrow> email_token_data \<Rightarrow> string" where
  "email_token_to_json env d = e_json_print env (email_token_to_value d)"

definition email_token_set :: "env \<Rightarrow> string \<Rightarrow> email_token_data \<Rightarrow> email_token_data act" where
  "email_token_set env token d = do {
     now \<leftarrow> now_ts env;
     return (d\<lparr>et_last_token := Some token, et_token_sent := now, et_attempts := 0\<rparr>) }"

definition email_token_reset :: "email_token_data \<Rightarrow> email_token_data" where
  "email_token_reset d = d\<lparr>et_last_token := None, et_attempts := 0\<rparr>"

definition email_token_expired :: "env \<Rightarrow> email_token_data \<Rightarrow> bool act" where
  "email_token_expired env d = do {
     now \<leftarrow> now_ts env;
     return (now - et_token_sent d > EMAIL_TOKEN_TTL_SECS) }"

definition pad_left :: "nat \<Rightarrow> string \<Rightarrow> string" where
  "pad_left n s = replicate (n - length s) (CHR ''0'') @ s"

definition random_email_token :: "env \<Rightarrow> string act" where
  "random_email_token env = do {
     buf \<leftarrow> random_bytes env 4;
     return (pad_left EMAIL_TOKEN_LEN
       (nat_to_string (foldl (\<lambda>n b. 256 * n + unat b) 0 buf mod 1000000))) }"

definition send_email_token :: "env \<Rightarrow> string \<Rightarrow> string \<Rightarrow> (unit + unit) act" where
  "send_email_token env to token = mail_send env
     \<lparr>mm_from_email = fst (e_mail_from env), mm_from_name = snd (e_mail_from env), mm_to = to,
      mm_subject = ''Your Vaultwarden login code'',
      mm_text = ''Your Vaultwarden two-factor login code is '' @ token @ ''.''
        @ [CHR 0x0A, CHR 0x0A] @ ''It expires in 10 minutes.'',
      mm_html = None\<rparr>"

definition email_json :: "bool \<Rightarrow> json \<Rightarrow> json" where
  "email_json enabled email = JObj [(''Object'', JStr ''twoFactorEmail''),
     (''Enabled'', JBool enabled), (''Email'', email)]"

definition get_email_2fa :: "env \<Rightarrow> headers \<Rightarrow> password_or_otp \<Rightarrow> response act" where
  "get_email_2fa env h body = with_password env h body (do {
     r \<leftarrow> two_factor_find_by_user_and_type env (uid h) TWOFACTOR_TYPE_EMAIL;
     return (json_response 200 (case r of
         Inr (Some f) \<Rightarrow>
           (case email_token_from_json env (tf_data f) of
              Some d \<Rightarrow> email_json (tf_enabled f = 1) (JStr (et_email d))
            | None \<Rightarrow> email_json False JNull)
       | _ \<Rightarrow> email_json False JNull)) })"

record send_email_data =
  sd_email :: string
  sd_master_password_hash :: "string option"
  sd_otp :: "string option"

definition send_email_2fa :: "env \<Rightarrow> headers \<Rightarrow> send_email_data \<Rightarrow> response act" where
  "send_email_2fa env h body =
     with_password env h (password_or_otp.make (sd_master_password_hash body) (sd_otp body)) (
     let target = trim (sd_email body) in
     if target = [] then return (err_json 400 ''email is required'')
     else do {
       ok \<leftarrow> ratelimit_check env EMAIL_SEND_LIMIT target;
       if \<not> ok then return (err_json 429 ''Too many email requests'')
       else
         try_ret (drop_factor env (uid h) TWOFACTOR_TYPE_EMAIL)
           (\<lambda>_. err_json 500 ''failed to reset email 2FA'') (\<lambda>_.
         try_ret (drop_factor env (uid h) TWOFACTOR_TYPE_EMAIL_VERIFICATION_CHALLENGE)
           (\<lambda>_. err_json 500 ''failed to reset challenge'') (\<lambda>_. do {
         token \<leftarrow> random_email_token env;
         data \<leftarrow> email_token_new env target token;
         f \<leftarrow> two_factor_new env (uid h) TWOFACTOR_TYPE_EMAIL_VERIFICATION_CHALLENGE
                (email_token_to_json env data);
         try_ret (two_factor_save env f) (\<lambda>_. err_json 500 ''failed to save challenge'') (\<lambda>_.
         try_ret (send_email_token env target token)
           (\<lambda>_. err_json 500 ''failed to send verification email'') (\<lambda>_.
         return (json_response 200 JNull))) })) })"

section \<open>The recovery code\<close>

definition lower_hex_digit :: "nat \<Rightarrow> char" where
  "lower_hex_digit n = char_of (if n < 10 then 48 + n else 87 + n)"

definition lower_hex :: "byte list \<Rightarrow> string" where
  "lower_hex bs = concat (map (\<lambda>b. [lower_hex_digit (unat b div 16), lower_hex_digit (unat b mod 16)]) bs)"

definition random_recovery_code :: "env \<Rightarrow> string act" where
  "random_recovery_code env = do { buf \<leftarrow> random_bytes env 10; return (lower_hex buf) }"

text \<open>The user with a recovery code: on an error the caller sees the code that was not saved.\<close>

definition ensure_recovery_code :: "env \<Rightarrow> user \<Rightarrow> (world, unit + user) state" where
  "ensure_recovery_code env user =
     (if non_empty (us_totp_recover user) \<noteq> None then return (Inr user)
      else do {
        code \<leftarrow> random_recovery_code env;
        try_ret (user_save env (user\<lparr>us_totp_recover := Some code\<rparr>)) (\<lambda>_. Inl ())
          (\<lambda>user. return (Inr user)) })"

definition get_recover :: "env \<Rightarrow> headers \<Rightarrow> password_or_otp \<Rightarrow> response act" where
  "get_recover env h body = with_password env h body (
     try_ret (ensure_recovery_code env (hd_user h))
       (\<lambda>_. err_json 500 ''failed to generate recovery code'') (\<lambda>user.
     return (json_response 200 (JObj [(''Object'', JStr ''twoFactorRecover''),
       (''Code'', JStr (case us_totp_recover user of None \<Rightarrow> [] | Some c \<Rightarrow> c))]))))"

record recover_data =
  rd_master_password_hash :: string
  rd_email :: string
  rd_recovery_code :: string

definition recover :: "env \<Rightarrow> recover_data \<Rightarrow> response act" where
  "recover env body = do {
     r \<leftarrow> user_find_by_email env (to_lowercase (trim (rd_email body)));
     case r of
       Inr (Some user) \<Rightarrow>
         (case check_valid_password env user (rd_master_password_hash body) of
            None \<Rightarrow> return panicked
          | Some False \<Rightarrow> return (err_json 400 ''Username or password is incorrect'')
          | Some True \<Rightarrow>
            let stored = (case us_totp_recover user of None \<Rightarrow> [] | Some c \<Rightarrow> c) in
            if stored = [] then return (err_json 400 ''Recovery code is not set on this account'')
            else if stored \<noteq> filter (\<lambda>c. c \<noteq> CHR '' '') (to_lowercase (trim (rd_recovery_code body)))
            then return (err_json 400 ''Recovery code is invalid'')
            else do {
              factors \<leftarrow> unwrap_or [] (two_factor_find_by_user env (us_uuid user));
              _ \<leftarrow> for_each factors (\<lambda>f. ignore (two_factor_delete env f));
              stamp \<leftarrow> new_uuid env;
              try_ret (user_save env (user\<lparr>us_totp_recover := None, us_security_stamp := stamp\<rparr>))
                (\<lambda>_. err_json 500 ''failed to clear 2FA'') (\<lambda>user. do {
                _ \<leftarrow> notify_user env (us_uuid user) LOG_OUT (us_uuid user);
                _ \<leftarrow> log_user_event env USER_RECOVERED_2FA (us_uuid user) 14;
                return (json_response 200 JNull) }) })
     | _ \<Rightarrow> return (err_json 400 ''Username or password is incorrect'') }"

section \<open>Enrolment and login by mail\<close>

record activate_email_data =
  ae_email :: string
  ae_token :: string
  ae_master_password_hash :: "string option"
  ae_otp :: "string option"

definition activate_email_2fa :: "env \<Rightarrow> headers \<Rightarrow> activate_email_data \<Rightarrow> response act" where
  "activate_email_2fa env h body =
     with_password env h (password_or_otp.make (ae_master_password_hash body) (ae_otp body)) (do {
     r \<leftarrow> two_factor_find_by_user_and_type env (uid h) TWOFACTOR_TYPE_EMAIL_VERIFICATION_CHALLENGE;
     case r of
       Inr (Some f) \<Rightarrow>
       (case email_token_from_json env (tf_data f) of
          None \<Rightarrow> return (err_json 400 ''challenge data corrupt'')
        | Some data \<Rightarrow>
          if et_email data \<noteq> trim (ae_email body) then return (err_json 400 ''email mismatch'')
          else
          (case et_last_token data of
             None \<Rightarrow> return (err_json 400 ''no token issued'')
           | Some issued \<Rightarrow> do {
             expired \<leftarrow> email_token_expired env data;
             if expired then do {
               _ \<leftarrow> two_factor_save env
                 (f\<lparr>tf_data := email_token_to_json env (email_token_reset data)\<rparr>);
               return (err_json 400 ''Token expired'') }
             else if issued \<noteq> trim (ae_token body)
             then return (err_json 400 ''Token is invalid'')
             else
               try_ret (two_factor_save env
                   (f\<lparr>tf_data := email_token_to_json env (email_token_reset data),
                      tf_atype := TWOFACTOR_TYPE_EMAIL, tf_enabled := 1\<rparr>))
                 (\<lambda>_. err_json 500 ''failed to save 2FA'') (\<lambda>_. do {
                 _ \<leftarrow> ensure_recovery_code env (hd_user h);
                 _ \<leftarrow> log_user_event env USER_UPDATED_2FA (uid h) (dev_type h);
                 return (json_response 200 (email_json True (JStr (et_email data)))) }) }))
     | _ \<Rightarrow> return (err_json 400 ''no email verification in progress'') })"

text \<open>A fresh code for the login; \<open>Inl\<close> is any of the errors, which the callers do not tell apart.\<close>

definition send_login_token :: "env \<Rightarrow> string \<Rightarrow> (unit + unit) act" where
  "send_login_token env user_uuid = do {
     ok \<leftarrow> ratelimit_check env EMAIL_SEND_LIMIT user_uuid;
     if \<not> ok then return (Inl ())
     else
       try_ret (two_factor_find_by_user_and_type env user_uuid TWOFACTOR_TYPE_EMAIL)
         (\<lambda>_. Inl ()) (\<lambda>r.
       case r of
         None \<Rightarrow> return (Inl ())
       | Some f \<Rightarrow>
         (case email_token_from_json env (tf_data f) of
            None \<Rightarrow> return (Inl ())
          | Some data \<Rightarrow> do {
              token \<leftarrow> random_email_token env;
              data \<leftarrow> email_token_set env token data;
              try_ret (two_factor_save env (f\<lparr>tf_data := email_token_to_json env data\<rparr>))
                (\<lambda>_. Inl ()) (\<lambda>_. send_email_token env (et_email data) token) })) }"

record send_email_login_data =
  sl_email :: "string option"
  sl_master_password_hash :: "string option"
  sl_device_identifier :: "string option"

definition send_email_login :: "env \<Rightarrow> send_email_login_data \<Rightarrow> response act" where
  "send_email_login env body =
     (case non_empty (map_option trim (sl_email body)) of
        None \<Rightarrow> return (err_json 400 ''email is required'')
      | Some email \<Rightarrow> do {
          ok \<leftarrow> ratelimit_check env EMAIL_SEND_LIMIT email;
          if \<not> ok then return (err_json 429 ''Too many email requests'')
          else do {
            r \<leftarrow> user_find_by_email env email;
            case r of
              Inr (Some user) \<Rightarrow>
                (case (case sl_master_password_hash body of
                         None \<Rightarrow> Some True
                       | Some mph \<Rightarrow> check_valid_password env user mph) of
                   None \<Rightarrow> return panicked
                 | Some False \<Rightarrow> return (json_response 200 JNull)
                 | Some True \<Rightarrow>
                   try_ret (send_login_token env (us_uuid user))
                     (\<lambda>_. err_json 500 ''failed to send login email'') (\<lambda>_.
                     return (json_response 200 JNull)))
            | _ \<Rightarrow> return (json_response 200 JNull) } })"

text \<open>
  The code of a login: a code that is right or too old is used up, a wrong one is counted and
  the third wrong one uses the code up.
\<close>

definition verify_email_login_code :: "env \<Rightarrow> string \<Rightarrow> string \<Rightarrow> bool act" where
  "verify_email_login_code env user_uuid code = do {
     r \<leftarrow> two_factor_find_by_user_and_type env user_uuid TWOFACTOR_TYPE_EMAIL;
     case r of
       Inr (Some f) \<Rightarrow>
       (case email_token_from_json env (tf_data f) of
          None \<Rightarrow> return False
        | Some data \<Rightarrow>
       (case et_last_token data of
          None \<Rightarrow> return False
        | Some issued \<Rightarrow> do {
          expired \<leftarrow> email_token_expired env data;
          if expired then do {
            _ \<leftarrow> two_factor_save env
              (f\<lparr>tf_data := email_token_to_json env (email_token_reset data)\<rparr>);
            return False }
          else if issued \<noteq> trim code then do {
            let counted = data\<lparr>et_attempts := min (et_attempts data + 1) (2 ^ 32 - 1)\<rparr>;
            _ \<leftarrow> two_factor_save env (f\<lparr>tf_data := email_token_to_json env
              (if et_attempts counted \<ge> EMAIL_ATTEMPT_LIMIT then email_token_reset counted
               else counted)\<rparr>);
            return False }
          else do {
            _ \<leftarrow> two_factor_save env
              (f\<lparr>tf_data := email_token_to_json env (email_token_reset data)\<rparr>);
            return True } }))
     | _ \<Rightarrow> return False }"

section \<open>Devices that skip the second factor\<close>

definition issue_remember_token :: "env \<Rightarrow> string \<Rightarrow> string \<Rightarrow> string act" where
  "issue_remember_token env user_uuid device_uuid = do {
     id \<leftarrow> new_uuid env;
     let token = device_uuid @ '':'' @ id;
     row \<leftarrow> two_factor_new env user_uuid TWOFACTOR_TYPE_REMEMBER token;
     _ \<leftarrow> two_factor_save env (row\<lparr>tf_enabled := 1\<rparr>);
     return token }"

definition split_once_prefix :: "char \<Rightarrow> string \<Rightarrow> string option" where
  "split_once_prefix c s = (if c \<in> set s then Some (takeWhile (\<lambda>x. x \<noteq> c) s) else None)"

definition check_remember_token :: "env \<Rightarrow> string \<Rightarrow> string \<Rightarrow> string \<Rightarrow> bool act" where
  "check_remember_token env user_uuid device_uuid token =
     (if split_once_prefix (CHR '':'') token \<noteq> Some device_uuid then return False
      else do {
        factors \<leftarrow> unwrap_or [] (two_factor_find_by_user env user_uuid);
        return (list_ex (\<lambda>f. tf_atype f = TWOFACTOR_TYPE_REMEMBER \<and> tf_data f = token) factors) })"

section \<open>Settings and Duo\<close>

definition device_verification_settings :: "headers \<Rightarrow> response act" where
  "device_verification_settings h = return (json_response 200 (JObj [
     (''Object'', JStr ''deviceVerificationSettings''),
     (''IsTwoFactorPolicyEnabled'', JBool False), (''IsDeviceVerificationEnabled'', JBool False),
     (''UnknownDeviceVerificationEnabled'', JBool False)]))"

definition get_duo_stub :: "env \<Rightarrow> headers \<Rightarrow> password_or_otp \<Rightarrow> response act" where
  "get_duo_stub env h body = with_password env h body (return (json_response 200 (JObj [
     (''Object'', JStr ''twoFactorDuo''), (''Enabled'', JBool False), (''Host'', JStr []),
     (''SecretKey'', JStr []), (''IntegrationKey'', JStr [])])))"

definition duo_unsupported :: "headers \<Rightarrow> json \<Rightarrow> response act" where
  "duo_unsupported h body =
     return (err_json 501 ''Duo 2FA is not yet supported on this Worker'')"

end
