(* ===== verification/Security_Keys.thy ===== *)
theory Security_Keys
  imports Two_Factor
begin

text \<open>
  Hardware keys: the one-time passwords of a YubiKey, checked by Yubico's server
  (\<open>worker/src/api/two_factor.rs\<close>), and WebAuthn credentials (\<open>worker/src/api/webauthn.rs\<close>),
  whose assertions are compared with the registered credential ids only.
\<close>

section \<open>YubiKey\<close>

record yubikey_metadata =
  yk_keys :: "string list"
  yk_nfc :: bool

definition yubikey_to_value :: "yubikey_metadata \<Rightarrow> json" where
  "yubikey_to_value m = JObj [(''keys'', JArr (map JStr (yk_keys m))), (''nfc'', JBool (yk_nfc m))]"

text \<open>A member under its name or its alias; both at once is a duplicate field.\<close>

definition aliased :: "string \<Rightarrow> string \<Rightarrow> json \<Rightarrow> json option option" where
  "aliased k k' j = (case (json_get k j, json_get k' j) of
     (Some _, Some _) \<Rightarrow> None | (Some v, None) \<Rightarrow> Some (Some v) | (None, v) \<Rightarrow> Some v)"

definition yubikey_of_value :: "json \<Rightarrow> yubikey_metadata option" where
  "yubikey_of_value j =
     (case (aliased ''keys'' ''Keys'' j, aliased ''nfc'' ''Nfc'' j) of
        (Some keys, Some nfc) \<Rightarrow>
          (case (as_strs keys, if nfc = None then Some False else as_bool nfc) of
             (Some ks, Some b) \<Rightarrow> Some \<lparr>yk_keys = ks, yk_nfc = b\<rparr>
           | _ \<Rightarrow> None)
      | _ \<Rightarrow> None)"

definition yubikey_parse :: "env \<Rightarrow> string \<Rightarrow> yubikey_metadata option" where
  "yubikey_parse env s =
     (case e_json_parse env s of None \<Rightarrow> None | Some j \<Rightarrow> yubikey_of_value j)"

definition yubico_credentials :: "env \<Rightarrow> (string \<times> string) option" where
  "yubico_credentials env =
     (case (e_vars env ''YUBICO_CLIENT_ID'', e_vars env ''YUBICO_SECRET_KEY'') of
        (Some i, Some k) \<Rightarrow> if i = [] \<or> k = [] then None else Some (i, k)
      | _ \<Rightarrow> None)"

definition yubico_server :: "env \<Rightarrow> string" where
  "yubico_server env = (case non_empty (e_vars env ''YUBICO_SERVER'') of
     Some s \<Rightarrow> s | None \<Rightarrow> ''https://api.yubico.com/wsapi/2.0/verify'')"

definition is_unreserved :: "char \<Rightarrow> bool" where
  "is_unreserved c \<longleftrightarrow> (CHR ''A'' \<le> c \<and> c \<le> CHR ''Z'') \<or> (CHR ''a'' \<le> c \<and> c \<le> CHR ''z'') \<or>
     is_digit c \<or> c \<in> set ''-_.~''"

definition urlencoding_minimal :: "string \<Rightarrow> string" where
  "urlencoding_minimal s = concat (map (\<lambda>c. if is_unreserved c then [c]
     else [CHR ''%'', hex_digit (of_char c div 16), hex_digit (of_char c mod 16)]) s)"

definition verify_yubikey_otp :: "env \<Rightarrow> string \<Rightarrow> (string + unit) act" where
  "verify_yubikey_otp env otp =
     (case yubico_credentials env of
        None \<Rightarrow> return (Inl ''Yubico not configured'')
      | Some (client_id, secret_b64) \<Rightarrow>
     (case e_base64_decode env secret_b64 of
        Inl e \<Rightarrow> return (Inl (''invalid secret: '' @ e))
      | Inr key \<Rightarrow> do {
        nonce_bytes \<leftarrow> random_bytes env 20;
        let to_sign = ''id='' @ client_id @ ''&nonce='' @ lower_hex nonce_bytes @ ''&otp='' @ otp
              @ ''&timestamp=1'';
        let signature = e_base64_encode env (e_hmac_sha1 env key (as_bytes to_sign));
        try_ret (http_get env (yubico_server env @ ''?'' @ to_sign @ ''&h=''
            @ urlencoding_minimal signature)) Inl (\<lambda>body.
        if list_ex (\<lambda>line. trim line = ''status=OK'') (split_on [CHR 0x0A] [] body)
        then return (Inr ())
        else return (Inl (''yubico response: '' @ body))) }))"

text \<open>\<open>None\<close> is the panic of a slice that cuts a character.\<close>

definition verify_yubikey_login_code :: "env \<Rightarrow> string \<Rightarrow> string \<Rightarrow> bool option act" where
  "verify_yubikey_login_code env user_uuid token =
     (if length token \<noteq> 44 then return (Some False)
      else do {
        r \<leftarrow> two_factor_find_by_user_and_type env user_uuid TWOFACTOR_TYPE_YUBIKEY;
        case r of
          Inr (Some row) \<Rightarrow>
          (case yubikey_parse env (tf_data row) of
             None \<Rightarrow> return (Some False)
           | Some meta \<Rightarrow>
          (case str_get_to 12 token of
             None \<Rightarrow> return None
           | Some key_id \<Rightarrow>
             if key_id \<notin> set (yk_keys meta) then return (Some False)
             else try_ret (verify_yubikey_otp env token) (\<lambda>_. Some False)
                    (\<lambda>_. return (Some True))))
        | _ \<Rightarrow> return (Some False) })"

record enable_yubikey_data =
  yd_key1 :: "string option"
  yd_key2 :: "string option"
  yd_key3 :: "string option"
  yd_key4 :: "string option"
  yd_key5 :: "string option"
  yd_nfc :: bool
  yd_master_password_hash :: "string option"
  yd_otp :: "string option"

definition extract_yubikeys :: "enable_yubikey_data \<Rightarrow> string list" where
  "extract_yubikeys d = filter (\<lambda>s. s \<noteq> [])
     (List.map_filter (\<lambda>k. k) [yd_key1 d, yd_key2 d, yd_key3 d, yd_key4 d, yd_key5 d])"

definition yubikey_response :: "yubikey_metadata \<Rightarrow> bool \<Rightarrow> json" where
  "yubikey_response m enabled = JObj (
     map (\<lambda>(i, key). (''Key'' @ nat_to_string (i + 1), JStr key)) (enumerate 0 (yk_keys m))
     @ [(''Enabled'', JBool enabled), (''Nfc'', JBool (yk_nfc m)),
        (''Object'', JStr ''twoFactorU2f'')])"

definition yubikey_off :: "bool \<Rightarrow> json" where
  "yubikey_off nfc = JObj [(''Object'', JStr ''twoFactorU2f''), (''Enabled'', JBool False),
     (''Keys'', JArr []), (''Nfc'', JBool nfc)]"

definition get_yubikey_stub :: "env \<Rightarrow> headers \<Rightarrow> password_or_otp \<Rightarrow> response act" where
  "get_yubikey_stub env h body = with_password env h body (
     if yubico_credentials env = None then return (json_response 200 (yubikey_off False))
     else do {
       row \<leftarrow> unwrap_or None (two_factor_find_by_user_and_type env (uid h) TWOFACTOR_TYPE_YUBIKEY);
       let none = \<lparr>yk_keys = [], yk_nfc = False\<rparr>;
       let meta = (case row of
           None \<Rightarrow> none
         | Some f \<Rightarrow> (case yubikey_parse env (tf_data f) of None \<Rightarrow> none | Some m \<Rightarrow> m));
       return (json_response 200 (yubikey_response meta (row \<noteq> None))) })"

definition yubikey_unsupported :: "env \<Rightarrow> headers \<Rightarrow> enable_yubikey_data \<Rightarrow> response act" where
  "yubikey_unsupported env h body =
     with_password env h (password_or_otp.make (yd_master_password_hash body) (yd_otp body)) (
     if yubico_credentials env = None
     then return (err_json 400 (''Yubico is not configured. Set YUBICO_CLIENT_ID + '' @
            ''YUBICO_SECRET_KEY to enable.''))
     else
       let yubikeys = extract_yubikeys body in
       if yubikeys = [] then return (json_response 200 (yubikey_off (yd_nfc body)))
       else
         try_ret (for_ret yubikeys (\<lambda>yk.
             if length yk = 44
             then try_ret (verify_yubikey_otp env yk)
                    (\<lambda>e. Inl (err_json 400 (''Invalid YubiKey OTP: '' @ e))) (\<lambda>_. return (Inr ()))
             else return (Inr ())))
           (\<lambda>r. r) (\<lambda>_. do {
         let meta = \<lparr>yk_keys = List.map_filter (str_get_to 12) yubikeys, yk_nfc = yd_nfc body\<rparr>;
         row \<leftarrow> two_factor_new env (uid h) TWOFACTOR_TYPE_YUBIKEY
                  (e_json_print env (yubikey_to_value meta));
         try_ret (two_factor_save env (row\<lparr>tf_enabled := 1\<rparr>)) (\<lambda>_. err_json 500 ''save failed'') (\<lambda>_. do {
           _ \<leftarrow> ensure_recovery_code env (hd_user h);
           _ \<leftarrow> log_user_event env USER_UPDATED_2FA (uid h) (dev_type h);
           return (json_response 200 (yubikey_response meta True)) }) }))"

section \<open>WebAuthn\<close>

record webauthn_registration =
  wr_id :: int
  wr_name :: string
  wr_migrated :: bool
  wr_credential :: json

definition registration_to_value :: "webauthn_registration \<Rightarrow> json" where
  "registration_to_value r = JObj [(''id'', JInt (wr_id r)), (''name'', JStr (wr_name r)),
     (''migrated'', JBool (wr_migrated r)), (''credential'', wr_credential r)]"

definition registration_of_value :: "json \<Rightarrow> webauthn_registration option" where
  "registration_of_value j =
     (case (as_int (json_get ''id'' j), as_str (json_get ''name'' j),
            as_bool (json_get ''migrated'' j), json_get ''credential'' j) of
        (Some i, Some name, Some migrated, Some credential) \<Rightarrow>
          if - (2 ^ 31) \<le> i \<and> i < 2 ^ 31
          then Some \<lparr>wr_id = i, wr_name = name, wr_migrated = migrated, wr_credential = credential\<rparr>
          else None
      | _ \<Rightarrow> None)"

fun all_registrations :: "json list \<Rightarrow> webauthn_registration list option" where
  "all_registrations [] = Some []"
| "all_registrations (j # js) =
     (case (registration_of_value j, all_registrations js) of
        (Some r, Some rs) \<Rightarrow> Some (r # rs) | _ \<Rightarrow> None)"

text \<open>\<open>serde_json::from_str::<Vec<WebauthnRegistration>>(..).unwrap_or_default()\<close>.\<close>

definition parse_registrations :: "env \<Rightarrow> string \<Rightarrow> webauthn_registration list" where
  "parse_registrations env s =
     (case e_json_parse env s of
        Some (JArr js) \<Rightarrow> (case all_registrations js of None \<Rightarrow> [] | Some rs \<Rightarrow> rs)
      | _ \<Rightarrow> [])"

definition print_registrations :: "env \<Rightarrow> webauthn_registration list \<Rightarrow> string" where
  "print_registrations env rs = e_json_print env (JArr (map registration_to_value rs))"

definition webauthn_json :: "bool \<Rightarrow> webauthn_registration list \<Rightarrow> json" where
  "webauthn_json enabled rs = JObj [(''Object'', JStr ''twoFactorWebAuthn''),
     (''Enabled'', JBool enabled),
     (''Keys'', JArr (map (\<lambda>r. JObj [(''Name'', JStr (wr_name r)), (''Id'', JInt (wr_id r)),
        (''migrated'', JBool (wr_migrated r))]) rs))]"

definition get_webauthn :: "env \<Rightarrow> headers \<Rightarrow> password_or_otp \<Rightarrow> response act" where
  "get_webauthn env h body = with_password env h body (do {
     r \<leftarrow> two_factor_find_by_user_and_type env (uid h) TWOFACTOR_TYPE_WEBAUTHN;
     let creds = (case r of Inr (Some f) \<Rightarrow> parse_registrations env (tf_data f) | _ \<Rightarrow> []);
     return (json_response 200 (webauthn_json (creds \<noteq> []) creds)) })"

definition rp_id_of :: "string \<Rightarrow> string" where
  "rp_id_of host =
     (case (case strip_prefix ''https://'' host of
              Some s \<Rightarrow> Some s | None \<Rightarrow> strip_prefix ''http://'' host) of
        Some s \<Rightarrow> hd (split_on ''/'' [] s)
      | None \<Rightarrow> ''localhost'')"

definition generate_challenge :: "env \<Rightarrow> headers \<Rightarrow> password_or_otp \<Rightarrow> response act" where
  "generate_challenge env h body = with_password env h body (do {
     buf \<leftarrow> random_bytes env 32;
     let challenge_b64 = e_base64url_encode env buf;
     now \<leftarrow> unix_now env;
     stash \<leftarrow> two_factor_new env (uid h) TWOFACTOR_TYPE_WEBAUTHN_REGISTER_CHALLENGE
       (e_json_print env (JObj [(''challenge'', JStr challenge_b64), (''userId'', JStr (uid h)),
          (''createdAt'', JInt (int now))]));
     try_ret (two_factor_save env stash) (\<lambda>_. err_json 500 ''failed to stash challenge'') (\<lambda>_.
       let host = (case e_vars env ''DOMAIN'' of None \<Rightarrow> [] | Some s \<Rightarrow> s) in
       return (json_response 200 (JObj [
         (''rp'', JObj [(''id'', JStr (rp_id_of host)), (''name'', JStr ''Vaultwarden'')]),
         (''user'', JObj [(''id'', JStr (uid h)), (''name'', JStr (us_email (hd_user h))),
            (''displayName'', JStr (us_name (hd_user h)))]),
         (''challenge'', JStr challenge_b64),
         (''pubKeyCredParams'', JArr [
            JObj [(''alg'', JInt (- 7)), (''type'', JStr ''public-key'')],
            JObj [(''alg'', JInt (- 257)), (''type'', JStr ''public-key'')]]),
         (''authenticatorSelection'', JObj [(''userVerification'', JStr ''discouraged'')]),
         (''timeout'', JInt 60000), (''attestation'', JStr ''direct''),
         (''Status'', JStr ''ok'')]))) })"

text \<open>\<open>v.get("id").or_else(|| v.get("credentialId")).and_then(|v| v.as_str())\<close>.\<close>

definition credential_id :: "json \<Rightarrow> string option" where
  "credential_id j = as_str (case json_get ''id'' j of
     Some v \<Rightarrow> Some v | None \<Rightarrow> json_get ''credentialId'' j)"

definition verify_webauthn_login :: "env \<Rightarrow> string \<Rightarrow> string \<Rightarrow> bool act" where
  "verify_webauthn_login env user_uuid token = do {
     r \<leftarrow> two_factor_find_by_user_and_type env user_uuid TWOFACTOR_TYPE_WEBAUTHN;
     return (case r of
       Inr (Some row) \<Rightarrow>
         (let creds = parse_registrations env (tf_data row) in
          creds \<noteq> [] \<and>
          (case e_json_parse env token of
             None \<Rightarrow> False
           | Some parsed \<Rightarrow>
             (case credential_id parsed of
                None \<Rightarrow> False
              | Some supplied \<Rightarrow> supplied \<noteq> [] \<and>
                  list_ex (\<lambda>c. credential_id (wr_credential c) = Some supplied) creds)))
     | _ \<Rightarrow> False) }"

record activate_webauthn_body =
  aw_id :: int
  aw_name :: string
  aw_device_response :: "json option"
  aw_master_password_hash :: "string option"
  aw_otp :: "string option"

definition activate_webauthn :: "env \<Rightarrow> headers \<Rightarrow> activate_webauthn_body \<Rightarrow> response act" where
  "activate_webauthn env h body =
     with_password env h (password_or_otp.make (aw_master_password_hash body) (aw_otp body)) (
     case aw_device_response body of
       None \<Rightarrow> return (err_json 400 ''deviceResponse is required'')
     | Some device_response \<Rightarrow> do {
         _ \<leftarrow> drop_factor env (uid h) TWOFACTOR_TYPE_WEBAUTHN_REGISTER_CHALLENGE;
         r \<leftarrow> two_factor_find_by_user_and_type env (uid h) TWOFACTOR_TYPE_WEBAUTHN;
         row \<leftarrow> (case r of
             Inr (Some f) \<Rightarrow> return f
           | _ \<Rightarrow> two_factor_new env (uid h) TWOFACTOR_TYPE_WEBAUTHN ''[]'');
         let creds = parse_registrations env (tf_data row);
         if list_ex (\<lambda>c. wr_id c = aw_id body) creds
         then return (err_json 400 ''id already in use'')
         else do {
           let creds = creds @ [\<lparr>wr_id = aw_id body, wr_name = aw_name body, wr_migrated = False,
                 wr_credential = device_response\<rparr>];
           try_ret (two_factor_save env (row\<lparr>tf_data := print_registrations env creds, tf_enabled := 1\<rparr>))
             (\<lambda>_. err_json 500 ''save failed'') (\<lambda>_. do {
             _ \<leftarrow> log_user_event env USER_UPDATED_2FA (uid h) (dev_type h);
             return (json_response 200 (webauthn_json True creds)) }) } })"

record rename_webauthn_body =
  rw_id :: "int option"
  rw_name :: "string option"
  rw_master_password_hash :: "string option"
  rw_otp :: "string option"

text \<open>\<open>iter_mut().find(..)\<close> changes the first entry of that id.\<close>

fun rename_first :: "int \<Rightarrow> string \<Rightarrow> webauthn_registration list \<Rightarrow> webauthn_registration list" where
  "rename_first i name [] = []"
| "rename_first i name (c # cs) =
     (if wr_id c = i then c\<lparr>wr_name := name\<rparr> # cs else c # rename_first i name cs)"

definition rename_webauthn :: "env \<Rightarrow> headers \<Rightarrow> rename_webauthn_body \<Rightarrow> response act" where
  "rename_webauthn env h body =
     with_password env h (password_or_otp.make (rw_master_password_hash body) (rw_otp body)) (
     case rw_id body of
       None \<Rightarrow> return (err_json 400 ''id is required'')
     | Some target_id \<Rightarrow>
     (case non_empty (rw_name body) of
       None \<Rightarrow> return (err_json 400 ''name is required'')
     | Some new_name \<Rightarrow> do {
         r \<leftarrow> two_factor_find_by_user_and_type env (uid h) TWOFACTOR_TYPE_WEBAUTHN;
         case r of
           Inr (Some f) \<Rightarrow>
             (let creds = parse_registrations env (tf_data f) in
              if \<not> list_ex (\<lambda>c. wr_id c = target_id) creds
              then return (err_json 404 ''credential not found'')
              else
                let creds = rename_first target_id new_name creds in
                try_ret (two_factor_save env (f\<lparr>tf_data := print_registrations env creds\<rparr>))
                  (\<lambda>_. err_json 500 ''failed to update credentials'') (\<lambda>_.
                  return (json_response 200 (webauthn_json (creds \<noteq> []) creds))))
         | _ \<Rightarrow> return (err_json 404 ''no WebAuthn credentials enrolled'') }))"

record delete_webauthn_data =
  dw_master_password_hash :: "string option"
  dw_otp :: "string option"
  dw_id :: "int option"

definition delete_webauthn :: "env \<Rightarrow> headers \<Rightarrow> delete_webauthn_data \<Rightarrow> response act" where
  "delete_webauthn env h body =
     with_password env h (password_or_otp.make (dw_master_password_hash body) (dw_otp body)) (
     case dw_id body of
       None \<Rightarrow> return (err_json 400 ''id is required'')
     | Some target_id \<Rightarrow> do {
         r \<leftarrow> two_factor_find_by_user_and_type env (uid h) TWOFACTOR_TYPE_WEBAUTHN;
         case r of
           Inr (Some f) \<Rightarrow>
             (let before = parse_registrations env (tf_data f);
                  creds = filter (\<lambda>c. wr_id c \<noteq> target_id) before in
              if length creds = length before then return (err_json 404 ''credential not found'')
              else
                try_ret
                  (if creds = []
                   then try_ret (two_factor_delete env f)
                          (\<lambda>_. Inl (err_json 500 ''failed to delete row'')) (\<lambda>_. return (Inr ()))
                   else try_ret (two_factor_save env (f\<lparr>tf_data := print_registrations env creds\<rparr>))
                          (\<lambda>_. Inl (err_json 500 ''failed to update credentials''))
                          (\<lambda>_. return (Inr ())))
                  (\<lambda>r. r) (\<lambda>_. do {
                  _ \<leftarrow> log_user_event env (if creds = [] then USER_DISABLED_2FA else USER_UPDATED_2FA)
                         (uid h) (dev_type h);
                  return (json_response 200 (webauthn_json (creds \<noteq> []) creds)) }))
         | _ \<Rightarrow> return (err_json 404 ''no WebAuthn credentials enrolled'') })"

end
