(* ===== verification/Identity.thy ===== *)
theory Identity
  imports Security_Keys
begin

text \<open>
  \<open>worker/src/api/identity.rs\<close>: registration and the token endpoint with its four grants.
  The password grant asks for a second factor when the user has one; the grant for a login
  request, the one for an API key and the refresh do not.
\<close>

record connect_data =
  cx_grant_type :: string
  cx_username :: "string option"
  cx_password :: "string option"
  cx_scope :: "string option"
  cx_client_id :: "string option"
  cx_refresh_token :: "string option"
  cx_device_identifier :: "string option"
  cx_device_name :: "string option"
  cx_device_type :: "string option"
  cx_two_factor_token :: "string option"
  cx_two_factor_provider :: "int option"
  cx_two_factor_remember :: "int option"
  cx_auth_request :: "string option"
  cx_auth_request_access_code :: "string option"
  cx_client_secret :: "string option"

definition error_response :: "nat \<Rightarrow> string \<Rightarrow> string \<Rightarrow> response" where
  "error_response code error description = json_response code (JObj [(''error'', JStr error),
     (''error_description'', JStr description),
     (''ErrorModel'', JObj [(''Message'', JStr description)])])"

lemma resp_status_error_response [simp]: "resp_status (error_response code e d) = code"
  by (simp add: error_response_def)

text \<open>\<open>HeaderValue::to_str\<close>: visible ASCII and tabs only.\<close>

definition header_to_str :: "string \<Rightarrow> string option" where
  "header_to_str v = (if list_all (\<lambda>c. c = CHR 0x09 \<or> (CHR '' '' \<le> c \<and> c \<le> CHR ''~'')) v
     then Some v else None)"

definition client_ip :: "(string \<Rightarrow> string option) \<Rightarrow> string" where
  "client_ip headers =
     (case (case headers ''cf-connecting-ip'' of
              Some v \<Rightarrow> Some v | None \<Rightarrow> headers ''x-forwarded-for'') of
        None \<Rightarrow> ''unknown''
      | Some v \<Rightarrow>
          (case header_to_str v of
             None \<Rightarrow> ''unknown''
           | Some s \<Rightarrow> trim (hd (split_on '','' [] s))))"

text \<open>\<open>data.device_type.as_deref().and_then(|s| s.parse().ok()).unwrap_or(d)\<close>.\<close>

definition device_type_or :: "int \<Rightarrow> connect_data \<Rightarrow> int" where
  "device_type_or d data = opt_default d
     (case cx_device_type data of None \<Rightarrow> None | Some s \<Rightarrow> parse_i32 s)"

section \<open>Before the login\<close>

definition prelogin :: "env \<Rightarrow> string \<Rightarrow> response act" where
  "prelogin env email = do {
     r \<leftarrow> user_find_by_email env (to_lowercase (trim email));
     let (kdf_type, kdf_iter, kdf_mem, kdf_para) = (case r of
         Inr (Some u) \<Rightarrow> (us_client_kdf_type u, us_client_kdf_iter u, us_client_kdf_memory u,
                          us_client_kdf_parallelism u)
       | _ \<Rightarrow> (0, 600000, None, None));
     return (json_response 200 (JObj [(''kdf'', JInt kdf_type), (''kdfIterations'', JInt kdf_iter),
       (''kdfMemory'', jopt_int kdf_mem), (''kdfParallelism'', jopt_int kdf_para)])) }"

record register_verification_data =
  vd_email :: string
  vd_name :: "string option"

definition register_verify_claims_to_json :: "register_verify_claims \<Rightarrow> json" where
  "register_verify_claims_to_json c = JObj [
     (''nbf'', JInt (rv_nbf c)), (''exp'', JInt (rv_exp c)), (''iss'', JStr (rv_iss c)),
     (''sub'', JStr (rv_sub c)), (''name'', jopt (rv_name c)), (''verified'', JBool (rv_verified c))]"

definition register_verify_claims_of_json :: "json \<Rightarrow> register_verify_claims option" where
  "register_verify_claims_of_json j =
     (case (as_int (json_get ''nbf'' j), as_int (json_get ''exp'' j), as_str (json_get ''iss'' j),
            as_str (json_get ''sub'' j), opt_str_member ''name'' j, as_bool (json_get ''verified'' j)) of
        (Some nbf, Some expiry, Some iss, Some sub, Some name, Some verified) \<Rightarrow>
          Some \<lparr>rv_nbf = nbf, rv_exp = expiry, rv_iss = iss, rv_sub = sub, rv_name = name,
            rv_verified = verified\<rparr>
      | _ \<Rightarrow> None)"

definition register_send_verification_email ::
  "env \<Rightarrow> (string \<Rightarrow> string option) \<Rightarrow> register_verification_data \<Rightarrow> response act" where
  "register_send_verification_email env headers body = do {
     ok \<leftarrow> ratelimit_check env REGISTER_LIMIT (client_ip headers);
     if \<not> ok then return (error_response 429 ''rate_limited'' ''Too many signup attempts'')
     else
       let email = to_lowercase (trim (vd_email body)); mail_enabled = \<not> e_mail_log env in
       if email = [] then return (error_response 400 ''invalid_request'' ''email is required'')
       else do {
         claims \<leftarrow> register_verify_claims_new env email (vd_name body) mail_enabled;
         case e_jwt_encode env (register_verify_claims_to_json claims) of
           Inl _ \<Rightarrow> return (error_response 500 ''server_error'' ''jwt encode failed'')
         | Inr token \<Rightarrow>
           if mail_enabled then
             let domain = opt_default [] (e_vars env ''DOMAIN'');
                 link = domain @ ''/#/finish-signup?token='' @ token @ ''&email='' @ email in
             try_ret (mail_send env
                 \<lparr>mm_from_email = fst (e_mail_from env), mm_from_name = snd (e_mail_from env),
                  mm_to = email, mm_subject = ''Verify your Vaultwarden email'',
                  mm_text = ''Verify your email address to finish creating your Vaultwarden account.''
                    @ [CHR 0x0A, CHR 0x0A] @ link @ [CHR 0x0A, CHR 0x0A]
                    @ ''If you did not request this, ignore this email.'',
                  mm_html = None\<rparr>)
               (\<lambda>_. error_response 500 ''server_error'' ''Failed to send verification email'')
               (\<lambda>_. return (json_response 200 JNull))
           else return (json_response 200 (JStr token)) } }"

section \<open>Registration\<close>

record key_pair =
  kp_public_key :: string
  kp_encrypted_private_key :: string

record register_finish_data =
  rf_email :: string
  rf_name :: "string option"
  rf_email_verification_token :: "string option"
  rf_master_password_hash :: string
  rf_master_password_hint :: "string option"
  rf_user_symmetric_key :: string
  rf_user_asymmetric_keys :: "key_pair option"
  rf_kdf :: "int option"
  rf_kdf_iterations :: "int option"
  rf_kdf_memory :: "int option"
  rf_kdf_parallelism :: "int option"

text \<open>The token of the link, when one is sent: it is for this address.\<close>

definition check_verification_token ::
  "env \<Rightarrow> register_finish_data \<Rightarrow> string \<Rightarrow> (world, response + unit) state" where
  "check_verification_token env body email =
     (case non_empty (rf_email_verification_token body) of
        None \<Rightarrow> return (Inr ())
      | Some tok \<Rightarrow>
          try_ret (jwt_decode env register_verify_claims_of_json tok (register_verify_issuer env))
            (\<lambda>_. Inl (error_response 400 ''invalid_grant'' ''Invalid or expired verification token''))
            (\<lambda>claims. return (
               if to_lowercase (rv_sub claims) \<noteq> email
               then Inl (error_response 400 ''invalid_grant'' ''Token email does not match'')
               else Inr ())))"

definition apply_registration :: "register_finish_data \<Rightarrow> user \<Rightarrow> user" where
  "apply_registration body user =
     (let iter = opt_default 600000 (rf_kdf_iterations body);
          user = user\<lparr>us_akey := rf_user_symmetric_key body,
            us_password_hint := rf_master_password_hint body,
            us_client_kdf_type := opt_default 0 (rf_kdf body), us_client_kdf_iter := iter,
            us_client_kdf_memory := rf_kdf_memory body,
            us_client_kdf_parallelism := rf_kdf_parallelism body,
            us_password_iterations := iter\<rparr> in
      case rf_user_asymmetric_keys body of
        None \<Rightarrow> user
      | Some kp \<Rightarrow> user\<lparr>us_public_key := Some (kp_public_key kp),
                      us_private_key := Some (kp_encrypted_private_key kp)\<rparr>)"

definition register_finish :: "env \<Rightarrow> register_finish_data \<Rightarrow> response act" where
  "register_finish env body =
     (let email = to_lowercase (trim (rf_email body)) in
      if email = [] then return (error_response 400 ''invalid_request'' ''email is required'')
      else try_ret (check_verification_token env body email) (\<lambda>e. e) (\<lambda>_. do {
          r \<leftarrow> user_find_by_email env email;
          case r of
            Inr (Some _) \<Rightarrow> return (error_response 400 ''invalid_grant'' ''User already exists'')
          | _ \<Rightarrow>
            if rf_master_password_hash body = []
            then return (error_response 400 ''invalid_request'' ''masterPasswordHash is required'')
            else do {
              user \<leftarrow> user_new env email (rf_name body);
              case set_password env (apply_registration body user) (rf_master_password_hash body) of
                None \<Rightarrow> return panicked
              | Some user \<Rightarrow>
                try_ret (user_save env user)
                  (\<lambda>_. error_response 500 ''server_error'' ''failed to save user'') (\<lambda>user. do {
                  let ctx = JObj [(''url'', JStr (opt_default [] (e_vars env ''DOMAIN''))),
                        (''user_name'', JStr (us_name user)), (''user_email'', JStr (us_email user))];
                  let (subject, content) = opt_default
                        (''Welcome to Vaultwarden'', ''Welcome to Vaultwarden, '' @ us_name user @ ''!'')
                        (e_render env ''email/welcome'' ctx);
                  _ \<leftarrow> mail_send env
                    \<lparr>mm_from_email = fst (e_mail_from env), mm_from_name = snd (e_mail_from env),
                     mm_to = email, mm_subject = subject, mm_text = content,
                     mm_html = map_option snd (e_render env ''email/welcome.html'' ctx)\<rparr>;
                  return (json_response 200 (JObj [(''Object'', JStr ''register''),
                    (''CaptchaBypassToken'', JNull)])) }) } }))"

section \<open>What the grants share\<close>

text \<open>The device of the login: found or created, with a fresh refresh token, and saved.\<close>

definition login_device ::
  "env \<Rightarrow> user \<Rightarrow> string \<Rightarrow> string \<Rightarrow> int \<Rightarrow> (world, response + device) state" where
  "login_device env user identifier name atype = do {
     r \<leftarrow> device_find env identifier (us_uuid user);
     case r of
       Inl _ \<Rightarrow> return (Inl (error_response 500 ''server_error'' ''database error''))
     | Inr found \<Rightarrow> do {
         device \<leftarrow> (case found of
             Some d \<Rightarrow> return d
           | None \<Rightarrow> do {
               d \<leftarrow> device_new env (us_uuid user) name atype;
               return (d\<lparr>de_uuid := identifier\<rparr>) });
         token \<leftarrow> new_uuid env;
         try_ret (device_save env (device\<lparr>de_refresh_token := token\<rparr>))
           (\<lambda>_. Inl (error_response 500 ''server_error'' ''database error''))
           (\<lambda>device. return (Inr device)) } }"

definition kdf_members :: "user \<Rightarrow> (string \<times> json) list" where
  "kdf_members user = [(''Kdf'', JInt (us_client_kdf_type user)),
     (''KdfIterations'', JInt (us_client_kdf_iter user)),
     (''KdfMemory'', jopt_int (us_client_kdf_memory user)),
     (''KdfParallelism'', jopt_int (us_client_kdf_parallelism user)),
     (''ResetMasterPassword'', JBool False), (''ForcePasswordReset'', JBool False)]"

definition key_members :: "user \<Rightarrow> (string \<times> json) list" where
  "key_members user = [(''Key'', JStr (us_akey user)), (''PrivateKey'', jopt (us_private_key user))]"

text \<open>The access token, or the error of the encoder.\<close>

definition issue_token ::
  "env \<Rightarrow> device \<Rightarrow> user \<Rightarrow> string list \<Rightarrow> string option \<Rightarrow> (world, response + string \<times> login_claims) state" where
  "issue_token env device user scope client_id = do {
     claims \<leftarrow> login_claims_new_for env device user scope client_id;
     return (case e_jwt_encode env (login_claims_to_json claims) of
         Inl _ \<Rightarrow> Inl (error_response 500 ''server_error'' ''jwt encode failed'')
       | Inr token \<Rightarrow> Inr (token, claims)) }"

section \<open>The grant for a login request\<close>

definition login_request_expired :: "env \<Rightarrow> auth_request \<Rightarrow> bool act" where
  "login_request_expired env r = do {
     now \<leftarrow> utc_now env;
     return (case e_rfc3339_micros env (ar_creation_date r) of
         None \<Rightarrow> False
       | Some created \<Rightarrow> e_micros env now - created > 15 * 60 * 1000000) }"

definition auth_request_grant :: "env \<Rightarrow> connect_data \<Rightarrow> response act" where
  "auth_request_grant env data =
     (case non_empty (cx_auth_request data) of
        None \<Rightarrow> return (error_response 400 ''invalid_request'' ''authRequest is required'')
      | Some req_id \<Rightarrow>
     (case non_empty (cx_auth_request_access_code data) of
        None \<Rightarrow> return (error_response 400 ''invalid_request'' ''authRequestAccessCode is required'')
      | Some code \<Rightarrow>
     try_ret (auth_request_find_by_uuid env req_id)
       (\<lambda>_. error_response 500 ''server_error'' ''database error'') (\<lambda>found.
     case found of
       None \<Rightarrow> return (error_response 400 ''invalid_grant'' ''Auth request not found'')
     | Some r \<Rightarrow>
       if ar_access_code r \<noteq> code
       then return (error_response 400 ''invalid_grant'' ''Access code mismatch'')
       else if ar_approved r \<noteq> Some 1
       then return (error_response 400 ''invalid_grant'' ''Auth request not approved'')
       else do {
         expired \<leftarrow> login_request_expired env r;
         if expired then return (error_response 400 ''invalid_grant'' ''Auth request expired'')
         else
         try_ret (user_find_by_uuid env (ar_user_uuid r))
           (\<lambda>_. error_response 500 ''server_error'' ''database error'') (\<lambda>found.
         case found of
           None \<Rightarrow> return (error_response 400 ''invalid_grant'' ''User no longer exists'')
         | Some user \<Rightarrow>
           if us_enabled user = 0
           then return (error_response 400 ''invalid_grant'' ''User disabled'')
           else
             let device_atype = device_type_or (ar_device_type r) data;
                 scope_str = opt_default ''api offline_access'' (cx_scope data) in
             try_ret (login_device env user
                 (opt_default (ar_request_device_identifier r) (cx_device_identifier data))
                 (opt_default ''passwordless'' (cx_device_name data)) device_atype) (\<lambda>e. e) (\<lambda>device.
             try_ret (issue_token env device user (split_whitespace scope_str) (cx_client_id data))
               (\<lambda>e. e) (\<lambda>(token, claims). do {
             _ \<leftarrow> log_user_event env USER_LOGGED_IN (us_uuid user) device_atype;
             expires_in \<leftarrow> login_claims_expires_in env claims;
             return (json_response 200 (JObj ([(''access_token'', JStr token),
               (''expires_in'', JInt expires_in), (''token_type'', JStr ''Bearer''),
               (''refresh_token'', JStr (de_refresh_token device))] @ key_members user
               @ kdf_members user
               @ [(''scope'', JStr scope_str), (''unofficialServer'', JBool True)]))) }))) })))"

section \<open>The grant for an API key\<close>

definition api_key_grant :: "env \<Rightarrow> connect_data \<Rightarrow> response act" where
  "api_key_grant env data =
     (case non_empty (cx_client_id data) of
        None \<Rightarrow> return (error_response 400 ''invalid_request'' ''client_id is required'')
      | Some client_id \<Rightarrow>
     (case non_empty (cx_client_secret data) of
        None \<Rightarrow> return (error_response 400 ''invalid_request'' ''client_secret is required'')
      | Some client_secret \<Rightarrow>
     (case strip_prefix ''user.'' client_id of
        None \<Rightarrow> return (error_response 400 ''invalid_client''
                  ''Only user.{uuid} client_id is supported'')
      | Some user_uuid \<Rightarrow>
     try_ret (user_find_by_uuid env user_uuid)
       (\<lambda>_. error_response 500 ''server_error'' ''database error'') (\<lambda>found.
     case found of
       None \<Rightarrow> return (error_response 400 ''invalid_client'' ''User not found'')
     | Some user \<Rightarrow>
     (case non_empty (us_api_key user) of
        None \<Rightarrow> return (error_response 400 ''invalid_client'' ''API key not provisioned'')
      | Some api_key \<Rightarrow>
        if api_key \<noteq> client_secret
        then return (error_response 400 ''invalid_client'' ''Invalid API key'')
        else if us_enabled user = 0
        then return (error_response 400 ''invalid_grant'' ''User disabled'')
        else
          let device_atype = device_type_or 14 data;
              scope_str = opt_default ''api'' (cx_scope data) in
          try_ret (login_device env user
              (opt_default (''api-key-'' @ us_uuid user) (cx_device_identifier data))
              (opt_default ''API Key'' (cx_device_name data)) device_atype) (\<lambda>e. e) (\<lambda>device.
          try_ret (issue_token env device user (split_whitespace scope_str) (Some ''api-key''))
            (\<lambda>e. e) (\<lambda>(token, claims). do {
          _ \<leftarrow> log_user_event env USER_LOGGED_IN (us_uuid user) device_atype;
          expires_in \<leftarrow> login_claims_expires_in env claims;
          return (json_response 200 (JObj ([(''access_token'', JStr token),
            (''expires_in'', JInt expires_in), (''token_type'', JStr ''Bearer'')] @ key_members user
            @ kdf_members user
            @ [(''scope'', JStr scope_str), (''unofficialServer'', JBool True)]))) })))))))"

section \<open>The refresh\<close>

definition refresh_grant :: "env \<Rightarrow> connect_data \<Rightarrow> response act" where
  "refresh_grant env data =
     (case non_empty (cx_refresh_token data) of
        None \<Rightarrow> return (error_response 400 ''invalid_request'' ''refresh_token is required'')
      | Some refresh_token \<Rightarrow>
     try_ret (device_find_by_refresh_token env refresh_token)
       (\<lambda>_. error_response 500 ''server_error'' ''database error'') (\<lambda>found.
     case found of
       None \<Rightarrow> return (error_response 400 ''invalid_grant'' ''refresh_token is invalid'')
     | Some device \<Rightarrow>
     try_ret (user_find_by_uuid env (de_user_uuid device))
       (\<lambda>_. error_response 500 ''server_error'' ''database error'') (\<lambda>found.
     case found of
       None \<Rightarrow> return (error_response 400 ''invalid_grant'' ''user no longer exists'')
     | Some user \<Rightarrow>
       if us_enabled user = 0
       then return (error_response 400 ''invalid_grant'' ''user disabled'')
       else do {
         fresh \<leftarrow> new_uuid env;
         try_ret (device_save env (device\<lparr>de_refresh_token := fresh\<rparr>))
           (\<lambda>_. error_response 500 ''server_error'' ''database error'') (\<lambda>device.
         try_ret (issue_token env device user [''api'', ''offline_access''] (cx_client_id data))
           (\<lambda>e. e) (\<lambda>(token, claims). do {
         expires_in \<leftarrow> login_claims_expires_in env claims;
         return (json_response 200 (JObj ([(''access_token'', JStr token),
           (''expires_in'', JInt expires_in), (''token_type'', JStr ''Bearer''),
           (''refresh_token'', JStr (de_refresh_token device)),
           (''scope'', JStr ''api offline_access'')] @ key_members user @ kdf_members user
           @ [(''unofficialServer'', JBool True)]))) })) })))"

section \<open>The password grant\<close>

definition two_factor_required_response :: "int list \<Rightarrow> response" where
  "two_factor_required_response providers = json_response 400 (JObj [
     (''error'', JStr ''invalid_grant''), (''error_description'', JStr ''Two factor required.''),
     (''TwoFactorProviders'', JArr (map (\<lambda>p. JStr (int_to_string p)) providers)),
     (''TwoFactorProviders2'',
        foldl (\<lambda>j p. json_insert (int_to_string p) JNull j) (JObj []) providers),
     (''MasterPasswordPolicy'', JObj [(''Object'', JStr ''masterPasswordPolicy'')]),
     (''ErrorModel'', JObj [(''Message'', JStr ''Two-factor code required'')])])"

lemma resp_status_two_factor_required [simp]:
  "resp_status (two_factor_required_response providers) = 400"
  by (simp add: two_factor_required_response_def)

definition active_factors :: "two_factor list \<Rightarrow> two_factor list" where
  "active_factors factors = filter (\<lambda>f. tf_enabled f = 1 \<and> tf_atype f < 1000) factors"

text \<open>A token of an earlier login on this device, sent in place of a code.\<close>

definition remember_skip :: "env \<Rightarrow> connect_data \<Rightarrow> user \<Rightarrow> bool act" where
  "remember_skip env data user =
     (let device_id = opt_default [] (cx_device_identifier data) in
      case cx_two_factor_token data of
        Some t \<Rightarrow>
          if device_id \<noteq> [] \<and> cx_two_factor_provider data = Some TWOFACTOR_TYPE_REMEMBER
          then check_remember_token env (us_uuid user) device_id t
          else return False
      | None \<Rightarrow> return False)"

text \<open>The check of each kind of factor; \<open>None\<close> is a panic.\<close>

definition verify_factor :: "env \<Rightarrow> user \<Rightarrow> int \<Rightarrow> two_factor \<Rightarrow> string \<Rightarrow> bool option act" where
  "verify_factor env user provider_id factor token =
     (if provider_id = TWOFACTOR_TYPE_AUTHENTICATOR
      then do { ok \<leftarrow> verify_totp env (tf_data factor) (trim token); return (Some ok) }
      else if provider_id = TWOFACTOR_TYPE_EMAIL
      then do { ok \<leftarrow> verify_email_login_code env (us_uuid user) (trim token); return (Some ok) }
      else if provider_id = 3 then verify_yubikey_login_code env (us_uuid user) (trim token)
      else if provider_id = 7
      then do { ok \<leftarrow> verify_webauthn_login env (us_uuid user) (trim token); return (Some ok) }
      else return (Some False))"

definition note_incomplete :: "env \<Rightarrow> connect_data \<Rightarrow> user \<Rightarrow> unit act" where
  "note_incomplete env data user =
     (let device_id = opt_default [] (cx_device_identifier data) in
      if device_id = [] then return ()
      else do {
        row \<leftarrow> two_factor_incomplete_new env (us_uuid user) device_id
          (opt_default ''unknown'' (cx_device_name data)) [] (device_type_or 14 data);
        ignore (two_factor_incomplete_save env row) })"

definition clear_incomplete :: "env \<Rightarrow> connect_data \<Rightarrow> user \<Rightarrow> unit act" where
  "clear_incomplete env data user =
     (let device_id = opt_default [] (cx_device_identifier data) in
      if device_id = [] then return ()
      else do {
        r \<leftarrow> two_factor_incomplete_find env (us_uuid user) device_id;
        case r of
          Inr (Some row) \<Rightarrow> ignore (two_factor_incomplete_delete env row)
        | _ \<Rightarrow> return () })"

definition challenge :: "env \<Rightarrow> connect_data \<Rightarrow> user \<Rightarrow> two_factor list \<Rightarrow> (world, response + unit) state" where
  "challenge env data user active =
     (let provider_ids = map tf_atype active;
          required = Inl (two_factor_required_response provider_ids) in
      case cx_two_factor_provider data of
        None \<Rightarrow> do {
          _ \<leftarrow> (if TWOFACTOR_TYPE_EMAIL \<in> set provider_ids
               then ignore (send_login_token env (us_uuid user)) else return ());
          _ \<leftarrow> note_incomplete env data user;
          return required }
      | Some provider_id \<Rightarrow>
        if provider_id \<notin> set provider_ids then return required
        else (case non_empty (cx_two_factor_token data) of
          None \<Rightarrow> do {
            _ \<leftarrow> (if provider_id = TWOFACTOR_TYPE_EMAIL
                 then ignore (send_login_token env (us_uuid user)) else return ());
            return required }
        | Some token \<Rightarrow>
          (case find (\<lambda>f. tf_atype f = provider_id) active of
             None \<Rightarrow> return required
           | Some factor \<Rightarrow> do {
               valid \<leftarrow> verify_factor env user provider_id factor token;
               case valid of
                 None \<Rightarrow> return (Inl panicked)
               | Some False \<Rightarrow> do {
                   _ \<leftarrow> log_user_event env USER_LOGGED_IN_FAILED_2FA (us_uuid user)
                          (device_type_or 14 data);
                   return (Inl (error_response 400 ''invalid_grant'' ''Invalid two-factor code'')) }
               | Some True \<Rightarrow> do {
                   _ \<leftarrow> clear_incomplete env data user;
                   return (Inr ()) } })))"

definition second_factor :: "env \<Rightarrow> connect_data \<Rightarrow> user \<Rightarrow> (world, response + unit) state" where
  "second_factor env data user =
     try_ret (two_factor_find_by_user env (us_uuid user))
       (\<lambda>_. Inl (error_response 500 ''server_error'' ''database error'')) (\<lambda>factors.
     let active = active_factors factors in
     if active = [] then return (Inr ())
     else do {
       skip \<leftarrow> remember_skip env data user;
       if skip then return (Inr ()) else challenge env data user active })"

definition login_body ::
  "user \<Rightarrow> device \<Rightarrow> string \<Rightarrow> string \<Rightarrow> int \<Rightarrow> json" where
  "login_body user device token scope_str expires_in =
     (let has_master_password = (us_password_hash user \<noteq> []);
          master_password_unlock = (if has_master_password
            then JObj [
              (''Kdf'', JObj [(''KdfType'', JInt (us_client_kdf_type user)),
                 (''Iterations'', JInt (us_client_kdf_iter user)),
                 (''Memory'', jopt_int (us_client_kdf_memory user)),
                 (''Parallelism'', jopt_int (us_client_kdf_parallelism user))]),
              (''MasterKeyEncryptedUserKey'', JStr (us_akey user)),
              (''MasterKeyWrappedUserKey'', JStr (us_akey user)),
              (''Salt'', JStr (us_email user))]
            else JNull);
          account_keys = (if us_private_key user \<noteq> None
            then JObj [
              (''publicKeyEncryptionKeyPair'', JObj [
                 (''wrappedPrivateKey'', jopt (us_private_key user)),
                 (''publicKey'', jopt (us_public_key user)),
                 (''Object'', JStr ''publicKeyEncryptionKeyPair'')]),
              (''Object'', JStr ''privateKeys'')]
            else JNull) in
      JObj ([(''access_token'', JStr token), (''expires_in'', JInt expires_in),
        (''token_type'', JStr ''Bearer''), (''refresh_token'', JStr (de_refresh_token device)),
        (''PrivateKey'', jopt (us_private_key user))] @ kdf_members user @ [
        (''MasterPasswordPolicy'', JObj [(''Object'', JStr ''masterPasswordPolicy'')]),
        (''scope'', JStr scope_str), (''unofficialServer'', JBool True),
        (''AccountKeys'', account_keys),
        (''UserDecryptionOptions'', JObj [(''HasMasterPassword'', JBool has_master_password),
           (''MasterPasswordUnlock'', master_password_unlock),
           (''Object'', JStr ''userDecryptionOptions'')])]
        @ (if us_akey user \<noteq> [] then [(''Key'', JStr (us_akey user))] else [])))"

text \<open>The token that lets the device skip the second factor the next time, when asked for.\<close>

definition remember_member ::
  "env \<Rightarrow> connect_data \<Rightarrow> user \<Rightarrow> device \<Rightarrow> json \<Rightarrow> json act" where
  "remember_member env data user device body =
     (if cx_two_factor_remember data \<noteq> Some 1 then return body
      else do {
        r \<leftarrow> two_factor_find_by_user env (us_uuid user);
        case r of
          Inl _ \<Rightarrow> return body
        | Inr factors \<Rightarrow>
          if list_ex (\<lambda>f. tf_enabled f = 1 \<and> tf_atype f < 1000 \<and>
               tf_atype f \<noteq> TWOFACTOR_TYPE_REMEMBER) factors
          then do {
            tok \<leftarrow> issue_remember_token env (us_uuid user) (de_uuid device);
            return (json_insert ''TwoFactorToken'' (JStr tok) body) }
          else return body })"

definition complete_login :: "env \<Rightarrow> connect_data \<Rightarrow> user \<Rightarrow> string \<Rightarrow> response act" where
  "complete_login env data user scope_str = do {
     identifier \<leftarrow> (case cx_device_identifier data of
         Some i \<Rightarrow> return i | None \<Rightarrow> new_uuid env);
     let device_atype = device_type_or 14 data;
     try_ret (login_device env user identifier (opt_default ''unknown'' (cx_device_name data))
         device_atype) (\<lambda>e. e) (\<lambda>device.
     try_ret (issue_token env device user (split_whitespace scope_str) (cx_client_id data))
       (\<lambda>e. e) (\<lambda>(token, claims). do {
     _ \<leftarrow> log_user_event env USER_LOGGED_IN (us_uuid user) device_atype;
     expires_in \<leftarrow> login_claims_expires_in env claims;
     body \<leftarrow> remember_member env data user device (login_body user device token scope_str expires_in);
     return (json_response 200 body) })) }"

definition password_grant :: "env \<Rightarrow> connect_data \<Rightarrow> response act" where
  "password_grant env data =
     (let scope_str = opt_default [] (cx_scope data); scope_vec = split_whitespace scope_str in
      if ''api'' \<notin> set scope_vec \<or> ''offline_access'' \<notin> set scope_vec
      then return (error_response 400 ''invalid_scope''
             (''Scope must include both '' @ [CHR 0x27] @ ''api'' @ [CHR 0x27] @ '' and '' @ [CHR 0x27]
              @ ''offline_access'' @ [CHR 0x27] @ ''.''))
      else case map_option trim (cx_username data) of
        None \<Rightarrow> return (error_response 400 ''invalid_request'' ''username is required'')
      | Some username \<Rightarrow>
      (case cx_password data of
        None \<Rightarrow> return (error_response 400 ''invalid_request'' ''password is required'')
      | Some password \<Rightarrow>
      try_ret (user_find_by_email env username)
        (\<lambda>_. error_response 500 ''server_error'' ''database error'') (\<lambda>found.
      case found of
        None \<Rightarrow> return (error_response 400 ''invalid_grant''
                  ''Username or password is incorrect. Try again'')
      | Some user \<Rightarrow>
        if us_enabled user = 0
        then return (error_response 400 ''invalid_grant'' ''This user has been disabled'')
        else (case check_valid_password env user password of
          None \<Rightarrow> return panicked
        | Some False \<Rightarrow> do {
            _ \<leftarrow> log_user_event env USER_LOGGED_IN_FAILED (us_uuid user) (device_type_or 14 data);
            return (error_response 400 ''invalid_grant''
              ''Username or password is incorrect. Try again'') }
        | Some True \<Rightarrow>
            try_ret (second_factor env data user) (\<lambda>e. e) (\<lambda>_.
            complete_login env data user scope_str)))))"

section \<open>The endpoint\<close>

definition connect_token ::
  "env \<Rightarrow> (string \<Rightarrow> string option) \<Rightarrow> connect_data \<Rightarrow> response act" where
  "connect_token env headers data = do {
     ok \<leftarrow> ratelimit_check env LOGIN_LIMIT (client_ip headers);
     if \<not> ok then return (error_response 429 ''rate_limited'' ''Too many login attempts'')
     else if cx_grant_type data = ''password'' then password_grant env data
     else if cx_grant_type data = ''refresh_token'' then refresh_grant env data
     else if cx_grant_type data = ''authorization_code'' \<or> cx_grant_type data = ''auth_request''
     then auth_request_grant env data
     else if cx_grant_type data = ''client_credentials'' then api_key_grant env data
     else return (error_response 400 ''unsupported_grant_type''
       ''Only password, refresh_token, auth_request, and client_credentials grant types are supported.'') }"

text \<open>The scope that the clients send.\<close>

lemma sample_scope [simp]: "split_whitespace ''api offline_access'' = [''api'', ''offline_access'']"
  by code_simp

end
