(* ===== verification/Login_Safety.thy ===== *)
theory Login_Safety
  imports Identity "HOL-Library.Countable"
begin

text \<open>
  What a successful login proves.  The specification is stated on the tables: which rows make a
  second factor count as given.  The handlers are shown to answer with success only then, and
  to do so when nothing stands in the way.
\<close>

section \<open>Second factors, abstractly\<close>

definition factors_of :: "db \<Rightarrow> user \<Rightarrow> two_factor list" where
  "factors_of d u = filter (\<lambda>f. tf_user_uuid f = us_uuid u) (t_twofactor d)"

definition remembered :: "db \<Rightarrow> connect_data \<Rightarrow> user \<Rightarrow> bool" where
  "remembered d data u \<longleftrightarrow> (\<exists>device token. cx_device_identifier data = Some device \<and>
     cx_two_factor_token data = Some token \<and> split_once_prefix (CHR '':'') token = Some device \<and>
     (\<exists>f\<in>set (factors_of d u). tf_atype f = TWOFACTOR_TYPE_REMEMBER \<and> tf_data f = token))"

definition totp_proof :: "env \<Rightarrow> two_factor \<Rightarrow> string \<Rightarrow> bool" where
  "totp_proof env f code \<longleftrightarrow>
     (\<exists>n. \<exists>t\<in>set (totp_times (e_unix env n)). totp_at env (tf_data f) t = Some code)"

definition email_proof :: "env \<Rightarrow> db \<Rightarrow> user \<Rightarrow> string \<Rightarrow> bool" where
  "email_proof env d u code \<longleftrightarrow> (\<exists>f\<in>set (factors_of d u). tf_atype f = TWOFACTOR_TYPE_EMAIL \<and>
     (\<exists>data n. email_token_from_json env (tf_data f) = Some data \<and> et_last_token data = Some code \<and>
        int (e_unix env n) - et_token_sent data \<le> EMAIL_TOKEN_TTL_SECS))"

definition yubico_said_ok :: "env \<Rightarrow> bool" where
  "yubico_said_ok env \<longleftrightarrow> yubico_credentials env \<noteq> None \<and>
     (\<exists>n url body. e_http_get env n url = Inr body \<and>
        ''status=OK'' \<in> trim ` set (split_on [CHR 0x0A] [] body))"

definition yubikey_proof :: "env \<Rightarrow> db \<Rightarrow> user \<Rightarrow> string \<Rightarrow> bool" where
  "yubikey_proof env d u code \<longleftrightarrow> length code = 44 \<and> yubico_said_ok env \<and>
     (\<exists>f\<in>set (factors_of d u). tf_atype f = TWOFACTOR_TYPE_YUBIKEY \<and>
        (\<exists>meta. yubikey_parse env (tf_data f) = Some meta \<and> take 12 code \<in> set (yk_keys meta)))"

definition webauthn_proof :: "env \<Rightarrow> db \<Rightarrow> user \<Rightarrow> string \<Rightarrow> bool" where
  "webauthn_proof env d u code \<longleftrightarrow>
     (\<exists>f\<in>set (factors_of d u). tf_atype f = TWOFACTOR_TYPE_WEBAUTHN \<and>
        (\<exists>c\<in>set (parse_registrations env (tf_data f)). \<exists>j. e_json_parse env code = Some j \<and>
           credential_id j \<noteq> None \<and> credential_id j = credential_id (wr_credential c)))"

definition factor_proof :: "env \<Rightarrow> db \<Rightarrow> user \<Rightarrow> two_factor \<Rightarrow> string \<Rightarrow> bool" where
  "factor_proof env d u f code \<longleftrightarrow>
     tf_atype f = TWOFACTOR_TYPE_AUTHENTICATOR \<and> totp_proof env f code \<or>
     tf_atype f = TWOFACTOR_TYPE_EMAIL \<and> email_proof env d u code \<or>
     tf_atype f = TWOFACTOR_TYPE_YUBIKEY \<and> yubikey_proof env d u code \<or>
     tf_atype f = TWOFACTOR_TYPE_WEBAUTHN \<and> webauthn_proof env d u code"

definition second_factor_given :: "env \<Rightarrow> db \<Rightarrow> connect_data \<Rightarrow> user \<Rightarrow> bool" where
  "second_factor_given env d data u \<longleftrightarrow>
     active_factors (factors_of d u) = [] \<or> remembered d data u \<or>
     (\<exists>f\<in>set (active_factors (factors_of d u)). \<exists>token.
        cx_two_factor_provider data = Some (tf_atype f) \<and> cx_two_factor_token data = Some token \<and>
        factor_proof env d u f (trim token))"

section \<open>The checks\<close>

lemmas factor_queries = two_factor_find_by_user_and_type_def two_factor_find_by_user_def

lemma trim_trim [simp]: "trim (trim s) = trim s"
proof -
  have *: "dropWhile P (rev (dropWhile P (rev xs))) = rev (dropWhile P (rev xs))"
    if "dropWhile P xs = xs" for P and xs :: string
  proof (cases xs)
    case (Cons x ys)
    with that have "\<not> P x"
      using length_dropWhile_le [of P ys] by (auto split: if_splits)
    with Cons show ?thesis
      by (simp add: dropWhile_append dropWhile_eq_self_iff)
  qed simp
  show ?thesis
    by (simp add: trim_def *)
qed

lemma factor_row:
  "find (\<lambda>f. tf_user_uuid f = us_uuid u \<and> tf_atype f = ty) (t_twofactor d) = Some f \<Longrightarrow>
     f \<in> set (factors_of d u) \<and> tf_atype f = ty"
  by (auto simp: factors_of_def dest!: find_SomeD)

lemma wp_verify_totp:
  "wp (verify_totp env (tf_data f) code) (\<lambda>ok _. ok \<longrightarrow> totp_proof env f code) s"
  by (auto simp: verify_totp_def wp_rules totp_proof_def list_ex_iff)

lemma email_proofI:
  assumes "f \<in> set (factors_of d u)" "tf_atype f = TWOFACTOR_TYPE_EMAIL"
    "email_token_from_json env (tf_data f) = Some data" "et_last_token data = Some code"
    "int (e_unix env n) - et_token_sent data \<le> EMAIL_TOKEN_TTL_SECS"
  shows "email_proof env d u code"
  using assms unfolding email_proof_def by blast

lemma wp_verify_email:
  "wp (verify_email_login_code env (us_uuid u) code)
     (\<lambda>ok _. ok \<longrightarrow> email_proof env (w_db s) u (trim code)) s"
  unfolding verify_email_login_code_def factor_queries
  by (auto simp: wp_rules email_token_expired_def now_ts_def two_factor_save_def Let_def not_less
      split: option.splits dest!: factor_row intro: email_proofI)

lemma wp_yubikey_otp:
  "wp (verify_yubikey_otp env otp) (\<lambda>r s'. w_db s' = w_db s \<and> (r = Inr () \<longrightarrow> yubico_said_ok env)) s"
proof -
  have "yubico_said_ok env" if "yubico_credentials env = Some c" "e_http_get env n url = Inr body"
    "line \<in> set (split_on [CHR 0x0A] [] body)" "trim line = ''status=OK''" for c n url body line
    using that unfolding yubico_said_ok_def by (metis imageI option.discI)
  then show ?thesis
    unfolding verify_yubikey_otp_def Let_def
    by (auto simp: wp_rules list_ex_iff split: option.splits sum.splits)
qed

lemma wp_verify_yubikey:
  "wp (verify_yubikey_login_code env (us_uuid u) code)
     (\<lambda>ok _. ok = Some True \<longrightarrow> yubikey_proof env (w_db s) u code) s"
proof -
  have "yubikey_proof env (w_db s) u code" if "length code = 44" "yubico_said_ok env"
    "f \<in> set (factors_of (w_db s) u)" "tf_atype f = TWOFACTOR_TYPE_YUBIKEY"
    "yubikey_parse env (tf_data f) = Some meta" "take 12 code \<in> set (yk_keys meta)" for f meta
    using that unfolding yubikey_proof_def by blast
  then show ?thesis
    unfolding verify_yubikey_login_code_def factor_queries
    by (auto simp: wp_rules Let_def str_get_to_def
        split: option.splits sum.splits if_splits dest!: factor_row
        intro!: wp_mono [OF wp_yubikey_otp])
qed

lemma wp_verify_webauthn:
  "wp (verify_webauthn_login env (us_uuid u) code)
     (\<lambda>ok _. ok \<longrightarrow> webauthn_proof env (w_db s) u code) s"
proof -
  have "webauthn_proof env (w_db s) u code" if "f \<in> set (factors_of (w_db s) u)"
    "tf_atype f = TWOFACTOR_TYPE_WEBAUTHN" "c \<in> set (parse_registrations env (tf_data f))"
    "e_json_parse env code = Some j" "credential_id j = Some i"
    "credential_id (wr_credential c) = Some i" for f c j i
    using that unfolding webauthn_proof_def by (metis option.discI)
  then show ?thesis
    unfolding verify_webauthn_login_def factor_queries
    by (auto simp: wp_rules Let_def list_ex_iff split: option.splits dest!: factor_row)
qed

lemma wp_verify_factor:
  assumes "tf_atype f = p"
  shows "wp (verify_factor env u p f token)
     (\<lambda>ok _. ok = Some True \<longrightarrow> factor_proof env (w_db s) u f (trim token)) s"
  using assms wp_verify_email [of env u "trim token" s]
  by (auto simp: verify_factor_def factor_proof_def factor_types
      intro!: wp_mono [OF wp_verify_totp] wp_mono [OF wp_verify_yubikey] wp_mono [OF wp_verify_webauthn]
      elim!: wp_mono)

lemma wp_remember_skip:
  "wp (remember_skip env data u) (\<lambda>skip s'. w_db s' = w_db s \<and> (skip \<longrightarrow> remembered (w_db s) data u)) s"
  by (auto simp: remember_skip_def check_remember_token_def factor_queries opt_default_def wp_rules
      remembered_def factors_of_def list_ex_iff split: option.splits if_splits)

lemma wp_challenge:
  assumes "set active \<subseteq> set (active_factors (factors_of (w_db s) u))"
  shows "wp (challenge env data u active)
     (\<lambda>r _. case r of Inl e \<Rightarrow> 400 \<le> resp_status e | Inr _ \<Rightarrow> second_factor_given env (w_db s) data u) s"
proof -
  have "second_factor_given env (w_db s) data u"
    if "f \<in> set active" "cx_two_factor_provider data = Some (tf_atype f)"
      "cx_two_factor_token data = Some token" "factor_proof env (w_db s) u f (trim token)" for f token
    using that assms unfolding second_factor_given_def by blast
  then show ?thesis
    unfolding challenge_def Let_def
    by (auto simp: wp_rules non_empty_def panicked_def split: option.splits bool.splits if_splits
        dest!: find_SomeD intro!: wp_mono [OF wp_verify_factor])
qed

lemma wp_second_factor:
  "wp (second_factor env data u) (\<lambda>r _. case r of Inl e \<Rightarrow> 400 \<le> resp_status e | Inr _ \<Rightarrow> second_factor_given env (w_db s) data u) s"
proof -
  let ?s = "bump s"
  have "wp (challenge env data u (active_factors (factors_of (w_db s) u)))
      (\<lambda>r _. case r of Inl e \<Rightarrow> 400 \<le> resp_status e | Inr _ \<Rightarrow> second_factor_given env (w_db s) data u) s'" if "w_db s' = w_db s" for s'
    using wp_challenge [of "active_factors (factors_of (w_db s) u)" s' u env data,
        unfolded that, OF order.refl] .
  then show ?thesis
    by (auto simp: second_factor_def factor_queries wp_rules Let_def second_factor_given_def
        factors_of_def [symmetric] intro!: wp_mono [OF wp_remember_skip])
qed

section \<open>The password grant\<close>

definition login_allowed :: "env \<Rightarrow> db \<Rightarrow> connect_data \<Rightarrow> bool" where
  "login_allowed env d data \<longleftrightarrow> (\<exists>u\<in>set (t_users d). \<exists>username password.
     cx_username data = Some username \<and> us_email u = to_lowercase (trim username) \<and>
     us_enabled u \<noteq> 0 \<and> cx_password data = Some password \<and>
     check_valid_password env u password = Some True \<and> second_factor_given env d data u)"

lemma wp_password_grant:
  "wp (password_grant env data) (\<lambda>resp _. resp_status resp = 200 \<longrightarrow> login_allowed env (w_db s) data) s"
proof -
  have allowed: "login_allowed env (w_db s) data" if "u \<in> set (t_users (w_db s))"
    "cx_username data = Some n" "us_email u = to_lowercase (trim n)" "us_enabled u \<noteq> 0"
    "cx_password data = Some p" "check_valid_password env u p = Some True"
    "second_factor_given env (w_db s) data u" for u n p
    using that unfolding login_allowed_def by blast
  have sf: "wp (second_factor env data u) (case_sum (\<lambda>e _. resp_status e = 200 \<longrightarrow> L) K) (bump s)"
    if "\<And>x s'. second_factor_given env (w_db s) data u \<Longrightarrow> K x s'" for u K L
    using wp_second_factor [of env data u "bump s"] that
    by (auto elim!: wp_mono split: sum.splits)
  have any: "wp m (\<lambda>resp _. resp_status resp = 200 \<longrightarrow> L) s'" if L for m L and s' :: world
    using that by simp
  show ?thesis
    unfolding password_grant_def Let_def user_find_by_email_def
    by (auto simp: wp_rules panicked_def split: option.splits bool.splits
        dest!: find_SomeD intro!: sf any intro: allowed)
qed

section \<open>Nothing stands in the way\<close>

lemma fk_ok_device_upsert:
  assumes "fk_ok d" "de_user_uuid x \<in> us_uuid ` set (t_users d)"
  shows "fk_ok (d\<lparr>t_devices := upsert device_key device_conflict x (t_devices d)\<rparr>)"
  using assms by (auto simp: fk_defs refers_def set_upsert device_conflict_def image_iff)

text \<open>The device of a login is there afterwards, under the identifier that was asked for.\<close>

lemma wp_login_device:
  assumes nf: "\<And>n. \<not> e_fault env n" and fk: "e_fk env \<longrightarrow> fk_ok (w_db s)"
    and u: "u \<in> set (t_users (w_db s))"
    and Q: "\<And>x ds s'. w_db s' = (w_db s)\<lparr>t_devices := ds\<rparr> \<Longrightarrow> w_tick s \<le> w_tick s' \<Longrightarrow> de_uuid x = i \<Longrightarrow>
              (\<exists>y. find (\<lambda>y. de_uuid y = i \<and> de_user_uuid y = us_uuid u) ds = Some y) \<Longrightarrow> Q (Inr x) s'"
  shows "wp (login_device env u i n a) Q s"
proof -
  have key: "(\<lambda>y. de_uuid y = i \<and> de_user_uuid y = us_uuid u) = (\<lambda>y. device_key y = (i, us_uuid u))"
    by (auto simp: device_key_def)
  have save: "wp (device_save env x) (\<lambda>r. case r of Inl _ \<Rightarrow> Q' | Inr y \<Rightarrow> Q (Inr y)) s'"
    if "w_db s' = w_db s" "w_tick s \<le> w_tick s'" "device_key x = (i, us_uuid u)" for x s' Q'
  proof -
    let ?x = "x\<lparr>de_updated_at := e_now env (w_tick s')\<rparr>"
    let ?ds = "upsert device_key device_conflict ?x (t_devices (w_db s))"
    have k: "device_key ?x = (i, us_uuid u)" using that(3) by (simp add: device_key_def)
    have "e_fk env \<longrightarrow> fk_ok ((w_db s)\<lparr>t_devices := ?ds\<rparr>)"
      using fk u that(3) by (auto intro!: fk_ok_device_upsert simp: device_key_def)
    moreover have "Q (Inr ?x) s2"
      if "w_db s2 = (w_db s)\<lparr>t_devices := ?ds\<rparr>" "w_tick s \<le> w_tick s2" for s2
      by (rule Q [OF that]) (use k kt_devices.find_upsert_same [of ?x "t_devices (w_db s)"] in
          \<open>simp_all add: key, simp add: device_key_def\<close>)
    ultimately show ?thesis
      using that(1,2) nf by (simp add: device_save_def wp_rules Let_def)
  qed
  show ?thesis
    using nf unfolding login_device_def device_find_def device_new_def
    by (auto simp: wp_rules key split: option.splits intro!: save dest!: find_SomeD)
       (auto simp: device_key_def)
qed

text \<open>
  The codec of the tokens: what it encodes it decodes again, under the issuer of the claims and
  until they expire.  Nothing is said of a token after its expiry or under another issuer.
\<close>

definition jwt_codec :: "env \<Rightarrow> bool" where
  "jwt_codec env \<longleftrightarrow> (\<forall>c. \<exists>t. e_jwt_encode env (login_claims_to_json c) = Inr t \<and>
     (\<forall>now. int now \<le> lc_exp c \<longrightarrow> e_jwt_decode env now t (lc_iss c) = Inr (login_claims_to_json c)))"

text \<open>A token of this user on this device that is good for an hour from \<open>t0\<close>.\<close>

definition good_token :: "env \<Rightarrow> user \<Rightarrow> string \<Rightarrow> nat \<Rightarrow> string \<Rightarrow> bool" where
  "good_token env u i t0 token \<longleftrightarrow> (\<exists>c. lc_sub c = us_uuid u \<and> lc_device c = i \<and>
     lc_sstamp c = us_security_stamp u \<and>
     (\<forall>now. now \<le> t0 + 3600 \<longrightarrow>
       jwt_check env now login_claims_of_json token (e_login_issuer env) = Inr c))"

lemma good_token_mono:
  assumes "good_token env u i t1 token" "t0 \<le> t1"
  shows "good_token env u i t0 token"
proof -
  have "now \<le> t1 + 3600" if "now \<le> t0 + 3600" for now using that assms(2) by simp
  with assms(1) show ?thesis unfolding good_token_def by blast
qed

lemma wp_issue_token:
  assumes "jwt_codec env"
    and "\<And>t c s'. w_db s' = w_db s \<Longrightarrow> w_tick s \<le> w_tick s' \<Longrightarrow>
           good_token env u (de_uuid x) (e_unix env (w_tick s)) t \<Longrightarrow> Q (Inr (t, c)) s'"
  shows "wp (issue_token env x u scope client) Q s"
proof -
  obtain enc where enc: "e_jwt_encode env (login_claims_to_json c) = Inr (enc c)"
    and dec: "int now \<le> lc_exp c \<Longrightarrow> e_jwt_decode env now (enc c) (lc_iss c) = Inr (login_claims_to_json c)" for c now
    using assms(1) unfolding jwt_codec_def by metis
  have good: "good_token env u (de_uuid x) t0 (enc c)"
    if "lc_sub c = us_uuid u" "lc_device c = de_uuid x" "lc_sstamp c = us_security_stamp u"
      "lc_iss c = e_login_issuer env" "lc_exp c = int t0 + 3600" for c t0
    unfolding good_token_def
    by (rule exI [of _ c]) (use that dec [of _ c] in \<open>auto simp: jwt_check_def login_claims_roundtrip\<close>)
  show ?thesis
    unfolding issue_token_def login_claims_new_for_def
    by (auto simp: wp_rules enc DEFAULT_ACCESS_VALIDITY_SECS_def intro!: assms(2) good)
qed

definition guard_accepts :: "env \<Rightarrow> string \<Rightarrow> user \<Rightarrow> world \<Rightarrow> bool" where
  "guard_accepts env token u s \<longleftrightarrow>
     (\<exists>h. fst (run_state (from_request_parts env (Some (''Bearer '' @ token))) s) = Inr h \<and> hd_user h = u)"

text \<open>
  The guard accepts the token as this user's whenever it is asked until an hour after \<open>t0\<close>, as
  long as the users and the devices are those of \<open>d\<close>.
\<close>

definition session_valid :: "env \<Rightarrow> string \<Rightarrow> user \<Rightarrow> nat \<Rightarrow> db \<Rightarrow> bool" where
  "session_valid env token u t0 d \<longleftrightarrow>
     (\<forall>s. t_users (w_db s) = t_users d \<longrightarrow> t_devices (w_db s) = t_devices d \<longrightarrow>
        e_unix env (w_tick s) \<le> t0 + 3600 \<longrightarrow> guard_accepts env token u s)"

lemma session_valid_mono: "session_valid env t u t1 d \<Longrightarrow> t0 \<le> t1 \<Longrightarrow> session_valid env t u t0 d"
  by (auto simp: session_valid_def)

lemma session_validI:
  assumes "\<And>n. \<not> e_fault env n" and "find (\<lambda>x. us_uuid x = us_uuid u) (t_users d) = Some u"
    and "us_enabled u \<noteq> 0" and "good_token env u i t0 t"
    and "find (\<lambda>y. de_uuid y = i \<and> de_user_uuid y = us_uuid u) (t_devices d) \<noteq> None"
  shows "session_valid env t u t0 d"
proof -
  have "wp (from_request_parts env (Some (''Bearer '' @ t))) (\<lambda>r _. \<exists>h. r = Inr h \<and> hd_user h = u) s"
    if "t_users (w_db s) = t_users d" "t_devices (w_db s) = t_devices d" "e_unix env (w_tick s) \<le> t0 + 3600" for s
    using assms that by (auto simp: good_token_def from_request_parts_def bearer_token_def strip_prefix_def wp_rules
        user_find_by_uuid_def device_find_def)
  then show ?thesis
    unfolding session_valid_def guard_accepts_def by (simp add: wp_def split_beta)
qed

definition token_response :: "response \<Rightarrow> string \<Rightarrow> bool" where
  "token_response resp token \<longleftrightarrow>
     (\<exists>rest. resp = json_response 200 (JObj ((''access_token'', JStr token) # rest)))"

lemma wp_complete_login:
  assumes nf: "\<And>n. \<not> e_fault env n" and fk: "e_fk env \<longrightarrow> fk_ok (w_db s)" and jwt: "jwt_codec env"
    and clock: "mono (e_unix env)"
    and u: "u \<in> set (t_users (w_db s))" "distinct (map us_uuid (t_users (w_db s)))" "us_enabled u \<noteq> 0"
    and none: "active_factors (factors_of (w_db s) u) = []"
  shows "wp (complete_login env data u scope_str) (\<lambda>resp s'. \<exists>token. token_response resp token \<and>
      session_valid env token u (e_unix env (w_tick s)) (w_db s')) s"
proof -
  have find_u: "find (\<lambda>x. us_uuid x = us_uuid u) (t_users (w_db s)) = Some u"
    using u by (simp add: find_Some_iff_distinct)
  have accept: "\<exists>token. token_response (json_response 200 (login_body u x t scope_str e)) token \<and>
      session_valid env token u (e_unix env (w_tick s)) d"
    if "good_token env u i (e_unix env n) t" "w_tick s \<le> n" "t_users d = t_users (w_db s)"
      "find (\<lambda>y. de_uuid y = i \<and> de_user_uuid y = us_uuid u) (t_devices d) \<noteq> None"
    for d n t x e i
  proof -
    have "good_token env u i (e_unix env (w_tick s)) t"
      by (rule good_token_mono [OF that(1)]) (rule monoD [OF clock that(2)])
    then have "session_valid env t u (e_unix env (w_tick s)) d"
      by (intro session_validI [OF nf _ u(3)]) (use that find_u in auto)
    then show ?thesis by (auto simp: token_response_def login_body_def Let_def)
  qed
  have no_remember: "wp (remember_member env data u x body)
      (\<lambda>r s''. r = body \<and> w_db s'' = w_db s') s'"
    if "t_twofactor (w_db s') = t_twofactor (w_db s)" for x body s'
    using none nf that
    by (auto simp: remember_member_def factor_queries wp_rules list_ex_iff active_factors_def
        factors_of_def filter_empty_conv)
  show ?thesis
    unfolding complete_login_def Let_def login_claims_expires_in_def
    by (auto simp: wp_rules fk u split: option.splits
        intro!: wp_login_device [OF nf] wp_issue_token [OF jwt] wp_log_eventI wp_mono [OF no_remember] accept) auto
qed

section \<open>Codes by mail\<close>

definition factors_wf :: "env \<Rightarrow> db \<Rightarrow> bool" where
  "factors_wf env d \<longleftrightarrow> distinct (map tf_uuid (t_twofactor d)) \<and>
     distinct (map factor_slot (t_twofactor d)) \<and> (e_fk env \<longrightarrow> fk_ok d)"

definition email_row :: "db \<Rightarrow> string \<Rightarrow> two_factor option" where
  "email_row d user_uuid =
     find (\<lambda>f. tf_user_uuid f = user_uuid \<and> tf_atype f = TWOFACTOR_TYPE_EMAIL) (t_twofactor d)"

text \<open>A change of a row that keeps its key, user and type is accepted.\<close>

lemma find_map_same:
  assumes "find P t = Some f" "distinct (map key t)" "P f'" "key f' = key f"
  shows "find P (map (\<lambda>x. if key x = key f then f' else x) t) = Some f'"
  using assms
proof (induction t)
  case (Cons x t)
  show ?case
  proof (cases "P x")
    case True
    with Cons show ?thesis by simp
  next
    case False
    with Cons.prems have "f \<in> set t" by (auto dest: find_SomeD)
    with Cons.prems(2) have "key x \<noteq> key f" by auto
    with False Cons show ?thesis by simp
  qed
qed simp

lemma wp_update_email_row:
  assumes wf: "factors_wf env (w_db s)" and f: "email_row (w_db s) v = Some f"
    and fault: "e_fault env (w_tick s) \<Longrightarrow> Q (Inl D1Error) (bump s)"
    and Q: "\<And>s'. factors_wf env (w_db s') \<Longrightarrow> email_row (w_db s') v = Some (f\<lparr>tf_data := j\<rparr>) \<Longrightarrow> Q (Inr ()) s'"
  shows "wp (two_factor_save env (f\<lparr>tf_data := j\<rparr>)) Q s"
proof -
  let ?f = "f\<lparr>tf_data := j\<rparr>" and ?t = "t_twofactor (w_db s)"
  define t' where "t' = map (\<lambda>x. if tf_uuid x = tf_uuid f then ?f else x) ?t"
  have row: "f \<in> set ?t" "tf_user_uuid f = v" "tf_atype f = TWOFACTOR_TYPE_EMAIL"
    using f by (auto simp: email_row_def dest: find_SomeD)
  have same: "x = f" if "x \<in> set ?t" "tf_uuid x = tf_uuid f" for x
    using wf row(1) that by (auto simp: factors_wf_def distinct_map dest: inj_onD)
  have keys: "map g t' = map g ?t" if "g ?f = g f" for g :: "two_factor \<Rightarrow> 'k"
  proof -
    have "g (if tf_uuid x = tf_uuid f then ?f else x) = g x" if "x \<in> set ?t" for x
      using same [OF that] \<open>g ?f = g f\<close> by (cases "tf_uuid x = tf_uuid f") auto
    then show ?thesis by (simp add: t'_def)
  qed
  have up: "upsert tf_uuid two_factor_conflict ?f ?t = t'"
    using row(1) by (auto simp: upsert_def two_factor_conflict_def t'_def)
  have "tf_user_uuid ` set t' = tf_user_uuid ` set ?t"
    using arg_cong [OF keys [of tf_user_uuid], of set] by simp
  then have "fk_ok (w_db s) \<Longrightarrow> fk_ok ((w_db s)\<lparr>t_twofactor := t'\<rparr>)"
    using fk_ok_twofactor [of "w_db s" t'] fk_ok_twofactorD [of "w_db s"] by simp
  then have wf': "factors_wf env ((w_db s)\<lparr>t_twofactor := t'\<rparr>)"
    using wf keys [of tf_uuid] keys [of factor_slot] by (simp add: factors_wf_def factor_slot_def)
  have "find (\<lambda>f. tf_user_uuid f = v \<and> tf_atype f = TWOFACTOR_TYPE_EMAIL) t' = Some ?f"
    unfolding t'_def
    by (rule find_map_same) (use f wf row in \<open>simp_all add: email_row_def factors_wf_def\<close>)
  with wf' have "Q (Inr ()) (bump (s\<lparr>w_db := (w_db s)\<lparr>t_twofactor := t'\<rparr>\<rparr>))"
    by (intro Q) (simp_all add: email_row_def)
  with wf' fault show ?thesis
    by (simp add: two_factor_save_def Let_def up wp_d1_exec factors_wf_def)
qed

text \<open>\<open>serde_json\<close> reads back what it printed, for the values of the mail factor.\<close>

definition email_codec :: "env \<Rightarrow> bool" where
  "email_codec env \<longleftrightarrow> (\<forall>d. e_json_parse env (email_token_to_json env d) = Some (email_token_to_value d))"

definition token_in_range :: "email_token_data \<Rightarrow> bool" where
  "token_in_range d \<longleftrightarrow> - (2 ^ 63) \<le> et_token_sent d \<and> et_token_sent d < 2 ^ 63 \<and>
     0 \<le> et_attempts d \<and> et_attempts d < 2 ^ 32"

lemma email_token_roundtrip:
  assumes "email_codec env" "token_in_range d"
  shows "email_token_from_json env (email_token_to_json env d) = Some d"
  using assms by (simp add: email_codec_def email_token_from_json_def email_token_of_value_def
      email_token_to_value_def opt_str_member_def token_in_range_def jopt_def split: option.splits)

lemma email_token_range: "email_token_from_json env j = Some d \<Longrightarrow> token_in_range d"
  by (auto simp: email_token_from_json_def email_token_of_value_def token_in_range_def
      split: option.splits if_splits)

text \<open>How many codes the row still looks at.\<close>

definition budget_of :: "email_token_data \<Rightarrow> nat" where
  "budget_of d = (if et_last_token d = None then 0 else max 1 (nat (EMAIL_ATTEMPT_LIMIT - et_attempts d)))"

definition code_budget :: "env \<Rightarrow> db \<Rightarrow> string \<Rightarrow> nat" where
  "code_budget env d v = (case email_row d v of
     None \<Rightarrow> 0
   | Some f \<Rightarrow> (case email_token_from_json env (tf_data f) of None \<Rightarrow> 0 | Some t \<Rightarrow> budget_of t))"

lemma code_budget_le: "code_budget env d v \<le> 3"
  by (auto simp: code_budget_def budget_of_def EMAIL_ATTEMPT_LIMIT_def token_in_range_def
      dest!: email_token_range split: option.splits)

text \<open>What one attempt with the outcome \<open>ok\<close> leaves of a budget, when a call failed and when none did.\<close>

definition budget_left :: "bool \<Rightarrow> bool \<Rightarrow> nat \<Rightarrow> nat" where
  "budget_left ok bad b = (if bad then b else if ok then 0 else b - 1)"

definition spends :: "env \<Rightarrow> string \<Rightarrow> world \<Rightarrow> bool \<Rightarrow> world \<Rightarrow> bool" where
  "spends env v s ok s' \<longleftrightarrow> factors_wf env (w_db s') \<and>
     code_budget env (w_db s') v \<le> budget_left ok (failed env s s') (code_budget env (w_db s) v)"

lemma spends_unchanged:
  "factors_wf env (w_db s) \<Longrightarrow> w_db s' = w_db s \<Longrightarrow>
     failed env s s' \<or> code_budget env (w_db s) v = 0 \<Longrightarrow> spends env v s ok s'"
  by (auto simp: spends_def budget_left_def)

lemma spends_update:
  assumes "email_codec env" "factors_wf env (w_db s)" "email_row (w_db s) v = Some f" "token_in_range t"
    and "budget_of t \<le> budget_left ok False (code_budget env (w_db s) v)"
  shows "wp (two_factor_save env (f\<lparr>tf_data := email_token_to_json env t\<rparr>)) (\<lambda>_. spends env v s ok) (bump (bump s))"
proof (rule wp_update_email_row)
  show "spends env v s ok (bump (bump (bump s)))" if "e_fault env (w_tick (bump (bump s)))"
    using that assms(2) by (intro spends_unchanged) (auto intro: failedI)
next
  fix s' :: world
  assume s': "factors_wf env (w_db s')" "email_row (w_db s') v = Some (f\<lparr>tf_data := email_token_to_json env t\<rparr>)"
  then have "code_budget env (w_db s') v = budget_of t"
    using assms(1,4) by (simp add: code_budget_def email_token_roundtrip)
  then show "spends env v s ok s'"
    using s'(1) assms(5) by (auto simp: spends_def budget_left_def split: if_splits)
qed (use assms in simp_all)

lemma token_ranges:
  assumes "token_in_range t"
  shows "token_in_range (email_token_reset t)"
    and "token_in_range (t\<lparr>et_attempts := min (et_attempts t + 1) (2 ^ 32 - 1)\<rparr>)"
    and "token_in_range (email_token_reset (t\<lparr>et_attempts := n\<rparr>))"
  using assms by (auto simp: token_in_range_def email_token_reset_def)

lemma budgets:
  "budget_of (email_token_reset t) = 0"
  "et_last_token t = None \<Longrightarrow> budget_of t = 0" "et_last_token t \<noteq> None \<Longrightarrow> 0 < budget_of t"
  "token_in_range t \<Longrightarrow> et_attempts t + 1 < 3 \<Longrightarrow> et_last_token t \<noteq> None \<Longrightarrow>
     budget_of (t\<lparr>et_attempts := min (et_attempts t + 1) (2 ^ 32 - 1)\<rparr>) \<le> budget_left False False (budget_of t)"
  by (auto simp: budget_of_def email_token_reset_def EMAIL_ATTEMPT_LIMIT_def token_in_range_def budget_left_def)

lemma wp_code_spends:
  assumes "email_codec env" and wf: "factors_wf env (w_db s)"
  shows "wp (verify_email_login_code env v code) (spends env v s) s"
proof -
  have idle: "spends env v s False (bump s)" if "e_fault env (w_tick s) \<or> code_budget env (w_db s) v = 0"
    using wf that by (auto intro!: spends_unchanged intro: failedI)
  consider "code_budget env (w_db s) v = 0"
      "email_row (w_db s) v = None \<or> (\<exists>f. email_row (w_db s) v = Some f \<and> email_token_from_json env (tf_data f) = None)"
    | f t where "email_row (w_db s) v = Some f" "email_token_from_json env (tf_data f) = Some t"
    by (fastforce simp: code_budget_def split: option.splits)
  then show ?thesis
  proof cases
    case 1
    then show ?thesis
      using idle by (auto simp: verify_email_login_code_def factor_queries email_row_def [symmetric] wp_rules)
  next
    case (2 f t)
    have r: "token_in_range t" by (rule email_token_range [OF 2(2)])
    have b: "code_budget env (w_db s) v = budget_of t"
      using 2 by (simp add: code_budget_def)
    note save = spends_update [OF assms 2(1)]
    show ?thesis
      using 2 r b idle token_ranges [OF r] budgets
      by (auto simp: verify_email_login_code_def factor_queries email_row_def [symmetric] wp_rules
          email_token_expired_def now_ts_def Let_def not_le EMAIL_ATTEMPT_LIMIT_def split: option.splits intro!: save)
  qed
qed

lemma wp_code_budget:
  "wp (verify_email_login_code env v code) (\<lambda>ok _. ok \<longrightarrow> 0 < code_budget env (w_db s) v) s"
  by (auto simp: verify_email_login_code_def factor_queries email_row_def [symmetric] wp_rules two_factor_save_def
      email_token_expired_def now_ts_def Let_def code_budget_def budgets split: option.splits)

text \<open>
  One login attempt after the other with a code each, and no new code sent in between: whether it
  was accepted, and whether a call failed in it.
\<close>

fun try_codes :: "env \<Rightarrow> string \<Rightarrow> string list \<Rightarrow> (bool \<times> bool) list act" where
  "try_codes env v [] = return []"
| "try_codes env v (c # cs) = do {
     r \<leftarrow> watched env (verify_email_login_code env v c);
     rs \<leftarrow> try_codes env v cs;
     return (r # rs) }"

text \<open>The outcomes that a budget allows.\<close>

fun fits :: "nat \<Rightarrow> (bool \<times> bool) list \<Rightarrow> bool" where
  "fits b [] \<longleftrightarrow> True"
| "fits b ((ok, bad) # rs) \<longleftrightarrow> (ok \<longrightarrow> 0 < b) \<and> fits (budget_left ok bad b) rs"

lemma fits_mono: "fits b rs \<Longrightarrow> b \<le> b' \<Longrightarrow> fits b' rs"
proof (induction b rs arbitrary: b' rule: fits.induct)
  case (2 b ok bad rs)
  from "2.prems" have "budget_left ok bad b \<le> budget_left ok bad b'"
    by (auto simp: budget_left_def)
  with 2 show ?case by auto
qed simp

lemma wp_try_codes:
  assumes "email_codec env"
  shows "factors_wf env (w_db s) \<Longrightarrow> wp (try_codes env v codes) (\<lambda>rs _. fits (code_budget env (w_db s) v) rs) s"
proof (induction codes arbitrary: s)
  case (Cons c cs)
  let ?b = "code_budget env (w_db s) v"
  have rest: "wp (try_codes env v cs) (\<lambda>rs _. fits ?b ((ok, failed env s s') # rs)) s'"
    if "spends env v s ok s' \<and> (ok \<longrightarrow> 0 < ?b)" for ok s'
  proof (rule wp_mono [OF Cons.IH])
    show "factors_wf env (w_db s')" using that by (simp add: spends_def)
    show "fits ?b ((ok, failed env s s') # rs)" if "fits (code_budget env (w_db s') v) rs" for rs
      using that \<open>spends env v s ok s' \<and> (ok \<longrightarrow> 0 < ?b)\<close> by (auto simp: spends_def elim: fits_mono)
  qed
  have "wp (verify_email_login_code env v c) (\<lambda>ok s'. spends env v s ok s' \<and> (ok \<longrightarrow> 0 < ?b)) s"
    using wp_code_spends [OF assms Cons.prems] wp_code_budget by (simp only: wp_conj)
  then show ?case
    unfolding try_codes.simps wp_bind wp_watched wp_return by (rule wp_mono) (rule rest)
qed simp

definition accepted_codes :: "(bool \<times> bool) list \<Rightarrow> nat" where
  "accepted_codes rs = length (filter fst rs)"

definition disturbed_codes :: "(bool \<times> bool) list \<Rightarrow> nat" where
  "disturbed_codes rs = length (filter snd rs)"

lemma fits_accepted: "fits b rs \<Longrightarrow> accepted_codes rs \<le> (if b = 0 then 0 else 1 + disturbed_codes rs)"
proof (induction b rs rule: fits.induct)
  case (2 b ok bad rs)
  then show ?case
    by (cases ok; cases bad) (auto simp: accepted_codes_def disturbed_codes_def budget_left_def split: if_splits)
qed (simp add: accepted_codes_def)

lemma fits_used_up:
  "fits b (xs @ ys) \<Longrightarrow> b + disturbed_codes xs \<le> length xs \<Longrightarrow> accepted_codes ys = 0"
proof (induction xs arbitrary: b)
  case Nil
  then show ?case using fits_accepted [of b ys] by simp
next
  case (Cons x xs)
  obtain ok bad where "x = (ok, bad)" by fastforce
  moreover from this Cons.prems(2) have "budget_left ok bad b + disturbed_codes xs \<le> length xs"
    by (cases b) (auto simp: budget_left_def disturbed_codes_def split: if_splits)
  ultimately show ?case using Cons by auto
qed

lemma password_login_allowed:
  assumes "run_state (connect_token env headers data) s = (resp, s')"
    and "cx_grant_type data = ''password''" and "resp_status resp = 200"
  shows "login_allowed env (w_db s) data"
proof -
  have "wp (password_grant env data)
      (\<lambda>resp _. resp_status resp = 200 \<longrightarrow> login_allowed env (w_db s) data) s1" if "w_db s1 = w_db s" for s1
    using wp_password_grant [of env data s1] unfolding that .
  then have "wp (connect_token env headers data)
      (\<lambda>resp _. resp_status resp = 200 \<longrightarrow> login_allowed env (w_db s) data) s"
    unfolding connect_token_def by (simp add: assms(2)) (rule wp_ratelimitI; simp)
  from wpD [OF this assms(1)] assms(3) show ?thesis by simp
qed

section \<open>A sample login\<close>

definition sample_login :: connect_data where
  "sample_login = \<lparr>cx_grant_type = ''password'', cx_username = Some ''Alice@example.org '',
     cx_password = Some ''pw'', cx_scope = Some ''api offline_access'', cx_client_id = Some ''web'',
     cx_refresh_token = None, cx_device_identifier = Some ''phone'', cx_device_name = None,
     cx_device_type = None, cx_two_factor_token = None, cx_two_factor_provider = None,
     cx_two_factor_remember = None, cx_auth_request = None, cx_auth_request_access_code = None,
     cx_client_secret = None\<rparr>"

definition sample_login_env :: env where
  "sample_login_env = sample_env\<lparr>e_pbkdf2 := \<lambda>_ _ _. [1]\<rparr>"

text \<open>
  A codec for the tokens: a text of as many letters as the number of the claims.  Expired tokens
  and tokens of another issuer are refused.
\<close>

instance json :: countable
  by countable_datatype

definition sample_jwt_env :: env where
  "sample_jwt_env = sample_login_env\<lparr>e_jwt_encode := \<lambda>j. Inr (replicate (to_nat j) (CHR ''x'')),
     e_jwt_decode := \<lambda>now t iss. (case login_claims_of_json (from_nat (length t)) of
        None \<Rightarrow> Inl ''InvalidToken''
      | Some c \<Rightarrow> if lc_exp c < int now then Inl ''ExpiredSignature''
          else if lc_iss c \<noteq> iss then Inl ''InvalidIssuer'' else Inr (login_claims_to_json c))\<rparr>"

lemma sample_jwt_codec: "jwt_codec sample_jwt_env"
  by (simp add: jwt_codec_def sample_jwt_env_def login_claims_roundtrip not_less)

lemmas sample_login_defs = sample_login_def sample_login_env_def sample_jwt_env_def

lemma sample_username [simp]: "to_lowercase (trim ''Alice@example.org '') = ''alice@example.org''"
  by code_simp

lemma sample_login_works:
  "wp (connect_token sample_login_env (\<lambda>_. None) sample_login) (\<lambda>resp _. resp_status resp = 200)
     (sample_world sample_db)"
  by (simp add: connect_token_def ratelimit_check_def read_count_def wp_kv LOGIN_LIMIT_def rl_key_def
      rl_estimate_def client_ip_def password_grant_def opt_default_def
      user_find_by_email_def check_valid_password_def
      verify_password_hash_def hash_password_def as_u32_def second_factor_def factor_queries
      active_factors_def complete_login_def device_type_or_def login_device_def device_find_def
      device_new_def device_save_def issue_token_def login_claims_new_for_def login_claims_expires_in_def
      remember_member_def sample_login_defs eval_simps)

section \<open>Properties\<close>

text \<open>C4.
  A successful password login proves who logs in: there is an enabled user with that address,
  the password is the user's, and when the user has an active second factor then a
  token of an earlier login on this device or a code that the chosen factor accepts was sent.
\<close>

theorem password_login_sound:
  assumes "run_state (connect_token env headers data) s = (resp, s')"
    and "cx_grant_type data = ''password''" and "resp_status resp = 200"
  shows "\<exists>u\<in>set (t_users (w_db s)). \<exists>username password.
     cx_username data = Some username \<and> us_email u = to_lowercase (trim username) \<and>
     us_enabled u \<noteq> 0 \<and> cx_password data = Some password \<and>
     check_valid_password env u password = Some True \<and> second_factor_given env (w_db s) data u"
  using password_login_allowed [OF assms] unfolding login_allowed_def .

theorem password_login_sound_witness:
  "second_factor_given sample_login_env sample_db sample_login (sample_user ''alice'')"
proof -
  have "resp_status (fst (run_state (connect_token sample_login_env (\<lambda>_. None) sample_login)
      (sample_world sample_db))) = 200"
    using sample_login_works by (simp add: wp_def split_beta)
  from password_login_sound [OF surjective_pairing _ this] show ?thesis
    by (auto simp: sample_login_def sample_db_def sample_world_def sample_user_def)
qed

text \<open>C16.
  A login works: for an enabled user with this password and no active second factor, when no
  call fails and the rate limiter lets the request pass, the answer is a success with a
  token that the guard of every other endpoint accepts as this user's for an hour from the start
  of the login, while the tables of users and devices stay as the login left them.  The clock
  does not run backwards, and the JWT library decodes what it encoded until the expiry it carries.
\<close>

theorem login_token_passes_guard:
  assumes "\<And>n. \<not> e_fault env n" and "e_fk env \<longrightarrow> fk_ok (w_db s)" and "jwt_codec env"
    and "mono (e_unix env)"
    and "fst (run_state (ratelimit_check env LOGIN_LIMIT (client_ip headers)) s)"
    and "cx_grant_type data = ''password''"
    and "{''api'', ''offline_access''} \<subseteq> set (split_whitespace (opt_default [] (cx_scope data)))"
    and "cx_username data = Some username" and "cx_password data = Some password"
    and "find (\<lambda>u. us_email u = to_lowercase (trim username)) (t_users (w_db s)) = Some u"
    and "distinct (map us_uuid (t_users (w_db s)))" and "us_enabled u \<noteq> 0"
    and "check_valid_password env u password = Some True"
    and "active_factors (factors_of (w_db s) u) = []"
    and "run_state (connect_token env headers data) s = (resp, s')"
  shows "\<exists>token. token_response resp token \<and>
    session_valid env token u (e_unix env (w_tick s)) (w_db s')"
proof -
  let ?Q = "\<lambda>resp s'. \<exists>token. token_response resp token \<and>
    session_valid env token u (e_unix env (w_tick s)) (w_db s')"
  have u: "u \<in> set (t_users (w_db s))" using assms(10) by (auto dest: find_SomeD)
  have login: "wp (complete_login env data u sc) ?Q s1" if "w_db s1 = w_db s" "w_tick s \<le> w_tick s1" for s1 sc
  proof (rule wp_mono [OF wp_complete_login [OF assms(1) _ assms(3,4)]])
    fix resp s'
    assume "\<exists>token. token_response resp token \<and> session_valid env token u (e_unix env (w_tick s1)) (w_db s')"
    then show "?Q resp s'"
      using session_valid_mono monoD [OF assms(4) that(2)] by blast
  qed (use assms(2,11-14) u that in simp_all)
  have grant: "wp (password_grant env data) ?Q s1" if "w_db s1 = w_db s" "w_tick s \<le> w_tick s1" for s1
    using assms(1,6-14) that
    by (auto simp: password_grant_def user_find_by_email_def second_factor_def factor_queries
        factors_of_def [symmetric] Let_def wp_rules intro!: login)
  have "wp (ratelimit_check env LOGIN_LIMIT (client_ip headers)) (\<lambda>ok s1. ok) s"
    using assms(5) by (simp add: wp_def split_beta)
  then have "wp (ratelimit_check env LOGIN_LIMIT (client_ip headers))
      (\<lambda>ok s1. ok \<and> w_db s1 = w_db s \<and> w_tick s \<le> w_tick s1) s"
    using wp_ratelimit_later [of env LOGIN_LIMIT "client_ip headers" s] by (simp add: wp_def split_beta)
  then have "wp (connect_token env headers data) ?Q s"
    unfolding connect_token_def by (auto simp: assms(6) intro: grant elim!: wp_mono)
  from wpD [OF this assms(15)] show ?thesis .
qed

theorem login_token_passes_guard_witness:
  "\<exists>token. session_valid sample_jwt_env token (sample_user ''alice'') 1000
     (w_db (snd (run_state (connect_token sample_jwt_env (\<lambda>_. None) sample_login) (sample_world sample_db))))"
proof -
  have "wp (ratelimit_check sample_jwt_env LOGIN_LIMIT (client_ip (\<lambda>_. None))) (\<lambda>ok _. ok)
      (sample_world sample_db)"
    by (simp add: ratelimit_check_def read_count_def wp_kv LOGIN_LIMIT_def rl_key_def rl_estimate_def
        client_ip_def sample_login_defs eval_simps)
  then have "fst (run_state (ratelimit_check sample_jwt_env LOGIN_LIMIT (client_ip (\<lambda>_. None)))
      (sample_world sample_db))"
    by (simp add: wp_def split_beta)
  note limiter = this
  have user: "find (\<lambda>u. us_email u = to_lowercase (trim ''Alice@example.org ''))
      (t_users (w_db (sample_world sample_db))) = Some (sample_user ''alice'')"
    and users: "distinct (map us_uuid (t_users (w_db (sample_world sample_db))))"
    and factors: "active_factors (factors_of (w_db (sample_world sample_db)) (sample_user ''alice'')) = []"
    by (simp_all add: sample_defs active_factors_def factors_of_def)
  have password: "check_valid_password sample_jwt_env (sample_user ''alice'') ''pw'' = Some True"
    by (simp add: check_valid_password_def verify_password_hash_def hash_password_def as_u32_def
        sample_login_defs sample_defs)
  show ?thesis
    using login_token_passes_guard [OF _ _ sample_jwt_codec _ limiter _ _ _ _ user users _ password factors
        surjective_pairing, of sample_login]
    by (auto simp: sample_login_defs sample_env_def sample_user_def sample_world_def opt_default_def mono_def)
qed

text \<open>C15.
  A code sent by mail is used up, up to the failures: out of any sequence of login attempts no
  more are accepted than one and those in which a call failed, and none is accepted after three
  in which no call failed.  When no call fails at all, at most one is accepted and none after
  the third; an attempt whose save fails is decided all the same and leaves the code as it was.
\<close>

theorem email_code_bound:
  assumes "email_codec env" and "factors_wf env (w_db s)"
    and "run_state (try_codes env v codes) s = (rs, s')"
  shows "accepted_codes rs \<le> 1 + disturbed_codes rs \<and>
    (\<forall>xs ys. rs = xs @ ys \<and> 3 + disturbed_codes xs \<le> length xs \<longrightarrow> accepted_codes ys = 0)"
proof -
  let ?b = "code_budget env (w_db s) v"
  have "fits ?b rs"
    using wpD [OF wp_try_codes [OF assms(1,2)] assms(3)] .
  moreover have "?b \<le> 3" by (rule code_budget_le)
  ultimately show ?thesis
    using fits_accepted [of ?b rs] fits_used_up [of ?b] by (fastforce split: if_splits)
qed

definition sample_code_env :: env where
  "sample_code_env = sample_env\<lparr>e_json_print := \<lambda>j. replicate (to_nat j) (CHR ''x''),
     e_json_parse := \<lambda>t. Some (from_nat (length t))\<rparr>"

definition sample_factor :: "int \<Rightarrow> string \<Rightarrow> two_factor" where
  "sample_factor ty data = \<lparr>tf_uuid = ''tf'', tf_user_uuid = ''alice'', tf_atype = ty, tf_enabled = 1,
     tf_data = data, tf_last_used = 0\<rparr>"

definition sample_factor_world :: "int \<Rightarrow> string \<Rightarrow> world" where
  "sample_factor_world ty data = sample_world (sample_db\<lparr>t_twofactor := [sample_factor ty data]\<rparr>)"

definition sample_code_run :: "(bool \<times> bool) list" where
  "sample_code_run = fst (run_state (try_codes (sample_code_env\<lparr>e_fault := \<lambda>n. n = 5\<rparr>) ''alice''
       [''000000'', ''123456'', ''123456''])
     (sample_factor_world 1 (email_token_to_json sample_code_env
        \<lparr>et_email = ''a'', et_last_token = Some ''123456'', et_token_sent = 1000, et_attempts = 0\<rparr>)))"

theorem email_code_bound_witness:
  "accepted_codes sample_code_run \<le> 1 + disturbed_codes sample_code_run"
  unfolding sample_code_run_def
  by (rule conjunct1, rule email_code_bound [OF _ _ surjective_pairing])
    (simp_all add: email_codec_def email_token_to_json_def factors_wf_def sample_code_env_def
      sample_factor_world_def sample_factor_def sample_world_def sample_env_def)

text \<open>
  A token for skipping the second factor locks its user out: when it is the only active row
  that is left, because the user has turned every real factor off, then no password
  login succeeds any more but those that present that token.
\<close>

theorem remember_row_locks_out:
  assumes "u \<in> set (t_users (w_db s))" and "distinct (map us_email (t_users (w_db s)))"
    and "cx_username data = Some username" and "us_email u = to_lowercase (trim username)"
    and "active_factors (factors_of (w_db s) u) \<noteq> []"
    and "\<forall>f\<in>set (active_factors (factors_of (w_db s) u)). tf_atype f = TWOFACTOR_TYPE_REMEMBER"
    and "\<not> remembered (w_db s) data u" and "cx_grant_type data = ''password''"
    and "run_state (connect_token env headers data) s = (resp, s')"
  shows "resp_status resp \<noteq> 200"
proof
  assume "resp_status resp = 200"
  from password_login_allowed [OF assms(9,8) this] obtain u' where u': "u' \<in> set (t_users (w_db s))"
    "us_email u' = us_email u" "second_factor_given env (w_db s) data u'"
    using assms(3,4) by (auto simp: login_allowed_def)
  with assms(1,2) have "u' = u" by (auto simp: distinct_map dest: inj_onD)
  with u'(3) assms(5-7) show False
    by (auto simp: second_factor_given_def factor_proof_def factor_types)
qed

theorem remember_row_locks_out_witness:
  "resp_status (fst (run_state (connect_token sample_login_env (\<lambda>_. None) sample_login)
     (sample_factor_world TWOFACTOR_TYPE_REMEMBER ''laptop:1''))) \<noteq> 200"
  by (rule remember_row_locks_out [where u = "sample_user ''alice''" and username = "''Alice@example.org ''",
        OF _ _ _ _ _ _ _ _ surjective_pairing])
    (simp_all add: sample_factor_world_def sample_factor_def sample_defs sample_login_def remembered_def
      active_factors_def factors_of_def factor_types)

text \<open>
  No YubiKey code is ever accepted: the server keeps only three variables of its platform, and
  those with Yubico's credentials are not among them.
\<close>

theorem yubikey_login_refused:
  assumes "e_vars env = app_vars var secret"
    and "run_state (verify_yubikey_login_code env user_uuid token) s = (r, s')"
  shows "r \<noteq> Some True"
proof -
  have "yubico_credentials env = None"
    by (simp add: yubico_credentials_def assms(1) app_vars_def)
  then have "wp (verify_yubikey_login_code env user_uuid token) (\<lambda>r _. r \<noteq> Some True) s"
    by (auto simp: verify_yubikey_login_code_def verify_yubikey_otp_def factor_queries wp_rules
        split: option.splits)
  then show ?thesis using assms(2) by (rule wpD)
qed

theorem yubikey_login_refused_witness:
  "fst (run_state (verify_yubikey_login_code
     (sample_env\<lparr>e_vars := app_vars (\<lambda>_. Some ''id'') (\<lambda>_. Some ''key'')\<rparr>) ''alice'' (replicate 44 (CHR ''c'')))
     (sample_factor_world 3 ''{}'')) \<noteq> Some True"
  by (rule yubikey_login_refused [OF _ surjective_pairing, of _ "\<lambda>_. Some ''id''" "\<lambda>_. Some ''key''"]) simp

end
