(* ===== verification/Auth_Requests.thy ===== *)
theory Auth_Requests
  imports Identity
begin

text \<open>
  \<open>worker/src/api/auth_requests.rs\<close> and \<open>devices.rs\<close>: the requests of a new device to be let in
  by a device that is logged in, and the devices of a user.
\<close>

section \<open>Login requests\<close>

definition auth_request_json :: "auth_request \<Rightarrow> json" where
  "auth_request_json r = JObj [
     (''Object'', JStr ''auth-request''), (''Id'', JStr (ar_uuid r)), (''UserId'', JStr (ar_user_uuid r)),
     (''OrganizationId'', jopt (ar_organization_uuid r)),
     (''RequestDeviceIdentifier'', JStr (ar_request_device_identifier r)),
     (''RequestDeviceType'', JInt (ar_device_type r)), (''RequestIpAddress'', JStr (ar_request_ip r)),
     (''ResponseDeviceId'', jopt (ar_response_device_id r)), (''PublicKey'', JStr (ar_public_key r)),
     (''Key'', jopt (ar_enc_key r)), (''MasterPasswordHash'', jopt (ar_master_password_hash r)),
     (''RequestApproved'', (case ar_approved r of None \<Rightarrow> JNull | Some v \<Rightarrow> JBool (v = 1))),
     (''CreationDate'', JStr (ar_creation_date r)), (''ResponseDate'', jopt (ar_response_date r)),
     (''AuthenticationDate'', jopt (ar_authentication_date r))]"

record create_auth_request =
  cr_email :: string
  cr_device_identifier :: string
  cr_access_code :: string
  cr_public_key :: string

definition create_request ::
  "env \<Rightarrow> (string \<Rightarrow> string option) \<Rightarrow> create_auth_request \<Rightarrow> response act" where
  "create_request env headers body = do {
     let email = to_lowercase (trim (cr_email body));
     ok \<leftarrow> ratelimit_check env REGISTER_LIMIT email;
     if \<not> ok then return (err_json 429 ''Too many auth requests'')
     else do {
       found \<leftarrow> user_find_by_email env email;
       case found of
         Inr (Some u) \<Rightarrow> do {
           let ip = (case headers ''cf-connecting-ip'' of
                 None \<Rightarrow> ''unknown''
               | Some v \<Rightarrow> opt_default ''unknown'' (header_to_str v));
           r \<leftarrow> auth_request_new env (us_uuid u) (cr_device_identifier body) 9 ip
                  (cr_access_code body) (cr_public_key body);
           try_ret (auth_request_save env r) (\<lambda>_. err_json 500 ''save failed'') (\<lambda>_.
             return (json_response 200 (auth_request_json r))) }
       | _ \<Rightarrow> do {
           r \<leftarrow> auth_request_new env [] (cr_device_identifier body) 9 [] (cr_access_code body)
                  (cr_public_key body);
           return (json_response 200 (auth_request_json r)) } } }"

definition list_my_requests :: "env \<Rightarrow> headers \<Rightarrow> response act" where
  "list_my_requests env h = do {
     rows \<leftarrow> unwrap_or [] (auth_request_find_by_user env (uid h));
     return (json_response 200 (JObj [(''Object'', JStr ''list''),
       (''Data'', JArr (map auth_request_json rows)), (''ContinuationToken'', JNull)])) }"

text \<open>\<open>Ok(Some(r)) if r.user_uuid == headers.user.uuid => r\<close>.\<close>

definition load_request :: "env \<Rightarrow> headers \<Rightarrow> string \<Rightarrow> (world, response + auth_request) state" where
  "load_request env h uuid = do {
     found \<leftarrow> auth_request_find_by_uuid env uuid;
     return (case found of
         Inr (Some r) \<Rightarrow> if ar_user_uuid r = uid h then Inr r
                        else Inl (err_json 404 ''Auth request not found'')
       | _ \<Rightarrow> Inl (err_json 404 ''Auth request not found'')) }"

definition get_request :: "env \<Rightarrow> headers \<Rightarrow> string \<Rightarrow> response act" where
  "get_request env h uuid =
     try_ret (load_request env h uuid) (\<lambda>e. e) (\<lambda>r. return (json_response 200 (auth_request_json r)))"

definition get_response :: "env \<Rightarrow> string \<Rightarrow> string option \<Rightarrow> response act" where
  "get_response env uuid access_code = do {
     found \<leftarrow> auth_request_find_by_uuid env uuid;
     case found of
       Inr (Some r) \<Rightarrow>
         if ar_access_code r \<noteq> opt_default [] access_code
         then return (err_json 404 ''Auth request not found'')
         else return (json_response 200 (auth_request_json r))
     | _ \<Rightarrow> return (err_json 404 ''Auth request not found'') }"

record respond_body =
  rb_key :: "string option"
  rb_master_password_hash :: "string option"
  rb_request_approved :: bool

definition respond_request :: "env \<Rightarrow> headers \<Rightarrow> string \<Rightarrow> respond_body \<Rightarrow> response act" where
  "respond_request env h uuid body =
     try_ret (load_request env h uuid) (\<lambda>e. e) (\<lambda>r. do {
       now \<leftarrow> now_iso env;
       let r = r\<lparr>ar_approved := Some (if rb_request_approved body then 1 else 0),
             ar_enc_key := rb_key body, ar_master_password_hash := rb_master_password_hash body,
             ar_response_device_id := Some (de_uuid (hd_device h)), ar_response_date := Some now\<rparr>;
       try_ret (auth_request_save env r) (\<lambda>_. err_json 500 ''save failed'') (\<lambda>_. do {
         _ \<leftarrow> notify_anon env (ar_uuid r) (ar_uuid r);
         return (json_response 200 (auth_request_json r)) }) })"

section \<open>Devices\<close>

definition device_json :: "device \<Rightarrow> json" where
  "device_json x = JObj [(''Object'', JStr ''device''), (''Id'', JStr (de_uuid x)),
     (''Name'', JStr (de_name x)), (''Type'', JInt (de_atype x)),
     (''CreationDate'', JStr (de_created_at x)), (''RevisionDate'', JStr (de_updated_at x))]"

definition load_device :: "env \<Rightarrow> headers \<Rightarrow> string \<Rightarrow> (world, response + device) state" where
  "load_device env h device_id =
     try_ret (device_find env device_id (uid h)) (\<lambda>_. Inl (err_json 500 ''database error'')) (\<lambda>found.
     return (case found of
         Some x \<Rightarrow> Inr x
       | None \<Rightarrow> Inl (err_json 404 ''Device not found'')))"

definition get_device_by_id :: "env \<Rightarrow> headers \<Rightarrow> string \<Rightarrow> response act" where
  "get_device_by_id env h device_id =
     try_ret (load_device env h device_id) (\<lambda>e. e) (\<lambda>x. return (json_response 200 (device_json x)))"

definition known_device :: "env \<Rightarrow> (string \<Rightarrow> string option) \<Rightarrow> response act" where
  "known_device env headers =
     (case (Option.bind (headers ''x-request-email'') header_to_str,
            Option.bind (headers ''x-device-identifier'') header_to_str) of
        (Some email, Some device_id) \<Rightarrow> do {
          found \<leftarrow> user_find_by_email env (to_lowercase email);
          case found of
            Inr (Some user) \<Rightarrow> do {
              known \<leftarrow> device_find env device_id (us_uuid user);
              return (json_response 200 (JBool (case known of Inr (Some _) \<Rightarrow> True | _ \<Rightarrow> False))) }
          | _ \<Rightarrow> return (json_response 200 (JBool False)) }
      | _ \<Rightarrow> return (json_response 200 (JBool False)))"

definition set_push_token :: "env \<Rightarrow> headers \<Rightarrow> string \<Rightarrow> string \<Rightarrow> response act" where
  "set_push_token env h device_id push_token =
     try_ret (load_device env h device_id) (\<lambda>e. e) (\<lambda>x. do {
       push_uuid \<leftarrow> new_uuid env;
       try_ret (device_save env (x\<lparr>de_push_token := Some push_token, de_push_uuid := Some push_uuid\<rparr>))
         (\<lambda>_. err_json 500 ''save failed'') (\<lambda>x. return (json_response 200 (device_json x))) })"

definition clear_push_token :: "env \<Rightarrow> headers \<Rightarrow> string \<Rightarrow> response act" where
  "clear_push_token env h device_id =
     try_ret (load_device env h device_id) (\<lambda>e. e) (\<lambda>x.
       try_ret (device_save env (x\<lparr>de_push_token := None, de_push_uuid := None\<rparr>))
         (\<lambda>_. err_json 500 ''save failed'') (\<lambda>x. return (json_response 200 (device_json x))))"

definition delete_device :: "env \<Rightarrow> headers \<Rightarrow> string \<Rightarrow> response act" where
  "delete_device env h device_id =
     try_ret (load_device env h device_id) (\<lambda>e. e) (\<lambda>x.
       try_ret (device_delete env x) (\<lambda>_. err_json 500 ''delete failed'') (\<lambda>_. do {
         _ \<leftarrow> notify_user env (uid h) LOG_OUT (uid h);
         return (json_response 200 (JObj [])) }))"

section \<open>The loaders\<close>

interpretation request_loader:
  guarded_loader load_request t_auth_requests ar_uuid "\<lambda>_ h r. ar_user_uuid r = uid h"
  by unfold_locales
    (auto intro!: readsI simp: load_request_def auth_request_find_by_uuid_def wp_rules
      split: option.splits dest: find_SomeD)

interpretation device_loader:
  guarded_loader load_device t_devices de_uuid "\<lambda>_ h x. de_user_uuid x = uid h"
  by unfold_locales
    (auto intro!: readsI simp: load_device_def device_find_def wp_rules
      split: option.splits dest: find_SomeD)

section \<open>Who lets a device in\<close>

text \<open>
  What can happen to the login requests: somebody creates one, a user answers one, the cron
  job removes old ones.  The trace records the steps.
\<close>

datatype request_step =
    Create "string \<Rightarrow> string option" create_auth_request
  | Respond headers string respond_body
  | Purge string

fun exec_request_step :: "env \<Rightarrow> request_step \<Rightarrow> unit act" where
  "exec_request_step env (Create headers body) = ignore (create_request env headers body)"
| "exec_request_step env (Respond h uuid body) = ignore (respond_request env h uuid body)"
| "exec_request_step env (Purge before) = ignore (auth_request_purge_old env before)"

inductive request_history :: "world \<Rightarrow> request_step list \<Rightarrow> world \<Rightarrow> bool" for s where
  nothing: "request_history s [] s"
| step: "request_history s tr s1 \<Longrightarrow> run_state (exec_request_step env st) s1 = (r, s2) \<Longrightarrow>
    request_history s (tr @ [st]) s2"

text \<open>A request that is approved was approved by a session of its user.\<close>

definition approved_by_user :: "request_step list \<Rightarrow> auth_request \<Rightarrow> bool" where
  "approved_by_user tr r \<longleftrightarrow> (ar_approved r = Some 1 \<longrightarrow>
     (\<exists>h body. Respond h (ar_uuid r) body \<in> set tr \<and> rb_request_approved body \<and> uid h = ar_user_uuid r))"

lemma approved_by_user_mono: "approved_by_user tr r \<Longrightarrow> approved_by_user (tr @ tr') r"
  by (auto simp: approved_by_user_def)

lemma approved_by_responder:
  "uid h = ar_user_uuid r \<Longrightarrow> ar_uuid r = uuid \<Longrightarrow> (ar_approved r = Some 1 \<Longrightarrow> rb_request_approved body) \<Longrightarrow>
    approved_by_user (tr @ [Respond h uuid body]) r"
  by (auto simp: approved_by_user_def)

lemma request_step_keeps:
  assumes "\<forall>r\<in>set (t_auth_requests (w_db s)). approved_by_user tr r"
  shows "wp (exec_request_step env st)
    (\<lambda>_ s'. \<forall>r\<in>set (t_auth_requests (w_db s')). approved_by_user (tr @ [st]) r) s"
proof (cases st)
  case (Create headers body)
  let ?I = "\<lambda>d. \<forall>r\<in>set (t_auth_requests d). approved_by_user (tr @ [st]) r"
  have save: "wp (auth_request_save env r) (\<lambda>_ s'. ?I (w_db s')) s1"
    if "?I (w_db s1)" "ar_approved r = None" for r s1
    using that by (auto simp: auth_request_save_def wp_rules set_upsert auth_request_conflict_def
        approved_by_user_def)
  have "wp (create_request env headers body) (\<lambda>_ s'. ?I (w_db s')) s"
    using assms
    by (auto simp: create_request_def user_find_by_email_def auth_request_new_def wp_rules Let_def
        intro!: wp_ratelimitI wp_mono [OF save] approved_by_user_mono split: option.splits sum.splits)
  with Create show ?thesis by simp
next
  case (Respond h uuid body)
  have old: "approved_by_user (tr @ [st]) y" if "y \<in> set (t_auth_requests (w_db s))" for y
    using assms that by (simp add: approved_by_user_mono)
  have new: "approved_by_user (tr @ [st]) y"
    if "y \<in> set (upsert ar_uuid auth_request_conflict r (t_auth_requests (w_db s)))"
      "ar_user_uuid r = uid h" "ar_uuid r = uuid" "ar_approved r = Some 1 \<longrightarrow> rb_request_approved body" for r y
  proof -
    from that have "y \<in> set (t_auth_requests (w_db s)) \<or>
        ar_user_uuid y = uid h \<and> ar_uuid y = uuid \<and> ar_approved y = ar_approved r"
      by (auto simp: set_upsert auth_request_conflict_def split: if_splits)
    then show ?thesis
      using old that(4) approved_by_responder [of h y uuid body tr] Respond by auto
  qed
  have "wp (respond_request env h uuid body)
      (\<lambda>_ s'. \<forall>r\<in>set (t_auth_requests (w_db s')). approved_by_user (tr @ [st]) r) s"
    unfolding respond_request_def
    apply (intro request_loader.wp_guarded)
     apply (auto simp: auth_request_save_def wp_rules Let_def intro!: wp_notify_anonI elim: old)
       apply (erule new; simp)+
    done
  with Respond show ?thesis by simp
next
  case (Purge before)
  then show ?thesis
    using assms by (auto simp: auth_request_purge_old_def wp_rules intro: approved_by_user_mono)
qed

lemma request_history_approved:
  assumes "request_history s tr s'" "\<forall>r\<in>set (t_auth_requests (w_db s)). ar_approved r \<noteq> Some 1"
  shows "\<forall>r\<in>set (t_auth_requests (w_db s')). approved_by_user tr r"
  using assms(1)
proof induction
  case nothing
  then show ?case using assms(2) by (simp add: approved_by_user_def)
next
  case (step tr s1 env st r s2)
  from wpD [OF request_step_keeps [OF step.IH] step.hyps(2)] show ?case .
qed

definition granted :: "db \<Rightarrow> connect_data \<Rightarrow> response \<Rightarrow> bool" where
  "granted d data resp \<longleftrightarrow> (\<exists>r\<in>set (t_auth_requests d). \<exists>u\<in>set (t_users d). \<exists>j.
     cx_auth_request data = Some (ar_uuid r) \<and> cx_auth_request_access_code data = Some (ar_access_code r) \<and>
     ar_approved r = Some 1 \<and> us_uuid u = ar_user_uuid r \<and> us_enabled u \<noteq> 0 \<and>
     resp = json_response 200 j \<and> json_get ''Key'' j = Some (JStr (us_akey u)))"

lemma wp_login_device_fails: "wp (login_device env u i n a)
    (\<lambda>r _. case r of Inl e \<Rightarrow> resp_status e = 500 | Inr _ \<Rightarrow> True) s"
  by (auto simp: login_device_def device_find_def device_new_def device_save_def wp_rules
      split: option.splits)

lemma wp_issue_token_fails: "wp (issue_token env x u sc c)
    (\<lambda>r _. case r of Inl e \<Rightarrow> resp_status e = 500 | Inr _ \<Rightarrow> True) s"
  by (auto simp: issue_token_def login_claims_new_for_def wp_rules split: sum.splits)

lemma json_get_key_members:
  "json_get ''Key'' (JObj (xs @ key_members u @ kdf_members u @
     [(''scope'', a), (''unofficialServer'', b)])) = Some (JStr (us_akey u))"
  by (simp add: key_members_def kdf_members_def)

lemma wp_auth_request_grant:
  "wp (auth_request_grant env data) (\<lambda>resp _. resp_status resp = 200 \<longrightarrow> granted (w_db s) data resp) s"
proof -
  have ok: "granted (w_db s) data (json_response 200 (JObj (m1 # m2 # m3 # m4 # key_members u @ kdf_members u @
      [(''scope'', a), (''unofficialServer'', b)])))"
    if "r \<in> set (t_auth_requests (w_db s))" "u \<in> set (t_users (w_db s))"
      "cx_auth_request data = Some (ar_uuid r)" "cx_auth_request_access_code data = Some (ar_access_code r)"
      "ar_approved r = Some 1" "us_uuid u = ar_user_uuid r" "us_enabled u \<noteq> 0" for r u m1 m2 m3 m4 a b
    using that json_get_key_members [of "[m1, m2, m3, m4]"] unfolding granted_def append_Cons append_Nil by blast
  show ?thesis
    unfolding auth_request_grant_def Let_def
    apply (auto simp: wp_rules auth_request_find_by_uuid_def user_find_by_uuid_def login_request_expired_def
        non_empty_def login_claims_expires_in_def
        split: option.splits if_splits sum.splits prod.splits dest!: find_SomeD
        intro!: wp_mono [OF wp_login_device_fails] wp_mono [OF wp_issue_token_fails] wp_log_eventI)
    apply (rule ok; assumption)+
    done
qed

section \<open>Properties\<close>

text \<open>C5.
  Nobody logs in without a password unless a session of the account allowed it: when a device
  obtains tokens and keys with a login request, however the requests were created, answered and
  purged before, then a session of the user whose keys it receives answered that very request
  with yes, and the device knows the access code of the request.
\<close>

theorem passwordless_login_needs_approval:
  assumes "request_history s0 tr s" "\<forall>r\<in>set (t_auth_requests (w_db s0)). ar_approved r \<noteq> Some 1"
    and "run_state (connect_token env headers data) s = (resp, s')"
    and "cx_grant_type data = ''auth_request''" and "resp_status resp = 200"
  shows "\<exists>h body r u j. Respond h (ar_uuid r) body \<in> set tr \<and> rb_request_approved body \<and>
     r \<in> set (t_auth_requests (w_db s)) \<and> cx_auth_request data = Some (ar_uuid r) \<and>
     cx_auth_request_access_code data = Some (ar_access_code r) \<and>
     u \<in> set (t_users (w_db s)) \<and> us_uuid u = uid h \<and> us_enabled u \<noteq> 0 \<and>
     resp = json_response 200 j \<and> json_get ''Key'' j = Some (JStr (us_akey u))"
proof -
  have "wp (connect_token env headers data) (\<lambda>resp _. resp_status resp = 200 \<longrightarrow> granted (w_db s) data resp) s"
    unfolding connect_token_def
    by (auto simp: wp_rules assms(4) intro!: wp_ratelimitI wp_mono [OF wp_auth_request_grant])
  from wpD [OF this assms(3)] assms(5) have "granted (w_db s) data resp" by blast
  then obtain r u j where r: "r \<in> set (t_auth_requests (w_db s))" "u \<in> set (t_users (w_db s))"
      "cx_auth_request data = Some (ar_uuid r)" "cx_auth_request_access_code data = Some (ar_access_code r)"
      "ar_approved r = Some 1" "us_uuid u = ar_user_uuid r" "us_enabled u \<noteq> 0"
      "resp = json_response 200 j" "json_get ''Key'' j = Some (JStr (us_akey u))"
    unfolding granted_def by blast
  from request_history_approved [OF assms(1,2)] r(1,5) obtain h body
    where "Respond h (ar_uuid r) body \<in> set tr" "rb_request_approved body" "uid h = ar_user_uuid r"
    unfolding approved_by_user_def by blast
  with r show ?thesis by metis
qed

definition sample_request_world :: world where
  "sample_request_world = sample_world (sample_db\<lparr>t_auth_requests :=
     [\<lparr>ar_uuid = ''req'', ar_user_uuid = ''alice'', ar_organization_uuid = None,
       ar_request_device_identifier = ''phone'', ar_device_type = 0, ar_request_ip = ''10.0.0.1'',
       ar_response_device_id = None, ar_access_code = ''code'', ar_public_key = ''pk'',
       ar_enc_key = None, ar_master_password_hash = None, ar_approved = None,
       ar_creation_date = ''2026-01-02T03:00:00Z'', ar_response_date = None,
       ar_authentication_date = None\<rparr>]\<rparr>)"

definition sample_approval :: respond_body where
  "sample_approval = \<lparr>rb_key = Some ''wrapped'', rb_master_password_hash = None, rb_request_approved = True\<rparr>"

definition sample_passwordless :: connect_data where
  "sample_passwordless = \<lparr>cx_grant_type = ''auth_request'', cx_username = None, cx_password = None,
     cx_scope = None, cx_client_id = None, cx_refresh_token = None, cx_device_identifier = None,
     cx_device_name = None, cx_device_type = None, cx_two_factor_token = None, cx_two_factor_provider = None,
     cx_two_factor_remember = None, cx_auth_request = Some ''req'', cx_auth_request_access_code = Some ''code'',
     cx_client_secret = None\<rparr>"

lemma sample_passwordless_works:
  "wp (exec_request_step sample_env (Respond (sample_headers ''alice'') ''req'' sample_approval))
     (\<lambda>_. wp (connect_token sample_env (\<lambda>_. None) sample_passwordless) (\<lambda>resp _. resp_status resp = 200))
     sample_request_world"
  by (simp add: respond_request_def load_request_def auth_request_find_by_uuid_def auth_request_save_def
      auth_request_conflict_def connect_token_def ratelimit_check_def read_count_def wp_kv LOGIN_LIMIT_def
      rl_key_def rl_estimate_def client_ip_def auth_request_grant_def opt_default_def non_empty_def
      login_request_expired_def user_find_by_uuid_def device_type_or_def login_device_def device_find_def
      device_new_def device_save_def issue_token_def login_claims_new_for_def login_claims_expires_in_def
      sample_request_world_def sample_approval_def sample_passwordless_def eval_simps)

theorem passwordless_login_needs_approval_witness:
  "\<exists>h body. Respond h ''req'' body \<in> set [Respond (sample_headers ''alice'') ''req'' sample_approval] \<and>
     uid h = ''alice'' \<and> rb_request_approved body"
proof -
  let ?st = "Respond (sample_headers ''alice'') ''req'' sample_approval"
  define s where "s = snd (run_state (exec_request_step sample_env ?st) sample_request_world)"
  have run: "resp_status (fst (run_state (connect_token sample_env (\<lambda>_. None) sample_passwordless) s)) = 200"
    using sample_passwordless_works unfolding wp_def s_def by (simp only: split_beta)
  have "request_history sample_request_world ([] @ [?st]) s"
    unfolding s_def by (rule request_history.step [OF request_history.nothing surjective_pairing])
  from passwordless_login_needs_approval [OF this _ surjective_pairing _ run]
  show ?thesis
    by (auto simp: sample_request_world_def sample_world_def sample_passwordless_def sample_headers_def
        sample_user_def)
qed

end
