(* ===== verification/Attachments.thy ===== *)
theory Attachments
  imports Ciphers_Effects Sends
begin

text \<open>
  \<open>worker/src/api/attachments.rs\<close>: files that belong to an item.  The row of an attachment is in
  the database, its bytes are in the R2 bucket under the key \<open>cipher/attachment\<close>.
\<close>

section \<open>Handlers\<close>

text \<open>The loader of this file, which knows no organizations, other than that of \<open>ciphers.rs\<close>.\<close>

definition load_personal_cipher :: "env \<Rightarrow> headers \<Rightarrow> string \<Rightarrow> (world, response + cipher) state" where
  "load_personal_cipher env h cipher_id =
     try_ret (cipher_find_by_uuid env cipher_id) (\<lambda>_. Inl (err_json 500 ''database error'')) (\<lambda>found.
     return (case found of
         None \<Rightarrow> Inl (err_json 404 ''Cipher not found'')
       | Some cipher \<Rightarrow>
           if ci_user_uuid cipher \<noteq> Some (uid h) then Inl (err_json 404 ''Cipher not found'')
           else Inr cipher))"

record attachment_request_data =
  ad_key :: string
  ad_file_name :: string
  ad_file_size :: json
  ad_admin_request :: "bool option"

definition parse_size :: "json \<Rightarrow> int option" where
  "parse_size v = (case v of
       JInt n \<Rightarrow> if - (2 ^ 63) \<le> n \<and> n < 2 ^ 63 then Some n else None
     | JStr s \<Rightarrow> parse_i64 s
     | _ \<Rightarrow> None)"

definition post_attachment_v2 ::
  "env \<Rightarrow> headers \<Rightarrow> string \<Rightarrow> attachment_request_data \<Rightarrow> response act" where
  "post_attachment_v2 env h cipher_id body =
     try_ret (load_personal_cipher env h cipher_id) (\<lambda>e. e) (\<lambda>cipher.
     case parse_size (ad_file_size body) of
       None \<Rightarrow> return (err_json 400 ''fileSize must be a number'')
     | Some file_size \<Rightarrow>
       if file_size < 0 \<or> file_size > 2 ^ 31 - 1
       then return (err_json 400 ''fileSize out of range'')
       else do {
         u \<leftarrow> new_uuid env;
         let attachment_id = filter (\<lambda>c. c \<noteq> CHR ''-'') u;
         let attachment = attachment_new attachment_id (ci_uuid cipher) (ad_file_name body)
               file_size (Some (ad_key body));
         try_ret (attachment_save env attachment)
           (\<lambda>_. err_json 500 ''failed to save attachment'') (\<lambda>_. do {
           let upload_url = env_var_or_empty env ''DOMAIN'' @ ''/api/ciphers/'' @ ci_uuid cipher
                 @ ''/attachment/'' @ attachment_id;
           let response_key = (if opt_default False (ad_admin_request body)
                 then ''cipherMiniResponse'' else ''cipherResponse'');
           favorite \<leftarrow> unwrap_or False (favorite_is_favorite env (uid h) (ci_uuid cipher));
           return (json_response 200 (JObj [(''Object'', JStr ''attachment-fileUpload''),
             (''AttachmentId'', JStr attachment_id), (''Url'', JStr upload_url),
             (''FileUploadType'', JInt 0), (response_key, cipher_to_json env cipher favorite)])) }) })"

text \<open>The item of the caller and an attachment of that item.\<close>

definition load_attachment ::
  "env \<Rightarrow> headers \<Rightarrow> string \<Rightarrow> string \<Rightarrow> (world, response + cipher \<times> attachment) state" where
  "load_attachment env h cipher_id attachment_id =
     try_ret (load_personal_cipher env h cipher_id) Inl (\<lambda>cipher. do {
       found \<leftarrow> attachment_find_by_id env attachment_id;
       return (case found of
           Inr (Some attachment) \<Rightarrow>
             if at_cipher_uuid attachment \<noteq> ci_uuid cipher
             then Inl (err_json 404 (''Attachment doesn'' @ [CHR 0x27] @ ''t belong to cipher''))
             else Inr (cipher, attachment)
         | _ \<Rightarrow> Inl (err_json 404 ''Attachment not found'')) })"

text \<open>The bytes of an upload: the part \<open>data\<close> of a multipart body, or the whole body.\<close>

definition attachment_bytes :: "upload_request \<Rightarrow> response + byte list" where
  "attachment_bytes req =
     (case up_body req of
        None \<Rightarrow> Inl (err_json 400 ''failed to read body'')
      | Some body_bytes \<Rightarrow>
        (case parse_multipart_boundary (opt_default [] (up_content_type req)) of
           Some boundary \<Rightarrow>
             (case extract_multipart_part body_bytes boundary ''data'' of
                None \<Rightarrow> Inl panicked
              | Some None \<Rightarrow> Inl (err_json 400 (''missing '' @ [CHR 0x60] @ ''data'' @ [CHR 0x60] @ '' part''))
              | Some (Some b) \<Rightarrow> Inr b)
         | None \<Rightarrow> Inr body_bytes))"

definition upload_attachment ::
  "env \<Rightarrow> headers \<Rightarrow> string \<Rightarrow> string \<Rightarrow> upload_request \<Rightarrow> response act" where
  "upload_attachment env h cipher_id attachment_id req =
     try_ret (load_attachment env h cipher_id attachment_id) (\<lambda>e. e) (\<lambda>(cipher, attachment).
     case attachment_bytes req of
       Inl e \<Rightarrow> return e
     | Inr bytes \<Rightarrow>
       if wrap_i32 (int (length bytes)) \<noteq> at_file_size attachment
       then return (err_json 400 (''body size '' @ nat_to_string (length bytes)
         @ '' does not match declared '' @ int_to_string (at_file_size attachment)))
       else try_ret (r2_put_attachment env (r2_key (ci_uuid cipher) (at_id attachment)) bytes)
         (\<lambda>_. err_json 500 ''failed to upload to R2'') (\<lambda>_. do {
         _ \<leftarrow> log_cipher_event env CIPHER_ATTACHMENT_CREATED (ci_uuid cipher) (uid h)
                (ci_organization_uuid cipher) (dev_type h);
         _ \<leftarrow> notify_cipher env h SYNC_CIPHER_UPDATE (ci_uuid cipher) (ci_organization_uuid cipher);
         return (json_response 200 (JObj [])) }))"

definition get_attachment :: "env \<Rightarrow> headers \<Rightarrow> string \<Rightarrow> string \<Rightarrow> response act" where
  "get_attachment env h cipher_id attachment_id =
     try_ret (load_attachment env h cipher_id attachment_id) (\<lambda>e. e) (\<lambda>(_, attachment).
       return (json_response 200 (attachment_json env attachment)))"

definition download_attachment_file :: "env \<Rightarrow> headers \<Rightarrow> string \<Rightarrow> string \<Rightarrow> response act" where
  "download_attachment_file env h cipher_id attachment_id =
     try_ret (load_attachment env h cipher_id attachment_id) (\<lambda>e. e) (\<lambda>(cipher, attachment).
     try_ret (r2_get_attachment env (r2_key (ci_uuid cipher) (at_id attachment)))
       (\<lambda>_. err_json 500 ''R2 read failed'') (\<lambda>obj.
       case obj of
         None \<Rightarrow> return (err_json 404 ''File missing from storage'')
       | Some bs \<Rightarrow>
           try_ret (r2_read_body env bs) (\<lambda>_. err_json 500 ''R2 stream failed'') (\<lambda>bytes.
             return (Response 200 (BytesBody ''application/octet-stream'' bytes)))))"

definition delete_attachment :: "env \<Rightarrow> headers \<Rightarrow> string \<Rightarrow> string \<Rightarrow> response act" where
  "delete_attachment env h cipher_id attachment_id =
     try_ret (load_attachment env h cipher_id attachment_id) (\<lambda>e. e) (\<lambda>(cipher, attachment). do {
       _ \<leftarrow> r2_delete_attachment env (r2_key (ci_uuid cipher) (at_id attachment));
       try_ret (attachment_delete env attachment)
         (\<lambda>_. err_json 500 ''failed to delete attachment row'') (\<lambda>_. do {
         _ \<leftarrow> log_cipher_event env CIPHER_ATTACHMENT_DELETED (ci_uuid cipher) (uid h)
                (ci_organization_uuid cipher) (dev_type h);
         _ \<leftarrow> notify_cipher env h SYNC_CIPHER_UPDATE (ci_uuid cipher) (ci_organization_uuid cipher);
         return (json_response 200 (JObj [])) }) })"

record share_attachment_body =
  sb_file_name :: "string option"
  sb_key :: "string option"

definition share_attachment ::
  "env \<Rightarrow> headers \<Rightarrow> string \<Rightarrow> string \<Rightarrow> share_attachment_body \<Rightarrow> response act" where
  "share_attachment env h cipher_id attachment_id body =
     try_ret (load_personal_cipher env h cipher_id) (\<lambda>e. e) (\<lambda>cipher. do {
       found \<leftarrow> attachment_find_by_id env attachment_id;
       case found of
         Inr (Some a) \<Rightarrow>
           if at_cipher_uuid a \<noteq> ci_uuid cipher then return (err_json 404 ''Attachment not found'')
           else do {
             let a = (case sb_file_name body of None \<Rightarrow> a | Some name \<Rightarrow> a\<lparr>at_file_name := name\<rparr>);
             let a = (case sb_key body of None \<Rightarrow> a | Some k \<Rightarrow> a\<lparr>at_akey := Some k\<rparr>);
             try_ret (attachment_save env a) (\<lambda>_. err_json 500 ''failed to save attachment'') (\<lambda>_. do {
               _ \<leftarrow> notify_cipher env h SYNC_CIPHER_UPDATE (ci_uuid cipher) (ci_organization_uuid cipher);
               return (json_response 200 (attachment_json env a)) }) }
       | _ \<Rightarrow> return (err_json 404 ''Attachment not found'') })"

section \<open>The loader\<close>

interpretation personal_loader:
  guarded_loader load_personal_cipher t_ciphers ci_uuid "\<lambda>_ h c. ci_user_uuid c = Some (uid h)"
  by unfold_locales
    (auto intro!: readsI simp: load_personal_cipher_def cipher_find_by_uuid_def wp_rules
      split: option.splits dest: find_SomeD)

text \<open>What \<open>load_attachment\<close> hands out: the item and the attachment that the path names.\<close>

definition attachment_of :: "db \<Rightarrow> headers \<Rightarrow> string \<Rightarrow> string \<Rightarrow> cipher \<Rightarrow> attachment \<Rightarrow> bool" where
  "attachment_of d h cid aid c a \<longleftrightarrow>
     find (\<lambda>x. ci_uuid x = cid) (t_ciphers d) = Some c \<and> ci_user_uuid c = Some (uid h) \<and>
     find (\<lambda>x. at_id x = aid) (t_attachments d) = Some a \<and> at_cipher_uuid a = ci_uuid c"

lemma attachment_of_keys: "attachment_of d h cid aid c a \<Longrightarrow> ci_uuid c = cid \<and> at_id a = aid"
  by (auto simp: attachment_of_def dest: find_SomeD)

lemma wp_load_attachmentI:
  assumes "\<And>e s'. resp_status e \<ge> 400 \<Longrightarrow> w_db s' = w_db s \<Longrightarrow> w_r2_attachments s' = w_r2_attachments s \<Longrightarrow>
      Q (Inl e) s'"
    and "\<And>c a s'. attachment_of (w_db s) h cid aid c a \<Longrightarrow> ci_uuid c = cid \<Longrightarrow> at_id a = aid \<Longrightarrow>
      w_db s' = w_db s \<Longrightarrow> w_r2_attachments s' = w_r2_attachments s \<Longrightarrow> Q (Inr (c, a)) s'"
  shows "wp (load_attachment env h cid aid) Q s"
  using assms
  by (auto simp: load_attachment_def load_personal_cipher_def cipher_find_by_uuid_def
      attachment_find_by_id_def attachment_of_def wp_rules split: option.splits)
    (auto dest!: find_SomeD)

lemma load_attachment_total:
  assumes "\<And>n. \<not> e_fault env n" "attachment_of (w_db s) h cid aid c a"
  shows "wp (load_attachment env h cid aid) (\<lambda>r s'. r = Inr (c, a) \<and> w_r2_attachments s' = w_r2_attachments s) s"
  using assms
  by (simp add: load_attachment_def load_personal_cipher_def cipher_find_by_uuid_def
      attachment_find_by_id_def attachment_of_def wp_rules)

lemma upload_attachment_effect:
  assumes "attachment_bytes req = Inr bytes"
  shows "wp (upload_attachment env h cid aid req) (\<lambda>r s'. resp_status r = 200 \<longrightarrow> (\<exists>c a.
      attachment_of (w_db s') h cid aid c a \<and> wrap_i32 (int (length bytes)) = at_file_size a \<and>
      map_of (w_r2_attachments s') (r2_key cid aid) = Some bytes)) s"
  unfolding upload_attachment_def
  using assms
  by (auto simp: wp_rules notify_cipher_def wp_if_some attachment_of_def
      intro!: wp_load_attachmentI wp_effectI split: option.splits)

section \<open>Properties\<close>

text \<open>C30.
  Round trip of an attachment: after an upload that succeeds, the download by the same user
  returns the bytes of the upload while the database and the storage answer, and their number
  is the size that was declared for the attachment.
\<close>

theorem attachment_roundtrip:
  assumes "run_state (upload_attachment env h cid aid req) s = (r1, s1)" and "resp_status r1 = 200"
    and "attachment_bytes req = Inr bytes" and "\<And>n. \<not> e_fault env' n" and "uid h' = uid h"
    and "run_state (download_attachment_file env' h' cid aid) s1 = (r2, s2)"
  shows "r2 = Response 200 (BytesBody ''application/octet-stream'' bytes) \<and>
     (\<exists>a\<in>set (t_attachments (w_db s1)). at_id a = aid \<and> wrap_i32 (int (length bytes)) = at_file_size a)"
proof -
  from wpD [OF upload_attachment_effect [OF assms(3)] assms(1)] assms(2) obtain c a
    where a: "attachment_of (w_db s1) h cid aid c a" "wrap_i32 (int (length bytes)) = at_file_size a"
      "map_of (w_r2_attachments s1) (r2_key cid aid) = Some bytes"
    by blast
  with assms(5) have "attachment_of (w_db s1) h' cid aid c a" by (simp add: attachment_of_def)
  then have "wp (download_attachment_file env' h' cid aid)
      (\<lambda>r _. r = Response 200 (BytesBody ''application/octet-stream'' bytes)) s1"
    unfolding download_attachment_file_def
    using a assms(4) attachment_of_keys [OF a(1)]
    by (auto simp: wp_rules intro!: wp_mono [OF load_attachment_total [OF assms(4)]])
  from wpD [OF this assms(6)] a show ?thesis
    by (auto simp: attachment_of_def dest: find_SomeD)
qed

definition sample_attachment_world :: world where
  "sample_attachment_world = sample_world (sample_db\<lparr>t_attachments :=
     [\<lparr>at_id = ''att'', at_cipher_uuid = ''ca'', at_file_name = ''f'', at_file_size = 3, at_akey = Some ''k''\<rparr>]\<rparr>)"

theorem attachment_roundtrip_witness:
  "fst (run_state (download_attachment_file sample_env (sample_headers ''alice'') ''ca'' ''att'')
     (snd (run_state (upload_attachment sample_env (sample_headers ''alice'') ''ca'' ''att''
        \<lparr>up_content_type = None, up_body = Some [1, 2, 3]\<rparr>) sample_attachment_world))) =
   Response 200 (BytesBody ''application/octet-stream'' [1, 2, 3])"
proof -
  have bytes: "attachment_bytes \<lparr>up_content_type = None, up_body = Some [1, 2, 3]\<rparr> = Inr [1, 2, 3]"
    by code_simp
  have "wp (upload_attachment sample_env (sample_headers ''alice'') ''ca'' ''att''
      \<lparr>up_content_type = None, up_body = Some [1, 2, 3]\<rparr>) (\<lambda>r _. resp_status r = 200) sample_attachment_world"
    using bytes
    by (simp add: upload_attachment_def load_attachment_def load_personal_cipher_def cipher_find_by_uuid_def
        attachment_find_by_id_def notify_cipher_def wrap_i32_def sample_attachment_world_def eval_simps)
  then have "resp_status (fst (run_state (upload_attachment sample_env (sample_headers ''alice'') ''ca'' ''att''
      \<lparr>up_content_type = None, up_body = Some [1, 2, 3]\<rparr>) sample_attachment_world)) = 200"
    by (simp add: wp_def split_beta)
  from attachment_roundtrip [OF surjective_pairing this bytes _ _ surjective_pairing]
  show ?thesis by (simp add: sample_env_def)
qed

text \<open>
  An item that is not the caller's own personal item has no attachments for that caller: all
  six handlers answer with an error, and neither the database nor the storage changes.
\<close>

theorem attachment_requests_of_others_denied:
  assumes "\<forall>c\<in>set (t_ciphers (w_db s)). ci_uuid c = cid \<longrightarrow> ci_user_uuid c \<noteq> Some (uid h)"
    and "m \<in> {post_attachment_v2 env h cid body, upload_attachment env h cid aid req,
       get_attachment env h cid aid, download_attachment_file env h cid aid,
       delete_attachment env h cid aid, share_attachment env h cid aid share}"
    and "run_state m s = (resp, s')"
  shows "resp_status resp \<ge> 400 \<and> w_db s' = w_db s \<and> w_r2_attachments s' = w_r2_attachments s"
proof -
  let ?Q = "\<lambda>resp s'. resp_status resp \<ge> 400 \<and> w_db s' = w_db s \<and> w_r2_attachments s' = w_r2_attachments s"
  have none: "find (\<lambda>x. ci_uuid x = cid) (t_ciphers (w_db s)) = Some c \<Longrightarrow> ci_user_uuid c \<noteq> Some (uid h)" for c
    using assms(1) by (auto dest: find_SomeD)
  have "wp (try_ret (load_personal_cipher env h cid) (\<lambda>e. e) k) ?Q s" for k
    using none by (auto simp: load_personal_cipher_def cipher_find_by_uuid_def wp_rules split: option.splits)
  moreover have "wp (try_ret (load_attachment env h cid aid) (\<lambda>e. e) k) ?Q s" for k
    using none by (auto simp: attachment_of_def wp_rules intro!: wp_load_attachmentI)
  ultimately have "wp m ?Q s"
    using assms(2) unfolding post_attachment_v2_def upload_attachment_def get_attachment_def
      download_attachment_file_def delete_attachment_def share_attachment_def
    by auto
  then show ?thesis using assms(3) by (rule wpD)
qed

theorem attachment_requests_of_others_denied_witness:
  "resp_status (fst (run_state (download_attachment_file sample_env (sample_headers ''bob'') ''ca'' ''att'')
     sample_attachment_world)) \<ge> 400"
  by (rule conjunct1, rule attachment_requests_of_others_denied [OF _ _ surjective_pairing, where cid = "''ca''"
        and h = "sample_headers ''bob''" and env = sample_env and aid = "''att''"])
    (auto simp: sample_attachment_world_def sample_defs)

end
