(* ===== verification/Cron.thy ===== *)
theory Cron
  imports Models_Factors Emergency_Access Sends
begin

text \<open>
  The scheduled part of \<open>worker/src/lib.rs\<close>: \<open>run_purges\<close> removes what has expired and sends
  reminders.  The platform calls it with the text of the schedule that is due.  One reading of the
  clock serves a whole run; the cut-off \<open>now - d\<close> is \<open>e_ago\<close> of that reading.  A run ends with an error
  at the first binding of the platform that it asks for in vain (\<open>e_binding\<close>).
\<close>

section \<open>The jobs\<close>

definition purge_sends :: "env \<Rightarrow> string \<Rightarrow> (world, unit + unit) state" where
  "purge_sends env now = do {
     r \<leftarrow> send_expired_file_send_uuids env now;
     try_ret (case r of
         Inr uuids \<Rightarrow>
           if uuids = [] then return (Inr ())
           else if \<not> e_binding env ''SENDS'' then return (Inl ())
           else do {
             _ \<leftarrow> for_each uuids (\<lambda>uuid.
               try_ret (r2_list_sends env (uuid @ ''/'')) (\<lambda>_. ()) (\<lambda>keys.
                 for_each keys (\<lambda>k. ignore (r2_delete_send env k))));
             return (Inr ()) }
       | Inl _ \<Rightarrow> return (Inr ())) Inl (\<lambda>_. do {
     _ \<leftarrow> send_purge_expired env now;
     return (Inr ()) }) }"

definition purge_trash :: "env \<Rightarrow> string \<Rightarrow> (world, unit + unit) state" where
  "purge_trash env cutoff = do {
     r \<leftarrow> cipher_trashed_attachment_keys env cutoff;
     try_ret (case r of
         Inr keys \<Rightarrow>
           if keys = [] then return (Inr ())
           else if \<not> e_binding env ''ATTACHMENTS'' then return (Inl ())
           else do {
             _ \<leftarrow> for_each keys (\<lambda>(cipher_uuid, attachment_id).
               ignore (r2_delete_attachment env (cipher_uuid @ ''/'' @ attachment_id)));
             _ \<leftarrow> d1_exec env (\<lambda>d. Some (d\<lparr>t_attachments := delete_where
               (\<lambda>a. \<exists>c\<in>set (t_ciphers d). trashed_before cutoff c \<and> ci_uuid c = at_cipher_uuid a)
               (t_attachments d)\<rparr>));
             return (Inr ()) }
       | Inl _ \<Rightarrow> return (Inr ())) Inl (\<lambda>_. do {
     _ \<leftarrow> cipher_purge_trashed_before env cutoff;
     return (Inr ()) }) }"

definition remind_grantors :: "env \<Rightarrow> string \<Rightarrow> unit act" where
  "remind_grantors env now =
     try_ret (emergency_access_pending_reminders env) (\<lambda>_. ()) (\<lambda>reminders.
       for_each reminders (\<lambda>row.
         case (ea_grantor_uuid row, ea_grantee_uuid row) of
           (Some grantor_uuid, Some grantee_uuid) \<Rightarrow> do {
             grantor \<leftarrow> unwrap_or None (user_find_by_uuid env grantor_uuid);
             grantee \<leftarrow> unwrap_or None (user_find_by_uuid env grantee_uuid);
             case (grantor, grantee) of
               (Some grantor, Some grantee) \<Rightarrow> do {
                 _ \<leftarrow> ea_mail env (us_email grantor) ''Pending emergency access request''
                   (us_email grantee @ '' has requested emergency access to your Vaultwarden account. ''
                    @ ''Approve or reject before the wait window expires.'');
                 ignore (emergency_access_save env (row\<lparr>ea_last_notification_at := Some now\<rparr>)) }
             | _ \<Rightarrow> return () }
         | _ \<Rightarrow> return ()))"

definition remind_incomplete :: "env \<Rightarrow> string \<Rightarrow> unit act" where
  "remind_incomplete env cutoff = do {
     rows \<leftarrow> unwrap_or [] (d1_query env (\<lambda>d.
       filter (\<lambda>x. ti_login_time x \<le> cutoff) (t_twofactor_incomplete d)));
     for_each rows (\<lambda>row. do {
       r \<leftarrow> user_find_by_uuid env (ti_user_uuid row);
       _ \<leftarrow> (case r of
           Inr (Some user) \<Rightarrow>
             ea_mail env (us_email user) ''Incomplete two-factor sign-in attempt''
               (''We saw an unfinished sign-in attempt on '' @ ti_device_name row @ '' from ''
                @ (if ti_ip_address row = [] then ''an unknown IP'' else ti_ip_address row)
                @ '' to your Vaultwarden account at '' @ env_var_or_empty env ''DOMAIN''
                @ ''. If this wasn'' @ [CHR 0x27] @ ''t you, change your password.'')
         | _ \<Rightarrow> return ());
       ignore (d1_exec env (\<lambda>d. Some (d\<lparr>t_twofactor_incomplete := delete_where
         (\<lambda>x. ti_user_uuid x = ti_user_uuid row \<and> ti_device_uuid x = ti_device_uuid row)
         (t_twofactor_incomplete d)\<rparr>))) }) }"

definition run_purges :: "env \<Rightarrow> string \<Rightarrow> (world, unit + unit) state" where
  "run_purges env cron =
     (if \<not> e_binding env ''DB'' then return (Inl ())
      else do {
        t \<leftarrow> utc_now env;
        if prefix ''*/5 '' cron then purge_sends env (e_now env t)
        else if prefix ''0 * '' cron then
          try_ret (purge_trash env (e_ago env t (30 * 86400))) Inl (\<lambda>_. do {
            _ \<leftarrow> auth_request_purge_old env (e_ago env t 86400);
            _ \<leftarrow> emergency_access_auto_approve_due env;
            _ \<leftarrow> remind_grantors env (e_now env t);
            _ \<leftarrow> duo_context_purge_expired env (int (e_unix env t));
            _ \<leftarrow> remind_incomplete env (e_ago env t (15 * 60));
            return (Inr ()) })
        else if prefix ''0 0 '' cron then do {
          _ \<leftarrow> event_delete_old env (e_ago env t (30 * 86400));
          _ \<leftarrow> sso_auth_purge_old env (e_ago env t 3600);
          return (Inr ()) }
        else return (Inr ()) })"

section \<open>What a run leaves alone\<close>

definition trash_cutoff :: "env \<Rightarrow> nat \<Rightarrow> string" where
  "trash_cutoff env t = e_ago env t (30 * 86400)"

definition in_old_trash :: "env \<Rightarrow> nat \<Rightarrow> db \<Rightarrow> attachment \<Rightarrow> bool" where
  "in_old_trash env t d a \<longleftrightarrow>
     (\<exists>c\<in>set (t_ciphers d). ci_uuid c = at_cipher_uuid a \<and> trashed_before (trash_cutoff env t) c)"

text \<open>
  The world after some steps of the run that read the clock at \<open>t\<close>: nothing was added to the three tables, and
  what had not expired is still there.
\<close>

definition live_kept :: "env \<Rightarrow> nat \<Rightarrow> world \<Rightarrow> world \<Rightarrow> bool" where
  "live_kept env t s s' \<longleftrightarrow>
     set (t_ciphers (w_db s')) \<subseteq> set (t_ciphers (w_db s)) \<and>
     set (t_attachments (w_db s')) \<subseteq> set (t_attachments (w_db s)) \<and>
     (\<forall>c\<in>set (t_ciphers (w_db s)). \<not> trashed_before (trash_cutoff env t) c \<longrightarrow> c \<in> set (t_ciphers (w_db s'))) \<and>
     (\<forall>x\<in>set (t_sends (w_db s)). \<not> se_deletion_date x \<le> e_now env t \<longrightarrow> x \<in> set (t_sends (w_db s'))) \<and>
     (\<forall>a\<in>set (t_attachments (w_db s)). \<not> in_old_trash env t (w_db s) a \<longrightarrow> a \<in> set (t_attachments (w_db s'))) \<and>
     (\<forall>k. (\<forall>a\<in>set (t_attachments (w_db s)). in_old_trash env t (w_db s) a \<longrightarrow> k \<noteq> r2_key (at_cipher_uuid a) (at_id a)) \<longrightarrow>
        map_of (w_r2_attachments s') k = map_of (w_r2_attachments s) k) \<and>
     t_users (w_db s') = t_users (w_db s) \<and> t_devices (w_db s') = t_devices (w_db s) \<and>
     t_folders (w_db s') = t_folders (w_db s) \<and> t_collections (w_db s') = t_collections (w_db s) \<and>
     t_users_organizations (w_db s') = t_users_organizations (w_db s) \<and> t_twofactor (w_db s') = t_twofactor (w_db s)"

lemma live_kept_refl: "live_kept env t s s"
  by (simp add: live_kept_def)

lemma live_kept_simps [simp]:
  "live_kept env t s (bump s') = live_kept env t s s'"
  "live_kept env t s (s'\<lparr>w_r2_sends := objects\<rparr>) = live_kept env t s s'"
  by (simp_all add: live_kept_def)

text \<open>Steps that leave the rows in question as they are.\<close>

definition same_rows :: "world \<Rightarrow> world \<Rightarrow> bool" where
  "same_rows s s' \<longleftrightarrow> t_ciphers (w_db s') = t_ciphers (w_db s) \<and> t_attachments (w_db s') = t_attachments (w_db s) \<and>
     t_sends (w_db s') = t_sends (w_db s) \<and> w_r2_attachments s' = w_r2_attachments s \<and>
     t_users (w_db s') = t_users (w_db s) \<and> t_devices (w_db s') = t_devices (w_db s) \<and>
     t_folders (w_db s') = t_folders (w_db s) \<and> t_collections (w_db s') = t_collections (w_db s) \<and>
     t_users_organizations (w_db s') = t_users_organizations (w_db s) \<and> t_twofactor (w_db s') = t_twofactor (w_db s)"

lemma live_kept_same_rows: "live_kept env t s s1 \<Longrightarrow> same_rows s1 s2 \<Longrightarrow> live_kept env t s s2"
  by (simp add: live_kept_def same_rows_def)

lemma same_rows_refl: "same_rows s s"
  and same_rows_trans: "same_rows s s1 \<Longrightarrow> same_rows s1 s2 \<Longrightarrow> same_rows s s2"
  by (simp_all add: same_rows_def)

lemma wp_quiet_steps:
  "wp (auth_request_purge_old env c) (\<lambda>_. same_rows s) s"
  "wp (emergency_access_auto_approve_due env) (\<lambda>_. same_rows s) s"
  "wp (duo_context_purge_expired env n) (\<lambda>_. same_rows s) s"
  "wp (event_delete_old env c) (\<lambda>_. same_rows s) s"
  "wp (sso_auth_purge_old env c) (\<lambda>_. same_rows s) s"
  by (simp_all add: auth_request_purge_old_def emergency_access_auto_approve_due_def
      duo_context_purge_expired_def event_delete_old_def sso_auth_purge_old_def wp_rules same_rows_def)

lemma wp_remind_grantors: "wp (remind_grantors env now) (\<lambda>_. same_rows s) s"
  unfolding remind_grantors_def emergency_access_pending_reminders_def
  by (auto simp: wp_rules same_rows_refl intro!: wp_for_each_invariant split: option.splits)
    (auto simp: wp_rules same_rows_def user_find_by_uuid_def ea_mail_def emergency_access_save_def Let_def
      split: option.splits)

lemma wp_remind_incomplete: "wp (remind_incomplete env c) (\<lambda>_. same_rows s) s"
  unfolding remind_incomplete_def
  by (auto simp: wp_rules same_rows_refl intro!: wp_for_each_invariant split: option.splits)
    (auto simp: wp_rules same_rows_def user_find_by_uuid_def ea_mail_def split: option.splits)

text \<open>The calls of the buckets that the jobs make.\<close>

lemma wp_bucket:
  "wp (r2_list_sends env p) Q s = Q (if e_fault env (w_tick s) then Inl ()
     else Inr (take 1000 (sort (filter (prefix p) (map fst (w_r2_sends s)))))) (bump s)"
  "wp (r2_delete_send env k) Q' s = (if e_fault env (w_tick s) then Q' (Inl ()) (bump s)
     else Q' (Inr ()) (bump (s\<lparr>w_r2_sends := filter (\<lambda>(k', _). k' \<noteq> k) (w_r2_sends s)\<rparr>)))"
  "wp (r2_delete_attachment env k) Q' s = (if e_fault env (w_tick s) then Q' (Inl ()) (bump s)
     else Q' (Inr ()) (bump (s\<lparr>w_r2_attachments := filter (\<lambda>(k', _). k' \<noteq> k) (w_r2_attachments s)\<rparr>)))"
  by (simp_all add: wp_def r2_list_sends_def r2_delete_send_def r2_delete_attachment_def)

lemma map_of_filter_other: "k' \<noteq> k \<Longrightarrow> map_of (filter (\<lambda>(x, _). x \<noteq> k) xs) k' = map_of xs k'"
  by (induction xs) auto

lemma wp_purge_sends:
  assumes "live_kept env t s s1"
  shows "wp (purge_sends env (e_now env t)) (\<lambda>_. live_kept env t s) s1"
proof -
  let ?I = "live_kept env t s"
  have files: "wp (for_each keys (\<lambda>k. ignore (r2_delete_send env k))) (\<lambda>_. ?I) s2" if "?I s2" for keys s2
    by (rule wp_for_each_invariant [where I = ?I, OF that]) (simp add: wp_bucket)
  have sends: "wp (for_each uuids (\<lambda>uuid. try_ret (r2_list_sends env (uuid @ ''/'')) (\<lambda>_. ())
      (\<lambda>keys. for_each keys (\<lambda>k. ignore (r2_delete_send env k))))) (\<lambda>_. ?I) s2" if "?I s2" for uuids s2
    by (rule wp_for_each_invariant [where I = ?I, OF that]) (simp add: wp_bucket files)
  have "?I (s2\<lparr>w_db := (w_db s2)\<lparr>t_sends :=
      delete_where (\<lambda>x. se_deletion_date x \<le> e_now env t) (t_sends (w_db s2))\<rparr>\<rparr>)" if "?I s2" for s2
    using that unfolding live_kept_def by (simp add: delete_where_def)
  then have "wp (send_purge_expired env (e_now env t)) (\<lambda>_. ?I) s2" if "?I s2" for s2
    using that by (simp add: send_purge_expired_def wp_rules)
  then show ?thesis
    using assms unfolding purge_sends_def send_expired_file_send_uuids_def
    by (auto simp: wp_rules intro!: wp_mono [OF sends])
qed

text \<open>The keys that the query of the job returns belong to items in the old trash.\<close>

lemma trashed_keys:
  assumes "live_kept env t s s1" "(c, a) \<in> set (concat (map (\<lambda>a. map (\<lambda>c. (at_cipher_uuid a, at_id a))
     (filter (\<lambda>c. ci_uuid c = at_cipher_uuid a \<and> trashed_before (trash_cutoff env t) c) (t_ciphers (w_db s1))))
     (t_attachments (w_db s1))))"
  shows "\<exists>x\<in>set (t_attachments (w_db s)). in_old_trash env t (w_db s) x \<and> c = at_cipher_uuid x \<and> a = at_id x"
  using assms by (auto simp: live_kept_def in_old_trash_def)

lemma live_kept_object:
  assumes "live_kept env t s s2" "x \<in> set (t_attachments (w_db s))" "in_old_trash env t (w_db s) x"
  shows "live_kept env t s (s2\<lparr>w_r2_attachments :=
    filter (\<lambda>(k', _). k' \<noteq> at_cipher_uuid x @ CHR ''/'' # at_id x) (w_r2_attachments s2)\<rparr>)"
proof -
  have "map_of (filter (\<lambda>(k', _). k' \<noteq> at_cipher_uuid x @ CHR ''/'' # at_id x) (w_r2_attachments s2)) k =
      map_of (w_r2_attachments s) k"
    if "\<forall>a\<in>set (t_attachments (w_db s)). in_old_trash env t (w_db s) a \<longrightarrow> k \<noteq> r2_key (at_cipher_uuid a) (at_id a)" for k
  proof -
    from that assms(2,3) have "k \<noteq> at_cipher_uuid x @ CHR ''/'' # at_id x" by (auto simp: r2_key_def)
    with that assms(1) show ?thesis by (simp add: map_of_filter_other live_kept_def)
  qed
  with assms(1) show ?thesis by (simp add: live_kept_def)
qed

lemma wp_drop_objects:
  assumes "live_kept env t s s2"
    and "\<And>c a. (c, a) \<in> set keys \<Longrightarrow> \<exists>x\<in>set (t_attachments (w_db s)). in_old_trash env t (w_db s) x \<and>
      c = at_cipher_uuid x \<and> a = at_id x"
  shows "wp (for_each keys (\<lambda>(c, a). ignore (r2_delete_attachment env (c @ ''/'' @ a)))) (\<lambda>_. live_kept env t s) s2"
proof (rule wp_for_each_invariant [where I = "live_kept env t s", OF assms(1)])
  fix key s3 assume "key \<in> set keys" "live_kept env t s s3"
  with assms(2) [of "fst key" "snd key"] show
    "wp (case key of (c, a) \<Rightarrow> ignore (r2_delete_attachment env (c @ ''/'' @ a))) (\<lambda>_. live_kept env t s) s3"
    by (auto simp: wp_rules wp_bucket split_beta intro: live_kept_object)
qed

lemma live_kept_rows:
  assumes "live_kept env t s s2"
  shows "live_kept env t s (s2\<lparr>w_db := (w_db s2)\<lparr>t_attachments := delete_where
      (\<lambda>a. \<exists>c\<in>set (t_ciphers (w_db s2)). trashed_before (trash_cutoff env t) c \<and> ci_uuid c = at_cipher_uuid a)
      (t_attachments (w_db s2))\<rparr>\<rparr>)"
    and "live_kept env t s (s2\<lparr>w_db := delete_ciphers env (trashed_before (trash_cutoff env t)) (w_db s2)\<rparr>)"
  using assms by (auto simp: live_kept_def in_old_trash_def delete_where_def delete_ciphers_def)

lemma wp_purge_trash:
  assumes "live_kept env t s s1"
  shows "wp (purge_trash env (trash_cutoff env t)) (\<lambda>_. live_kept env t s) s1"
proof -
  have items: "wp (cipher_purge_trashed_before env (trash_cutoff env t)) (\<lambda>_. live_kept env t s) s2"
    if "live_kept env t s s2" for s2
    using that live_kept_rows(2) [OF that] by (simp add: cipher_purge_trashed_before_def wp_rules)
  define keys where "keys = concat (map (\<lambda>a. map (\<lambda>c. (at_cipher_uuid a, at_id a))
     (filter (\<lambda>c. ci_uuid c = at_cipher_uuid a \<and> trashed_before (trash_cutoff env t) c) (t_ciphers (w_db s1))))
     (t_attachments (w_db s1)))"
  have "wp (for_each keys (\<lambda>(c, a). ignore (r2_delete_attachment env (c @ ''/'' @ a)))) (\<lambda>_. live_kept env t s) (bump s1)"
    by (rule wp_drop_objects) (use assms trashed_keys [OF assms, folded keys_def] in auto)
  then show ?thesis
    unfolding purge_trash_def cipher_trashed_attachment_keys_def
    using assms
    by (auto simp: wp_rules keys_def [symmetric] simp del: set_concat concat_eq_Nil_conv
        intro!: items live_kept_rows(1) elim!: wp_mono)
qed

lemma case_sum_post:
  "(\<And>e. F e s) \<Longrightarrow> (\<And>x. G x s) \<Longrightarrow> (case r of Inl e \<Rightarrow> F e | Inr x \<Rightarrow> G x) s"
  by (cases r) simp_all

section \<open>Properties\<close>

text \<open>C22.
  The cron job removes nothing that is alive: whichever schedule runs and whichever calls fail,
  items that are not in the trash for thirty days, sends before their deletion date, the
  attachments of other items with their files, and all users, devices, folders, collections,
  memberships and second factors are as before.
\<close>

theorem cron_keeps_live_data:
  assumes "run_state (run_purges env cron) s = (r, s')"
  shows "live_kept env (w_tick s) s s'"
proof -
  let ?I = "live_kept env (w_tick s) s"
  have quiet: "wp m Q s1" if "?I s1" "wp m (\<lambda>_. same_rows s1) s1" "\<And>r s2. ?I s2 \<Longrightarrow> Q r s2"
    for s1 Q and m :: "'b act"
    using that(1,3) by (intro wp_mono [OF that(2)]) (blast intro: live_kept_same_rows)
  note steps = wp_quiet_steps [THEN quiet [rotated]] wp_remind_grantors [THEN quiet [rotated]]
    wp_remind_incomplete [THEN quiet [rotated]]
  have "wp (run_purges env cron) (\<lambda>_. ?I) s"
    unfolding run_purges_def trash_cutoff_def [symmetric] wp_bind wp_sources
    by (simp only: wp_if wp_bind wp_try_ret wp_return wp_sources split: if_split)
      (intro conjI impI wp_purge_sends wp_mono [OF wp_purge_trash] case_sum_post steps; simp add: live_kept_refl)
  then show ?thesis using assms by (rule wpD)
qed

theorem cron_keeps_live_data_witness:
  "live_kept sample_env 0 (sample_world sample_db)
     (snd (run_state (run_purges sample_env ''0 * * * *'') (sample_world sample_db)))"
  using cron_keeps_live_data [where cron = "''0 * * * *''" and env = sample_env and s = "sample_world sample_db",
      OF surjective_pairing]
  by (simp add: sample_world_def)

end
