(* ===== verification/Collections.thy ===== *)
theory Collections
  imports Sample_Data
begin

text \<open>
  \<open>worker/src/api/collections.rs\<close>: the collections of an organization, who may see them (rows of
  \<open>users_collections\<close> and \<open>collections_groups\<close>) and the handlers that change both.
\<close>

section \<open>JSON\<close>

definition collection_details :: "collection \<Rightarrow> bool \<Rightarrow> bool \<Rightarrow> bool \<Rightarrow> json" where
  "collection_details c read_only hide_passwords manage = JObj [
     (''Object'', JStr ''collectionDetails''), (''Id'', JStr (co_uuid c)),
     (''OrganizationId'', JStr (co_org_uuid c)), (''Name'', JStr (co_name c)),
     (''ExternalId'', jopt (co_external_id c)), (''ReadOnly'', JBool read_only),
     (''HidePasswords'', JBool hide_passwords), (''Manage'', JBool manage)]"

definition collection_to_json :: "collection \<Rightarrow> json" where
  "collection_to_json c = collection_details c False False True"

definition collection_to_json_for :: "collection \<Rightarrow> int \<Rightarrow> user_collection option \<Rightarrow> json" where
  "collection_to_json_for c membership_atype acl =
     (if membership_atype \<in> {0, 1, 3} then collection_details c False False True
      else case acl of
        Some a \<Rightarrow> collection_details c (uc_read_only a = 1) (uc_hide_passwords a = 1) (uc_manage a = 1)
      | None \<Rightarrow> collection_details c True False False)"

section \<open>Request bodies\<close>

text \<open>The entries for users and for groups have the same four fields.\<close>

record acl_entry =
  ae_id :: string
  ae_read_only :: bool
  ae_hide_passwords :: bool
  ae_manage :: bool

record collection_data =
  cd_name :: string
  cd_external_id :: "string option"
  cd_users :: "acl_entry list option"
  cd_groups :: "acl_entry list option"

section \<open>Handlers\<close>

definition require_membership :: "env \<Rightarrow> headers \<Rightarrow> string \<Rightarrow> (world, response + membership) state" where
  "require_membership env h org_id =
     try_ret (membership_find_by_user_and_org env (uid h) org_id)
       (\<lambda>_. Inl (err_json 500 ''database error'')) (\<lambda>found.
     return (case found of
         None \<Rightarrow> Inl (err_json 404 ''Organization not found'')
       | Some m \<Rightarrow> Inr m))"

definition list_all_collections :: "env \<Rightarrow> headers \<Rightarrow> response act" where
  "list_all_collections env h =
     try_ret (membership_find_by_user env (uid h)) (\<lambda>_. err_json 500 ''database error'') (\<lambda>memberships. do {
       acls \<leftarrow> unwrap_or [] (user_collection_find_by_user env (uid h));
       data \<leftarrow> for_acc memberships [] (\<lambda>m data. do {
         r \<leftarrow> collection_find_by_org env (me_org_uuid m);
         return (case r of
             Inl _ \<Rightarrow> data
           | Inr cs \<Rightarrow> data @ map (\<lambda>c. collection_to_json_for c (me_atype m)
               (find (\<lambda>a. uc_collection_uuid a = co_uuid c) acls)) cs) });
       return (json_response 200 (json_list data)) })"

definition list_org_collections :: "env \<Rightarrow> headers \<Rightarrow> string \<Rightarrow> response act" where
  "list_org_collections env h org_id =
     try_ret (require_membership env h org_id) (\<lambda>e. e) (\<lambda>m.
     try_ret (collection_find_by_org env org_id) (\<lambda>_. err_json 500 ''database error'') (\<lambda>cs. do {
       acls \<leftarrow> unwrap_or [] (user_collection_find_by_user env (uid h));
       return (json_response 200 (json_list (map (\<lambda>c. collection_to_json_for c (me_atype m)
         (find (\<lambda>a. uc_collection_uuid a = co_uuid c) acls)) cs))) }))"

text \<open>
  The loops that store access rows.  The id of an entry for a user is that of a membership; the
  handlers differ in which members of the organization they accept.
\<close>

definition set_user_acls ::
  "env \<Rightarrow> (membership \<Rightarrow> bool) \<Rightarrow> string \<Rightarrow> string \<Rightarrow> acl_entry list \<Rightarrow> unit act" where
  "set_user_acls env accept org_id col_id users =
     for_each users (\<lambda>entry. do {
       found \<leftarrow> membership_find_by_uuid env (ae_id entry);
       case found of
         Inr (Some m) \<Rightarrow>
           if me_org_uuid m = org_id \<and> accept m
           then ignore (user_collection_upsert env (user_collection_new (me_user_uuid m) col_id
             (ae_read_only entry) (ae_hide_passwords entry) (ae_manage entry)))
           else return ()
       | _ \<Rightarrow> return () })"

definition set_group_acls :: "env \<Rightarrow> string \<Rightarrow> acl_entry list \<Rightarrow> unit act" where
  "set_group_acls env col_id groups =
     for_each groups (\<lambda>entry. ignore (collection_group_set env (collection_group_new col_id
       (ae_id entry) (ae_read_only entry) (ae_hide_passwords entry) (ae_manage entry))))"

definition post_collection :: "env \<Rightarrow> headers \<Rightarrow> string \<Rightarrow> collection_data \<Rightarrow> response act" where
  "post_collection env h org_id body =
     try_ret (require_membership env h org_id) (\<lambda>e. e) (\<lambda>_. do {
       col \<leftarrow> collection_new env org_id (cd_name body);
       let col = col\<lparr>co_external_id := cd_external_id body\<rparr>;
       try_ret (collection_save env col) (\<lambda>_. err_json 500 ''failed to save collection'') (\<lambda>_. do {
         _ \<leftarrow> if_some (cd_users body)
                (set_user_acls env (\<lambda>m. me_access_all m = 0) org_id (co_uuid col));
         _ \<leftarrow> if_some (cd_groups body) (set_group_acls env (co_uuid col));
         _ \<leftarrow> log_org_event env COLLECTION_CREATED org_id (uid h) None (dev_type h);
         _ \<leftarrow> notify_org env org_id SYNC_VAULT org_id;
         return (json_response 200 (collection_to_json col)) }) })"

definition load_org_collection ::
  "env \<Rightarrow> headers \<Rightarrow> string \<Rightarrow> string \<Rightarrow> (world, response + collection) state" where
  "load_org_collection env h org_id col_id =
     try_ret (require_membership env h org_id) Inl (\<lambda>_.
     try_ret (collection_find_by_uuid env col_id)
       (\<lambda>_. Inl (err_json 500 ''database error'')) (\<lambda>found.
     return (case found of
         None \<Rightarrow> Inl (err_json 404 ''Collection not found'')
       | Some c \<Rightarrow> if co_org_uuid c \<noteq> org_id then Inl (err_json 404 ''Collection not found'')
                  else Inr c)))"

definition get_collection :: "env \<Rightarrow> headers \<Rightarrow> string \<Rightarrow> string \<Rightarrow> response act" where
  "get_collection env h org_id col_id =
     try_ret (load_org_collection env h org_id col_id) (\<lambda>e. e) (\<lambda>c.
       return (json_response 200 (collection_to_json c)))"

definition put_collection ::
  "env \<Rightarrow> headers \<Rightarrow> string \<Rightarrow> string \<Rightarrow> collection_data \<Rightarrow> response act" where
  "put_collection env h org_id col_id body =
     try_ret (load_org_collection env h org_id col_id) (\<lambda>e. e) (\<lambda>c. do {
       let c = c\<lparr>co_name := cd_name body, co_external_id := cd_external_id body\<rparr>;
       try_ret (collection_save env c) (\<lambda>_. err_json 500 ''failed to save collection'') (\<lambda>_. do {
         _ \<leftarrow> if_some (cd_users body) (\<lambda>users. do {
                _ \<leftarrow> user_collection_delete_all_by_collection env col_id;
                set_user_acls env (\<lambda>m. me_access_all m = 0) org_id col_id users });
         _ \<leftarrow> if_some (cd_groups body) (\<lambda>groups. do {
                _ \<leftarrow> collection_group_delete_all_by_collection env col_id;
                set_group_acls env col_id groups });
         _ \<leftarrow> log_org_event env COLLECTION_UPDATED org_id (uid h) None (dev_type h);
         _ \<leftarrow> notify_org env org_id SYNC_VAULT org_id;
         return (json_response 200 (collection_to_json c)) }) })"

definition delete_collection :: "env \<Rightarrow> headers \<Rightarrow> string \<Rightarrow> string \<Rightarrow> response act" where
  "delete_collection env h org_id col_id =
     try_ret (load_org_collection env h org_id col_id) (\<lambda>e. e) (\<lambda>c. do {
       _ \<leftarrow> d1_exec env (\<lambda>d. Some (d\<lparr>t_ciphers_collections :=
              delete_where (\<lambda>(_, u). u = col_id) (t_ciphers_collections d)\<rparr>));
       _ \<leftarrow> d1_exec env (\<lambda>d. Some (d\<lparr>t_users_collections :=
              delete_where (\<lambda>x. uc_collection_uuid x = col_id) (t_users_collections d)\<rparr>));
       _ \<leftarrow> d1_exec env (\<lambda>d. Some (d\<lparr>t_collections_groups :=
              delete_where (\<lambda>x. cg_collections_uuid x = col_id) (t_collections_groups d)\<rparr>));
       try_ret (collection_delete env c) (\<lambda>_. err_json 500 ''failed to delete collection'') (\<lambda>_. do {
         _ \<leftarrow> log_org_event env COLLECTION_DELETED org_id (uid h) None (dev_type h);
         _ \<leftarrow> notify_org env org_id SYNC_VAULT org_id;
         return (json_response 200 (JObj [])) }) })"

definition selection_read_only :: "string \<Rightarrow> int \<Rightarrow> int \<Rightarrow> int \<Rightarrow> json" where
  "selection_read_only u read_only hide_passwords manage = JObj [
     (''Object'', JStr ''selectionReadOnly''), (''Id'', JStr u), (''ReadOnly'', JBool (read_only = 1)),
     (''HidePasswords'', JBool (hide_passwords = 1)), (''Manage'', JBool (manage = 1))]"

definition list_collection_users :: "env \<Rightarrow> headers \<Rightarrow> string \<Rightarrow> string \<Rightarrow> response act" where
  "list_collection_users env h org_id col_id =
     try_ret (load_org_collection env h org_id col_id) (\<lambda>e. e) (\<lambda>_. do {
       acls \<leftarrow> unwrap_or [] (user_collection_find_by_collection env col_id);
       data \<leftarrow> for_acc acls [] (\<lambda>a data. do {
         r \<leftarrow> membership_find_by_user_and_org env (uc_user_uuid a) org_id;
         let membership_id = (case r of Inr (Some m) \<Rightarrow> me_uuid m | _ \<Rightarrow> uc_user_uuid a);
         return (data @ [selection_read_only membership_id (uc_read_only a) (uc_hide_passwords a) (uc_manage a)]) });
       groups \<leftarrow> unwrap_or [] (collection_group_find_by_collection env col_id);
       return (json_response 200 (JArr (data @ map (\<lambda>g.
         selection_read_only (cg_groups_uuid g) (cg_read_only g) (cg_hide_passwords g) (cg_manage g)) groups))) })"

definition set_collection_users ::
  "env \<Rightarrow> headers \<Rightarrow> string \<Rightarrow> string \<Rightarrow> acl_entry list \<Rightarrow> acl_entry list \<Rightarrow> response act" where
  "set_collection_users env h org_id col_id users groups =
     try_ret (load_org_collection env h org_id col_id) (\<lambda>e. e) (\<lambda>_. do {
       existing \<leftarrow> unwrap_or [] (user_collection_find_by_collection env col_id);
       _ \<leftarrow> for_each existing (\<lambda>entry. ignore (user_collection_delete env entry));
       _ \<leftarrow> set_user_acls env (\<lambda>_. True) org_id col_id users;
       _ \<leftarrow> collection_group_delete_all_by_collection env col_id;
       _ \<leftarrow> set_group_acls env col_id groups;
       _ \<leftarrow> log_org_event env COLLECTION_UPDATED org_id (uid h) None (dev_type h);
       return (json_response 200 (JArr [])) })"

definition bulk_collection_access ::
  "env \<Rightarrow> headers \<Rightarrow> string \<Rightarrow> string list \<Rightarrow> acl_entry list \<Rightarrow> acl_entry list \<Rightarrow> response act" where
  "bulk_collection_access env h org_id collection_ids groups users =
     try_ret (require_membership env h org_id) (\<lambda>e. e) (\<lambda>m.
     if me_atype m \<notin> {0, 1, 3} then return (err_json 403 ''Manager access required'')
     else try_ret (for_ret collection_ids (\<lambda>col_id. do {
       found \<leftarrow> collection_find_by_uuid env col_id;
       case found of
         Inr (Some c) \<Rightarrow>
           if co_org_uuid c \<noteq> org_id then return (Inl (err_json 404 ''Collection not found''))
           else try_ret (collection_save env c) (\<lambda>_. Inl (err_json 500 ''save failed'')) (\<lambda>_. do {
             _ \<leftarrow> collection_group_delete_all_by_collection env col_id;
             _ \<leftarrow> set_group_acls env col_id groups;
             _ \<leftarrow> user_collection_delete_all_by_collection env col_id;
             _ \<leftarrow> set_user_acls env (\<lambda>m. me_access_all m \<noteq> 1) org_id col_id users;
             _ \<leftarrow> log_org_event env COLLECTION_UPDATED org_id (uid h) None (dev_type h);
             return (Inr ()) })
       | _ \<Rightarrow> return (Inl (err_json 404 ''Collection not found'')) }))
       (\<lambda>e. e) (\<lambda>_. return (json_response 200 (JObj []))))"

section \<open>Collections of other organizations\<close>

text \<open>Everything that hangs on one collection.\<close>

definition collection_rows :: "string \<Rightarrow> db \<Rightarrow>
    collection list \<times> (string \<times> string) list \<times> user_collection list \<times> collection_group list" where
  "collection_rows u d = (filter (\<lambda>x. co_uuid x = u) (t_collections d),
     filter (\<lambda>(_, c). c = u) (t_ciphers_collections d),
     filter (\<lambda>x. uc_collection_uuid x = u) (t_users_collections d),
     filter (\<lambda>x. cg_collections_uuid x = u) (t_collections_groups d))"

definition rows_kept :: "string \<Rightarrow> db \<Rightarrow> db \<Rightarrow> bool" where
  "rows_kept u d d' \<longleftrightarrow> collection_rows u d' = collection_rows u d \<and>
     t_users_organizations d' = t_users_organizations d"

lemma filter_upsert_other:
  assumes "\<not> P x" "\<And>old. \<not> P (c old x)" "\<And>y. k y = k x \<Longrightarrow> \<not> P y"
  shows "filter P (upsert k c x xs) = filter P xs"
proof -
  have "filter P (map (\<lambda>y. if k y = k x then c y x else y) ys) = filter P ys" for ys
    using assms by (induction ys) auto
  then show ?thesis
    using assms(1) by (auto simp: upsert_def update_where_def)
qed

lemma filter_delete_other: "(\<And>x. Q x \<Longrightarrow> \<not> P x) \<Longrightarrow> filter P (delete_where Q xs) = filter P xs"
  by (induction xs) (auto simp: delete_where_def)

lemma rows_kept_refl: "rows_kept u d d"
  by (simp add: rows_kept_def)

lemma rows_kept_event [simp]: "rows_kept u d (d'\<lparr>t_event := es\<rparr>) = rows_kept u d d'"
  by (simp add: rows_kept_def collection_rows_def)

lemma rows_kept_steps:
  assumes "rows_kept u d d'"
  shows "co_uuid x \<noteq> u \<Longrightarrow> rows_kept u d (d'\<lparr>t_collections := upsert co_uuid collection_conflict x (t_collections d')\<rparr>)"
    and "v \<noteq> u \<Longrightarrow> rows_kept u d (d'\<lparr>t_collections := delete_where (\<lambda>y. co_uuid y = v) (t_collections d')\<rparr>)"
    and "v \<noteq> u \<Longrightarrow> rows_kept u d (d'\<lparr>t_ciphers_collections := delete_where (\<lambda>(_, c). c = v) (t_ciphers_collections d')\<rparr>)"
    and "v \<noteq> u \<Longrightarrow> rows_kept u d (d'\<lparr>t_users_collections := delete_where (\<lambda>y. uc_collection_uuid y = v) (t_users_collections d')\<rparr>)"
    and "v \<noteq> u \<Longrightarrow> rows_kept u d (d'\<lparr>t_collections_groups := delete_where (\<lambda>y. cg_collections_uuid y = v) (t_collections_groups d')\<rparr>)"
    and "uc_collection_uuid a \<noteq> u \<Longrightarrow> rows_kept u d (d'\<lparr>t_users_collections :=
      upsert user_collection_key user_collection_conflict a (t_users_collections d')\<rparr>)"
    and "uc_collection_uuid a \<noteq> u \<Longrightarrow> rows_kept u d (d'\<lparr>t_users_collections :=
      delete_where (\<lambda>y. user_collection_key y = user_collection_key a) (t_users_collections d')\<rparr>)"
    and "cg_collections_uuid g \<noteq> u \<Longrightarrow> rows_kept u d (d'\<lparr>t_collections_groups :=
      upsert collection_group_key collection_group_conflict g (t_collections_groups d')\<rparr>)"
  using assms
  by (auto simp: rows_kept_def collection_rows_def user_collection_key_def collection_group_key_def
      collection_conflict_def user_collection_conflict_def collection_group_conflict_def
      intro!: trans [OF filter_upsert_other] trans [OF filter_delete_other])

text \<open>The collection with the id \<open>u\<close>, if there is one, is of an organization the caller is not in.\<close>

definition not_of_caller :: "db \<Rightarrow> headers \<Rightarrow> string \<Rightarrow> bool" where
  "not_of_caller d h u \<longleftrightarrow> (\<forall>x\<in>set (t_collections d). \<forall>m\<in>set (t_users_organizations d).
     co_uuid x = u \<longrightarrow> me_user_uuid m = uid h \<longrightarrow> me_org_uuid m \<noteq> co_org_uuid x)"

lemma filter_eq_member:
  assumes "filter P xs = filter P ys" "x \<in> set xs" "P x"
  shows "x \<in> set ys"
proof -
  from assms(2,3) have "x \<in> set (filter P xs)" by simp
  then show ?thesis by (simp add: assms(1))
qed

lemma rows_kept_row:
  "rows_kept u d d' \<Longrightarrow> x \<in> set (t_collections d') \<Longrightarrow> co_uuid x = u \<Longrightarrow> x \<in> set (t_collections d)"
  using filter_eq_member [of "\<lambda>x. co_uuid x = u" "t_collections d'" "t_collections d" x]
  by (simp add: rows_kept_def collection_rows_def)

lemma other_collection:
  assumes "rows_kept u d d'" "not_of_caller d h u" "x \<in> set (t_collections d')" "m \<in> set (t_users_organizations d')"
    "me_user_uuid m = uid h" "me_org_uuid m = co_org_uuid x"
  shows "co_uuid x \<noteq> u"
  using assms rows_kept_row [OF assms(1,3)] by (auto simp: not_of_caller_def rows_kept_def)

text \<open>The parts of the handlers that write, for another collection \<open>v\<close>.\<close>

lemma preserves_acl_steps [preserves_rules]:
  "v \<noteq> u \<Longrightarrow> preserves (\<lambda>s. rows_kept u d (w_db s)) (set_user_acls env accept org_id v users)"
  "v \<noteq> u \<Longrightarrow> preserves (\<lambda>s. rows_kept u d (w_db s)) (set_group_acls env v groups)"
  "v \<noteq> u \<Longrightarrow> preserves (\<lambda>s. rows_kept u d (w_db s)) (user_collection_delete_all_by_collection env v)"
  "v \<noteq> u \<Longrightarrow> preserves (\<lambda>s. rows_kept u d (w_db s)) (collection_group_delete_all_by_collection env v)"
  "co_uuid x \<noteq> u \<Longrightarrow> preserves (\<lambda>s. rows_kept u d (w_db s)) (collection_save env x)"
  "co_uuid x \<noteq> u \<Longrightarrow> preserves (\<lambda>s. rows_kept u d (w_db s)) (collection_delete env x)"
  "uc_collection_uuid a \<noteq> u \<Longrightarrow> preserves (\<lambda>s. rows_kept u d (w_db s)) (user_collection_delete env a)"
  unfolding set_user_acls_def set_group_acls_def user_collection_delete_all_by_collection_def
    collection_group_delete_all_by_collection_def collection_save_def collection_delete_def
    user_collection_delete_def membership_find_by_uuid_def user_collection_upsert_def collection_group_set_def
  by (intro preserves_rules preserves_d1_exec;
      auto simp: user_collection_new_def collection_group_new_def rows_kept_steps)+

lemma ignores_events_rows_kept [simp]: "ignores_events (rows_kept u d)"
  by (simp add: ignores_events_def)

lemma preserves_collection_reads [preserves_rules]:
  fixes P :: "db \<Rightarrow> bool"
  shows "preserves (\<lambda>s. P (w_db s)) (user_collection_find_by_collection env v)"
    and "preserves (\<lambda>s. P (w_db s)) (require_membership env h org_id)"
  unfolding user_collection_find_by_collection_def require_membership_def membership_find_by_user_and_org_def
  by (intro preserves_rules)+

lemma wp_behind_membership:
  assumes "\<And>e s'. w_db s' = w_db s \<Longrightarrow> resp_status e \<ge> 400 \<Longrightarrow> Q e s'"
    and "\<And>m s'. m \<in> set (t_users_organizations (w_db s)) \<Longrightarrow> me_user_uuid m = uid h \<Longrightarrow> me_org_uuid m = org_id \<Longrightarrow>
      w_db s' = w_db s \<Longrightarrow> wp (k m) Q s'"
  shows "wp (try_ret (require_membership env h org_id) (\<lambda>e. e) k) Q s"
  using assms
  by (auto simp: require_membership_def membership_find_by_user_and_org_def wp_rules
      split: option.splits dest!: find_SomeD)

text \<open>A collection that the loader hands out is not the one with the id \<open>u\<close>.\<close>

lemma wp_load_org_collectionI:
  assumes "rows_kept u d (w_db s)" "not_of_caller d h u"
    and "\<And>e s'. rows_kept u d (w_db s') \<Longrightarrow> Q (Inl e) s'"
    and "\<And>c s'. co_uuid c = v \<Longrightarrow> v \<noteq> u \<Longrightarrow> rows_kept u d (w_db s') \<Longrightarrow> Q (Inr c) s'"
  shows "wp (load_org_collection env h org_id v) Q s"
  using assms other_collection [OF assms(1,2)]
  by (auto simp: load_org_collection_def require_membership_def membership_find_by_user_and_org_def
      collection_find_by_uuid_def wp_rules split: option.splits dest!: find_SomeD)

lemma wp_behind_loader:
  assumes "rows_kept u d (w_db s)" "not_of_caller d h u"
    and "\<And>c. co_uuid c = v \<Longrightarrow> v \<noteq> u \<Longrightarrow> preserves (\<lambda>s. rows_kept u d (w_db s)) (k c)"
  shows "wp (try_ret (load_org_collection env h org_id v) (\<lambda>e. e) k) (\<lambda>_ s'. rows_kept u d (w_db s')) s"
  using assms by (auto simp: preserves_def intro!: wp_load_org_collectionI)

datatype collection_op =
    PostCollection string collection_data
  | PutCollection string string collection_data
  | DeleteCollection string string
  | SetCollectionUsers string string "acl_entry list" "acl_entry list"
  | BulkAccess string "string list" "acl_entry list" "acl_entry list"

fun exec_collection_op :: "env \<Rightarrow> headers \<Rightarrow> collection_op \<Rightarrow> response act" where
  "exec_collection_op env h (PostCollection org_id body) = post_collection env h org_id body"
| "exec_collection_op env h (PutCollection org_id v body) = put_collection env h org_id v body"
| "exec_collection_op env h (DeleteCollection org_id v) = delete_collection env h org_id v"
| "exec_collection_op env h (SetCollectionUsers org_id v users groups) = set_collection_users env h org_id v users groups"
| "exec_collection_op env h (BulkAccess org_id vs groups users) = bulk_collection_access env h org_id vs groups users"

lemma preserves_collection_new:
  assumes "\<And>n. e_uuid env n \<noteq> u" "\<And>c. co_uuid c \<noteq> u \<Longrightarrow> preserves (\<lambda>s. rows_kept u d (w_db s)) (k c)"
  shows "preserves (\<lambda>s. rows_kept u d (w_db s)) (State_Monad.bind (collection_new env org_id name) k)"
  using assms by (auto simp: preserves_def collection_new_def wp_rules)

lemma preserves_post_collection:
  assumes "\<And>n. e_uuid env n \<noteq> u"
  shows "preserves (\<lambda>s. rows_kept u d (w_db s)) (post_collection env h org_id body)"
  unfolding post_collection_def Let_def
  by (intro preserves_collection_new [OF assms] preserves_rules) simp_all

lemma preserves_named_collection:
  assumes "m \<in> set (t_users_organizations d)" "me_user_uuid m = uid h" "me_org_uuid m = org_id"
    and "not_of_caller d h u" "\<And>c. co_uuid c \<noteq> u \<Longrightarrow> co_uuid c = v \<Longrightarrow> preserves (\<lambda>s. rows_kept u d (w_db s)) (k c)"
  shows "preserves (\<lambda>s. rows_kept u d (w_db s)) (do {
     found \<leftarrow> collection_find_by_uuid env v;
     case found of
       Inr (Some c) \<Rightarrow> if co_org_uuid c \<noteq> org_id then return e1 else k c
     | _ \<Rightarrow> return e2 })"
proof (rule preservesI)
  fix s :: world assume kept: "rows_kept u d (w_db s)"
  have other: "co_uuid c \<noteq> u" if "c \<in> set (t_collections (w_db s))" "co_org_uuid c = org_id" for c
    using other_collection [OF kept assms(4) that(1), of m] assms(1-3) that(2) kept by (simp add: rows_kept_def)
  have "wp (k c) (\<lambda>_ s. rows_kept u d (w_db s)) (bump s)"
    if "c \<in> set (t_collections (w_db s))" "co_uuid c = v" "co_org_uuid c = org_id" for c
    using kept assms(5) [OF other [OF that(1,3)] that(2)] by (simp add: preserves_def)
  then show "wp (do { found \<leftarrow> collection_find_by_uuid env v;
      case found of Inr (Some c) \<Rightarrow> if co_org_uuid c \<noteq> org_id then return e1 else k c | _ \<Rightarrow> return e2 })
      (\<lambda>_ s. rows_kept u d (w_db s)) s"
    using kept by (auto simp: collection_find_by_uuid_def wp_rules split: option.splits dest!: find_SomeD)
qed

lemma wp_bulk_collection_access:
  assumes "rows_kept u d (w_db s)" "not_of_caller d h u"
  shows "wp (bulk_collection_access env h org_id vs groups users) (\<lambda>_ s'. rows_kept u d (w_db s')) s"
proof -
  let ?I = "\<lambda>s. rows_kept u d (w_db s)"
  from assms(1) have members: "t_users_organizations (w_db s) = t_users_organizations d"
    by (simp add: rows_kept_def)
  show ?thesis
    unfolding bulk_collection_access_def
  proof (rule wp_behind_membership, goal_cases)
    case (2 m s')
    note member = this(1) [unfolded members] this(2,3)
    show ?case
      by (rule preserves_wp [where I = ?I],
          intro preserves_if preserves_try_ret preserves_for_ret preserves_return
            preserves_named_collection [OF member assms(2)] preserves_rules) (use assms(1) 2(4) in simp_all)
  qed (use assms(1) in simp)
qed

lemma preserves_drop_acls:
  assumes "v \<noteq> u" "preserves (\<lambda>s. rows_kept u d (w_db s)) k"
  shows "preserves (\<lambda>s. rows_kept u d (w_db s)) (do {
     existing \<leftarrow> unwrap_or [] (user_collection_find_by_collection env v);
     _ \<leftarrow> for_each existing (\<lambda>entry. ignore (user_collection_delete env entry));
     k })"
proof (rule preservesI)
  let ?I = "\<lambda>s. rows_kept u d (w_db s)"
  fix s :: world assume kept: "?I s"
  have drop: "wp (for_each (filter (\<lambda>x. uc_collection_uuid x = v) rows) (\<lambda>entry. ignore (user_collection_delete env entry)))
      (\<lambda>_. ?I) s'" if "?I s'" for rows s'
    by (rule wp_for_each_invariant [where I = ?I, OF that])
      (use assms(1) preserves_acl_steps(7) in \<open>auto simp: preserves_def\<close>)
  have "wp (for_each (filter (\<lambda>x. uc_collection_uuid x = v) rows) (\<lambda>entry. ignore (user_collection_delete env entry)))
      (\<lambda>_. wp k (\<lambda>_. ?I)) s'" if "?I s'" for rows s'
    by (rule wp_mono [OF drop [OF that]]) (use assms(2) in \<open>simp add: preserves_def\<close>)
  then show "wp (do {
     existing \<leftarrow> unwrap_or [] (user_collection_find_by_collection env v);
     _ \<leftarrow> for_each existing (\<lambda>entry. ignore (user_collection_delete env entry));
     k }) (\<lambda>_. ?I) s"
    using kept assms(2) by (auto simp: user_collection_find_by_collection_def wp_rules preserves_def)
qed

lemma wp_exec_collection_op:
  assumes "rows_kept u d (w_db s)" "not_of_caller d h u" "\<And>n. e_uuid env n \<noteq> u"
  shows "wp (exec_collection_op env h op) (\<lambda>_ s'. rows_kept u d (w_db s')) s"
proof (cases op)
  case (PostCollection org_id body)
  then show ?thesis using preserves_post_collection [of env u, OF assms(3)] assms(1) by (simp add: preserves_def)
next
  case (PutCollection org_id v body)
  show ?thesis
    unfolding PutCollection exec_collection_op.simps put_collection_def Let_def
    by (rule wp_behind_loader [OF assms(1,2)]) (intro preserves_rules; simp)
next
  case (DeleteCollection org_id v)
  show ?thesis
    unfolding DeleteCollection exec_collection_op.simps delete_collection_def
    by (rule wp_behind_loader [OF assms(1,2)])
      (intro preserves_rules preserves_d1_exec; auto simp: rows_kept_steps)
next
  case (SetCollectionUsers org_id v users groups)
  show ?thesis
    unfolding SetCollectionUsers exec_collection_op.simps set_collection_users_def
    by (rule wp_behind_loader [OF assms(1,2)]) (intro preserves_drop_acls preserves_rules; simp)
next
  case (BulkAccess org_id vs groups users)
  then show ?thesis using wp_bulk_collection_access [OF assms(1,2)] by simp
qed

section \<open>Removing a collection\<close>

lemma refers_rows: "refers rows col ps k \<Longrightarrow> set rows' \<subseteq> set rows \<Longrightarrow> refers rows' col ps k"
  by (auto simp: refers_def)

lemma refers_parents:
  "refers rows col ps k \<Longrightarrow> \<forall>r\<in>set rows. col r \<noteq> Some u \<Longrightarrow> refers rows col (delete_where (\<lambda>p. k p = u) ps) k"
  by (force simp: refers_def set_delete_where split: option.splits)

lemma fk_drop_collection:
  fixes u :: string
  defines "d1 \<equiv> \<lambda>d. d\<lparr>t_ciphers_collections := delete_where (\<lambda>(_, c). c = u) (t_ciphers_collections d)\<rparr>"
    and "d2 \<equiv> \<lambda>d. d\<lparr>t_users_collections := delete_where (\<lambda>x. uc_collection_uuid x = u) (t_users_collections d)\<rparr>"
    and "d3 \<equiv> \<lambda>d. d\<lparr>t_collections_groups := delete_where (\<lambda>x. cg_collections_uuid x = u) (t_collections_groups d)\<rparr>"
    and "d4 \<equiv> \<lambda>d. d\<lparr>t_collections := delete_where (\<lambda>x. co_uuid x = u) (t_collections d)\<rparr>"
  assumes "fk_ok d"
  shows "fk_ok (d1 d)" "fk_ok (d2 (d1 d))" "fk_ok (d3 (d2 (d1 d)))" "fk_ok (d4 (d3 (d2 (d1 d))))"
  using assms(5) unfolding d1_def d2_def d3_def d4_def fk_defs
  by (auto simp: set_delete_where intro!: refers_parents elim: refers_rows)

section \<open>Properties\<close>

text \<open>C9.
  Organizations are separate: whatever collection request a user sends, a collection of an
  organization the user has no membership in keeps its row, its items, and its access rows for users
  and for groups.
\<close>

theorem collection_requests_isolated:
  assumes "not_of_caller (w_db s) h u" and "\<And>n. e_uuid env n \<noteq> u"
    and "run_state (exec_collection_op env h op) s = (resp, s')"
  shows "collection_rows u (w_db s') = collection_rows u (w_db s)"
  using wpD [OF wp_exec_collection_op [OF rows_kept_refl assms(1,2)] assms(3)]
  by (simp add: rows_kept_def)

definition sample_collection :: collection where
  "sample_collection = \<lparr>co_uuid = ''col'', co_org_uuid = ''org'', co_name = ''c'', co_external_id = None\<rparr>"

definition sample_collection_world :: "int \<Rightarrow> int \<Rightarrow> world" where
  "sample_collection_world atype st = sample_world (sample_db\<lparr>t_collections := [sample_collection],
     t_ciphers_collections := [(''co'', ''col'')],
     t_users_organizations := [sample_membership ''ma'' ''alice'' ''org'' atype st]\<rparr>)"

theorem collection_requests_isolated_witness:
  "collection_rows ''col'' (w_db (snd (run_state (exec_collection_op sample_env (sample_headers ''bob'')
     (DeleteCollection ''org'' ''col'')) (sample_collection_world 0 2)))) =
   collection_rows ''col'' (w_db (sample_collection_world 0 2))"
  by (rule collection_requests_isolated [OF _ _ surjective_pairing])
    (simp_all add: not_of_caller_def sample_collection_def sample_collection_world_def sample_defs)

text \<open>C36.
  Any membership is enough to remove a collection: the handler looks neither at the role of the
  member nor at whether the membership is confirmed, revoked or only offered.  When the database
  answers, the request succeeds and the collection is gone.
\<close>

theorem any_member_deletes_collection:
  assumes "\<And>n. \<not> e_fault env n" and "e_fk env \<longrightarrow> fk_ok (w_db s)"
    and "find (\<lambda>m. me_user_uuid m = uid h \<and> me_org_uuid m = org_id) (t_users_organizations (w_db s)) = Some m"
    and "find (\<lambda>x. co_uuid x = u) (t_collections (w_db s)) = Some c" and "co_org_uuid c = org_id"
    and "run_state (delete_collection env h org_id u) s = (resp, s')"
  shows "resp_status resp = 200 \<and> u \<notin> co_uuid ` set (t_collections (w_db s'))"
proof -
  have c: "co_uuid c = u" using assms(4) by (auto dest: find_SomeD)
  have "wp (delete_collection env h org_id u)
      (\<lambda>resp s'. resp_status resp = 200 \<and> u \<notin> co_uuid ` set (t_collections (w_db s'))) s"
    using assms(1,3-5) c fk_drop_collection [of "w_db s" u] assms(2)
    by (auto simp: delete_collection_def load_org_collection_def require_membership_def
        membership_find_by_user_and_org_def collection_find_by_uuid_def collection_delete_def wp_rules
        accepted_def set_delete_where intro!: wp_log_eventI wp_notify_orgI)
  then show ?thesis using assms(6) by (rule wpD)
qed

text \<open>Here a plain user whose membership is revoked.\<close>

theorem any_member_deletes_collection_witness:
  "resp_status (fst (run_state (delete_collection sample_env (sample_headers ''alice'') ''org'' ''col'')
     (sample_collection_world 2 (- 1)))) = 200"
  by (rule conjunct1, rule any_member_deletes_collection [where c = sample_collection, OF _ _ _ _ _ surjective_pairing])
    (simp_all add: sample_collection_def sample_collection_world_def sample_defs)

end
