(* ===== verification/Organizations.thy ===== *)
theory Organizations
  imports Collections Emergency_Safety Cipher_Json Models_Factors
begin

text \<open>
  \<open>worker/src/api/organizations.rs\<close>: organizations and their members.  A membership has a
  type (0 owner, 1 admin, 2 user, 3 manager) and a status (-1 revoked, 0 invited, 1 accepted,
  2 confirmed).  Every handler that changes the database or sends mail is here; the file's own
  \<open>require_membership\<close> is the same text as that of \<open>collections.rs\<close>.
\<close>

abbreviation MEMBER_INVITED :: int where "MEMBER_INVITED \<equiv> 0"
abbreviation MEMBER_ACCEPTED :: int where "MEMBER_ACCEPTED \<equiv> 1"
abbreviation MEMBER_CONFIRMED :: int where "MEMBER_CONFIRMED \<equiv> 2"
abbreviation TYPE_OWNER :: int where "TYPE_OWNER \<equiv> 0"
abbreviation TYPE_ADMIN :: int where "TYPE_ADMIN \<equiv> 1"
abbreviation TYPE_USER :: int where "TYPE_USER \<equiv> 2"

section \<open>JSON\<close>

definition organization_json :: "organization \<Rightarrow> json" where
  "organization_json o' = JObj [(''Object'', JStr ''organization''), (''Id'', JStr (og_uuid o')),
     (''Name'', JStr (og_name o')), (''BillingEmail'', JStr (og_billing_email o')),
     (''PublicKey'', jopt (og_public_key o')), (''PrivateKey'', jopt (og_private_key o'))]"

definition membership_json :: "membership \<Rightarrow> string \<Rightarrow> json" where
  "membership_json m name =
     (let manager_type_as_custom = (if me_atype m = 3 then 4 else me_atype m);
          custom_all = JBool (manager_type_as_custom = 4 \<and> me_access_all m = 1);
          permissions = JObj [(''accessEventLogs'', JBool False), (''accessImportExport'', JBool False),
            (''accessReports'', JBool False), (''createNewCollections'', custom_all),
            (''editAnyCollection'', custom_all), (''deleteAnyCollection'', custom_all),
            (''manageGroups'', JBool False), (''managePolicies'', JBool False), (''manageSso'', JBool False),
            (''manageUsers'', JBool False), (''manageResetPassword'', JBool False), (''manageScim'', JBool False)] in
      JObj [(''Object'', JStr ''profileOrganization''), (''Id'', JStr (me_org_uuid m)),
        (''id'', JStr (me_org_uuid m)), (''identifier'', JNull), (''Name'', JStr name), (''name'', JStr name),
        (''seats'', JInt 20), (''maxCollections'', JNull), (''usersGetPremium'', JBool True),
        (''use2fa'', JBool True), (''useDirectory'', JBool False), (''useEvents'', JBool True),
        (''useGroups'', JBool True), (''useTotp'', JBool True), (''useScim'', JBool False),
        (''usePolicies'', JBool True), (''useApi'', JBool True), (''selfHost'', JBool True),
        (''hasPublicAndPrivateKeys'', JBool True),
        (''resetPasswordEnrolled'', JBool (me_reset_password_key m \<noteq> None)),
        (''useResetPassword'', JBool True), (''ssoBound'', JBool False), (''useSso'', JBool False),
        (''useKeyConnector'', JBool False), (''useSecretsManager'', JBool False),
        (''usePasswordManager'', JBool True), (''useCustomPermissions'', JBool True),
        (''useActivateAutofillPolicy'', JBool False), (''useAdminSponsoredFamilies'', JBool False),
        (''useRiskInsights'', JBool False), (''organizationUserId'', JStr (me_uuid m)),
        (''providerId'', JNull), (''providerName'', JNull), (''providerType'', JNull),
        (''familySponsorshipFriendlyName'', JNull), (''familySponsorshipAvailable'', JBool False),
        (''productTierType'', JInt 3), (''keyConnectorEnabled'', JBool False), (''keyConnectorUrl'', JNull),
        (''familySponsorshipLastSyncDate'', JNull), (''familySponsorshipValidUntil'', JNull),
        (''familySponsorshipToDelete'', JNull), (''accessSecretsManager'', JBool False),
        (''limitCollectionCreation'', JBool (manager_type_as_custom < 3 \<or> me_access_all m = 0)),
        (''limitCollectionDeletion'', JBool True), (''limitItemDeletion'', JBool False),
        (''allowAdminAccessToAllCollectionItems'', JBool True), (''userIsManagedByOrganization'', JBool False),
        (''userIsClaimedByOrganization'', JBool False), (''permissions'', permissions),
        (''maxStorageGb'', JInt 32767), (''Status'', JInt (me_status m)), (''status'', JInt (me_status m)),
        (''Type'', JInt (me_atype m)), (''type'', JInt (me_atype m)), (''Enabled'', JBool True),
        (''enabled'', JBool True), (''AccessAll'', JBool (me_access_all m = 1)), (''Key'', JStr (me_akey m)),
        (''key'', JStr (me_akey m)), (''ResetPasswordEnrolled'', JBool (me_reset_password_key m \<noteq> None)),
        (''ProviderType'', JNull), (''userId'', JStr (me_user_uuid m)), (''UserId'', JStr (me_user_uuid m))])"

definition urlencoded :: "string \<Rightarrow> string" where
  "urlencoded s = concat (map (\<lambda>c.
     if CHR ''A'' \<le> c \<and> c \<le> CHR ''Z'' \<or> CHR ''a'' \<le> c \<and> c \<le> CHR ''z'' \<or> is_digit c \<or> c \<in> set ''-_.~''
     then [c] else CHR ''%'' # sql_hex [of_char c]) s)"

section \<open>The organization\<close>

record create_organization =
  cg_name :: string
  cg_billing_email :: string
  cg_key :: "string option"
  cg_keys :: "(string \<times> string) option"

definition post_organization :: "env \<Rightarrow> headers \<Rightarrow> create_organization \<Rightarrow> response act" where
  "post_organization env h body =
     (if trim (cg_name body) = [] then return (err_json 400 ''name is required'')
      else do {
        org \<leftarrow> organization_new env (cg_name body) (cg_billing_email body);
        let org = (case cg_keys body of
            None \<Rightarrow> org
          | Some (public_key, encrypted_private_key) \<Rightarrow>
              org\<lparr>og_public_key := Some public_key, og_private_key := Some encrypted_private_key\<rparr>);
        try_ret (organization_save env org) (\<lambda>_. err_json 500 ''failed to save organization'') (\<lambda>_. do {
          m \<leftarrow> membership_new env (uid h) (og_uuid org) (opt_default [] (cg_key body)) TYPE_OWNER MEMBER_CONFIRMED;
          try_ret (membership_save env (m\<lparr>me_access_all := 1\<rparr>))
            (\<lambda>_. err_json 500 ''failed to save membership'') (\<lambda>_.
            return (json_response 200 (organization_json org))) }) })"

definition get_organization :: "env \<Rightarrow> headers \<Rightarrow> string \<Rightarrow> response act" where
  "get_organization env h org_id =
     try_ret (require_membership env h org_id) (\<lambda>e. e) (\<lambda>_.
     try_ret (organization_find_by_uuid env org_id) (\<lambda>_. err_json 500 ''database error'') (\<lambda>found.
     return (case found of
         None \<Rightarrow> err_json 404 ''Organization not found''
       | Some org \<Rightarrow> json_response 200 (organization_json org))))"

definition get_organization_keys :: "env \<Rightarrow> headers \<Rightarrow> string \<Rightarrow> response act" where
  "get_organization_keys env h org_id =
     try_ret (require_membership env h org_id) (\<lambda>e. e) (\<lambda>_.
     try_ret (organization_find_by_uuid env org_id) (\<lambda>_. err_json 500 ''database error'') (\<lambda>found.
     return (case found of
         None \<Rightarrow> err_json 404 ''Organization not found''
       | Some org \<Rightarrow> json_response 200 (JObj [(''Object'', JStr ''organizationKeys''),
           (''PublicKey'', jopt (og_public_key org)), (''PrivateKey'', jopt (og_private_key org))]))))"

definition get_organization_public_key :: "env \<Rightarrow> headers \<Rightarrow> string \<Rightarrow> response act" where
  "get_organization_public_key env h org_id =
     try_ret (require_membership env h org_id) (\<lambda>e. e) (\<lambda>_. do {
       found \<leftarrow> organization_find_by_uuid env org_id;
       return (case found of
           Inr (Some org) \<Rightarrow> json_response 200 (JObj [(''Object'', JStr ''organizationPublicKey''),
             (''PublicKey'', jopt (og_public_key org))])
         | _ \<Rightarrow> err_json 404 ''Organization not found'') })"

text \<open>
  The guard of the handlers for members: a confirmed membership whose type is at most 2, which
  is an owner, an admin or a plain user.
\<close>

definition require_org_admin :: "env \<Rightarrow> headers \<Rightarrow> string \<Rightarrow> (world, response + membership) state" where
  "require_org_admin env h org_id =
     try_ret (require_membership env h org_id) Inl (\<lambda>m.
     return (if me_status m \<noteq> MEMBER_CONFIRMED then Inl (err_json 403 ''membership not confirmed'')
             else if me_atype m > TYPE_USER
             then Inl (err_json 403 (''manager/custom roles can'' @ [CHR 0x27] @ ''t invite yet''))
             else Inr m))"

definition post_organization_keys :: "env \<Rightarrow> headers \<Rightarrow> string \<Rightarrow> string \<Rightarrow> string \<Rightarrow> response act" where
  "post_organization_keys env h org_id encrypted_private_key public_key =
     try_ret (require_org_admin env h org_id) (\<lambda>e. e) (\<lambda>_.
     try_ret (organization_find_by_uuid env org_id) (\<lambda>_. err_json 500 ''database error'') (\<lambda>found.
     case found of
       None \<Rightarrow> return (err_json 404 ''Organization not found'')
     | Some org \<Rightarrow>
       if og_private_key org \<noteq> None \<and> og_public_key org \<noteq> None
       then return (err_json 400 ''Organization Keys already exist'')
       else
         let org = org\<lparr>og_private_key := Some encrypted_private_key, og_public_key := Some public_key\<rparr> in
         try_ret (organization_save env org) (\<lambda>_. err_json 500 ''save failed'') (\<lambda>_.
         return (json_response 200 (JObj [(''object'', JStr ''organizationKeys''),
           (''publicKey'', jopt (og_public_key org)), (''privateKey'', jopt (og_private_key org))])))))"

definition put_organization :: "env \<Rightarrow> headers \<Rightarrow> string \<Rightarrow> string \<Rightarrow> string option \<Rightarrow> response act" where
  "put_organization env h org_id name billing_email =
     try_ret (require_org_admin env h org_id) (\<lambda>e. e) (\<lambda>_. do {
       found \<leftarrow> organization_find_by_uuid env org_id;
       case found of
         Inr (Some org) \<Rightarrow> do {
           let org = org\<lparr>og_name := name\<rparr>;
           let org = (case non_empty billing_email of
               None \<Rightarrow> org
             | Some em \<Rightarrow> org\<lparr>og_billing_email := to_lowercase em\<rparr>);
           try_ret (organization_save env org) (\<lambda>_. err_json 500 ''save failed'') (\<lambda>_. do {
             _ \<leftarrow> log_org_event env ORG_UPDATED org_id (uid h) None (dev_type h);
             _ \<leftarrow> notify_org env org_id SYNC_ORG_KEYS org_id;
             return (json_response 200 (organization_json org)) }) }
       | _ \<Rightarrow> return (err_json 404 ''Organization not found'') })"

definition delete_organization :: "env \<Rightarrow> headers \<Rightarrow> string \<Rightarrow> response act" where
  "delete_organization env h org_id =
     try_ret (require_org_admin env h org_id) (\<lambda>e. e) (\<lambda>actor.
     if me_atype actor \<noteq> TYPE_OWNER
     then return (err_json 403 ''Only owners may delete the organization'')
     else do {
       members \<leftarrow> unwrap_or [] (membership_find_by_org env org_id);
       r \<leftarrow> d1_query env (\<lambda>d. concat (map (\<lambda>a. map (\<lambda>c. (at_cipher_uuid a, at_id a))
              (filter (\<lambda>c. ci_uuid c = at_cipher_uuid a \<and> ci_organization_uuid c = Some org_id) (t_ciphers d)))
              (t_attachments d)));
       _ \<leftarrow> (case r of
           Inr rows \<Rightarrow> for_each rows (\<lambda>(c, a). ignore (r2_delete_attachment env (c @ ''/'' @ a)))
         | Inl _ \<Rightarrow> return ());
       let of_org = (\<lambda>d u. \<exists>c\<in>set (t_collections d). co_org_uuid c = org_id \<and> co_uuid c = u);
       try_ret (for_ret [
           (\<lambda>d. d\<lparr>t_attachments := delete_where (\<lambda>a. \<exists>c\<in>set (t_ciphers d).
              ci_organization_uuid c = Some org_id \<and> ci_uuid c = at_cipher_uuid a) (t_attachments d)\<rparr>),
           (\<lambda>d. d\<lparr>t_ciphers_collections := delete_where (\<lambda>(_, u). of_org d u) (t_ciphers_collections d)\<rparr>),
           (\<lambda>d. d\<lparr>t_users_collections :=
              delete_where (\<lambda>x. of_org d (uc_collection_uuid x)) (t_users_collections d)\<rparr>),
           (\<lambda>d. d\<lparr>t_collections_groups :=
              delete_where (\<lambda>x. of_org d (cg_collections_uuid x)) (t_collections_groups d)\<rparr>),
           (\<lambda>d. d\<lparr>t_collections := delete_where (\<lambda>c. co_org_uuid c = org_id) (t_collections d)\<rparr>),
           (\<lambda>d. d\<lparr>t_groups_users := delete_where (\<lambda>(g, _). \<exists>x\<in>set (t_groups d).
              gr_organizations_uuid x = org_id \<and> gr_uuid x = g) (t_groups_users d)\<rparr>),
           (\<lambda>d. d\<lparr>t_groups := delete_where (\<lambda>g. gr_organizations_uuid g = org_id) (t_groups d)\<rparr>),
           delete_ciphers env (\<lambda>c. ci_organization_uuid c = Some org_id),
           (\<lambda>d. d\<lparr>t_users_organizations :=
              delete_where (\<lambda>m. me_org_uuid m = org_id) (t_users_organizations d)\<rparr>),
           (\<lambda>d. d\<lparr>t_org_policies := delete_where (\<lambda>p. op_org_uuid p = org_id) (t_org_policies d)\<rparr>),
           (\<lambda>d. d\<lparr>t_organization_api_key :=
              delete_where (\<lambda>k. ok_org_uuid k = org_id) (t_organization_api_key d)\<rparr>),
           (\<lambda>d. d\<lparr>t_event := delete_where (\<lambda>e. ev_org_uuid e = Some org_id) (t_event d)\<rparr>),
           (\<lambda>d. d\<lparr>t_organizations := delete_where (\<lambda>x. og_uuid x = org_id) (t_organizations d)\<rparr>)]
         (\<lambda>f. try_ret (d1_exec env (\<lambda>d. Some (f d))) (\<lambda>_. Inl (err_json 500 ''delete failed''))
           (\<lambda>_. return (Inr ()))))
       (\<lambda>e. e) (\<lambda>_. do {
         _ \<leftarrow> for_each (map me_user_uuid members) (\<lambda>u. notify_user env u SYNC_VAULT u);
         return (json_response 200 (JObj [])) }) })"

section \<open>Members\<close>

record invite_body =
  iv_emails :: "string list"
  iv_atype :: "int option"
  iv_access_all :: "bool option"
  iv_collections :: "acl_entry list option"
  iv_groups :: "string list option"

text \<open>One address of the invitation; \<open>True\<close> when a membership was made.\<close>

definition invite_one ::
  "env \<Rightarrow> headers \<Rightarrow> string \<Rightarrow> int \<Rightarrow> invite_body \<Rightarrow> string \<Rightarrow> (world, response + bool) state" where
  "invite_one env h org_id new_type body email =
     try_ret (user_find_by_email env email) (\<lambda>_. Inl (err_json 500 ''database error'')) (\<lambda>found.
     try_ret (case found of
         Some u \<Rightarrow> return (Inr u)
       | None \<Rightarrow> do {
           u \<leftarrow> user_new env email None;
           try_ret (user_save env (u\<lparr>us_enabled := 1\<rparr>))
             (\<lambda>_. Inl (err_json 500 ''failed to create invitee'')) (\<lambda>u. return (Inr u)) })
       Inl (\<lambda>invitee. do {
       old \<leftarrow> membership_find_by_user_and_org env (us_uuid invitee) org_id;
       case old of
         Inr (Some _) \<Rightarrow> return (Inr False)
       | _ \<Rightarrow> do {
         m \<leftarrow> membership_new env (us_uuid invitee) org_id [] new_type MEMBER_INVITED;
         let m = (if iv_access_all body = Some True then m\<lparr>me_access_all := 1\<rparr> else m);
         try_ret (membership_save env m) (\<lambda>_. Inl (err_json 500 ''failed to save membership'')) (\<lambda>_. do {
           _ \<leftarrow> if_some (iv_collections body) (\<lambda>cs. for_each cs (\<lambda>entry.
                  ignore (user_collection_upsert env (user_collection_new (us_uuid invitee) (ae_id entry)
                    (ae_read_only entry) (ae_hide_passwords entry) (ae_manage entry)))));
           _ \<leftarrow> if_some (iv_groups body) (\<lambda>gs. for_each gs (\<lambda>gid.
                  ignore (group_user_set env gid (me_uuid m))));
           _ \<leftarrow> log_org_event env ORG_USER_INVITED org_id (uid h) (Some (me_uuid m)) (dev_type h);
           r \<leftarrow> organization_find_by_uuid env org_id;
           let org_name = (case r of Inr (Some o') \<Rightarrow> og_name o' | _ \<Rightarrow> ''an organization'');
           let link = env_var_or_empty env ''DOMAIN'' @ ''/#/accept-organization?orgId='' @ org_id
                 @ ''&orgUserId='' @ me_uuid m @ ''&orgName='' @ urlencoded org_name
                 @ ''&email='' @ urlencoded email;
           _ \<leftarrow> ea_mail env email (''Join '' @ org_name @ '' on Vaultwarden'')
                  (''You have been invited to join '' @ org_name @ ''. Click the link below to accept:''
                   @ [CHR 0x0A, CHR 0x0A] @ link @ [CHR 0x0A, CHR 0x0A] @ ''Membership ID: '' @ me_uuid m);
           return (Inr True) }) } }))"

definition invite :: "env \<Rightarrow> headers \<Rightarrow> string \<Rightarrow> invite_body \<Rightarrow> response act" where
  "invite env h org_id body =
     try_ret (require_org_admin env h org_id) (\<lambda>e. e) (\<lambda>actor.
     let new_type = opt_default TYPE_USER (iv_atype body) in
     if new_type \<noteq> TYPE_USER \<and> me_atype actor \<noteq> TYPE_OWNER
     then return (err_json 403 ''Only Owners can invite Admins or Owners'')
     else do {
       ok \<leftarrow> ratelimit_check env EMAIL_SEND_LIMIT (uid h);
       if \<not> ok then return (err_json 429 ''Too many invitations'')
       else do {
         r \<leftarrow> for_acc (filter (\<lambda>e. e \<noteq> []) (map (\<lambda>e. to_lowercase (trim e)) (iv_emails body)))
                (Inr (0 :: nat)) (\<lambda>email acc.
                case acc of
                  Inl e \<Rightarrow> return (Inl e)
                | Inr n \<Rightarrow> try_ret (invite_one env h org_id new_type body email) Inl (\<lambda>added.
                    return (Inr (if added then Suc n else n))));
         case r of
           Inl e \<Rightarrow> return e
         | Inr n \<Rightarrow> return (json_response 200 (JObj [(''Object'', JStr ''list''), (''Data'', JArr []),
             (''Invited'', JInt (int n))])) } })"

text \<open>\<open>Ok(Some(m)) if m.org_uuid == org_id => m\<close>, with the text of the error.\<close>

definition load_member :: "env \<Rightarrow> string \<Rightarrow> string \<Rightarrow> string \<Rightarrow> (world, response + membership) state" where
  "load_member env msg org_id member_id = do {
     found \<leftarrow> membership_find_by_uuid env member_id;
     return (case found of
         Inr (Some m) \<Rightarrow> if me_org_uuid m = org_id then Inr m else Inl (err_json 404 msg)
       | _ \<Rightarrow> Inl (err_json 404 msg)) }"

definition accept :: "env \<Rightarrow> headers \<Rightarrow> string \<Rightarrow> string \<Rightarrow> response act" where
  "accept env h org_id member_id =
     try_ret (load_member env ''Membership not found'' org_id member_id) (\<lambda>e. e) (\<lambda>m.
     if me_user_uuid m \<noteq> uid h then return (err_json 403 ''Only the invited user may accept'')
     else if me_status m \<noteq> MEMBER_INVITED
     then return (err_json 400 ''Invite already accepted or confirmed'')
     else try_ret (membership_save env (m\<lparr>me_status := MEMBER_ACCEPTED\<rparr>)) (\<lambda>_. err_json 500 ''save failed'') (\<lambda>_. do {
       r \<leftarrow> membership_find_by_org env org_id;
       _ \<leftarrow> (case r of
           Inr members \<Rightarrow>
             for_each (filter (\<lambda>x. me_status x = MEMBER_CONFIRMED \<and> (me_atype x = TYPE_OWNER \<or> me_atype x = TYPE_ADMIN)) members)
               (\<lambda>admin. do {
                 u \<leftarrow> user_find_by_uuid env (me_user_uuid admin);
                 case u of
                   Inr (Some admin_user) \<Rightarrow>
                     ea_mail env (us_email admin_user) ''Vaultwarden member ready for confirmation''
                       (us_email (hd_user h) @ '' accepted their invitation. Confirm them at ''
                        @ env_var_or_empty env ''DOMAIN'' @ '' so they can decrypt shared items.'')
                 | _ \<Rightarrow> return () })
         | Inl _ \<Rightarrow> return ());
       return (json_response 200 (JObj [])) }))"

definition confirm :: "env \<Rightarrow> headers \<Rightarrow> string \<Rightarrow> string \<Rightarrow> string \<Rightarrow> response act" where
  "confirm env h org_id member_id key =
     try_ret (require_org_admin env h org_id) (\<lambda>e. e) (\<lambda>_.
     try_ret (load_member env ''Membership not found'' org_id member_id) (\<lambda>e. e) (\<lambda>m.
     if me_status m \<noteq> MEMBER_ACCEPTED then return (err_json 400 ''Membership not in accepted state'')
     else
       let m = m\<lparr>me_akey := key, me_status := MEMBER_CONFIRMED\<rparr> in
       try_ret (membership_save env m) (\<lambda>_. err_json 500 ''save failed'') (\<lambda>_. do {
         _ \<leftarrow> log_org_event env ORG_USER_CONFIRMED org_id (uid h) (Some (me_uuid m)) (dev_type h);
         u \<leftarrow> user_find_by_uuid env (me_user_uuid m);
         _ \<leftarrow> (case u of
             Inr (Some user) \<Rightarrow> do {
               r \<leftarrow> organization_find_by_uuid env org_id;
               let org_name = (case r of Inr (Some o') \<Rightarrow> og_name o' | _ \<Rightarrow> ''an organization'');
               ea_mail env (us_email user) (''You'' @ [CHR 0x27] @ ''ve been confirmed to '' @ org_name)
                 (''Your invitation to '' @ org_name @ '' has been confirmed. Sign in at ''
                  @ env_var_or_empty env ''DOMAIN'' @ '' to access shared items.'') }
           | _ \<Rightarrow> return ());
         _ \<leftarrow> notify_user env (me_user_uuid m) SYNC_VAULT (me_user_uuid m);
         return (json_response 200 (JObj [])) })))"

definition leave_organization :: "env \<Rightarrow> headers \<Rightarrow> string \<Rightarrow> response act" where
  "leave_organization env h org_id = do {
     found \<leftarrow> membership_find_by_user_and_org env (uid h) org_id;
     case found of
       Inr (Some m) \<Rightarrow> do {
         last_owner \<leftarrow> (if me_atype m = TYPE_OWNER then do {
             r \<leftarrow> membership_find_by_org env org_id;
             return (case r of
                 Inr members \<Rightarrow> length (filter (\<lambda>x. me_atype x = TYPE_OWNER \<and> me_status x = MEMBER_CONFIRMED) members) \<le> 1
               | Inl _ \<Rightarrow> False) }
           else return False);
         if last_owner then return (err_json 400 ''Org needs at least one Owner'')
         else try_ret (membership_delete env m) (\<lambda>_. err_json 500 ''leave failed'') (\<lambda>_. do {
           _ \<leftarrow> log_org_event env ORG_USER_LEFT org_id (uid h) (Some (me_uuid m)) (dev_type h);
           _ \<leftarrow> notify_user env (uid h) SYNC_VAULT (uid h);
           return (json_response 200 (JObj [])) }) }
     | _ \<Rightarrow> return (err_json 404 ''Membership not found'') }"

record update_member_body =
  um_atype :: int
  um_access_all :: "bool option"
  um_collections :: "acl_entry list option"
  um_groups :: "string list option"

definition update_member ::
  "env \<Rightarrow> headers \<Rightarrow> string \<Rightarrow> string \<Rightarrow> update_member_body \<Rightarrow> response act" where
  "update_member env h org_id member_id body =
     try_ret (require_org_admin env h org_id) (\<lambda>e. e) (\<lambda>actor.
     try_ret (load_member env ''Membership not found'' org_id member_id) (\<lambda>e. e) (\<lambda>m.
     if (um_atype body \<noteq> TYPE_USER \<or> me_atype m \<noteq> TYPE_USER) \<and> me_atype actor \<noteq> TYPE_OWNER
     then return (err_json 403 ''Only Owners may update Owner/Admin members'')
     else
       let m = m\<lparr>me_atype := um_atype body,
             me_access_all := (case um_access_all body of None \<Rightarrow> me_access_all m | Some a \<Rightarrow> bool_i32 a)\<rparr> in
       try_ret (membership_save env m) (\<lambda>_. err_json 500 ''save failed'') (\<lambda>_. do {
         _ \<leftarrow> if_some (um_collections body) (\<lambda>cs. do {
           existing \<leftarrow> unwrap_or [] (user_collection_find_by_user env (me_user_uuid m));
           _ \<leftarrow> for_each existing (\<lambda>entry. do {
                  r \<leftarrow> collection_find_by_uuid env (uc_collection_uuid entry);
                  case r of
                    Inr (Some col) \<Rightarrow>
                      if co_org_uuid col = org_id then ignore (user_collection_delete env entry) else return ()
                  | _ \<Rightarrow> return () });
           for_each cs (\<lambda>entry. ignore (user_collection_upsert env (user_collection_new (me_user_uuid m)
             (ae_id entry) (ae_read_only entry) (ae_hide_passwords entry) (ae_manage entry)))) });
         _ \<leftarrow> if_some (um_groups body) (\<lambda>group_ids. do {
           existing \<leftarrow> unwrap_or [] (group_user_list_by_member env (me_uuid m));
           _ \<leftarrow> for_each existing (\<lambda>g. ignore (group_user_unset env g (me_uuid m)));
           for_each group_ids (\<lambda>g. ignore (group_user_set env g (me_uuid m))) });
         _ \<leftarrow> log_org_event env ORG_USER_UPDATED org_id (uid h) (Some (me_uuid m)) (dev_type h);
         _ \<leftarrow> if_some (um_groups body) (\<lambda>_.
                log_org_event env ORG_USER_UPDATED_GROUPS org_id (uid h) (Some (me_uuid m)) (dev_type h));
         return (json_response 200 (membership_json m [])) })))"

definition remove_member :: "env \<Rightarrow> headers \<Rightarrow> string \<Rightarrow> string \<Rightarrow> response act" where
  "remove_member env h org_id member_id =
     try_ret (require_org_admin env h org_id) (\<lambda>e. e) (\<lambda>actor.
     try_ret (load_member env ''Membership not found'' org_id member_id) (\<lambda>e. e) (\<lambda>m.
     if (me_atype m = TYPE_OWNER \<or> me_atype m = TYPE_ADMIN) \<and> me_atype actor \<noteq> TYPE_OWNER
     then return (err_json 403 ''Only Owners may remove Owner/Admin members'')
     else try_ret (membership_delete env m) (\<lambda>_. err_json 500 ''remove failed'') (\<lambda>_. do {
       _ \<leftarrow> log_org_event env ORG_USER_REMOVED org_id (uid h) (Some (me_uuid m)) (dev_type h);
       _ \<leftarrow> notify_user env (me_user_uuid m) SYNC_VAULT (me_user_uuid m);
       return (json_response 200 (JObj [])) })))"

definition revoke_member :: "env \<Rightarrow> headers \<Rightarrow> string \<Rightarrow> string \<Rightarrow> response act" where
  "revoke_member env h org_id member_id =
     try_ret (require_org_admin env h org_id) (\<lambda>e. e) (\<lambda>_.
     try_ret (load_member env ''Membership not found'' org_id member_id) (\<lambda>e. e) (\<lambda>m.
     try_ret (membership_save env (m\<lparr>me_status := - 1\<rparr>)) (\<lambda>_. err_json 500 ''save failed'') (\<lambda>_. do {
       _ \<leftarrow> log_org_event env ORG_USER_REVOKED org_id (uid h) (Some (me_uuid m)) (dev_type h);
       _ \<leftarrow> notify_user env (me_user_uuid m) SYNC_VAULT (me_user_uuid m);
       return (json_response 200 (JObj [])) })))"

definition restore_member :: "env \<Rightarrow> headers \<Rightarrow> string \<Rightarrow> string \<Rightarrow> response act" where
  "restore_member env h org_id member_id =
     try_ret (require_org_admin env h org_id) (\<lambda>e. e) (\<lambda>_.
     try_ret (load_member env ''Membership not found'' org_id member_id) (\<lambda>e. e) (\<lambda>m.
     try_ret (membership_save env (m\<lparr>me_status := (if me_akey m = [] then MEMBER_INVITED else MEMBER_CONFIRMED)\<rparr>))
       (\<lambda>_. err_json 500 ''save failed'') (\<lambda>_. do {
       _ \<leftarrow> log_org_event env ORG_USER_RESTORED org_id (uid h) (Some (me_uuid m)) (dev_type h);
       _ \<leftarrow> notify_user env (me_user_uuid m) SYNC_VAULT (me_user_uuid m);
       return (json_response 200 (JObj [])) })))"

abbreviation bulk_entry :: "string \<Rightarrow> string \<Rightarrow> json" where
  "bulk_entry u err \<equiv> JObj [(''Object'', JStr ''OrganizationUserBulkResponseModel''), (''Id'', JStr u),
     (''Error'', JStr err)]"

definition bulk_confirm :: "env \<Rightarrow> headers \<Rightarrow> string \<Rightarrow> (string \<times> string option) list \<Rightarrow> response act" where
  "bulk_confirm env h org_id keys =
     try_ret (require_org_admin env h org_id) (\<lambda>e. e) (\<lambda>_. do {
       data \<leftarrow> for_acc keys [] (\<lambda>(u, key) data. do {
         found \<leftarrow> membership_find_by_uuid env u;
         case found of
           Inr (Some m) \<Rightarrow>
             if me_org_uuid m = org_id \<and> me_status m = MEMBER_ACCEPTED then do {
               let m = m\<lparr>me_akey := opt_default (me_akey m) key, me_status := MEMBER_CONFIRMED\<rparr>;
               try_ret (membership_save env m) (\<lambda>_. data @ [bulk_entry u ''save failed'']) (\<lambda>_. do {
                 _ \<leftarrow> log_org_event env ORG_USER_CONFIRMED org_id (uid h) (Some (me_uuid m)) (dev_type h);
                 _ \<leftarrow> notify_user env (me_user_uuid m) SYNC_VAULT (me_user_uuid m);
                 return (data @ [bulk_entry u []]) }) }
             else return (data @ [bulk_entry u ''Not acceptable''])
         | _ \<Rightarrow> return (data @ [bulk_entry u ''Not acceptable'']) });
       return (json_response 200 (json_list data)) })"

text \<open>The two bulk handlers that set a status differ in the status and the event.\<close>

definition bulk_set_status :: "env \<Rightarrow> headers \<Rightarrow> int \<Rightarrow> event_type \<Rightarrow> string \<Rightarrow> string list \<Rightarrow> response act" where
  "bulk_set_status env h st ty org_id ids =
     try_ret (require_org_admin env h org_id) (\<lambda>e. e) (\<lambda>_. do {
       data \<leftarrow> for_acc ids [] (\<lambda>u data. do {
         found \<leftarrow> membership_find_by_uuid env u;
         case found of
           Inr (Some m) \<Rightarrow>
             if me_org_uuid m = org_id then do {
               _ \<leftarrow> membership_save env (m\<lparr>me_status := st\<rparr>);
               _ \<leftarrow> log_org_event env ty org_id (uid h) (Some (me_uuid m)) (dev_type h);
               _ \<leftarrow> notify_user env (me_user_uuid m) SYNC_VAULT (me_user_uuid m);
               return (data @ [bulk_entry u []]) }
             else return data
         | _ \<Rightarrow> return data });
       return (json_response 200 (json_list data)) })"

definition bulk_restore_member :: "env \<Rightarrow> headers \<Rightarrow> string \<Rightarrow> string list \<Rightarrow> response act" where
  "bulk_restore_member env h = bulk_set_status env h MEMBER_CONFIRMED ORG_USER_RESTORED"

definition bulk_revoke_member :: "env \<Rightarrow> headers \<Rightarrow> string \<Rightarrow> string list \<Rightarrow> response act" where
  "bulk_revoke_member env h = bulk_set_status env h (- 1) ORG_USER_REVOKED"

section \<open>Account recovery\<close>

definition reset_password :: "env \<Rightarrow> headers \<Rightarrow> string \<Rightarrow> string \<Rightarrow> string \<Rightarrow> string \<Rightarrow> response act" where
  "reset_password env h org_id member_id new_master_password_hash key =
     try_ret (require_org_admin env h org_id) (\<lambda>e. e) (\<lambda>_.
     try_ret (load_member env ''Member not found'' org_id member_id) (\<lambda>e. e) (\<lambda>m.
     if me_reset_password_key m = None
     then return (err_json 400 ''Member has not enrolled in account recovery'')
     else do {
       found \<leftarrow> user_find_by_uuid env (me_user_uuid m);
       case found of
         Inr (Some user) \<Rightarrow>
           (case set_password env (user\<lparr>us_akey := key\<rparr>) new_master_password_hash of
              None \<Rightarrow> return panicked
            | Some user \<Rightarrow> do {
                stamp \<leftarrow> new_uuid env;
                try_ret (user_save env (user\<lparr>us_security_stamp := stamp\<rparr>)) (\<lambda>_. err_json 500 ''save failed'') (\<lambda>_. do {
                  _ \<leftarrow> log_org_event env ORG_USER_ADMIN_RESET_PASSWORD org_id (uid h) (Some (me_uuid m)) (dev_type h);
                  return (json_response 200 JNull) }) })
       | _ \<Rightarrow> return (err_json 404 ''User not found'') }))"

text \<open>A password in the body is checked when it is there and not empty.\<close>

definition optional_password_ok :: "env \<Rightarrow> headers \<Rightarrow> string option \<Rightarrow> response + unit" where
  "optional_password_ok env h pw =
     (case non_empty pw of
        None \<Rightarrow> Inr ()
      | Some pw \<Rightarrow> (case check_valid_password env (hd_user h) pw of
          None \<Rightarrow> Inl panicked
        | Some ok \<Rightarrow> if ok then Inr () else Inl (err_json 401 ''Invalid password'')))"

definition reset_password_enrollment ::
  "env \<Rightarrow> headers \<Rightarrow> string \<Rightarrow> string \<Rightarrow> string option \<Rightarrow> string option \<Rightarrow> response act" where
  "reset_password_enrollment env h org_id member_id reset_password_key master_password_hash =
     try_ret (load_member env ''Membership not found'' org_id member_id) (\<lambda>e. e) (\<lambda>m.
     if me_user_uuid m \<noteq> uid h then return (err_json 404 ''Membership not found'')
     else case optional_password_ok env h master_password_hash of
       Inl e \<Rightarrow> return e
     | Inr _ \<Rightarrow>
       let was_enrolled = (me_reset_password_key m \<noteq> None);
           m = m\<lparr>me_reset_password_key := non_empty reset_password_key\<rparr>;
           now_enrolled = (me_reset_password_key m \<noteq> None) in
       try_ret (membership_save env m) (\<lambda>_. err_json 500 ''save failed'') (\<lambda>_. do {
         _ \<leftarrow> (if \<not> was_enrolled \<and> now_enrolled
              then log_org_event env ORG_USER_RESET_PASSWORD_ENROLL org_id (uid h) (Some (me_uuid m)) (dev_type h)
              else if was_enrolled \<and> \<not> now_enrolled
              then log_org_event env ORG_USER_RESET_PASSWORD_WITHDRAW org_id (uid h) (Some (me_uuid m)) (dev_type h)
              else return ());
         return (json_response 200 JNull) }))"

section \<open>The key for the directory connector\<close>

definition mint_org_api_key :: "env \<Rightarrow> string \<Rightarrow> org_api_key db_result" where
  "mint_org_api_key env org_id = do {
     buf \<leftarrow> random_bytes env 30;
     k \<leftarrow> org_api_key_new env org_id 0 (e_base64url_encode env buf);
     org_api_key_save env k }"

abbreviation org_api_key_json :: "org_api_key \<Rightarrow> json" where
  "org_api_key_json k \<equiv> JObj [(''Object'', JStr ''apiKey''), (''ApiKey'', JStr (ok_api_key k)),
     (''RevisionDate'', JStr (ok_revision_date k))]"

definition get_org_api_key :: "env \<Rightarrow> headers \<Rightarrow> string \<Rightarrow> string option \<Rightarrow> response act" where
  "get_org_api_key env h org_id master_password_hash =
     try_ret (require_org_admin env h org_id) (\<lambda>e. e) (\<lambda>_.
     case optional_password_ok env h master_password_hash of
       Inl e \<Rightarrow> return e
     | Inr _ \<Rightarrow> do {
         existing \<leftarrow> unwrap_or [] (org_api_key_find_by_org env org_id);
         case find (\<lambda>k. ok_atype k = 0) existing of
           Some k \<Rightarrow> return (json_response 200 (org_api_key_json k))
         | None \<Rightarrow> try_ret (mint_org_api_key env org_id) (\<lambda>_. err_json 500 ''save failed'') (\<lambda>k.
             return (json_response 200 (org_api_key_json k))) })"

definition rotate_org_api_key :: "env \<Rightarrow> headers \<Rightarrow> string \<Rightarrow> string option \<Rightarrow> response act" where
  "rotate_org_api_key env h org_id master_password_hash =
     try_ret (require_org_admin env h org_id) (\<lambda>e. e) (\<lambda>_.
     case optional_password_ok env h master_password_hash of
       Inl e \<Rightarrow> return e
     | Inr _ \<Rightarrow> do {
         existing \<leftarrow> unwrap_or [] (org_api_key_find_by_org env org_id);
         _ \<leftarrow> for_each (filter (\<lambda>k. ok_atype k = 0) existing) (\<lambda>k. ignore (org_api_key_delete env k));
         try_ret (mint_org_api_key env org_id) (\<lambda>_. err_json 500 ''save failed'') (\<lambda>k. do {
           _ \<leftarrow> log_org_event env ORG_UPDATED org_id (uid h) None (dev_type h);
           return (json_response 200 (org_api_key_json k)) }) })"

section \<open>Listings, reminders and the export\<close>

text \<open>What \<open>list_users\<close> and \<open>get_member\<close> show of a member, up to the name of the object.\<close>

definition member_details :: "env \<Rightarrow> membership \<Rightarrow> (string \<times> json) list act" where
  "member_details env m = do {
     found \<leftarrow> user_find_by_uuid env (me_user_uuid m);
     (email, name, tf) \<leftarrow> (case found of
         Inr (Some u) \<Rightarrow> do {
           fs \<leftarrow> unwrap_or [] (two_factor_find_by_user env (us_uuid u));
           return (us_email u, us_name u, \<exists>f\<in>set fs. tf_enabled f = 1 \<and> tf_atype f < 1000) }
       | _ \<Rightarrow> return ([], [], False));
     cs \<leftarrow> unwrap_or [] (user_collection_find_by_user env (me_user_uuid m));
     gs \<leftarrow> unwrap_or [] (group_user_list_by_member env (me_uuid m));
     return [(''Id'', JStr (me_uuid m)), (''UserId'', JStr (me_user_uuid m)), (''Email'', JStr email),
       (''Name'', JStr name), (''Status'', JInt (me_status m)), (''Type'', JInt (me_atype m)),
       (''AccessAll'', JBool (me_access_all m = 1)), (''TwoFactorEnabled'', JBool tf),
       (''ResetPasswordEnrolled'', JBool (me_reset_password_key m \<noteq> None)),
       (''Collections'', JArr (map (\<lambda>c. JObj [(''Id'', JStr (uc_collection_uuid c)),
          (''ReadOnly'', JBool (uc_read_only c = 1)), (''HidePasswords'', JBool (uc_hide_passwords c = 1)),
          (''Manage'', JBool (uc_manage c = 1))]) cs)),
       (''Groups'', JArr (map JStr gs))] }"

definition list_users :: "env \<Rightarrow> headers \<Rightarrow> string \<Rightarrow> response act" where
  "list_users env h org_id =
     try_ret (require_membership env h org_id) (\<lambda>e. e) (\<lambda>_.
     try_ret (membership_find_by_org env org_id) (\<lambda>_. err_json 500 ''database error'') (\<lambda>members. do {
       data \<leftarrow> for_acc members [] (\<lambda>m data. do {
         d \<leftarrow> member_details env m;
         return (data @ [JObj ((''Object'', JStr ''organizationUserUserDetails'') # d @ [(''ExternalId'', JNull)])]) });
       return (json_response 200 (json_list data)) }))"

definition list_users_mini :: "env \<Rightarrow> headers \<Rightarrow> string \<Rightarrow> response act" where
  "list_users_mini env h org_id =
     try_ret (require_membership env h org_id) (\<lambda>e. e) (\<lambda>_.
     try_ret (membership_find_by_org env org_id) (\<lambda>_. err_json 500 ''database error'') (\<lambda>members. do {
       data \<leftarrow> for_acc members [] (\<lambda>m data. do {
         found \<leftarrow> user_find_by_uuid env (me_user_uuid m);
         let (email, name) = (case found of Inr (Some u) \<Rightarrow> (us_email u, us_name u) | _ \<Rightarrow> ([], []));
         return (data @ [JObj [(''Id'', JStr (me_uuid m)), (''UserId'', JStr (me_user_uuid m)),
           (''Email'', JStr email), (''Name'', JStr name), (''Type'', JInt (me_atype m)),
           (''Status'', JInt (me_status m))]]) });
       return (json_response 200 (json_list data)) }))"

definition get_member :: "env \<Rightarrow> headers \<Rightarrow> string \<Rightarrow> string \<Rightarrow> response act" where
  "get_member env h org_id member_id =
     try_ret (require_membership env h org_id) (\<lambda>e. e) (\<lambda>_.
     try_ret (load_member env ''Membership not found'' org_id member_id) (\<lambda>e. e) (\<lambda>m. do {
       d \<leftarrow> member_details env m;
       return (json_response 200 (JObj ((''Object'', JStr ''organizationUserDetails'') # d))) }))"

abbreviation reminder_mail :: "env \<Rightarrow> user \<Rightarrow> membership \<Rightarrow> unit act" where
  "reminder_mail env u m \<equiv> ea_mail env (us_email u) ''Reminder: organization invitation''
     (''You have a pending invitation. Membership ID: '' @ me_uuid m)"

definition reinvite :: "env \<Rightarrow> headers \<Rightarrow> string \<Rightarrow> string \<Rightarrow> response act" where
  "reinvite env h org_id member_id =
     try_ret (require_org_admin env h org_id) (\<lambda>e. e) (\<lambda>_.
     try_ret (load_member env ''Membership not found'' org_id member_id) (\<lambda>e. e) (\<lambda>m.
     if me_status m \<noteq> MEMBER_INVITED then return (err_json 400 ''Member is not in invited state'')
     else do {
       found \<leftarrow> user_find_by_uuid env (me_user_uuid m);
       _ \<leftarrow> (case found of Inr (Some u) \<Rightarrow> reminder_mail env u m | _ \<Rightarrow> return ());
       return (json_response 200 (JObj [])) }))"

definition bulk_reinvite :: "env \<Rightarrow> headers \<Rightarrow> string \<Rightarrow> string list \<Rightarrow> response act" where
  "bulk_reinvite env h org_id ids =
     try_ret (require_org_admin env h org_id) (\<lambda>e. e) (\<lambda>_. do {
       count \<leftarrow> for_acc ids (0 :: nat) (\<lambda>u count. do {
         found \<leftarrow> membership_find_by_uuid env u;
         case found of
           Inr (Some m) \<Rightarrow>
             if me_org_uuid m = org_id \<and> me_status m = MEMBER_INVITED then do {
               r \<leftarrow> user_find_by_uuid env (me_user_uuid m);
               case r of
                 Inr (Some u) \<Rightarrow> do { _ \<leftarrow> reminder_mail env u m; return (Suc count) }
               | _ \<Rightarrow> return count }
             else return count
         | _ \<Rightarrow> return count });
       return (json_response 200 (JObj [(''Reinvited'', JInt (int count))])) })"

definition member_public_keys :: "env \<Rightarrow> headers \<Rightarrow> string \<Rightarrow> string list \<Rightarrow> response act" where
  "member_public_keys env h org_id ids =
     try_ret (require_org_admin env h org_id) (\<lambda>e. e) (\<lambda>_. do {
       out \<leftarrow> for_acc ids [] (\<lambda>u out. do {
         found \<leftarrow> membership_find_by_uuid env u;
         case found of
           Inr (Some m) \<Rightarrow>
             if me_org_uuid m = org_id then do {
               r \<leftarrow> user_find_by_uuid env (me_user_uuid m);
               return (case r of
                   Inr (Some user) \<Rightarrow> out @ [JObj [(''Object'', JStr ''organizationUserPublicKeyResponseModel''),
                     (''Id'', JStr (me_uuid m)), (''UserId'', JStr (us_uuid user)),
                     (''Key'', jopt (us_public_key user))]]
                 | _ \<Rightarrow> out) }
             else return out
         | _ \<Rightarrow> return out });
       return (json_response 200 (json_list out)) })"

definition reset_password_details :: "env \<Rightarrow> headers \<Rightarrow> string \<Rightarrow> string \<Rightarrow> response act" where
  "reset_password_details env h org_id member_id =
     try_ret (require_org_admin env h org_id) (\<lambda>e. e) (\<lambda>_.
     try_ret (load_member env ''Member not found'' org_id member_id) (\<lambda>e. e) (\<lambda>m. do {
       found \<leftarrow> user_find_by_uuid env (me_user_uuid m);
       return (case found of
           Inr (Some user) \<Rightarrow> json_response 200 (JObj [
             (''Object'', JStr ''organizationUserResetPasswordDetails''),
             (''Kdf'', JInt (us_client_kdf_type user)), (''KdfIterations'', JInt (us_client_kdf_iter user)),
             (''KdfMemory'', jopt_int (us_client_kdf_memory user)),
             (''KdfParallelism'', jopt_int (us_client_kdf_parallelism user)),
             (''ResetPasswordKey'', jopt (me_reset_password_key m)),
             (''EncryptedPrivateKey'', jopt (us_private_key user))])
         | _ \<Rightarrow> err_json 404 ''User not found'') }))"

definition org_export :: "env \<Rightarrow> headers \<Rightarrow> string \<Rightarrow> response act" where
  "org_export env h org_id =
     try_ret (require_org_admin env h org_id) (\<lambda>e. e) (\<lambda>_. do {
       visible \<leftarrow> unwrap_or [] (cipher_find_visible_to_user env (uid h));
       collections \<leftarrow> unwrap_or [] (collection_find_by_org env org_id);
       _ \<leftarrow> log_org_event env ORG_CLIENT_EXPORTED_VAULT org_id (uid h) None (dev_type h);
       return (json_response 200 (JObj [(''Object'', JStr ''organizationExport''),
         (''Ciphers'', JArr (map (\<lambda>c. cipher_to_json_full env c False [] None)
            (filter (\<lambda>c. ci_organization_uuid c = Some org_id) visible))),
         (''Collections'', JArr (map collection_to_json collections)), (''Folders'', JArr [])])) })"

section \<open>Answers without a look at the database\<close>

text \<open>The caller is authenticated, and no membership is asked for.\<close>

definition auto_enroll_status :: "headers \<Rightarrow> string \<Rightarrow> response act" where
  "auto_enroll_status h org_id = return (json_response 200 (JObj [
     (''Object'', JStr ''organizationAutoEnrollStatus''), (''Id'', JStr org_id),
     (''ResetPasswordEnabled'', JBool False)]))"

definition billing_metadata :: "headers \<Rightarrow> string \<Rightarrow> response act" where
  "billing_metadata h org_id = return (json_response 200 (JObj [
     (''Object'', JStr ''organizationBillingMetadata''), (''Id'', JStr org_id),
     (''IsEligibleForSelfHost'', JBool True), (''IsManaged'', JBool False),
     (''IsOnSecretsManagerStandalone'', JBool False), (''IsSubscriptionUnpaid'', JBool False),
     (''HasSubscription'', JBool False)]))"

definition billing_warnings :: "headers \<Rightarrow> string \<Rightarrow> response act" where
  "billing_warnings h org_id = return (json_response 200 (json_list []))"

text \<open>This one has no guard at all, and is for no organization.\<close>

definition sso_verified_stub :: "json \<Rightarrow> response act" where
  "sso_verified_stub body = return (json_response 200 (json_list []))"

section \<open>All requests\<close>

datatype org_op =
    PostOrganization create_organization
  | GetOrganization string
  | PostKeys string string string
  | PutOrganization string string "string option"
  | DeleteOrganization string
  | Invite string invite_body
  | Accept string string
  | Confirm string string string
  | LeaveOrganization string
  | UpdateMember string string update_member_body
  | RemoveMember string string
  | RevokeMember string string
  | RestoreMember string string
  | BulkConfirm string "(string \<times> string option) list"
  | BulkRestore string "string list"
  | BulkRevoke string "string list"
  | ResetPassword string string string string
  | ResetEnrollment string string "string option" "string option"
  | GetApiKey string "string option"
  | RotateApiKey string "string option"
  | ListUsers string
  | GetMember string string
  | Reinvite string string
  | BulkReinvite string "string list"
  | MemberPublicKeys string "string list"
  | ResetDetails string string
  | OrgExport string
  | GetKeys string
  | GetPublicKey string
  | ListUsersMini string
  | AutoEnrollStatus string
  | BillingMetadata string
  | BillingWarnings string
  | SsoVerified json

fun exec_org_op :: "env \<Rightarrow> headers \<Rightarrow> org_op \<Rightarrow> response act" where
  "exec_org_op env h (PostOrganization body) = post_organization env h body"
| "exec_org_op env h (GetOrganization g) = get_organization env h g"
| "exec_org_op env h (PostKeys g priv pub) = post_organization_keys env h g priv pub"
| "exec_org_op env h (PutOrganization g name em) = put_organization env h g name em"
| "exec_org_op env h (DeleteOrganization g) = delete_organization env h g"
| "exec_org_op env h (Invite g body) = invite env h g body"
| "exec_org_op env h (Accept g m) = accept env h g m"
| "exec_org_op env h (Confirm g m key) = confirm env h g m key"
| "exec_org_op env h (LeaveOrganization g) = leave_organization env h g"
| "exec_org_op env h (UpdateMember g m body) = update_member env h g m body"
| "exec_org_op env h (RemoveMember g m) = remove_member env h g m"
| "exec_org_op env h (RevokeMember g m) = revoke_member env h g m"
| "exec_org_op env h (RestoreMember g m) = restore_member env h g m"
| "exec_org_op env h (BulkConfirm g ks) = bulk_confirm env h g ks"
| "exec_org_op env h (BulkRestore g ms) = bulk_restore_member env h g ms"
| "exec_org_op env h (BulkRevoke g ms) = bulk_revoke_member env h g ms"
| "exec_org_op env h (ResetPassword g m pw key) = reset_password env h g m pw key"
| "exec_org_op env h (ResetEnrollment g m key pw) = reset_password_enrollment env h g m key pw"
| "exec_org_op env h (GetApiKey g pw) = get_org_api_key env h g pw"
| "exec_org_op env h (RotateApiKey g pw) = rotate_org_api_key env h g pw"
| "exec_org_op env h (ListUsers g) = list_users env h g"
| "exec_org_op env h (GetMember g m) = get_member env h g m"
| "exec_org_op env h (Reinvite g m) = reinvite env h g m"
| "exec_org_op env h (BulkReinvite g ms) = bulk_reinvite env h g ms"
| "exec_org_op env h (MemberPublicKeys g ms) = member_public_keys env h g ms"
| "exec_org_op env h (ResetDetails g m) = reset_password_details env h g m"
| "exec_org_op env h (OrgExport g) = org_export env h g"
| "exec_org_op env h (GetKeys g) = get_organization_keys env h g"
| "exec_org_op env h (GetPublicKey g) = get_organization_public_key env h g"
| "exec_org_op env h (ListUsersMini g) = list_users_mini env h g"
| "exec_org_op env h (AutoEnrollStatus g) = auto_enroll_status h g"
| "exec_org_op env h (BillingMetadata g) = billing_metadata h g"
| "exec_org_op env h (BillingWarnings g) = billing_warnings h g"
| "exec_org_op env h (SsoVerified body) = sso_verified_stub body"

fun org_op_target :: "org_op \<Rightarrow> string option" where
  "org_op_target (PostOrganization _) = None"
| "org_op_target (GetOrganization g) = Some g"
| "org_op_target (PostKeys g _ _) = Some g"
| "org_op_target (PutOrganization g _ _) = Some g"
| "org_op_target (DeleteOrganization g) = Some g"
| "org_op_target (Invite g _) = Some g"
| "org_op_target (Accept g _) = Some g"
| "org_op_target (Confirm g _ _) = Some g"
| "org_op_target (LeaveOrganization g) = Some g"
| "org_op_target (UpdateMember g _ _) = Some g"
| "org_op_target (RemoveMember g _) = Some g"
| "org_op_target (RevokeMember g _) = Some g"
| "org_op_target (RestoreMember g _) = Some g"
| "org_op_target (BulkConfirm g _) = Some g"
| "org_op_target (BulkRestore g _) = Some g"
| "org_op_target (BulkRevoke g _) = Some g"
| "org_op_target (ResetPassword g _ _ _) = Some g"
| "org_op_target (ResetEnrollment g _ _ _) = Some g"
| "org_op_target (GetApiKey g _) = Some g"
| "org_op_target (RotateApiKey g _) = Some g"
| "org_op_target (ListUsers g) = Some g"
| "org_op_target (GetMember g _) = Some g"
| "org_op_target (Reinvite g _) = Some g"
| "org_op_target (BulkReinvite g _) = Some g"
| "org_op_target (MemberPublicKeys g _) = Some g"
| "org_op_target (ResetDetails g _) = Some g"
| "org_op_target (OrgExport g) = Some g"
| "org_op_target (GetKeys g) = Some g"
| "org_op_target (GetPublicKey g) = Some g"
| "org_op_target (ListUsersMini g) = Some g"
| "org_op_target (AutoEnrollStatus g) = Some g"
| "org_op_target (BillingMetadata g) = Some g"
| "org_op_target (BillingWarnings g) = Some g"
| "org_op_target (SsoVerified _) = None"

text \<open>The requests that anybody gets answered.\<close>

fun org_op_open :: "org_op \<Rightarrow> bool" where
  "org_op_open (AutoEnrollStatus _) = True"
| "org_op_open (BillingMetadata _) = True"
| "org_op_open (BillingWarnings _) = True"
| "org_op_open _ = False"

section \<open>Who may act\<close>

lemma wp_behind_admin:
  assumes "\<And>e s'. w_db s' = w_db s \<Longrightarrow> resp_status e \<ge> 400 \<Longrightarrow> Q e s'"
    and "\<And>m s'. m \<in> set (t_users_organizations (w_db s)) \<Longrightarrow> me_user_uuid m = uid h \<Longrightarrow> me_org_uuid m = org_id \<Longrightarrow>
      me_status m = MEMBER_CONFIRMED \<Longrightarrow> me_atype m \<le> TYPE_USER \<Longrightarrow> w_db s' = w_db s \<Longrightarrow> wp (k m) Q s'"
  shows "wp (try_ret (require_org_admin env h org_id) (\<lambda>e. e) k) Q s"
  using assms
  by (auto simp: require_org_admin_def require_membership_def membership_find_by_user_and_org_def wp_rules
      split: option.splits dest!: find_SomeD)

lemma wp_load_member:
  assumes "\<And>s'. w_db s' = w_db s \<Longrightarrow> Q (err_json 404 msg) s'"
    and "\<And>m s'. m \<in> set (t_users_organizations (w_db s)) \<Longrightarrow> me_uuid m = member_id \<Longrightarrow> me_org_uuid m = org_id \<Longrightarrow>
      w_db s' = w_db s \<Longrightarrow> wp (k m) Q s'"
  shows "wp (try_ret (load_member env msg org_id member_id) (\<lambda>e. e) k) Q s"
  using assms
  by (auto simp: load_member_def membership_find_by_uuid_def wp_rules split: option.splits dest!: find_SomeD)

definition no_member :: "db \<Rightarrow> headers \<Rightarrow> string \<Rightarrow> bool" where
  "no_member d h g \<longleftrightarrow> (\<forall>m\<in>set (t_users_organizations d). me_user_uuid m = uid h \<longrightarrow> me_org_uuid m \<noteq> g)"

lemma wp_org_op_outsider:
  assumes "no_member (w_db s) h g" "org_op_target op = Some g" "\<not> org_op_open op"
  shows "wp (exec_org_op env h op) (\<lambda>resp s'. resp_status resp \<ge> 400 \<and> w_db s' = w_db s) s"
proof -
  let ?Q = "\<lambda>resp s'. resp_status resp \<ge> 400 \<and> w_db s' = w_db s"
  have member: "wp (try_ret (require_membership env h g) (\<lambda>e. e) k) ?Q s" for k
    by (rule wp_behind_membership) (use assms(1) in \<open>auto simp: no_member_def\<close>)
  have admin: "wp (try_ret (require_org_admin env h g) (\<lambda>e. e) k) ?Q s" for k
    by (rule wp_behind_admin) (use assms(1) in \<open>auto simp: no_member_def\<close>)
  have acc: "wp (accept env h g m) ?Q s" for m
    unfolding accept_def by (rule wp_load_member) (use assms(1) in \<open>auto simp: no_member_def\<close>)
  have enr: "wp (reset_password_enrollment env h g m key pw) ?Q s" for m key pw
    unfolding reset_password_enrollment_def by (rule wp_load_member) (use assms(1) in \<open>auto simp: no_member_def\<close>)
  have lv: "wp (leave_organization env h g) ?Q s"
    using assms(1) unfolding leave_organization_def
    by (auto simp: membership_find_by_user_and_org_def wp_rules no_member_def split: option.splits dest!: find_SomeD)
  show ?thesis
    using assms(2,3) acc enr lv
    by (cases op) (simp_all only: exec_org_op.simps org_op_target.simps org_op_open.simps option.inject
      option.distinct not_True_eq_False get_organization_keys_def get_organization_public_key_def list_users_mini_def
      get_organization_def post_organization_keys_def put_organization_def delete_organization_def invite_def
      confirm_def update_member_def remove_member_def revoke_member_def restore_member_def bulk_confirm_def
      bulk_restore_member_def bulk_revoke_member_def bulk_set_status_def reset_password_def get_org_api_key_def
      rotate_org_api_key_def list_users_def get_member_def reinvite_def bulk_reinvite_def member_public_keys_def
      reset_password_details_def org_export_def member admin)
qed

lemma org_op_open_same: "org_op_open op \<Longrightarrow> exec_org_op env h op = exec_org_op env' h' op"
  by (cases op) (simp_all add: auto_enroll_status_def billing_metadata_def billing_warnings_def)

lemma wp_org_op_open: "org_op_open op \<Longrightarrow> wp (exec_org_op env h op) (\<lambda>_ s'. s' = s) s"
  by (cases op) (simp_all add: auto_enroll_status_def billing_metadata_def billing_warnings_def)

section \<open>Where roles come from\<close>

text \<open>
  A membership that has a role above the plain user in the organization \<open>g\<close> had it in \<open>d\<close> already.
\<close>

definition role_from :: "string \<Rightarrow> db \<Rightarrow> membership \<Rightarrow> bool" where
  "role_from g d m \<longleftrightarrow> (me_org_uuid m = g \<and> me_atype m \<noteq> TYPE_USER \<longrightarrow>
     (\<exists>m0\<in>set (t_users_organizations d). me_uuid m0 = me_uuid m \<and> me_user_uuid m0 = me_user_uuid m \<and>
        me_org_uuid m0 = g \<and> me_atype m0 = me_atype m))"

definition roles_from :: "string \<Rightarrow> db \<Rightarrow> db \<Rightarrow> bool" where
  "roles_from g d d' \<longleftrightarrow> (\<forall>m\<in>set (t_users_organizations d'). role_from g d m)"

lemma roles_from_refl: "roles_from g d d"
  by (auto simp: roles_from_def role_from_def)

lemma role_from_update [simp]:
  "role_from g d (m\<lparr>me_status := st\<rparr>) = role_from g d m"
  "role_from g d (m\<lparr>me_akey := k\<rparr>) = role_from g d m"
  "role_from g d (m\<lparr>me_access_all := a\<rparr>) = role_from g d m"
  "role_from g d (m\<lparr>me_reset_password_key := r\<rparr>) = role_from g d m"
  by (simp_all add: role_from_def)

lemma roles_from_subset:
  "roles_from g d d' \<Longrightarrow> set (t_users_organizations d'') \<subseteq> set (t_users_organizations d') \<Longrightarrow> roles_from g d d''"
  by (auto simp: roles_from_def)

lemma ignores_events_roles_from [simp]: "ignores_events (roles_from g d)"
  by (simp add: ignores_events_def roles_from_def)

lemma set_upsert_membership: "set (upsert me_uuid membership_conflict m t) \<subseteq> insert m (set t)"
  by (auto simp: upsert_def membership_conflict_def)

lemma preserves_membership_save:
  assumes "role_from g d m"
  shows "preserves (\<lambda>s. roles_from g d (w_db s)) (membership_save env m)"
  unfolding membership_save_def
proof (rule preserves_d1_exec)
  fix d1 d2
  assume "roles_from g d d1" and save: "(let t = upsert me_uuid membership_conflict m (t_users_organizations d1)
      in if distinct (map membership_pair t) then Some (d1\<lparr>t_users_organizations := t\<rparr>) else None) = Some d2"
  then have "\<forall>x\<in>insert m (set (t_users_organizations d1)). role_from g d x"
    using assms by (simp add: roles_from_def)
  moreover have "t_users_organizations d2 = upsert me_uuid membership_conflict m (t_users_organizations d1)"
    using save by (auto simp: Let_def split: if_splits)
  ultimately show "roles_from g d d2"
    using set_upsert_membership [of m "t_users_organizations d1"] unfolding roles_from_def by auto
qed

lemma preserves_roles_other_tables [preserves_rules]:
  "preserves (\<lambda>s. roles_from g d (w_db s)) (organization_save env og)"
  "preserves (\<lambda>s. roles_from g d (w_db s)) (user_save env us)"
  "preserves (\<lambda>s. roles_from g d (w_db s)) (user_collection_upsert env uc)"
  "preserves (\<lambda>s. roles_from g d (w_db s)) (user_collection_delete env uc)"
  "preserves (\<lambda>s. roles_from g d (w_db s)) (group_user_set env gid mid)"
  "preserves (\<lambda>s. roles_from g d (w_db s)) (group_user_unset env gid mid)"
  "preserves (\<lambda>s. roles_from g d (w_db s)) (org_api_key_save env ak)"
  "preserves (\<lambda>s. roles_from g d (w_db s)) (org_api_key_delete env ak)"
  "preserves (\<lambda>s. roles_from g d (w_db s)) (membership_delete env m)"
  unfolding organization_save_def user_save_def user_collection_upsert_def user_collection_delete_def
    group_user_set_def group_user_unset_def org_api_key_save_def org_api_key_delete_def membership_delete_def
  by (intro preserves_rules preserves_d1_exec;
      auto simp: set_delete_where Let_def split: if_splits elim!: roles_from_subset)+

lemma preserves_org_reads [preserves_rules]:
  fixes P :: "db \<Rightarrow> bool"
  shows "preserves (\<lambda>s. P (w_db s)) (organization_find_by_uuid env g)"
    and "preserves (\<lambda>s. P (w_db s)) (membership_find_by_org env g)"
    and "preserves (\<lambda>s. P (w_db s)) (membership_find_by_user_and_org env u g)"
    and "preserves (\<lambda>s. P (w_db s)) (user_find_by_email env em)"
    and "preserves (\<lambda>s. P (w_db s)) (user_find_by_uuid env u)"
    and "preserves (\<lambda>s. P (w_db s)) (user_new env em un)"
    and "preserves (\<lambda>s. P (w_db s)) (organization_new env nm em)"
    and "preserves (\<lambda>s. P (w_db s)) (user_collection_find_by_user env u)"
    and "preserves (\<lambda>s. P (w_db s)) (collection_find_by_uuid env u)"
    and "preserves (\<lambda>s. P (w_db s)) (collection_find_by_org env g)"
    and "preserves (\<lambda>s. P (w_db s)) (group_user_list_by_member env u)"
    and "preserves (\<lambda>s. P (w_db s)) (org_api_key_find_by_org env g)"
    and "preserves (\<lambda>s. P (w_db s)) (org_api_key_new env g ty k)"
    and "preserves (\<lambda>s. P (w_db s)) (cipher_find_visible_to_user env u)"
    and "preserves (\<lambda>s. P (w_db s)) (two_factor_find_by_user env u)"
  unfolding organization_find_by_uuid_def membership_find_by_org_def membership_find_by_user_and_org_def
    user_find_by_email_def user_find_by_uuid_def user_new_def organization_new_def user_collection_find_by_user_def
    collection_find_by_uuid_def collection_find_by_org_def group_user_list_by_member_def
    org_api_key_find_by_org_def org_api_key_new_def cipher_find_visible_to_user_def two_factor_find_by_user_def
  by (intro preserves_rules)+

lemma preserves_mint [preserves_rules]:
  "preserves (\<lambda>s. roles_from g d (w_db s)) (mint_org_api_key env org_id)"
  unfolding mint_org_api_key_def by (intro preserves_rules)

lemma preserves_member_details [preserves_rules]:
  fixes P :: "db \<Rightarrow> bool"
  shows "preserves (\<lambda>s. P (w_db s)) (member_details env m)"
  unfolding member_details_def by (intro preserves_rules)

text \<open>A membership read from the tables has a role that was there.\<close>

lemma preserves_found_member:
  assumes "\<And>m. role_from g d m \<Longrightarrow> me_uuid m = u \<Longrightarrow> preserves (\<lambda>s. roles_from g d (w_db s)) (k m)"
    and "\<And>e. preserves (\<lambda>s. roles_from g d (w_db s)) (f e)" and "preserves (\<lambda>s. roles_from g d (w_db s)) n"
  shows "preserves (\<lambda>s. roles_from g d (w_db s)) (State_Monad.bind (membership_find_by_uuid env u)
     (case_sum f (case_option n k)))"
proof (rule preservesI)
  fix s :: world assume inv: "roles_from g d (w_db s)"
  then show "wp (State_Monad.bind (membership_find_by_uuid env u) (case_sum f (case_option n k)))
      (\<lambda>_ s. roles_from g d (w_db s)) s"
    using assms
    by (cases "find (\<lambda>m. me_uuid m = u) (t_users_organizations (w_db s))")
      (auto simp: membership_find_by_uuid_def wp_rules preserves_def roles_from_def dest!: find_SomeD)
qed

lemma preserves_load_member:
  assumes "\<And>m. role_from g d m \<Longrightarrow> me_org_uuid m = org_id \<Longrightarrow> preserves (\<lambda>s. roles_from g d (w_db s)) (k m)"
  shows "preserves (\<lambda>s. roles_from g d (w_db s)) (try_ret (load_member env msg org_id u) f k)"
proof (rule preservesI)
  fix s :: world assume inv: "roles_from g d (w_db s)"
  then show "wp (try_ret (load_member env msg org_id u) f k) (\<lambda>_ s. roles_from g d (w_db s)) s"
    using assms
    by (auto simp: load_member_def membership_find_by_uuid_def wp_rules preserves_def roles_from_def
        split: option.splits dest!: find_SomeD)
qed

text \<open>No row says that the caller is a confirmed owner of \<open>g\<close>.\<close>

definition not_owner :: "db \<Rightarrow> headers \<Rightarrow> string \<Rightarrow> bool" where
  "not_owner d h g \<longleftrightarrow> (\<forall>m\<in>set (t_users_organizations d). me_user_uuid m = uid h \<longrightarrow> me_org_uuid m = g \<longrightarrow>
     me_status m = MEMBER_CONFIRMED \<longrightarrow> me_atype m \<noteq> TYPE_OWNER)"

lemma wp_behind_admin_roles:
  assumes "not_owner (w_db s) h g"
    and "\<And>m. (org_id = g \<Longrightarrow> me_atype m \<noteq> TYPE_OWNER) \<Longrightarrow>
      preserves (\<lambda>s'. roles_from g (w_db s) (w_db s')) (k m)"
  shows "wp (try_ret (require_org_admin env h org_id) (\<lambda>e. e) k) (\<lambda>_ s'. roles_from g (w_db s) (w_db s')) s"
proof (rule wp_behind_admin)
  fix m and s' :: world
  assume "m \<in> set (t_users_organizations (w_db s))" "me_user_uuid m = uid h" "me_org_uuid m = org_id"
    "me_status m = MEMBER_CONFIRMED" "w_db s' = w_db s"
  then have "preserves (\<lambda>s'. roles_from g (w_db s) (w_db s')) (k m)" "roles_from g (w_db s) (w_db s')"
    using assms by (auto simp: not_owner_def roles_from_refl)
  then show "wp (k m) (\<lambda>_ s'. roles_from g (w_db s) (w_db s')) s'"
    by (rule preserves_wp)
qed (simp add: roles_from_refl)

lemma preserves_for_ret_in:
  "(\<And>x. x \<in> set xs \<Longrightarrow> preserves I (f x)) \<Longrightarrow> preserves I (for_ret xs f)"
  by (auto simp: preserves_def intro!: wp_for_ret_invariant)

lemma preserves_new_member:
  assumes "\<And>m. me_org_uuid m = org_id \<Longrightarrow> me_atype m = ty \<Longrightarrow> preserves (\<lambda>s. P (w_db s)) (k m)"
  shows "preserves (\<lambda>s. P (w_db s)) (State_Monad.bind (membership_new env u org_id akey ty st) k)"
  using assms by (auto simp: preserves_def membership_new_def wp_rules)

lemma preserves_invite_one:
  assumes "org_id = g \<Longrightarrow> ty = TYPE_USER"
  shows "preserves (\<lambda>s. roles_from g d (w_db s)) (invite_one env h org_id ty body email)"
  unfolding invite_one_def Let_def
  by (intro preserves_new_member preserves_membership_save preserves_rules preserves_ea_mail)
    (use assms in \<open>auto simp: role_from_def\<close>)

lemma preserves_invite:
  assumes "not_owner (w_db s) h g"
  shows "wp (invite env h org_id body) (\<lambda>_ s'. roles_from g (w_db s) (w_db s')) s"
  unfolding invite_def Let_def
  by (rule wp_behind_admin_roles [OF assms])
    (intro preserves_rules preserves_ratelimit preserves_invite_one; auto)

lemma preserves_update_member:
  assumes "not_owner (w_db s) h g"
  shows "wp (update_member env h org_id member_id body) (\<lambda>_ s'. roles_from g (w_db s) (w_db s')) s"
  unfolding update_member_def Let_def
  by (rule wp_behind_admin_roles [OF assms])
    (intro preserves_load_member preserves_membership_save preserves_rules; auto simp: role_from_def)

lemma delete_ciphers_members [simp]:
  "t_users_organizations (delete_ciphers env P d) = t_users_organizations d"
  by (simp add: delete_ciphers_def)

lemma preserves_delete_organization:
  assumes "not_owner (w_db s) h g"
  shows "wp (delete_organization env h org_id) (\<lambda>_ s'. roles_from g (w_db s) (w_db s')) s"
  unfolding delete_organization_def Let_def
  by (rule wp_behind_admin_roles [OF assms])
    (intro preserves_if preserves_bind preserves_try_ret preserves_for_ret_in preserves_rules preserves_d1_exec;
     auto simp: set_delete_where elim!: roles_from_subset)

lemma preserves_member_status:
  assumes "not_owner (w_db s) h g"
  shows "wp (confirm env h org_id u key) (\<lambda>_ s'. roles_from g (w_db s) (w_db s')) s"
    and "wp (remove_member env h org_id u) (\<lambda>_ s'. roles_from g (w_db s) (w_db s')) s"
    and "wp (revoke_member env h org_id u) (\<lambda>_ s'. roles_from g (w_db s) (w_db s')) s"
    and "wp (restore_member env h org_id u) (\<lambda>_ s'. roles_from g (w_db s) (w_db s')) s"
    and "wp (reset_password env h org_id u pw key) (\<lambda>_ s'. roles_from g (w_db s) (w_db s')) s"
    and "wp (reinvite env h org_id u) (\<lambda>_ s'. roles_from g (w_db s) (w_db s')) s"
    and "wp (reset_password_details env h org_id u) (\<lambda>_ s'. roles_from g (w_db s) (w_db s')) s"
  unfolding confirm_def remove_member_def revoke_member_def restore_member_def reset_password_def
    reinvite_def reset_password_details_def Let_def
  by (rule wp_behind_admin_roles [OF assms],
      intro preserves_load_member preserves_membership_save preserves_rules preserves_ea_mail; simp)+

lemma preserves_member_bulk:
  assumes "not_owner (w_db s) h g"
  shows "wp (bulk_confirm env h org_id ks) (\<lambda>_ s'. roles_from g (w_db s) (w_db s')) s"
    and "wp (bulk_set_status env h st ty org_id us) (\<lambda>_ s'. roles_from g (w_db s) (w_db s')) s"
    and "wp (bulk_reinvite env h org_id us) (\<lambda>_ s'. roles_from g (w_db s) (w_db s')) s"
    and "wp (member_public_keys env h org_id us) (\<lambda>_ s'. roles_from g (w_db s) (w_db s')) s"
  unfolding bulk_confirm_def bulk_set_status_def bulk_reinvite_def member_public_keys_def Let_def split_beta
  by (rule wp_behind_admin_roles [OF assms],
      intro preserves_found_member preserves_membership_save preserves_rules preserves_ea_mail; simp)+

lemma preserves_org_admin_rest:
  assumes "not_owner (w_db s) h g"
  shows "wp (post_organization_keys env h org_id priv pub) (\<lambda>_ s'. roles_from g (w_db s) (w_db s')) s"
    and "wp (put_organization env h org_id name em) (\<lambda>_ s'. roles_from g (w_db s) (w_db s')) s"
    and "wp (get_org_api_key env h org_id pw) (\<lambda>_ s'. roles_from g (w_db s) (w_db s')) s"
    and "wp (rotate_org_api_key env h org_id pw) (\<lambda>_ s'. roles_from g (w_db s) (w_db s')) s"
    and "wp (org_export env h org_id) (\<lambda>_ s'. roles_from g (w_db s) (w_db s')) s"
  unfolding post_organization_keys_def put_organization_def get_org_api_key_def rotate_org_api_key_def
    org_export_def Let_def
  by (rule wp_behind_admin_roles [OF assms], intro preserves_rules; simp)+

lemma preserves_org_self:
  shows "preserves (\<lambda>s. roles_from g d (w_db s)) (get_organization env h org_id)"
    and "preserves (\<lambda>s. roles_from g d (w_db s)) (list_users env h org_id)"
    and "preserves (\<lambda>s. roles_from g d (w_db s)) (get_organization_keys env h org_id)"
    and "preserves (\<lambda>s. roles_from g d (w_db s)) (get_organization_public_key env h org_id)"
    and "preserves (\<lambda>s. roles_from g d (w_db s)) (list_users_mini env h org_id)"
    and "preserves (\<lambda>s. roles_from g d (w_db s)) (auto_enroll_status h org_id)"
    and "preserves (\<lambda>s. roles_from g d (w_db s)) (billing_metadata h org_id)"
    and "preserves (\<lambda>s. roles_from g d (w_db s)) (billing_warnings h org_id)"
    and "preserves (\<lambda>s. roles_from g d (w_db s)) (sso_verified_stub sbody)"
    and "preserves (\<lambda>s. roles_from g d (w_db s)) (get_member env h org_id u)"
    and "preserves (\<lambda>s. roles_from g d (w_db s)) (accept env h org_id u)"
    and "preserves (\<lambda>s. roles_from g d (w_db s)) (leave_organization env h org_id)"
    and "preserves (\<lambda>s. roles_from g d (w_db s)) (reset_password_enrollment env h org_id u key pw)"
  unfolding get_organization_def get_organization_keys_def get_organization_public_key_def list_users_def
    list_users_mini_def auto_enroll_status_def billing_metadata_def billing_warnings_def sso_verified_stub_def
    get_member_def accept_def leave_organization_def reset_password_enrollment_def Let_def split_beta
  by (intro preserves_load_member preserves_membership_save preserves_rules preserves_ea_mail; simp)+

lemma preserves_new_organization:
  assumes "\<And>n. e_uuid env n \<noteq> g" "\<And>x. og_uuid x \<noteq> g \<Longrightarrow> preserves (\<lambda>s. P (w_db s)) (k x)"
  shows "preserves (\<lambda>s. P (w_db s)) (State_Monad.bind (organization_new env name em) k)"
  using assms by (auto simp: preserves_def organization_new_def wp_rules)

lemma preserves_post_organization:
  assumes "\<And>n. e_uuid env n \<noteq> g"
  shows "preserves (\<lambda>s. roles_from g d (w_db s)) (post_organization env h body)"
  unfolding post_organization_def Let_def
  by (intro preserves_new_organization [OF assms] preserves_new_member preserves_membership_save preserves_rules)
    (auto simp: role_from_def split: option.splits)

lemma wp_exec_org_op_roles:
  assumes "not_owner (w_db s) h g" "\<And>n. e_uuid env n \<noteq> g"
  shows "wp (exec_org_op env h op) (\<lambda>_ s'. roles_from g (w_db s) (w_db s')) s"
  by (cases op)
    (simp_all add: bulk_restore_member_def bulk_revoke_member_def preserves_invite preserves_update_member
      preserves_delete_organization preserves_member_status preserves_member_bulk preserves_org_admin_rest
      preserves_wp [OF preserves_post_organization [OF assms(2)]]
      preserves_org_self [THEN preserves_wp] roles_from_refl assms(1))

section \<open>Properties\<close>

text \<open>C6.
  Roles come from owners: whatever request a user sends who is not a confirmed owner of an
  organization, and whichever database calls fail, every membership of the organization that is not
  one of a plain user afterwards was there before, of the same user and with the same role.
\<close>

theorem only_owners_grant_roles:
  assumes "not_owner (w_db s) h g" and "\<And>n. e_uuid env n \<noteq> g"
    and "run_state (exec_org_op env h op) s = (resp, s')"
    and "m \<in> set (t_users_organizations (w_db s'))" and "me_org_uuid m = g" and "me_atype m \<noteq> TYPE_USER"
  shows "\<exists>m0\<in>set (t_users_organizations (w_db s)). me_uuid m0 = me_uuid m \<and> me_user_uuid m0 = me_user_uuid m \<and>
     me_org_uuid m0 = g \<and> me_atype m0 = me_atype m"
  using wpD [OF wp_exec_org_op_roles [OF assms(1,2)] assms(3)] assms(4-6)
  by (simp add: roles_from_def role_from_def)

definition sample_org_world :: world where
  "sample_org_world = sample_world (sample_db\<lparr>t_users_organizations :=
     [sample_membership ''ma'' ''alice'' ''org'' 0 2, sample_membership ''mb'' ''bob'' ''org'' 2 2]\<rparr>)"

text \<open>Bob, a plain user, asks to become an owner; the owner of before is still there and no other.\<close>

theorem only_owners_grant_roles_witness:
  "\<exists>m0\<in>set (t_users_organizations (w_db sample_org_world)). me_uuid m0 = ''ma'' \<and> me_user_uuid m0 = ''alice'' \<and>
     me_org_uuid m0 = ''org'' \<and> me_atype m0 = 0"
proof -
  let ?op = "UpdateMember ''org'' ''mb'' \<lparr>um_atype = 0, um_access_all = None, um_collections = None, um_groups = None\<rparr>"
  have "wp (exec_org_op sample_env (sample_headers ''bob'') ?op)
      (\<lambda>_ s'. sample_membership ''ma'' ''alice'' ''org'' 0 2 \<in> set (t_users_organizations (w_db s'))) sample_org_world"
    by (simp add: update_member_def require_org_admin_def require_membership_def load_member_def
        membership_find_by_user_and_org_def membership_find_by_uuid_def sample_org_world_def eval_simps)
  then have "sample_membership ''ma'' ''alice'' ''org'' 0 2 \<in> set (t_users_organizations (w_db (snd
      (run_state (exec_org_op sample_env (sample_headers ''bob'') ?op) sample_org_world))))"
    by (simp add: wp_def split_beta)
  from only_owners_grant_roles [where g = "''org''", OF _ _ surjective_pairing this] show ?thesis
    by (simp add: not_owner_def sample_org_world_def sample_defs)
qed

text \<open>C24.
  Organizations are closed to outsiders: a request of \<open>organizations.rs\<close> for an organization that the
  caller has no membership in leaves the database as it was and answers with an error, except for the
  three that answer anybody: the status of automatic enrolment, the billing metadata and the billing
  warnings.  These change nothing, and their answer is the same for every caller, whatever is stored.
\<close>

theorem org_requests_of_outsiders_denied:
  assumes "no_member (w_db s) h g" and "org_op_target op = Some g"
    and "run_state (exec_org_op env h op) s = (resp, s')"
  shows "w_db s' = w_db s \<and>
    (if org_op_open op then s' = s \<and> (\<forall>env' h'. exec_org_op env' h' op = exec_org_op env h op)
     else resp_status resp \<ge> 400)"
proof (cases "org_op_open op")
  case True
  with wpD [OF wp_org_op_open [OF True] assms(3)] show ?thesis
    by (auto intro: org_op_open_same)
next
  case False
  with wpD [OF wp_org_op_outsider [OF assms(1,2) False] assms(3)] show ?thesis by simp
qed

theorem org_requests_of_outsiders_denied_witness:
  "resp_status (fst (run_state (exec_org_op sample_env (sample_headers ''bob'') (OrgExport ''org''))
     (sample_world sample_db))) \<ge> 400"
  using org_requests_of_outsiders_denied [where g = "''org''" and op = "OrgExport ''org''", OF _ _ surjective_pairing,
      of "sample_world sample_db" "sample_headers ''bob''" sample_env]
  by (simp add: no_member_def sample_defs)

text \<open>C37.
  Account recovery is open to every confirmed member: the guard admits plain users, and the handler
  does not compare roles.  When no call fails, such a member sets the master password and the key
  of any enrolled member, an owner included.
\<close>

theorem plain_member_resets_password:
  assumes "\<And>n. \<not> e_fault env n" and "e_fk env \<longrightarrow> fk_ok (w_db s)" and "users_keyed (w_db s)"
    and "find (\<lambda>m. me_user_uuid m = uid h \<and> me_org_uuid m = g) (t_users_organizations (w_db s)) = Some caller"
    and "me_status caller = MEMBER_CONFIRMED" and "me_atype caller = TYPE_USER"
    and "find (\<lambda>m. me_uuid m = mid) (t_users_organizations (w_db s)) = Some target"
    and "me_org_uuid target = g" and "me_reset_password_key target \<noteq> None"
    and "find (\<lambda>u. us_uuid u = me_user_uuid target) (t_users (w_db s)) = Some victim"
    and "set_password env victim pw = Some changed"
    and "run_state (reset_password env h g mid pw key) s = (resp, s')"
  shows "resp_status resp = 200 \<and> (\<exists>u\<in>set (t_users (w_db s')). us_uuid u = me_user_uuid target \<and>
    us_password_hash u = us_password_hash changed \<and> us_akey u = key)"
proof -
  have v: "victim \<in> set (t_users (w_db s))" "us_uuid victim = me_user_uuid target"
    using assms(10) by (auto dest: find_SomeD)
  let ?new = "victim\<lparr>us_akey := key, us_password_hash := us_password_hash changed\<rparr>"
  have pw: "set_password env (victim\<lparr>us_akey := key\<rparr>) pw = Some ?new"
    using assms(11) by (auto simp: set_password_def)
  have row: "\<exists>u\<in>set (upsert us_uuid user_conflict (?new\<lparr>us_security_stamp := st, us_updated_at := now\<rparr>) (t_users (w_db s))).
      us_uuid u = me_user_uuid target \<and> us_password_hash u = us_password_hash changed \<and> us_akey u = key" for st now
    using find_SomeD [OF kt_users.find_upsert_same [of "?new\<lparr>us_security_stamp := st, us_updated_at := now\<rparr>" "t_users (w_db s)"]]
    by (simp add: user_conflict_def v(2) assms(10)) (erule bexI [rotated], simp add: v(2))
  define taken where "taken = (\<lambda>d :: db. \<exists>u\<in>set (t_users d). us_uuid u = me_user_uuid target \<and>
      us_password_hash u = us_password_hash changed \<and> us_akey u = key)"
  have saved: "wp (user_save env (?new\<lparr>us_security_stamp := st\<rparr>)) (\<lambda>r s'. (\<exists>x. r = Inr x) \<and> taken (w_db s')) s1"
    if "w_db s1 = w_db s" for st s1
    by (rule wp_user_updateI [where old = victim]) (use assms(1-3) v row that in \<open>simp_all add: taken_def\<close>)
  have [simp]: "taken (d\<lparr>t_event := es\<rparr>) = taken d" for d es by (simp add: taken_def)
  have "wp (reset_password env h g mid pw key) (\<lambda>resp s'. resp_status resp = 200 \<and> taken (w_db s')) s"
    using assms(1-9) v pw
    by (auto simp: reset_password_def require_org_admin_def require_membership_def load_member_def
        membership_find_by_user_and_org_def membership_find_by_uuid_def user_find_by_uuid_def wp_rules assms(10)
        intro!: wp_mono [OF saved] wp_log_eventI)
  from wpD [OF this assms(12)] show ?thesis by (simp add: taken_def)
qed

definition sample_enrolled :: membership where
  "sample_enrolled = (sample_membership ''ma'' ''alice'' ''org'' 0 2)\<lparr>me_reset_password_key := Some ''rk''\<rparr>"

definition sample_enrolled_world :: world where
  "sample_enrolled_world = sample_world (sample_db\<lparr>t_users_organizations :=
     [sample_enrolled, sample_membership ''mb'' ''bob'' ''org'' 2 2]\<rparr>)"

text \<open>Bob, a plain user, sets the master password of Alice, the owner.\<close>

theorem plain_member_resets_password_witness:
  "resp_status (fst (run_state (reset_password sample_env (sample_headers ''bob'') ''org'' ''ma'' ''pw'' ''k2'')
     sample_enrolled_world)) = 200"
  by (rule conjunct1, rule plain_member_resets_password [where target = sample_enrolled and victim = "sample_user ''alice''"
        and caller = "sample_membership ''mb'' ''bob'' ''org'' 2 2"
        and changed = "(sample_user ''alice'')\<lparr>us_password_hash := [2, 112, 119]\<rparr>",
        OF _ _ _ _ _ _ _ _ _ _ _ surjective_pairing])
    (simp_all add: sample_enrolled_def sample_enrolled_world_def users_keyed_def set_password_def hash_password_def
      as_u32_def as_bytes_def sample_defs)

end
