(* ===== verification/Accounts.thy ===== *)
theory Accounts
  imports Organizations Login_Safety
begin

text \<open>
  \<open>worker/src/api/accounts.rs\<close>: the account of the caller.  Every handler that changes a table,
  the buckets or sends mail is here; the revision date, which only formats a column of the caller,
  is not.  The handlers work on the row of the user that the guard read at the start of
  the request and write that row back.
\<close>

abbreviation USER_UPDATED_PASSWORD :: event_type where "USER_UPDATED_PASSWORD \<equiv> USER_CHANGED_PASSWORD"
abbreviation TWOFACTOR_TYPE_PROTECTED_ACTIONS :: int where "TWOFACTOR_TYPE_PROTECTED_ACTIONS \<equiv> 4"
abbreviation PROTECTED_OTP_TTL_SECS :: int where "PROTECTED_OTP_TTL_SECS \<equiv> 600"
abbreviation PROTECTED_OTP_MAX_ATTEMPTS :: int where "PROTECTED_OTP_MAX_ATTEMPTS \<equiv> 3"

section \<open>Registration and profile\<close>

record register_data =
  rd_email :: string
  rd_name :: "string option"
  rd_master_password_hash :: string
  rd_master_password_hint :: "string option"
  rd_key :: string
  rd_keys :: "key_pair option"
  rd_kdf :: "int option"
  rd_kdf_iterations :: "int option"
  rd_kdf_memory :: "int option"
  rd_kdf_parallelism :: "int option"

text \<open>\<open>if let Some(kp) = data.keys\<close>.\<close>

abbreviation with_keys :: "key_pair option \<Rightarrow> user \<Rightarrow> user" where
  "with_keys keys user \<equiv> (case keys of
     None \<Rightarrow> user
   | Some kp \<Rightarrow> user\<lparr>us_public_key := Some (kp_public_key kp), us_private_key := Some (kp_encrypted_private_key kp)\<rparr>)"

definition register :: "env \<Rightarrow> (string \<Rightarrow> string option) \<Rightarrow> register_data \<Rightarrow> response act" where
  "register env headers data = do {
     ok \<leftarrow> ratelimit_check env REGISTER_LIMIT (client_ip headers);
     if \<not> ok then return (err_json 429 ''Too many signup attempts'')
     else
       let email = to_lowercase (trim (rd_email data)) in
       if email = [] then return (err_json 400 ''email is required'')
       else do {
         found \<leftarrow> user_find_by_email env email;
         case found of
           Inr (Some _) \<Rightarrow> return (err_json 400 ''User already exists'')
         | _ \<Rightarrow>
           if rd_master_password_hash data = [] then return (err_json 400 ''masterPasswordHash is required'')
           else do {
             user \<leftarrow> user_new env email (rd_name data);
             let iter = opt_default 600000 (rd_kdf_iterations data);
             let user = user\<lparr>us_akey := rd_key data, us_password_hint := rd_master_password_hint data,
                   us_client_kdf_type := opt_default 0 (rd_kdf data), us_client_kdf_iter := iter,
                   us_client_kdf_memory := rd_kdf_memory data,
                   us_client_kdf_parallelism := rd_kdf_parallelism data\<rparr>;
             let user = (with_keys (rd_keys data) user)\<lparr>us_password_iterations := iter\<rparr>;
             case set_password env user (rd_master_password_hash data) of
               None \<Rightarrow> return panicked
             | Some user \<Rightarrow>
                 try_ret (user_save env user) (\<lambda>_. err_json 500 ''failed to save user'') (\<lambda>_.
                 return (json_response 200 (JObj [(''Object'', JStr ''register''),
                   (''CaptchaBypassToken'', JNull)]))) } } }"

definition profile_json_with :: "user \<Rightarrow> bool \<Rightarrow> json list \<Rightarrow> json" where
  "profile_json_with u two_factor_enabled organizations = JObj [
     (''Object'', JStr ''profile''), (''Id'', JStr (us_uuid u)), (''Name'', JStr (us_name u)),
     (''Email'', JStr (us_email u)), (''EmailVerified'', JBool (us_verified_at u \<noteq> None)),
     (''Premium'', JBool True), (''PremiumFromOrganization'', JBool False),
     (''MasterPasswordHint'', jopt (us_password_hint u)), (''Culture'', JStr ''en-US''),
     (''TwoFactorEnabled'', JBool two_factor_enabled), (''Key'', JStr (us_akey u)),
     (''PrivateKey'', jopt (us_private_key u)), (''SecurityStamp'', JStr (us_security_stamp u)),
     (''ForcePasswordReset'', JBool False), (''UsesKeyConnector'', JBool False),
     (''AvatarColor'', jopt (us_avatar_color u)), (''Organizations'', JArr organizations),
     (''Providers'', JArr []), (''ProviderOrganizations'', JArr [])]"

abbreviation profile_json :: "user \<Rightarrow> json" where
  "profile_json u \<equiv> profile_json_with u False []"

definition get_profile :: "env \<Rightarrow> headers \<Rightarrow> response act" where
  "get_profile env h = do {
     fs \<leftarrow> unwrap_or [] (two_factor_find_by_user env (uid h));
     memberships \<leftarrow> unwrap_or [] (membership_find_by_user env (uid h));
     orgs \<leftarrow> for_acc memberships [] (\<lambda>m orgs. do {
       found \<leftarrow> organization_find_by_uuid env (me_org_uuid m);
       let name = (case found of Inr (Some o') \<Rightarrow> og_name o' | _ \<Rightarrow> ''(unknown)'');
       return (orgs @ [membership_json m name]) });
     return (json_response 200 (profile_json_with (hd_user h) (\<exists>f\<in>set fs. tf_enabled f = 1) orgs)) }"

definition put_profile :: "env \<Rightarrow> headers \<Rightarrow> string option \<Rightarrow> string option \<Rightarrow> response act" where
  "put_profile env h name hint = do {
     let user = hd_user h;
     let user = (case name of None \<Rightarrow> user | Some n \<Rightarrow> user\<lparr>us_name := n\<rparr>);
     let user = (if hint \<noteq> None then user\<lparr>us_password_hint := hint\<rparr> else user);
     try_ret (user_save env user) (\<lambda>_. err_json 500 ''failed to save user'') (\<lambda>user.
       return (json_response 200 (profile_json user))) }"

definition set_avatar :: "env \<Rightarrow> headers \<Rightarrow> string option \<Rightarrow> response act" where
  "set_avatar env h avatar_color =
     try_ret (user_save env ((hd_user h)\<lparr>us_avatar_color := avatar_color\<rparr>)) (\<lambda>_. err_json 500 ''save failed'')
       (\<lambda>user. return (json_response 200 (profile_json user)))"

definition user_public_key :: "env \<Rightarrow> headers \<Rightarrow> string \<Rightarrow> response act" where
  "user_public_key env h user_id =
     try_ret (user_find_by_uuid env user_id) (\<lambda>_. err_json 500 ''database error'') (\<lambda>found.
     return (case found of
         None \<Rightarrow> err_json 404 ''User not found''
       | Some u \<Rightarrow> json_response 200 (JObj [(''Object'', JStr ''userKey''), (''UserId'', JStr (us_uuid u)),
           (''PublicKey'', jopt (us_public_key u))])))"

section \<open>The master password\<close>

text \<open>\<open>if !user.check_valid_password(pw) { return 401 }\<close>.\<close>

abbreviation checked_password :: "env \<Rightarrow> headers \<Rightarrow> string \<Rightarrow> response act \<Rightarrow> response act" where
  "checked_password env h pw k \<equiv> (case check_valid_password env (hd_user h) pw of
     None \<Rightarrow> return panicked
   | Some ok \<Rightarrow> if ok then k else return (err_json 401 ''Invalid password''))"

text \<open>The handlers that take the password as an optional member of the body start alike.\<close>

definition require_password :: "env \<Rightarrow> headers \<Rightarrow> string option \<Rightarrow> response act \<Rightarrow> response act" where
  "require_password env h master_password_hash k =
     (case non_empty master_password_hash of
        None \<Rightarrow> return (err_json 400 ''masterPasswordHash is required'')
      | Some pw \<Rightarrow> checked_password env h pw k)"

definition verify_password :: "env \<Rightarrow> headers \<Rightarrow> string option \<Rightarrow> response act" where
  "verify_password env h master_password_hash =
     require_password env h master_password_hash (return (json_response 200 (JObj [])))"

text \<open>
  What the three handlers that change the password do with the user they prepared: hash the new
  password, rotate the security stamp, save, log, and tell the other sessions to log out.
\<close>

definition store_new_password :: "env \<Rightarrow> headers \<Rightarrow> string \<Rightarrow> user \<Rightarrow> string \<Rightarrow> response act" where
  "store_new_password env h save_error user new_password =
     (case set_password env user new_password of
        None \<Rightarrow> return panicked
      | Some user \<Rightarrow> do {
          stamp \<leftarrow> new_uuid env;
          try_ret (user_save env (user\<lparr>us_security_stamp := stamp\<rparr>)) (\<lambda>_. err_json 500 save_error) (\<lambda>user. do {
            _ \<leftarrow> log_user_event env USER_UPDATED_PASSWORD (us_uuid user) (dev_type h);
            _ \<leftarrow> notify_user env (us_uuid user) LOG_OUT (us_uuid user);
            return (json_response 200 (JObj [])) }) })"

definition change_password ::
  "env \<Rightarrow> headers \<Rightarrow> string \<Rightarrow> string \<Rightarrow> string option \<Rightarrow> string \<Rightarrow> response act" where
  "change_password env h master_password_hash new_master_password_hash hint key =
     checked_password env h master_password_hash
       (store_new_password env h ''failed to save user''
         ((hd_user h)\<lparr>us_akey := key,
            us_password_hint := (case hint of None \<Rightarrow> us_password_hint (hd_user h) | Some _ \<Rightarrow> non_empty hint)\<rparr>)
         new_master_password_hash)"

definition change_kdf :: "env \<Rightarrow> headers \<Rightarrow> string \<Rightarrow> string \<Rightarrow> string \<Rightarrow>
    int option \<Rightarrow> int option \<Rightarrow> int option \<Rightarrow> int option \<Rightarrow> response act" where
  "change_kdf env h master_password_hash new_master_password_hash key kdf iterations memory parallelism =
     checked_password env h master_password_hash
       (let user = hd_user h in
        store_new_password env h ''failed to save user''
         (user\<lparr>us_client_kdf_type := opt_default (us_client_kdf_type user) kdf,
            us_client_kdf_iter := opt_default (us_client_kdf_iter user) iterations,
            us_password_iterations := opt_default (us_password_iterations user) iterations,
            us_client_kdf_memory := memory, us_client_kdf_parallelism := parallelism, us_akey := key\<rparr>)
         new_master_password_hash)"

text \<open>For an account without a master password; the security stamp stays.\<close>

definition account_set_password :: "env \<Rightarrow> headers \<Rightarrow> string \<Rightarrow> string option \<Rightarrow> string \<Rightarrow> key_pair option \<Rightarrow>
    int option \<Rightarrow> int option \<Rightarrow> int option \<Rightarrow> int option \<Rightarrow> response act" where
  "account_set_password env h master_password_hash hint key keys kdf iterations memory parallelism =
     (let user = hd_user h in
      if us_password_hash user \<noteq> []
      then return (err_json 400 ''Master password is already set on this account'')
      else
        let iter = opt_default (us_client_kdf_iter user) iterations;
            user = user\<lparr>us_akey := key, us_password_hint := hint,
              us_client_kdf_type := opt_default (us_client_kdf_type user) kdf, us_client_kdf_iter := iter,
              us_client_kdf_memory := memory, us_client_kdf_parallelism := parallelism\<rparr>;
            user = (with_keys keys user)\<lparr>us_password_iterations := iter\<rparr> in
        case set_password env user master_password_hash of
          None \<Rightarrow> return panicked
        | Some user \<Rightarrow>
            try_ret (user_save env user) (\<lambda>_. err_json 500 ''save failed'') (\<lambda>user. do {
              _ \<leftarrow> log_user_event env USER_CHANGED_PASSWORD (us_uuid user) (dev_type h);
              return (json_response 200 JNull) }))"

definition password_hint :: "env \<Rightarrow> string \<Rightarrow> response act" where
  "password_hint env email = do {
     let email = to_lowercase (trim email);
     ok \<leftarrow> ratelimit_check env EMAIL_SEND_LIMIT email;
     if \<not> ok then return (json_response 200 (JObj []))
     else do {
       found \<leftarrow> user_find_by_email env email;
       _ \<leftarrow> (case found of
           Inr (Some user) \<Rightarrow> if_some (non_empty (us_password_hint user)) (\<lambda>hint.
             ea_mail env email ''Your master password hint''
               (''You requested your master password hint:'' @ [CHR 0x0A, CHR 0x0A] @ hint @ [CHR 0x0A]))
         | _ \<Rightarrow> return ());
       return (json_response 200 (JObj [])) } }"

section \<open>The address\<close>

definition request_email_change :: "env \<Rightarrow> headers \<Rightarrow> string \<Rightarrow> string \<Rightarrow> response act" where
  "request_email_change env h new_email master_password_hash =
     checked_password env h master_password_hash (
     let new_email = to_lowercase (trim new_email) in
     if new_email = [] then return (err_json 400 ''newEmail is required'')
     else do {
       found \<leftarrow> user_find_by_email env new_email;
       case found of
         Inr (Some _) \<Rightarrow> return (err_json 400 ''Email already in use'')
       | _ \<Rightarrow> do {
         ok \<leftarrow> ratelimit_check env EMAIL_SEND_LIMIT new_email;
         if \<not> ok then return (err_json 429 ''Too many email requests'')
         else do {
           token \<leftarrow> random_email_token env;
           try_ret (user_save env ((hd_user h)\<lparr>us_email_new := Some new_email, us_email_new_token := Some token\<rparr>))
             (\<lambda>_. err_json 500 ''save failed'') (\<lambda>_. do {
             _ \<leftarrow> ea_mail env new_email ''Verify your new Vaultwarden email''
                    (''Your verification code is '' @ token @ ''.'' @ [CHR 0x0A, CHR 0x0A] @ ''It expires in 1 hour.'');
             return (json_response 200 (JObj [])) }) } } })"

definition change_email :: "env \<Rightarrow> headers \<Rightarrow> string \<Rightarrow> string \<Rightarrow> string \<Rightarrow> string \<Rightarrow> string \<Rightarrow> response act" where
  "change_email env h new_email master_password_hash new_master_password_hash key token =
     checked_password env h master_password_hash (
     let new_email = to_lowercase (trim new_email) in
     if us_email_new (hd_user h) \<noteq> Some new_email then return (err_json 400 ''Email change not requested'')
     else if us_email_new_token (hd_user h) \<noteq> Some token then return (err_json 400 ''Invalid token'')
     else do {
       found \<leftarrow> user_find_by_email env new_email;
       case found of
         Inr (Some _) \<Rightarrow> return (err_json 400 ''Email already in use'')
       | _ \<Rightarrow> store_new_password env h ''save failed''
           ((hd_user h)\<lparr>us_email := new_email, us_email_new := None, us_email_new_token := None, us_akey := key\<rparr>)
           new_master_password_hash })"

text \<open>The JSON of the claims in the links, as serde derives it.\<close>

definition user_link_claims_to_json :: "user_link_claims \<Rightarrow> json" where
  "user_link_claims_to_json c = JObj [(''nbf'', JInt (ul_nbf c)), (''exp'', JInt (ul_exp c)),
     (''iss'', JStr (ul_iss c)), (''sub'', JStr (ul_sub c))]"

definition user_link_claims_of_json :: "json \<Rightarrow> user_link_claims option" where
  "user_link_claims_of_json j =
     (case (as_int (json_get ''nbf'' j), as_int (json_get ''exp'' j), as_str (json_get ''iss'' j),
            as_str (json_get ''sub'' j)) of
        (Some nbf, Some expiry, Some iss, Some sub) \<Rightarrow>
          Some \<lparr>ul_nbf = nbf, ul_exp = expiry, ul_iss = iss, ul_sub = sub\<rparr>
      | _ \<Rightarrow> None)"

definition verify_email :: "env \<Rightarrow> headers \<Rightarrow> response act" where
  "verify_email env h =
     (if e_mail_log env then return (json_response 200 JNull)
      else do {
        claims \<leftarrow> verify_email_claims_new env (uid h);
        case e_jwt_encode env (user_link_claims_to_json claims) of
          Inl _ \<Rightarrow> return (err_json 500 ''jwt encode failed'')
        | Inr token \<Rightarrow> do {
          let host = env_var_or_empty env ''DOMAIN'';
          let link = host @ ''/#/verify-email/?userId='' @ uid h @ ''&token='' @ token;
          let ctx = JObj [(''url'', JStr host), (''user_id'', JStr (uid h)), (''token'', JStr token),
                (''user_name'', JStr (us_name (hd_user h))), (''user_email'', JStr (us_email (hd_user h)))];
          let (subject, content) = opt_default (''Verify your Vaultwarden email'',
                ''Click the link below to verify your email.'' @ [CHR 0x0A, CHR 0x0A] @ link)
                (e_render env ''email/verify_email'' ctx);
          _ \<leftarrow> mail_send env
            \<lparr>mm_from_email = fst (e_mail_from env), mm_from_name = snd (e_mail_from env),
             mm_to = us_email (hd_user h), mm_subject = subject, mm_text = content,
             mm_html = map_option snd (e_render env ''email/verify_email.html'' ctx)\<rparr>;
          return (json_response 200 JNull) } })"

text \<open>The two handlers behind a link: the token is for this issuer and for the user in the body.\<close>

definition link_user :: "env \<Rightarrow> string \<Rightarrow> string \<Rightarrow> string \<Rightarrow> (world, response + user) state" where
  "link_user env issuer user_id token =
     try_ret (jwt_decode env user_link_claims_of_json token issuer)
       (\<lambda>_. Inl (err_json 400 ''Invalid or expired token'')) (\<lambda>claims.
        if ul_sub claims \<noteq> user_id then return (Inl (err_json 400 ''Token does not match user''))
        else do {
          found \<leftarrow> user_find_by_uuid env user_id;
          return (case found of
              Inr (Some u) \<Rightarrow> Inr u
            | _ \<Rightarrow> Inl (err_json 400 ''User not found'')) })"

definition verify_email_token :: "env \<Rightarrow> string \<Rightarrow> string \<Rightarrow> response act" where
  "verify_email_token env user_id token =
     try_ret (link_user env (verify_email_issuer env) user_id token) (\<lambda>e. e) (\<lambda>user. do {
       now \<leftarrow> now_iso env;
       try_ret (user_save env (user\<lparr>us_verified_at := Some now\<rparr>)) (\<lambda>_. err_json 500 ''save failed'') (\<lambda>_.
         return (json_response 200 JNull)) })"

section \<open>The API key\<close>

definition get_or_create_api_key :: "env \<Rightarrow> headers \<Rightarrow> string option \<Rightarrow> response act" where
  "get_or_create_api_key env h master_password_hash =
     require_password env h master_password_hash (
     if non_empty (us_api_key (hd_user h)) = None then do {
       buf \<leftarrow> random_bytes env 30;
       try_ret (user_save env ((hd_user h)\<lparr>us_api_key := Some (e_base64url_encode env buf)\<rparr>))
         (\<lambda>_. err_json 500 ''save failed'') (\<lambda>user.
         return (json_response 200 (JObj [(''Object'', JStr ''apiKey''), (''ApiKey'', jopt (us_api_key user))]))) }
     else return (json_response 200 (JObj [(''Object'', JStr ''apiKey''),
       (''ApiKey'', jopt (us_api_key (hd_user h)))])))"

definition rotate_api_key :: "env \<Rightarrow> headers \<Rightarrow> string option \<Rightarrow> response act" where
  "rotate_api_key env h master_password_hash =
     require_password env h master_password_hash (do {
       buf \<leftarrow> random_bytes env 30;
       try_ret (user_save env ((hd_user h)\<lparr>us_api_key := Some (e_base64url_encode env buf)\<rparr>))
         (\<lambda>_. err_json 500 ''save failed'') (\<lambda>user.
         return (json_response 200 (JObj [(''Object'', JStr ''apiKey''), (''ApiKey'', jopt (us_api_key user))]))) })"

section \<open>The end of an account\<close>

text \<open>The files of the user: attachments of personal items, and what was uploaded for file sends.\<close>

definition drop_user_files :: "env \<Rightarrow> string \<Rightarrow> unit act" where
  "drop_user_files env u = do {
     r \<leftarrow> d1_query env (\<lambda>d. concat (map (\<lambda>a. map (\<lambda>c. (at_cipher_uuid a, at_id a))
            (filter (\<lambda>c. ci_uuid c = at_cipher_uuid a \<and> ci_user_uuid c = Some u) (t_ciphers d)))
            (t_attachments d)));
     _ \<leftarrow> (case r of
         Inr rows \<Rightarrow> for_each rows (\<lambda>(c, a). ignore (r2_delete_attachment env (c @ ''/'' @ a)))
       | Inl _ \<Rightarrow> return ());
     r \<leftarrow> d1_query env (\<lambda>d. map se_uuid (filter (\<lambda>x. se_user_uuid x = Some u \<and> se_atype x = 1) (t_sends d)));
     case r of
       Inr rows \<Rightarrow> for_each rows (\<lambda>x. do {
         l \<leftarrow> r2_list_sends env (x @ ''/'');
         case l of
           Inr keys \<Rightarrow> for_each keys (\<lambda>k. ignore (r2_delete_send env k))
         | Inl _ \<Rightarrow> return () })
     | Inl _ \<Rightarrow> return () }"

text \<open>The statements of \<open>delete_account\<close>, in order; the last one removes the user.\<close>

definition account_deletes :: "env \<Rightarrow> string \<Rightarrow> (db \<Rightarrow> db) list" where
  "account_deletes env u = [
     (\<lambda>d. d\<lparr>t_favorites := delete_where (\<lambda>(x, _). x = u) (t_favorites d)\<rparr>),
     (\<lambda>d. d\<lparr>t_folders_ciphers := delete_where (\<lambda>(_, f). \<exists>x\<in>set (t_folders d). fo_user_uuid x = u \<and> fo_uuid x = f)
        (t_folders_ciphers d)\<rparr>),
     (\<lambda>d. d\<lparr>t_folders := delete_where (\<lambda>x. fo_user_uuid x = u) (t_folders d)\<rparr>),
     (\<lambda>d. d\<lparr>t_attachments := delete_where (\<lambda>a. \<exists>c\<in>set (t_ciphers d). ci_user_uuid c = Some u \<and>
        ci_uuid c = at_cipher_uuid a) (t_attachments d)\<rparr>),
     (\<lambda>d. d\<lparr>t_ciphers_collections := delete_where (\<lambda>(x, _). \<exists>c\<in>set (t_ciphers d). ci_user_uuid c = Some u \<and>
        ci_uuid c = x) (t_ciphers_collections d)\<rparr>),
     delete_ciphers env (\<lambda>c. ci_user_uuid c = Some u),
     (\<lambda>d. d\<lparr>t_sends := delete_where (\<lambda>x. se_user_uuid x = Some u) (t_sends d)\<rparr>),
     (\<lambda>d. d\<lparr>t_auth_requests := delete_where (\<lambda>x. ar_user_uuid x = u) (t_auth_requests d)\<rparr>),
     (\<lambda>d. d\<lparr>t_emergency_access := delete_where (\<lambda>x. ea_grantor_uuid x = Some u \<or> ea_grantee_uuid x = Some u)
        (t_emergency_access d)\<rparr>),
     (\<lambda>d. d\<lparr>t_event := delete_where (\<lambda>x. ev_user_uuid x = Some u) (t_event d)\<rparr>),
     (\<lambda>d. d\<lparr>t_sso_users := delete_where (\<lambda>x. su_user_uuid x = u) (t_sso_users d)\<rparr>),
     (\<lambda>d. d\<lparr>t_devices := delete_where (\<lambda>x. de_user_uuid x = u) (t_devices d)\<rparr>),
     (\<lambda>d. d\<lparr>t_users_collections := delete_where (\<lambda>x. uc_user_uuid x = u) (t_users_collections d)\<rparr>),
     (\<lambda>d. d\<lparr>t_groups_users := delete_where (\<lambda>(_, m). \<exists>x\<in>set (t_users_organizations d). me_user_uuid x = u \<and>
        me_uuid x = m) (t_groups_users d)\<rparr>),
     (\<lambda>d. d\<lparr>t_users_organizations := delete_where (\<lambda>x. me_user_uuid x = u) (t_users_organizations d)\<rparr>),
     (\<lambda>d. d\<lparr>t_twofactor := delete_where (\<lambda>x. tf_user_uuid x = u) (t_twofactor d)\<rparr>),
     (\<lambda>d. d\<lparr>t_users := delete_where (\<lambda>x. us_uuid x = u) (t_users d),
        t_archives := (if e_fk env then delete_where (\<lambda>(a, _). a = u) (t_archives d) else t_archives d),
        t_sso_users := (if e_fk env then delete_where (\<lambda>x. su_user_uuid x = u) (t_sso_users d) else t_sso_users d)\<rparr>)]"

definition delete_account :: "env \<Rightarrow> headers \<Rightarrow> string option \<Rightarrow> response act" where
  "delete_account env h master_password_hash =
     require_password env h master_password_hash (do {
       _ \<leftarrow> drop_user_files env (uid h);
       try_ret (for_ret (account_deletes env (uid h)) (\<lambda>f. d1_exec env (\<lambda>d. Some (f d))))
         (\<lambda>_. err_json 500 ''failed to delete account'') (\<lambda>_. do {
         _ \<leftarrow> notify_user env (uid h) LOG_OUT (uid h);
         return (json_response 200 (JObj [])) }) })"

definition delete_recover :: "env \<Rightarrow> string \<Rightarrow> response act" where
  "delete_recover env email =
     (let email = to_lowercase (trim email); done = json_response 200 JNull in
      if email = [] then return done
      else do {
        ok \<leftarrow> ratelimit_check env EMAIL_SEND_LIMIT email;
        if \<not> ok then return done
        else do {
          found \<leftarrow> user_find_by_email env email;
          case found of
            Inr (Some user) \<Rightarrow>
              if e_mail_log env then return done
              else do {
                claims \<leftarrow> delete_recover_claims_new env (us_uuid user);
                case e_jwt_encode env (user_link_claims_to_json claims) of
                  Inl _ \<Rightarrow> return done
                | Inr token \<Rightarrow> do {
                  let link = env_var_or_empty env ''DOMAIN'' @ ''/#/verify-recover-delete?userId='' @ us_uuid user
                        @ ''&token='' @ token @ ''&email='' @ urlencoded (us_email user);
                  _ \<leftarrow> ea_mail env (us_email user) ''Recover your Vaultwarden account deletion''
                         (''Click the link below to confirm account deletion. If you did not request this, ignore this email.''
                          @ [CHR 0x0A, CHR 0x0A] @ link);
                  return done } }
          | _ \<Rightarrow> return done } })"

definition delete_recover_token :: "env \<Rightarrow> string \<Rightarrow> string \<Rightarrow> response act" where
  "delete_recover_token env user_id token =
     try_ret (link_user env (delete_recover_issuer env) user_id token) (\<lambda>e. e) (\<lambda>user. do {
       _ \<leftarrow> drop_user_files env (us_uuid user);
       try_ret (user_delete env user) (\<lambda>_. err_json 500 ''delete failed'') (\<lambda>_. do {
         _ \<leftarrow> notify_user env (us_uuid user) LOG_OUT (us_uuid user);
         return (json_response 200 JNull) }) })"

section \<open>Codes for protected actions\<close>

record protected_otp_data =
  pd_token :: string
  pd_token_sent :: int
  pd_attempts :: int

definition protected_otp_to_json :: "env \<Rightarrow> protected_otp_data \<Rightarrow> string" where
  "protected_otp_to_json env d = e_json_print env (JObj [(''token'', JStr (pd_token d)),
     (''token_sent'', JInt (pd_token_sent d)), (''attempts'', JInt (pd_attempts d))])"

definition protected_otp_of_json :: "env \<Rightarrow> string \<Rightarrow> protected_otp_data option" where
  "protected_otp_of_json env s =
     (case e_json_parse env s of
        None \<Rightarrow> None
      | Some j \<Rightarrow>
     (case (as_str (json_get ''token'' j), as_int (json_get ''token_sent'' j), as_int (json_get ''attempts'' j)) of
        (Some token, Some sent, Some attempts) \<Rightarrow>
          if - (2 ^ 63) \<le> sent \<and> sent < 2 ^ 63 \<and> 0 \<le> attempts \<and> attempts < 2 ^ 32
          then Some \<lparr>pd_token = token, pd_token_sent = sent, pd_attempts = attempts\<rparr>
          else None
      | _ \<Rightarrow> None))"

text \<open>The code before the new one: too fresh, or removed when its data can be read.\<close>

definition clear_previous_otp :: "env \<Rightarrow> headers \<Rightarrow> (world, response + unit) state" where
  "clear_previous_otp env h = do {
     found \<leftarrow> two_factor_find_by_user_and_type env (uid h) TWOFACTOR_TYPE_PROTECTED_ACTIONS;
     case found of
       Inr (Some prev) \<Rightarrow>
         (case protected_otp_of_json env (tf_data prev) of
            None \<Rightarrow> return (Inr ())
          | Some parsed \<Rightarrow> do {
              now \<leftarrow> now_ts env;
              let elapsed = now - pd_token_sent parsed;
              if elapsed < 30
              then return (Inl (err_json 429 (''Please wait '' @ nat_to_string (nat (30 - elapsed))
                     @ '' seconds before requesting another code.'')))
              else try_ret (two_factor_delete env prev)
                (\<lambda>_. Inl (err_json 500 ''failed to clear stale OTP'')) (\<lambda>_. return (Inr ())) })
     | _ \<Rightarrow> return (Inr ()) }"

definition request_otp :: "env \<Rightarrow> headers \<Rightarrow> response act" where
  "request_otp env h =
     (if e_mail_log env
      then return (err_json 400 ''Email is disabled for this server. Configure SMTP/Resend/MailChannels to use protected actions.'')
      else do {
        ok \<leftarrow> ratelimit_check env EMAIL_SEND_LIMIT (uid h);
        if \<not> ok then return (err_json 429 ''Too many email requests'')
        else try_ret (clear_previous_otp env h) (\<lambda>e. e) (\<lambda>_. do {
          token \<leftarrow> random_email_token env;
          now \<leftarrow> now_ts env;
          row \<leftarrow> two_factor_new env (uid h) TWOFACTOR_TYPE_PROTECTED_ACTIONS
            (protected_otp_to_json env \<lparr>pd_token = token, pd_token_sent = now, pd_attempts = 0\<rparr>);
          try_ret (two_factor_save env row) (\<lambda>_. err_json 500 ''failed to save OTP'') (\<lambda>_.
          try_ret (mail_send env
              \<lparr>mm_from_email = fst (e_mail_from env), mm_from_name = snd (e_mail_from env),
               mm_to = us_email (hd_user h), mm_subject = ''Your Vaultwarden verification code'',
               mm_text = ''Your Vaultwarden verification code is '' @ token @ ''.'' @ [CHR 0x0A, CHR 0x0A]
                 @ ''It expires in 10 minutes. If you did not request this, ignore this email.'',
               mm_html = None\<rparr>)
            (\<lambda>_. err_json 500 ''failed to send verification email'')
            (\<lambda>_. return (json_response 200 JNull))) }) })"

definition verify_otp :: "env \<Rightarrow> headers \<Rightarrow> string \<Rightarrow> response act" where
  "verify_otp env h otp = do {
     found \<leftarrow> two_factor_find_by_user_and_type env (uid h) TWOFACTOR_TYPE_PROTECTED_ACTIONS;
     case found of
       Inr (Some row) \<Rightarrow>
         (case protected_otp_of_json env (tf_data row) of
            None \<Rightarrow> return (err_json 400 ''OTP data corrupt'')
          | Some data \<Rightarrow>
            let data = data\<lparr>pd_attempts := min (2 ^ 32 - 1) (pd_attempts data + 1)\<rparr>;
                row = row\<lparr>tf_data := protected_otp_to_json env data\<rparr> in
            if pd_attempts data > PROTECTED_OTP_MAX_ATTEMPTS then do {
              _ \<leftarrow> two_factor_delete env row;
              return (err_json 400 ''Token has expired'') }
            else do {
              now \<leftarrow> now_ts env;
              if now - pd_token_sent data > PROTECTED_OTP_TTL_SECS then do {
                _ \<leftarrow> two_factor_delete env row;
                return (err_json 400 ''Token has expired'') }
              else if pd_token data \<noteq> trim otp then do {
                _ \<leftarrow> two_factor_save env row;
                return (err_json 400 ''Token is invalid'') }
              else try_ret (two_factor_delete env row) (\<lambda>_. err_json 500 ''failed to consume OTP'') (\<lambda>_.
                return (json_response 200 JNull)) })
     | _ \<Rightarrow> return (err_json 400 ''Protected action token not found'') }"

section \<open>A new password\<close>

datatype password_op =
    ChangePassword string string "string option" string
  | ChangeKdf string string string "int option" "int option" "int option" "int option"
  | ChangeEmail string string string string string

fun exec_password_op :: "env \<Rightarrow> headers \<Rightarrow> password_op \<Rightarrow> response act" where
  "exec_password_op env h (ChangePassword pw new hint key) = change_password env h pw new hint key"
| "exec_password_op env h (ChangeKdf pw new key kdf iter mem par) = change_kdf env h pw new key kdf iter mem par"
| "exec_password_op env h (ChangeEmail email pw new key token) = change_email env h email pw new key token"

text \<open>The row of the user afterwards: a stamp of the generator, and the user is as enabled as before.\<close>

definition restamped :: "env \<Rightarrow> headers \<Rightarrow> db \<Rightarrow> db \<Rightarrow> bool" where
  "restamped env h d d' \<longleftrightarrow> t_devices d' = t_devices d \<and>
     (\<exists>u n. find (\<lambda>x. us_uuid x = uid h) (t_users d') = Some u \<and> us_enabled u = us_enabled (hd_user h) \<and>
        us_security_stamp u = e_uuid env n)"

lemma restamped_event [simp]: "restamped env h d (d'\<lparr>t_event := es\<rparr>) = restamped env h d d'"
  by (simp add: restamped_def)

lemma restamped_upsert:
  assumes "us_uuid v = uid h" "us_enabled v = us_enabled (hd_user h)" "us_security_stamp v = e_uuid env n"
  shows "restamped env h d (d\<lparr>t_users := upsert us_uuid user_conflict v (t_users d)\<rparr>)"
  using assms kt_users.find_upsert_same [of v "t_users d"]
  by (auto simp: restamped_def user_conflict_def split: option.splits)

lemma set_password_same:
  "set_password env u pw = Some u' \<Longrightarrow> us_uuid u' = us_uuid u \<and> us_enabled u' = us_enabled u"
  by (auto simp: set_password_def)

lemma wp_store_new_password:
  assumes "us_uuid user = uid h" "us_enabled user = us_enabled (hd_user h)" "w_db s' = w_db s"
  shows "wp (store_new_password env h err user pw) (\<lambda>resp s'. resp_status resp = 200 \<longrightarrow>
     restamped env h (w_db s) (w_db s')) s'"
proof (cases "set_password env user pw")
  case (Some u)
  note same = set_password_same [OF Some]
  show ?thesis
    using assms same
    by (auto simp: store_new_password_def Some user_save_def wp_rules Let_def accepted_def
        split: if_splits intro!: wp_log_eventI wp_notify_userI restamped_upsert)
qed (simp add: store_new_password_def panicked_def)

lemma wp_exec_password_op:
  "wp (exec_password_op env h op) (\<lambda>resp s'. resp_status resp = 200 \<longrightarrow> restamped env h (w_db s) (w_db s')) s"
  by (cases op) (auto simp: change_password_def change_kdf_def change_email_def user_find_by_email_def Let_def
      wp_rules panicked_def split: option.splits bool.splits intro!: wp_store_new_password)

text \<open>C7.
  A new password ends the tokens of before: after a successful change of the password, of the key
  derivation or of the address, the guard refuses every access token that carries the old
  security stamp of that user, for as long as the table of users is as the change left it.
\<close>

theorem password_change_revokes_tokens:
  assumes "run_state (exec_password_op env h op) s = (resp, s1)" and "resp_status resp = 200"
    and "\<And>n. e_uuid env n \<noteq> us_security_stamp (hd_user h)"
    and "jwt_check env (e_unix env (w_tick s2)) login_claims_of_json token (e_login_issuer env) = Inr c"
    and "lc_sub c = uid h" and "lc_sstamp c = us_security_stamp (hd_user h)"
    and "t_users (w_db s2) = t_users (w_db s1)"
    and "run_state (from_request_parts env (Some (''Bearer '' @ token))) s2 = (r, s3)"
  shows "\<exists>e. r = Inl e"
proof -
  have "restamped env h (w_db s) (w_db s1)"
    using wpD [OF wp_exec_password_op assms(1)] assms(2) by blast
  then have "wp (from_request_parts env (Some (''Bearer '' @ token))) (\<lambda>r _. \<exists>e. r = Inl e) s2"
    using assms(3-7)
    by (auto simp: restamped_def from_request_parts_def bearer_token_def strip_prefix_def user_find_by_uuid_def wp_rules)
  then show ?thesis using assms(8) by (rule wpD)
qed

definition sample_account_env :: env where
  "sample_account_env = Login_Safety.sample_login_env\<lparr>e_jwt_decode :=
     \<lambda>_ _ _. Inr (login_claims_to_json (sample_claims ''alice''))\<rparr>"

abbreviation sample_change :: password_op where
  "sample_change \<equiv> ChangePassword ''pw'' ''new'' None ''k''"

lemmas change_evals = change_password_def store_new_password_def set_password_def hash_password_def
  check_valid_password_def verify_password_hash_def as_u32_def user_save_def user_conflict_def
  Login_Safety.sample_login_env_def

lemma sample_change_works:
  "resp_status (fst (run_state (exec_password_op sample_account_env (sample_headers ''alice'') sample_change)
     (sample_world sample_db))) = 200"
proof -
  have "wp (exec_password_op sample_account_env (sample_headers ''alice'') sample_change)
      (\<lambda>resp _. resp_status resp = 200) (sample_world sample_db)"
    by (simp add: change_evals sample_account_env_def eval_simps)
  then show ?thesis by (simp add: wp_def split_beta)
qed

theorem password_change_revokes_tokens_witness:
  "\<exists>e. fst (run_state (from_request_parts sample_account_env (Some (''Bearer '' @ ''t'')))
     (snd (run_state (exec_password_op sample_account_env (sample_headers ''alice'') sample_change)
       (sample_world sample_db)))) = Inl e"
  by (rule password_change_revokes_tokens [where c = "sample_claims ''alice''",
        OF surjective_pairing sample_change_works _ _ _ _ refl surjective_pairing])
    (simp_all add: jwt_check_def login_claims_roundtrip sample_account_env_def Login_Safety.sample_login_env_def sample_defs)

text \<open>A refresh with a known token, while nothing stands in the way.\<close>

lemma wp_device_update:
  assumes "\<And>n. \<not> e_fault env n" "e_fk env \<longrightarrow> fk_ok (w_db s)" "u \<in> set (t_users (w_db s))" "de_user_uuid x = us_uuid u"
  shows "wp (device_save env x) (\<lambda>r s'. w_tick s \<le> w_tick s' \<and> (\<exists>y. r = Inr y \<and> de_uuid y = de_uuid x) \<and> t_users (w_db s') = t_users (w_db s) \<and>
      find (\<lambda>y. de_uuid y = de_uuid x \<and> de_user_uuid y = us_uuid u) (t_devices (w_db s')) \<noteq> None) s"
proof -
  let ?x = "x\<lparr>de_updated_at := e_now env (w_tick s)\<rparr>"
  have key: "(\<lambda>y. de_uuid y = de_uuid x \<and> de_user_uuid y = us_uuid u) = (\<lambda>y. device_key y = device_key ?x)"
    using assms(4) by (auto simp: device_key_def)
  have "e_fk env \<longrightarrow> fk_ok ((w_db s)\<lparr>t_devices := upsert device_key device_conflict ?x (t_devices (w_db s))\<rparr>)"
    using assms(2,4) imageI [OF assms(3), of us_uuid] by (auto intro!: fk_ok_device_upsert)
  then show ?thesis
    unfolding key using assms(1) kt_devices.find_upsert_same [of ?x "t_devices (w_db s)"]
    by (simp add: device_save_def wp_rules Let_def)
qed

lemma wp_refresh_grant:
  assumes nf: "\<And>n. \<not> e_fault env n" and fk: "e_fk env \<longrightarrow> fk_ok (w_db s)" and jwt: "jwt_codec env"
    and clock: "mono (e_unix env)"
    and data: "cx_refresh_token data = Some rt" "rt \<noteq> []"
    and device: "find (\<lambda>x. de_refresh_token x = rt) (t_devices (w_db s)) = Some device" "de_user_uuid device = us_uuid u"
    and u: "find (\<lambda>x. us_uuid x = us_uuid u) (t_users (w_db s)) = Some u" "us_enabled u \<noteq> 0"
  shows "wp (refresh_grant env data) (\<lambda>resp s'. \<exists>token. token_response resp token \<and>
    session_valid env token u (e_unix env (w_tick s)) (w_db s')) s"
proof -
  have save: "wp (device_save env (device\<lparr>de_refresh_token := f\<rparr>)) (\<lambda>r s''. w_tick s \<le> w_tick s'' \<and>
      (\<exists>y. r = Inr y \<and> de_uuid y = de_uuid device) \<and> t_users (w_db s'') = t_users (w_db s) \<and>
      find (\<lambda>y. de_uuid y = de_uuid device \<and> de_user_uuid y = us_uuid u) (t_devices (w_db s'')) \<noteq> None) s'"
    if "w_db s' = w_db s" "w_tick s \<le> w_tick s'" for f s'
    by (rule wp_mono [OF wp_device_update [OF nf, of s' u]])
      (use fk device(2) find_SomeD [OF u(1)] that in simp_all)
  have accept: "\<exists>token. token_response (json_response 200 (JObj ((''access_token'', JStr t) # rest))) token \<and>
      session_valid env token u (e_unix env (w_tick s)) d"
    if "good_token env u (de_uuid device) (e_unix env n) t" "w_tick s \<le> n" "t_users d = t_users (w_db s)"
      "find (\<lambda>y. de_uuid y = de_uuid device \<and> de_user_uuid y = us_uuid u) (t_devices d) \<noteq> None"
    for t n d rest
  proof -
    have "good_token env u (de_uuid device) (e_unix env (w_tick s)) t"
      by (rule good_token_mono [OF that(1)]) (rule monoD [OF clock that(2)])
    then have "session_valid env t u (e_unix env (w_tick s)) d"
      by (intro session_validI [OF nf _ u(2)]) (use that u(1) in auto)
    then show ?thesis by (auto simp: token_response_def)
  qed
  show ?thesis
    using nf data u
    by (auto simp: refresh_grant_def non_empty_def device_find_by_refresh_token_def user_find_by_uuid_def device
        login_claims_expires_in_def wp_rules intro!: wp_mono [OF save] wp_issue_token [OF jwt] accept)
qed

text \<open>C40.
  The sessions stay: a change of the password leaves the refresh tokens of the devices as they are.
  With the refresh token of any of the user's devices the token endpoint answers, after the change,
  with a new access token that the guard accepts for an hour from then on, while no call fails and
  the tables of users and devices stay as they are.  The clock does not run backwards, and the
  JWT library decodes what it encoded until the expiry it carries.
\<close>

theorem refresh_survives_password_change:
  assumes "run_state (exec_password_op env h op) s = (resp, s1)" and "resp_status resp = 200"
    and "\<And>n. \<not> e_fault env n" and "e_fk env \<longrightarrow> fk_ok (w_db s1)" and "jwt_codec env"
    and "mono (e_unix env)" and "us_enabled (hd_user h) \<noteq> 0"
    and "cx_refresh_token data = Some rt" and "rt \<noteq> []"
    and "find (\<lambda>x. de_refresh_token x = rt) (t_devices (w_db s)) = Some device" and "de_user_uuid device = uid h"
    and "run_state (refresh_grant env data) s1 = (resp2, s2)"
  shows "\<exists>token u. token_response resp2 token \<and> us_uuid u = uid h \<and>
    session_valid env token u (e_unix env (w_tick s1)) (w_db s2)"
proof -
  have "restamped env h (w_db s) (w_db s1)"
    using wpD [OF wp_exec_password_op assms(1)] assms(2) by blast
  then obtain u where u: "find (\<lambda>x. us_uuid x = uid h) (t_users (w_db s1)) = Some u" "us_enabled u \<noteq> 0"
    and devices: "t_devices (w_db s1) = t_devices (w_db s)"
    using assms(7) by (auto simp: restamped_def)
  have uuid: "us_uuid u = uid h"
    using u(1) by (auto dest: find_SomeD)
  have "wp (refresh_grant env data) (\<lambda>resp s'. \<exists>token. token_response resp token \<and>
      session_valid env token u (e_unix env (w_tick s1)) (w_db s')) s1"
    by (rule wp_refresh_grant [where device = device, OF assms(3-6,8,9)]) (simp_all add: assms(10,11) devices uuid u)
  from wpD [OF this assms(12)] uuid show ?thesis by blast
qed

lemma sample_jwt_change_works:
  "resp_status (fst (run_state (exec_password_op sample_jwt_env (sample_headers ''alice'') sample_change)
     (sample_world sample_db))) = 200"
proof -
  have "wp (exec_password_op sample_jwt_env (sample_headers ''alice'') sample_change)
      (\<lambda>resp _. resp_status resp = 200) (sample_world sample_db)"
    by (simp add: change_evals sample_jwt_env_def eval_simps)
  then show ?thesis by (simp add: wp_def split_beta)
qed

abbreviation sample_changed :: world where
  "sample_changed \<equiv> snd (run_state
     (exec_password_op sample_jwt_env (sample_headers ''alice'') sample_change) (sample_world sample_db))"

theorem refresh_survives_password_change_witness:
  "\<exists>token u. token_response (fst (run_state (refresh_grant sample_jwt_env
       (sample_login\<lparr>cx_refresh_token := Some ''refresh''\<rparr>)) sample_changed)) token \<and>
     us_uuid u = uid (sample_headers ''alice'') \<and>
     session_valid sample_jwt_env token u (e_unix sample_jwt_env (w_tick sample_changed))
       (w_db (snd (run_state (refresh_grant sample_jwt_env
         (sample_login\<lparr>cx_refresh_token := Some ''refresh''\<rparr>)) sample_changed)))"
  by (rule refresh_survives_password_change [where rt = "''refresh''" and device = "sample_device ''alice''",
        OF surjective_pairing sample_jwt_change_works _ _ sample_jwt_codec _ _ _ _ _ _ surjective_pairing])
    (simp_all add: sample_login_defs sample_defs mono_def)

section \<open>Removing the account\<close>

text \<open>A sequence of statements that stops at the first one the database refuses.\<close>

lemma wp_for_ret_exec:
  "wp (for_ret fs (\<lambda>f. d1_exec env (\<lambda>d. Some (f d)))) (\<lambda>r s'. \<exists>n\<le>length fs.
     w_db s' = fold (\<lambda>f. f) (take n fs) (w_db s) \<and> (r = Inr () \<longleftrightarrow> n = length fs) \<and>
     (e_fk env \<and> 0 < n \<longrightarrow> fk_ok (w_db s'))) s"
proof (induction fs arbitrary: s)
  case (Cons f fs)
  have stop: "\<exists>n\<le>Suc (length fs). w_db s' = fold (\<lambda>f. f) (take n (f # fs)) (w_db s) \<and> n \<noteq> Suc (length fs) \<and>
      (e_fk env \<and> 0 < n \<longrightarrow> fk_ok (w_db s'))" if "w_db s' = w_db s" for s' :: world
    using that by (intro exI [of _ 0]) simp
  have go: "\<exists>n\<le>Suc (length fs). w_db s' = fold (\<lambda>f. f) (take n (f # fs)) (w_db s) \<and>
      (r = Inr () \<longleftrightarrow> n = Suc (length fs)) \<and> (e_fk env \<and> 0 < n \<longrightarrow> fk_ok (w_db s'))"
    if "\<exists>n\<le>length fs. w_db s' = fold (\<lambda>f. f) (take n fs) (f (w_db s)) \<and> (r = Inr () \<longleftrightarrow> n = length fs) \<and>
      (e_fk env \<and> 0 < n \<longrightarrow> fk_ok (w_db s'))" "e_fk env \<longrightarrow> fk_ok (f (w_db s))"
    for r and s' :: world
  proof -
    from that(1) obtain n where "n \<le> length fs" "w_db s' = fold (\<lambda>f. f) (take n fs) (f (w_db s))"
      "r = Inr () \<longleftrightarrow> n = length fs" "e_fk env \<and> 0 < n \<longrightarrow> fk_ok (w_db s')" by blast
    with that(2) show ?thesis by (intro exI [of _ "Suc n"]) (cases n; simp)
  qed
  show ?case
    using Cons.IH [of "bump (s\<lparr>w_db := f (w_db s)\<rparr>)"]
    by (auto simp: wp_d1_exec intro!: stop go elim!: wp_mono)
qed simp

lemma preserves_drop_user_files [preserves_rules]:
  fixes P :: "db \<Rightarrow> bool"
  shows "preserves (\<lambda>s. P (w_db s)) (drop_user_files env u)"
  unfolding drop_user_files_def by (intro preserves_rules)

definition after_deletes :: "env \<Rightarrow> string \<Rightarrow> nat \<Rightarrow> db \<Rightarrow> db" where
  "after_deletes env u n d = fold (\<lambda>f. f) (take n (account_deletes env u)) d"

definition deletes_done :: "env \<Rightarrow> headers \<Rightarrow> db \<Rightarrow> response \<Rightarrow> world \<Rightarrow> bool" where
  "deletes_done env h d resp s' \<longleftrightarrow> (\<exists>n\<le>17. w_db s' = after_deletes env (uid h) n d \<and>
     (resp_status resp = 200 \<longleftrightarrow> n = 17) \<and> (e_fk env \<and> 0 < n \<longrightarrow> fk_ok (w_db s')))"

lemma wp_delete_account: "wp (delete_account env h pw) (deletes_done env h (w_db s)) s"
proof -
  let ?Q = "deletes_done env h (w_db s)"
  have len: "length (account_deletes env (uid h)) = 17" by (simp add: account_deletes_def)
  have none: "?Q e s" if "resp_status e \<noteq> 200" for e
    unfolding deletes_done_def using that by (intro exI [of _ 0]) (simp add: after_deletes_def)
  have out: "?Q resp s2" if "w_db s2 = w_db s1" "\<exists>n\<le>17. w_db s1 = fold (\<lambda>f. f) (take n (account_deletes env (uid h))) (w_db s) \<and>
      (ok \<longleftrightarrow> n = 17) \<and> (e_fk env \<and> 0 < n \<longrightarrow> fk_ok (w_db s1))" "resp_status resp = 200 \<longleftrightarrow> ok" for resp s1 s2 ok
    using that by (auto simp: deletes_done_def after_deletes_def)
  have "wp (for_ret (account_deletes env (uid h)) (\<lambda>f. d1_exec env (\<lambda>d. Some (f d))))
      (case_sum (\<lambda>_. ?Q (err_json 500 ''failed to delete account''))
        (\<lambda>_. wp (notify_user env (uid h) LOG_OUT (uid h)) (\<lambda>_. ?Q (json_response 200 (JObj []))))) s'"
    if "w_db s' = w_db s" for s'
  proof (rule wp_mono [OF wp_for_ret_exec [of "account_deletes env (uid h)" env s', unfolded len that]])
    fix r and s1 :: world
    assume n: "\<exists>n\<le>17. w_db s1 = fold (\<lambda>f. f) (take n (account_deletes env (uid h))) (w_db s) \<and>
      (r = Inr () \<longleftrightarrow> n = 17) \<and> (e_fk env \<and> 0 < n \<longrightarrow> fk_ok (w_db s1))"
    show "(case_sum (\<lambda>_. ?Q (err_json 500 ''failed to delete account''))
        (\<lambda>_. wp (notify_user env (uid h) LOG_OUT (uid h)) (\<lambda>_. ?Q (json_response 200 (JObj []))))) r s1"
      by (cases r) (simp_all add: out [OF _ n] wp_notify_userI)
  qed
  then have "wp (drop_user_files env (uid h)) (\<lambda>_. wp (for_ret (account_deletes env (uid h)) (\<lambda>f. d1_exec env (\<lambda>d. Some (f d))))
      (case_sum (\<lambda>_. ?Q (err_json 500 ''failed to delete account''))
        (\<lambda>_. wp (notify_user env (uid h) LOG_OUT (uid h)) (\<lambda>_. ?Q (json_response 200 (JObj [])))))) s"
    by (intro wp_mono [OF preserves_wp [OF preserves_drop_user_files [where P = "\<lambda>d. d = w_db s"]]]) simp_all
  then show ?thesis
    using none by (simp add: delete_account_def require_password_def panicked_def split: option.splits)
qed

text \<open>No row of the user is left in the tables from which the statements delete.\<close>

definition user_gone :: "string \<Rightarrow> db \<Rightarrow> bool" where
  "user_gone u d \<longleftrightarrow> u \<notin> us_uuid ` set (t_users d) \<and> u \<notin> de_user_uuid ` set (t_devices d) \<and>
     u \<notin> fo_user_uuid ` set (t_folders d) \<and> Some u \<notin> ci_user_uuid ` set (t_ciphers d) \<and>
     Some u \<notin> se_user_uuid ` set (t_sends d) \<and> u \<notin> fst ` set (t_favorites d) \<and>
     u \<notin> me_user_uuid ` set (t_users_organizations d) \<and> u \<notin> uc_user_uuid ` set (t_users_collections d) \<and>
     u \<notin> tf_user_uuid ` set (t_twofactor d) \<and> u \<notin> ar_user_uuid ` set (t_auth_requests d) \<and>
     Some u \<notin> ea_grantor_uuid ` set (t_emergency_access d) \<and> Some u \<notin> ea_grantee_uuid ` set (t_emergency_access d) \<and>
     u \<notin> su_user_uuid ` set (t_sso_users d) \<and> Some u \<notin> ev_user_uuid ` set (t_event d)"

text \<open>The two tables that no statement names.\<close>

definition leftovers :: "db \<Rightarrow> (string \<times> string) list \<times> two_factor_incomplete list" where
  "leftovers d = (t_archives d, t_twofactor_incomplete d)"

definition no_leftovers :: "string \<Rightarrow> db \<Rightarrow> bool" where
  "no_leftovers u d \<longleftrightarrow> u \<notin> fst ` set (t_archives d) \<and> u \<notin> ti_user_uuid ` set (t_twofactor_incomplete d)"

lemma no_leftoversI: "fk_ok d \<Longrightarrow> u \<notin> us_uuid ` set (t_users d) \<Longrightarrow> no_leftovers u d"
  by (auto simp: fk_defs refers_def no_leftovers_def)

lemma after_all_deletes:
  "user_gone u (after_deletes env u 17 d)"
  "t_ciphers (after_deletes env u 17 d) = delete_where (\<lambda>c. ci_user_uuid c = Some u) (t_ciphers d)"
  "t_users (after_deletes env u 17 d) = delete_where (\<lambda>x. us_uuid x = u) (t_users d)"
  "t_organizations (after_deletes env u 17 d) = t_organizations d"
  "t_collections (after_deletes env u 17 d) = t_collections d"
  "t_twofactor_incomplete (after_deletes env u 17 d) = t_twofactor_incomplete d"
  "\<not> e_fk env \<Longrightarrow> leftovers (after_deletes env u 17 d) = leftovers d"
  by (auto simp: after_deletes_def account_deletes_def delete_ciphers_def user_gone_def leftovers_def set_delete_where)

text \<open>C11.
  A deleted account is gone: after a successful request none of the thirteen tables from which the
  handler deletes by the user's id holds a row of the user (of the events, those about the user),
  and the items, users, organizations and collections of everybody else are the ones of before.
  Two tables are not among those the
  handler names, the archived items and the logins that wait for a second factor.  With foreign keys
  enforced they hold no row of the user either; without, they are as they were before.
\<close>

theorem delete_account_removes_user:
  assumes "run_state (delete_account env h pw) s = (resp, s')" and "resp_status resp = 200"
  shows "user_gone (uid h) (w_db s') \<and>
    (if e_fk env then no_leftovers (uid h) (w_db s') else leftovers (w_db s') = leftovers (w_db s)) \<and>
    t_ciphers (w_db s') = filter (\<lambda>c. ci_user_uuid c \<noteq> Some (uid h)) (t_ciphers (w_db s)) \<and>
    t_users (w_db s') = filter (\<lambda>x. us_uuid x \<noteq> uid h) (t_users (w_db s)) \<and>
    t_organizations (w_db s') = t_organizations (w_db s) \<and> t_collections (w_db s') = t_collections (w_db s)"
proof -
  have d: "w_db s' = after_deletes env (uid h) 17 (w_db s)" and fk: "e_fk env \<longrightarrow> fk_ok (w_db s')"
    using wpD [OF wp_delete_account assms(1)] assms(2) by (auto simp: deletes_done_def)
  have "user_gone (uid h) (w_db s')" unfolding d by (rule after_all_deletes)
  then show ?thesis
    using fk no_leftoversI [of "w_db s'" "uid h"] after_all_deletes(2-7) [of env "uid h" "w_db s"]
    by (simp add: d delete_where_def user_gone_def)
qed

theorem delete_account_removes_user_witness:
  "user_gone ''alice'' (w_db (snd (run_state (delete_account sample_account_env (sample_headers ''alice'') (Some ''pw''))
     (sample_world sample_db))))"
proof -
  have "wp (delete_account sample_account_env (sample_headers ''alice'') (Some ''pw''))
      (\<lambda>resp _. resp_status resp = 200) (sample_world sample_db)"
    by (simp add: delete_account_def require_password_def non_empty_def drop_user_files_def account_deletes_def
        delete_ciphers_def change_evals sample_account_env_def eval_simps)
  then have "resp_status (fst (run_state (delete_account sample_account_env (sample_headers ''alice'') (Some ''pw''))
      (sample_world sample_db))) = 200" by (simp add: wp_def split_beta)
  from delete_account_removes_user [OF surjective_pairing this] show ?thesis
    by (simp add: sample_headers_def sample_user_def)
qed

lemma fk_ok_pending_login:
  "fk_ok d \<Longrightarrow> t \<in> set (t_twofactor_incomplete d) \<Longrightarrow> ti_user_uuid t \<in> us_uuid ` set (t_users d)"
  by (auto simp: fk_defs refers_def)

lemma users_before_last_delete: "n < 17 \<Longrightarrow> t_users (after_deletes env u n d) = t_users d"
proof -
  assume "n < 17"
  have keeps: "t_users (f d) = t_users d" if "f \<in> set (take 16 (account_deletes env u))" for f d
    using that by (auto simp: account_deletes_def delete_ciphers_def)
  have "set (take n (account_deletes env u)) \<subseteq> set (take 16 (account_deletes env u))"
    using \<open>n < 17\<close> by (intro set_take_subset_set_take) simp
  moreover have "t_users (fold (\<lambda>f. f) fs d) = t_users d" if "\<And>f d. f \<in> set fs \<Longrightarrow> t_users (f d) = t_users d" for fs d
    using that by (induction fs arbitrary: d) simp_all
  ultimately show ?thesis using keeps unfolding after_deletes_def by blast
qed

text \<open>
  A login that waits for its second factor blocks the deletion: the handler does not remove the rows of
  such logins, so with foreign keys enforced the last statement is refused.  The
  user stays, while the statements before it are not undone.
\<close>

theorem delete_account_blocked_by_pending_login:
  assumes "e_fk env" and "t \<in> set (t_twofactor_incomplete (w_db s))" and "ti_user_uuid t = uid h"
    and "run_state (delete_account env h pw) s = (resp, s')"
  shows "resp_status resp \<noteq> 200 \<and> t_users (w_db s') = t_users (w_db s)"
proof -
  obtain n where n: "n \<le> 17" "w_db s' = after_deletes env (uid h) n (w_db s)" "resp_status resp = 200 \<longleftrightarrow> n = 17"
    "0 < n \<longrightarrow> fk_ok (w_db s')"
    using wpD [OF wp_delete_account assms(4)] assms(1) unfolding deletes_done_def by blast
  have "n \<noteq> 17"
  proof
    assume "n = 17"
    then have all: "w_db s' = after_deletes env (uid h) 17 (w_db s)" "fk_ok (w_db s')" using n by simp_all
    then have "uid h \<in> us_uuid ` set (t_users (w_db s'))"
      using fk_ok_pending_login [of "w_db s'" t] assms(2,3) by (simp add: after_all_deletes)
    moreover have "user_gone (uid h) (w_db s')" unfolding all(1) by (rule after_all_deletes)
    ultimately show False by (simp add: user_gone_def)
  qed
  then show ?thesis using n users_before_last_delete [of n env "uid h" "w_db s"] by simp
qed

definition sample_pending_world :: world where
  "sample_pending_world = sample_world (sample_db\<lparr>t_twofactor_incomplete :=
     [\<lparr>ti_user_uuid = ''alice'', ti_device_uuid = ''dev'', ti_device_name = ''web'', ti_login_time = ''2026'',
       ti_ip_address = ''ip'', ti_device_type = 9\<rparr>]\<rparr>)"

abbreviation sample_blocked :: "response \<times> world" where
  "sample_blocked \<equiv> run_state (delete_account (sample_account_env\<lparr>e_fk := True\<rparr>) (sample_headers ''alice'') (Some ''pw''))
     sample_pending_world"

text \<open>Alice's account is still there, and her only item is gone.\<close>

theorem delete_account_blocked_by_pending_login_witness:
  "resp_status (fst sample_blocked) \<noteq> 200 \<and> map ci_uuid (t_ciphers (w_db (snd sample_blocked))) = [''cb'', ''co'']"
proof
  show "resp_status (fst sample_blocked) \<noteq> 200"
    by (rule conjunct1, rule delete_account_blocked_by_pending_login [OF _ _ _ surjective_pairing, where t =
          "\<lparr>ti_user_uuid = ''alice'', ti_device_uuid = ''dev'', ti_device_name = ''web'', ti_login_time = ''2026'',
            ti_ip_address = ''ip'', ti_device_type = 9\<rparr>"])
      (simp_all add: sample_pending_world_def sample_defs)
  have "wp (delete_account (sample_account_env\<lparr>e_fk := True\<rparr>) (sample_headers ''alice'') (Some ''pw''))
      (\<lambda>_ s'. map ci_uuid (t_ciphers (w_db s')) = [''cb'', ''co'']) sample_pending_world"
    by (simp add: delete_account_def require_password_def non_empty_def drop_user_files_def account_deletes_def
        delete_ciphers_def change_evals sample_account_env_def sample_pending_world_def eval_simps fk_defs refers_def)
  then show "map ci_uuid (t_ciphers (w_db (snd sample_blocked))) = [''cb'', ''co'']"
    by (simp add: wp_def split_beta)
qed

end
