(* ===== verification/Policies.thy ===== *)
theory Policies
  imports Collections Sample_Data
begin

text \<open>
  \<open>worker/src/api/policies.rs\<close>: the policies and the groups of an organization, every handler of
  the file.  A group has members, given by the ids of memberships, and access rows for collections.
  The properties are about the organizations a request reaches: a group is safe from the users
  who do not administer its organization, but the ids of members and collections in a request are
  stored unseen, so that a group of one organization opens the collections of another.
\<close>

section \<open>JSON and guards\<close>

definition policy_json :: "env \<Rightarrow> org_policy \<Rightarrow> json" where
  "policy_json env p = JObj [(''Object'', JStr ''policy''), (''Id'', JStr (op_uuid p)),
     (''OrganizationId'', JStr (op_org_uuid p)), (''Type'', JInt (op_atype p)),
     (''Enabled'', JBool (op_enabled p = 1)), (''Data'', opt_default JNull (e_json_parse env (op_data p)))]"

definition group_json :: "group \<Rightarrow> json" where
  "group_json g = JObj [(''Object'', JStr ''group''), (''Id'', JStr (gr_uuid g)),
     (''OrganizationId'', JStr (gr_organizations_uuid g)), (''Name'', JStr (gr_name g)),
     (''AccessAll'', JBool (gr_access_all g = 1)), (''ExternalId'', jopt (gr_external_id g)),
     (''RevisionDate'', JStr (gr_revision_date g)), (''CreationDate'', JStr (gr_creation_date g))]"

definition require_member :: "env \<Rightarrow> headers \<Rightarrow> string \<Rightarrow> (world, response + membership) state" where
  "require_member env h org_id = do {
     found \<leftarrow> membership_find_by_user_and_org env (uid h) org_id;
     return (case found of
         Inr (Some m) \<Rightarrow> Inr m
       | _ \<Rightarrow> Inl (err_json 404 ''Organization not found'')) }"

definition require_admin :: "env \<Rightarrow> headers \<Rightarrow> string \<Rightarrow> (world, response + membership) state" where
  "require_admin env h org_id =
     try_ret (require_member env h org_id) Inl (\<lambda>m.
     return (if me_atype m > 1 then Inl (err_json 403 ''Admin access required'') else Inr m))"

section \<open>Policies\<close>

definition list_policies :: "env \<Rightarrow> headers \<Rightarrow> string \<Rightarrow> response act" where
  "list_policies env h org_id =
     try_ret (require_member env h org_id) (\<lambda>e. e) (\<lambda>_. do {
       policies \<leftarrow> unwrap_or [] (org_policy_find_by_org env org_id);
       return (json_response 200 (json_list (map (policy_json env) policies))) })"

definition get_policy :: "env \<Rightarrow> headers \<Rightarrow> string \<Rightarrow> int \<Rightarrow> response act" where
  "get_policy env h org_id atype =
     try_ret (require_member env h org_id) (\<lambda>e. e) (\<lambda>_.
     try_ret (org_policy_find_by_org_and_type env org_id atype) (\<lambda>_. err_json 500 ''database error'') (\<lambda>found.
     return (json_response 200 (case found of
         Some p \<Rightarrow> policy_json env p
       | None \<Rightarrow> JObj [(''Object'', JStr ''policy''), (''OrganizationId'', JStr org_id),
           (''Type'', JInt atype), (''Enabled'', JBool False), (''Data'', JNull)]))))"

record put_policy_body =
  pp_enabled :: bool
  pp_data :: "json option"

definition put_policy :: "env \<Rightarrow> headers \<Rightarrow> string \<Rightarrow> int \<Rightarrow> put_policy_body \<Rightarrow> response act" where
  "put_policy env h org_id atype body =
     try_ret (require_admin env h org_id) (\<lambda>e. e) (\<lambda>_.
     try_ret (org_policy_find_by_org_and_type env org_id atype) (\<lambda>_. err_json 500 ''database error'') (\<lambda>found. do {
       p \<leftarrow> (case found of Some p \<Rightarrow> return p | None \<Rightarrow> org_policy_new env org_id atype ''{}'');
       let p = p\<lparr>op_enabled := bool_i32 (pp_enabled body),
         op_data := (case pp_data body of Some v \<Rightarrow> e_json_print env v | None \<Rightarrow> ''{}'')\<rparr>;
       try_ret (org_policy_save env p) (\<lambda>_. err_json 500 ''save failed'') (\<lambda>_. do {
         _ \<leftarrow> log_org_event env POLICY_UPDATED org_id (uid h) None (dev_type h);
         _ \<leftarrow> notify_org env org_id SYNC_VAULT org_id;
         return (json_response 200 (policy_json env p)) }) }))"

definition master_password_policy :: "env \<Rightarrow> headers \<Rightarrow> string \<Rightarrow> response act" where
  "master_password_policy env h org_id =
     try_ret (require_member env h org_id) (\<lambda>e. e) (\<lambda>_. do {
       found \<leftarrow> org_policy_find_by_org_and_type env org_id 1;
       let none = JObj [(''Object'', JStr ''masterPasswordPolicy''), (''MinComplexity'', JInt 0),
         (''MinLength'', JInt 0), (''RequireUpper'', JBool False), (''RequireLower'', JBool False),
         (''RequireNumbers'', JBool False), (''RequireSpecial'', JBool False), (''EnforceOnLogin'', JBool False)];
       return (json_response 200 (case found of
           Inr (Some p) \<Rightarrow> if op_enabled p = 1 then policy_json env p else none
         | _ \<Rightarrow> none)) })"

text \<open>The only handler of the file without a guard.\<close>

definition policies_by_token :: "env \<Rightarrow> string \<Rightarrow> response act" where
  "policies_by_token env org_id = do {
     policies \<leftarrow> unwrap_or [] (org_policy_find_by_org env org_id);
     return (json_response 200 (json_list (map (policy_json env) policies))) }"

section \<open>Groups\<close>

text \<open>Of an entry for a collection the handlers read the id only.\<close>

record group_body =
  gb_name :: string
  gb_access_all :: "bool option"
  gb_external_id :: "string option"
  gb_users :: "string list option"
  gb_collections :: "string list option"

definition list_groups :: "env \<Rightarrow> headers \<Rightarrow> string \<Rightarrow> response act" where
  "list_groups env h org_id =
     try_ret (require_member env h org_id) (\<lambda>e. e) (\<lambda>_. do {
       groups \<leftarrow> unwrap_or [] (group_find_by_org env org_id);
       return (json_response 200 (json_list (map group_json groups))) })"

definition group_details :: "env \<Rightarrow> group \<Rightarrow> json act" where
  "group_details env g = do {
     coll_rows \<leftarrow> unwrap_or [] (d1_query env (\<lambda>d.
       filter (\<lambda>x. cg_groups_uuid x = gr_uuid g) (t_collections_groups d)));
     let collections = map (\<lambda>c. JObj [(''Id'', JStr (cg_collections_uuid c)),
       (''ReadOnly'', JBool (cg_read_only c = 1)), (''HidePasswords'', JBool (cg_hide_passwords c = 1)),
       (''Manage'', JBool (cg_manage c = 1))]) coll_rows;
     return (json_insert ''Collections'' (JArr collections) (group_json g)) }"

definition list_groups_details :: "env \<Rightarrow> headers \<Rightarrow> string \<Rightarrow> response act" where
  "list_groups_details env h org_id =
     try_ret (require_member env h org_id) (\<lambda>e. e) (\<lambda>_. do {
       groups \<leftarrow> unwrap_or [] (group_find_by_org env org_id);
       data \<leftarrow> for_acc groups [] (\<lambda>g data. do {
         entry \<leftarrow> group_details env g;
         return (data @ [entry]) });
       return (json_response 200 (json_list data)) })"

text \<open>The INSERT OR IGNORE names neither the flags of the entry nor the column \<open>manage\<close>, whose default is 0.\<close>

definition add_group_collections :: "env \<Rightarrow> string \<Rightarrow> string list \<Rightarrow> unit act" where
  "add_group_collections env g entries =
     for_each entries (\<lambda>c. ignore (d1_exec env (\<lambda>d. Some (d\<lparr>t_collections_groups :=
       insert_ignore collection_group_key (collection_group_new c g False False False) (t_collections_groups d)\<rparr>))))"

definition post_group :: "env \<Rightarrow> headers \<Rightarrow> string \<Rightarrow> group_body \<Rightarrow> response act" where
  "post_group env h org_id body =
     try_ret (require_admin env h org_id) (\<lambda>e. e) (\<lambda>_. do {
       g \<leftarrow> group_new env org_id (gb_name body) (opt_default False (gb_access_all body));
       try_ret (group_save env (g\<lparr>gr_external_id := gb_external_id body\<rparr>)) (\<lambda>_. err_json 500 ''save failed'') (\<lambda>g. do {
         _ \<leftarrow> if_some (gb_users body) (\<lambda>member_ids.
                for_each member_ids (\<lambda>m. ignore (group_user_set env (gr_uuid g) m)));
         _ \<leftarrow> if_some (gb_collections body) (add_group_collections env (gr_uuid g));
         _ \<leftarrow> log_org_event env GROUP_CREATED org_id (uid h) None (dev_type h);
         _ \<leftarrow> notify_org env org_id SYNC_VAULT org_id;
         return (json_response 200 (group_json g)) }) })"

text \<open>\<open>Ok(Some(g)) if g.organizations_uuid == org_id => g\<close>.\<close>

definition load_group :: "env \<Rightarrow> string \<Rightarrow> string \<Rightarrow> (world, response + group) state" where
  "load_group env org_id group_id = do {
     found \<leftarrow> group_find_by_uuid env group_id;
     return (case found of
         Inr (Some g) \<Rightarrow> if gr_organizations_uuid g = org_id then Inr g else Inl (err_json 404 ''Group not found'')
       | _ \<Rightarrow> Inl (err_json 404 ''Group not found'')) }"

definition get_group :: "env \<Rightarrow> headers \<Rightarrow> string \<Rightarrow> string \<Rightarrow> response act" where
  "get_group env h org_id group_id =
     try_ret (require_member env h org_id) (\<lambda>e. e) (\<lambda>_.
     try_ret (load_group env org_id group_id) (\<lambda>e. e) (\<lambda>g.
     return (json_response 200 (group_json g))))"

definition get_group_details :: "env \<Rightarrow> headers \<Rightarrow> string \<Rightarrow> string \<Rightarrow> response act" where
  "get_group_details env h org_id group_id =
     try_ret (require_member env h org_id) (\<lambda>e. e) (\<lambda>_.
     try_ret (load_group env org_id group_id) (\<lambda>e. e) (\<lambda>g. do {
       entry \<leftarrow> group_details env g;
       return (json_response 200 entry) }))"

definition put_group :: "env \<Rightarrow> headers \<Rightarrow> string \<Rightarrow> string \<Rightarrow> group_body \<Rightarrow> response act" where
  "put_group env h org_id group_id body =
     try_ret (require_admin env h org_id) (\<lambda>e. e) (\<lambda>_.
     try_ret (load_group env org_id group_id) (\<lambda>e. e) (\<lambda>g. do {
       let g = g\<lparr>gr_name := gb_name body\<rparr>;
       let g = (case gb_access_all body of Some a \<Rightarrow> g\<lparr>gr_access_all := bool_i32 a\<rparr> | None \<Rightarrow> g);
       let g = g\<lparr>gr_external_id := gb_external_id body\<rparr>;
       try_ret (group_save env g) (\<lambda>_. err_json 500 ''save failed'') (\<lambda>g. do {
         _ \<leftarrow> if_some (gb_users body) (\<lambda>member_ids. do {
           existing \<leftarrow> unwrap_or [] (group_user_list_by_group env (gr_uuid g));
           _ \<leftarrow> for_each existing (\<lambda>m. ignore (group_user_unset env (gr_uuid g) m));
           for_each member_ids (\<lambda>m. ignore (group_user_set env (gr_uuid g) m)) });
         _ \<leftarrow> if_some (gb_collections body) (\<lambda>entries. do {
           _ \<leftarrow> ignore (d1_exec env (\<lambda>d. Some (d\<lparr>t_collections_groups :=
             delete_where (\<lambda>x. cg_groups_uuid x = gr_uuid g) (t_collections_groups d)\<rparr>)));
           add_group_collections env (gr_uuid g) entries });
         _ \<leftarrow> log_org_event env GROUP_UPDATED org_id (uid h) None (dev_type h);
         _ \<leftarrow> notify_org env org_id SYNC_VAULT org_id;
         return (json_response 200 (group_json g)) }) }))"

definition drop_group_links :: "env \<Rightarrow> string \<Rightarrow> unit act" where
  "drop_group_links env group_id = do {
     _ \<leftarrow> ignore (d1_exec env (\<lambda>d. Some (d\<lparr>t_groups_users :=
       delete_where (\<lambda>(g, _). g = group_id) (t_groups_users d)\<rparr>)));
     ignore (d1_exec env (\<lambda>d. Some (d\<lparr>t_collections_groups :=
       delete_where (\<lambda>x. cg_groups_uuid x = group_id) (t_collections_groups d)\<rparr>))) }"

definition delete_group :: "env \<Rightarrow> headers \<Rightarrow> string \<Rightarrow> string \<Rightarrow> response act" where
  "delete_group env h org_id group_id =
     try_ret (require_admin env h org_id) (\<lambda>e. e) (\<lambda>_.
     try_ret (load_group env org_id group_id) (\<lambda>e. e) (\<lambda>g. do {
       _ \<leftarrow> drop_group_links env group_id;
       try_ret (group_delete env g) (\<lambda>_. err_json 500 ''delete failed'') (\<lambda>_. do {
         _ \<leftarrow> log_org_event env GROUP_DELETED org_id (uid h) None (dev_type h);
         _ \<leftarrow> notify_org env org_id SYNC_VAULT org_id;
         return (json_response 200 (JObj [])) }) }))"

definition bulk_delete_groups :: "env \<Rightarrow> headers \<Rightarrow> string \<Rightarrow> string list \<Rightarrow> response act" where
  "bulk_delete_groups env h org_id ids =
     try_ret (require_admin env h org_id) (\<lambda>e. e) (\<lambda>_. do {
       _ \<leftarrow> for_each ids (\<lambda>group_id. try_ret (load_group env org_id group_id) (\<lambda>_. ()) (\<lambda>g. do {
         _ \<leftarrow> drop_group_links env group_id;
         _ \<leftarrow> ignore (group_delete env g);
         log_org_event env GROUP_DELETED org_id (uid h) None (dev_type h) }));
       return (json_response 200 (JObj [])) })"

definition group_users :: "env \<Rightarrow> headers \<Rightarrow> string \<Rightarrow> string \<Rightarrow> response act" where
  "group_users env h org_id group_id =
     try_ret (require_member env h org_id) (\<lambda>e. e) (\<lambda>_.
     try_ret (load_group env org_id group_id) (\<lambda>e. e) (\<lambda>_. do {
       members \<leftarrow> unwrap_or [] (group_user_list_by_group env group_id);
       return (json_response 200 (JArr (map JStr members))) }))"

definition set_group_users :: "env \<Rightarrow> headers \<Rightarrow> string \<Rightarrow> string \<Rightarrow> string list \<Rightarrow> response act" where
  "set_group_users env h org_id group_id body =
     try_ret (require_admin env h org_id) (\<lambda>e. e) (\<lambda>_.
     try_ret (load_group env org_id group_id) (\<lambda>e. e) (\<lambda>_. do {
       existing \<leftarrow> unwrap_or [] (group_user_list_by_group env group_id);
       _ \<leftarrow> for_each existing (\<lambda>m. ignore (group_user_unset env group_id m));
       _ \<leftarrow> for_each body (\<lambda>m. ignore (group_user_set env group_id m));
       _ \<leftarrow> log_org_event env GROUP_UPDATED org_id (uid h) None (dev_type h);
       return (json_response 200 (JObj [])) }))"

definition remove_group_user :: "env \<Rightarrow> headers \<Rightarrow> string \<Rightarrow> string \<Rightarrow> string \<Rightarrow> response act" where
  "remove_group_user env h org_id group_id member_id =
     try_ret (require_admin env h org_id) (\<lambda>e. e) (\<lambda>_.
     try_ret (load_group env org_id group_id) (\<lambda>e. e) (\<lambda>_. do {
       _ \<leftarrow> ignore (group_user_unset env group_id member_id);
       _ \<leftarrow> log_org_event env GROUP_UPDATED org_id (uid h) None (dev_type h);
       return (json_response 200 (JObj [])) }))"

section \<open>All requests\<close>

datatype group_op =
    ListPolicies
  | GetPolicy int
  | PutPolicy int put_policy_body
  | MasterPasswordPolicy
  | PoliciesByToken
  | ListGroups
  | ListGroupsDetails
  | PostGroup group_body
  | GetGroup string
  | GetGroupDetails string
  | PutGroup string group_body
  | DeleteGroup string
  | BulkDeleteGroups "string list"
  | GroupUsers string
  | SetGroupUsers string "string list"
  | RemoveGroupUser string string

fun exec_group_op :: "env \<Rightarrow> headers \<Rightarrow> string \<Rightarrow> group_op \<Rightarrow> response act" where
  "exec_group_op env h g ListPolicies = list_policies env h g"
| "exec_group_op env h g (GetPolicy ty) = get_policy env h g ty"
| "exec_group_op env h g (PutPolicy ty body) = put_policy env h g ty body"
| "exec_group_op env h g MasterPasswordPolicy = master_password_policy env h g"
| "exec_group_op env h g PoliciesByToken = policies_by_token env g"
| "exec_group_op env h g ListGroups = list_groups env h g"
| "exec_group_op env h g ListGroupsDetails = list_groups_details env h g"
| "exec_group_op env h g (PostGroup body) = post_group env h g body"
| "exec_group_op env h g (GetGroup x) = get_group env h g x"
| "exec_group_op env h g (GetGroupDetails x) = get_group_details env h g x"
| "exec_group_op env h g (PutGroup x body) = put_group env h g x body"
| "exec_group_op env h g (DeleteGroup x) = delete_group env h g x"
| "exec_group_op env h g (BulkDeleteGroups xs) = bulk_delete_groups env h g xs"
| "exec_group_op env h g (GroupUsers x) = group_users env h g x"
| "exec_group_op env h g (SetGroupUsers x ms) = set_group_users env h g x ms"
| "exec_group_op env h g (RemoveGroupUser x m) = remove_group_user env h g x m"

section \<open>Groups and policies of other organizations\<close>

text \<open>Everything stored under one id: the group, its members, its access rows, and the policy.\<close>

definition group_rows :: "string \<Rightarrow> db \<Rightarrow>
    group list \<times> (string \<times> string) list \<times> collection_group list \<times> org_policy list" where
  "group_rows u d = (filter (\<lambda>x. gr_uuid x = u) (t_groups d),
     filter (\<lambda>(g, _). g = u) (t_groups_users d),
     filter (\<lambda>x. cg_groups_uuid x = u) (t_collections_groups d),
     filter (\<lambda>x. op_uuid x = u) (t_org_policies d))"

definition group_kept :: "string \<Rightarrow> db \<Rightarrow> db \<Rightarrow> bool" where
  "group_kept u d d' \<longleftrightarrow> group_rows u d' = group_rows u d \<and>
     t_users_organizations d' = t_users_organizations d"

definition administers :: "db \<Rightarrow> headers \<Rightarrow> string \<Rightarrow> bool" where
  "administers d h g \<longleftrightarrow> (\<exists>m\<in>set (t_users_organizations d).
     me_user_uuid m = uid h \<and> me_org_uuid m = g \<and> me_atype m \<le> 1)"

text \<open>The group and the policy with this id, if there are any, are not the caller's to administer.\<close>

definition out_of_reach :: "db \<Rightarrow> headers \<Rightarrow> string \<Rightarrow> bool" where
  "out_of_reach d h u \<longleftrightarrow>
     (\<forall>x\<in>set (t_groups d). gr_uuid x = u \<longrightarrow> \<not> administers d h (gr_organizations_uuid x)) \<and>
     (\<forall>p\<in>set (t_org_policies d). op_uuid p = u \<longrightarrow> \<not> administers d h (op_org_uuid p))"

lemma group_kept_refl: "group_kept u d d"
  by (simp add: group_kept_def)

lemma ignores_events_group_kept [simp]: "ignores_events (group_kept u d)"
  by (simp add: ignores_events_def group_kept_def group_rows_def)

lemma filter_insert_ignore: "\<not> P x \<Longrightarrow> filter P (insert_ignore k x xs) = filter P xs"
  by (simp add: insert_ignore_def)

lemma group_kept_steps:
  assumes "group_kept u d d'" "v \<noteq> u"
  shows "gr_uuid x = v \<Longrightarrow> group_kept u d (d'\<lparr>t_groups := upsert gr_uuid group_conflict x (t_groups d')\<rparr>)"
    and "group_kept u d (d'\<lparr>t_groups := delete_where (\<lambda>y. gr_uuid y = v) (t_groups d')\<rparr>)"
    and "group_kept u d (d'\<lparr>t_groups_users := insert_ignore (\<lambda>x. x) (v, m) (t_groups_users d')\<rparr>)"
    and "group_kept u d (d'\<lparr>t_groups_users := delete_where (\<lambda>x. x = (v, m)) (t_groups_users d')\<rparr>)"
    and "group_kept u d (d'\<lparr>t_groups_users := delete_where (\<lambda>(g, _). g = v) (t_groups_users d')\<rparr>)"
    and "group_kept u d (d'\<lparr>t_collections_groups := delete_where (\<lambda>x. cg_groups_uuid x = v) (t_collections_groups d')\<rparr>)"
    and "cg_groups_uuid a = v \<Longrightarrow> group_kept u d (d'\<lparr>t_collections_groups :=
      insert_ignore collection_group_key a (t_collections_groups d')\<rparr>)"
    and "op_uuid p = v \<Longrightarrow> group_kept u d (d'\<lparr>t_org_policies := upsert op_uuid org_policy_conflict p (t_org_policies d')\<rparr>)"
  using assms
  by (auto simp: group_kept_def group_rows_def group_conflict_def org_policy_conflict_def
      intro!: trans [OF filter_upsert_other] trans [OF filter_delete_other] trans [OF filter_insert_ignore])

text \<open>The parts of the handlers that write, for another group \<open>v\<close>.\<close>

lemma preserves_group_steps:
  assumes "v \<noteq> u"
  shows "gr_uuid x = v \<Longrightarrow> preserves (\<lambda>s. group_kept u d (w_db s)) (group_delete env x)"
    and "preserves (\<lambda>s. group_kept u d (w_db s)) (group_user_set env v m)"
    and "preserves (\<lambda>s. group_kept u d (w_db s)) (group_user_unset env v m)"
    and "preserves (\<lambda>s. group_kept u d (w_db s)) (drop_group_links env v)"
    and "preserves (\<lambda>s. group_kept u d (w_db s)) (add_group_collections env v entries)"
    and "preserves (\<lambda>s. group_kept u d (w_db s)) (d1_exec env (\<lambda>d. Some (d\<lparr>t_collections_groups :=
      delete_where (\<lambda>x. cg_groups_uuid x = v) (t_collections_groups d)\<rparr>)))"
    and "op_uuid p = v \<Longrightarrow> preserves (\<lambda>s. group_kept u d (w_db s)) (org_policy_save env p)"
  unfolding group_delete_def group_user_set_def group_user_unset_def drop_group_links_def
    add_group_collections_def org_policy_save_def
  by (intro preserves_rules preserves_d1_exec;
      use assms in \<open>auto simp: collection_group_new_def Let_def group_kept_steps split: if_splits\<close>)+

lemma preserves_group_save:
  assumes "gr_uuid x \<noteq> u" "\<And>y. gr_uuid y = gr_uuid x \<Longrightarrow> preserves (\<lambda>s. group_kept u d (w_db s)) (k y)"
  shows "preserves (\<lambda>s. group_kept u d (w_db s)) (try_ret (group_save env x) f k)"
  unfolding preserves_def group_save_def Let_def
  using assms group_kept_steps(1) [of u d _ "gr_uuid x"]
  by (auto simp: wp_rules preserves_def)

lemma preserves_group_reads [preserves_rules]:
  fixes P :: "db \<Rightarrow> bool"
  shows "preserves (\<lambda>s. P (w_db s)) (require_member env h org_id)"
    and "preserves (\<lambda>s. P (w_db s)) (require_admin env h org_id)"
    and "preserves (\<lambda>s. P (w_db s)) (org_policy_find_by_org env org_id)"
    and "preserves (\<lambda>s. P (w_db s)) (org_policy_find_by_org_and_type env org_id atype)"
    and "preserves (\<lambda>s. P (w_db s)) (group_find_by_org env org_id)"
    and "preserves (\<lambda>s. P (w_db s)) (group_user_list_by_group env v)"
    and "preserves (\<lambda>s. P (w_db s)) (load_group env org_id v)"
    and "preserves (\<lambda>s. P (w_db s)) (group_details env x)"
  unfolding require_member_def require_admin_def org_policy_find_by_org_def org_policy_find_by_org_and_type_def
    group_find_by_org_def group_user_list_by_group_def load_group_def group_find_by_uuid_def group_details_def
    membership_find_by_user_and_org_def Let_def
  by (intro preserves_rules)+

section \<open>The guards\<close>

lemma administersI:
  "m \<in> set (t_users_organizations d) \<Longrightarrow> me_user_uuid m = uid h \<Longrightarrow> \<not> 1 < me_atype m \<Longrightarrow>
    administers d h (me_org_uuid m)"
  by (auto simp: administers_def)

lemma wp_behind_org_admin:
  assumes "\<And>e s'. w_db s' = w_db s \<Longrightarrow> Q e s'"
    and "\<And>m s'. administers (w_db s) h org_id \<Longrightarrow> w_db s' = w_db s \<Longrightarrow> wp (k m) Q s'"
  shows "wp (try_ret (require_admin env h org_id) (\<lambda>e. e) k) Q s"
  using assms
  by (auto simp: require_admin_def require_member_def membership_find_by_user_and_org_def wp_rules
      administersI split: option.splits dest!: find_SomeD)

text \<open>A group that the loader hands out to an administrator is not the one out of reach.\<close>

lemma group_kept_row:
  "group_kept u d d' \<Longrightarrow> x \<in> set (t_groups d') \<Longrightarrow> gr_uuid x = u \<Longrightarrow> x \<in> set (t_groups d)"
  "group_kept u d d' \<Longrightarrow> p \<in> set (t_org_policies d') \<Longrightarrow> op_uuid p = u \<Longrightarrow> p \<in> set (t_org_policies d)"
  using filter_eq_member [of "\<lambda>x. gr_uuid x = u" "t_groups d'" "t_groups d" x]
    filter_eq_member [of "\<lambda>x. op_uuid x = u" "t_org_policies d'" "t_org_policies d" p]
  by (simp_all add: group_kept_def group_rows_def)

lemma preserves_load_group:
  assumes "administers d h org_id" "out_of_reach d h u"
    and "\<And>x. gr_uuid x = v \<Longrightarrow> v \<noteq> u \<Longrightarrow> preserves (\<lambda>s. group_kept u d (w_db s)) (k x)"
  shows "preserves (\<lambda>s. group_kept u d (w_db s)) (try_ret (load_group env org_id v) f k)"
proof (rule preservesI)
  fix s :: world assume kept: "group_kept u d (w_db s)"
  have other: "gr_uuid x \<noteq> u" if "x \<in> set (t_groups (w_db s))" "gr_organizations_uuid x = org_id" for x
    using assms(1,2) group_kept_row(1) [OF kept that(1)] that(2) by (auto simp: out_of_reach_def)
  show "wp (try_ret (load_group env org_id v) f k) (\<lambda>_ s. group_kept u d (w_db s)) s"
    using assms(3) kept other
    by (auto simp: load_group_def group_find_by_uuid_def wp_rules preserves_def
        split: option.splits dest!: find_SomeD)
qed

lemma preserves_load_policy:
  assumes "administers d h org_id" "out_of_reach d h u" "\<And>n. e_uuid env n \<noteq> u"
    and "\<And>p. op_uuid p \<noteq> u \<Longrightarrow> preserves (\<lambda>s. group_kept u d (w_db s)) (k p)"
  shows "preserves (\<lambda>s. group_kept u d (w_db s)) (try_ret (org_policy_find_by_org_and_type env org_id atype) f
     (\<lambda>found. State_Monad.bind (case found of Some p \<Rightarrow> return p | None \<Rightarrow> org_policy_new env org_id atype data) k))"
proof (rule preservesI)
  fix s :: world assume kept: "group_kept u d (w_db s)"
  have other: "op_uuid p \<noteq> u" if "p \<in> set (t_org_policies (w_db s))" "op_org_uuid p = org_id" for p
    using assms(1,2) group_kept_row(2) [OF kept that(1)] that(2) by (auto simp: out_of_reach_def)
  show "wp (try_ret (org_policy_find_by_org_and_type env org_id atype) f
     (\<lambda>found. State_Monad.bind (case found of Some p \<Rightarrow> return p | None \<Rightarrow> org_policy_new env org_id atype data) k))
     (\<lambda>_ s. group_kept u d (w_db s)) s"
    using assms(3,4) kept other
    by (auto simp: org_policy_find_by_org_and_type_def org_policy_new_def wp_rules preserves_def
        split: option.splits dest!: find_SomeD)
qed

lemma wp_admin_kept:
  assumes "administers (w_db s) h org_id \<Longrightarrow> (\<And>m. preserves (\<lambda>s'. group_kept u (w_db s) (w_db s')) (k m))"
  shows "wp (try_ret (require_admin env h org_id) (\<lambda>e. e) k) (\<lambda>_ s'. group_kept u (w_db s) (w_db s')) s"
  by (rule wp_behind_org_admin)
    (use assms in \<open>auto simp: preserves_def group_kept_refl\<close>)

section \<open>The writers\<close>

lemma preserves_new_group:
  assumes "\<And>n. e_uuid env n \<noteq> u" "\<And>x. gr_uuid x \<noteq> u \<Longrightarrow> preserves (\<lambda>s. group_kept u d (w_db s)) (k x)"
  shows "preserves (\<lambda>s. group_kept u d (w_db s)) (State_Monad.bind (group_new env org_id name acc) k)"
  using assms by (auto simp: preserves_def group_new_def wp_rules)

lemma wp_post_group:
  assumes "\<And>n. e_uuid env n \<noteq> u"
  shows "wp (post_group env h org_id body) (\<lambda>_ s'. group_kept u (w_db s) (w_db s')) s"
  unfolding post_group_def
  by (rule wp_admin_kept)
    (intro preserves_new_group [OF assms] preserves_group_save preserves_group_steps preserves_rules; simp)

lemma wp_put_policy:
  assumes "out_of_reach (w_db s) h u" "\<And>n. e_uuid env n \<noteq> u"
  shows "wp (put_policy env h org_id atype body) (\<lambda>_ s'. group_kept u (w_db s) (w_db s')) s"
  unfolding put_policy_def Let_def
  by (rule wp_admin_kept)
    (intro preserves_load_policy [OF _ assms] preserves_group_steps(7) preserves_rules; simp)

lemma wp_group_writers:
  assumes "out_of_reach (w_db s) h u"
  shows "wp (put_group env h org_id v body) (\<lambda>_ s'. group_kept u (w_db s) (w_db s')) s"
    and "wp (delete_group env h org_id v) (\<lambda>_ s'. group_kept u (w_db s) (w_db s')) s"
    and "wp (bulk_delete_groups env h org_id vs) (\<lambda>_ s'. group_kept u (w_db s) (w_db s')) s"
    and "wp (set_group_users env h org_id v ms) (\<lambda>_ s'. group_kept u (w_db s) (w_db s')) s"
    and "wp (remove_group_user env h org_id v m) (\<lambda>_ s'. group_kept u (w_db s) (w_db s')) s"
  unfolding put_group_def delete_group_def bulk_delete_groups_def set_group_users_def remove_group_user_def Let_def
  by (rule wp_admin_kept, intro preserves_load_group [OF _ assms] preserves_group_save preserves_group_steps
      preserves_rules; simp split: option.splits)+

lemma preserves_group_readers:
  fixes P :: "db \<Rightarrow> bool"
  shows "preserves (\<lambda>s. P (w_db s)) (list_policies env h org_id)"
    and "preserves (\<lambda>s. P (w_db s)) (get_policy env h org_id atype)"
    and "preserves (\<lambda>s. P (w_db s)) (master_password_policy env h org_id)"
    and "preserves (\<lambda>s. P (w_db s)) (policies_by_token env org_id)"
    and "preserves (\<lambda>s. P (w_db s)) (list_groups env h org_id)"
    and "preserves (\<lambda>s. P (w_db s)) (list_groups_details env h org_id)"
    and "preserves (\<lambda>s. P (w_db s)) (get_group env h org_id v)"
    and "preserves (\<lambda>s. P (w_db s)) (get_group_details env h org_id v)"
    and "preserves (\<lambda>s. P (w_db s)) (group_users env h org_id v)"
  unfolding list_policies_def get_policy_def master_password_policy_def policies_by_token_def list_groups_def
    list_groups_details_def get_group_def get_group_details_def group_users_def Let_def
  by (intro preserves_rules)+

lemma wp_exec_group_op:
  assumes "out_of_reach (w_db s) h u" "\<And>n. e_uuid env n \<noteq> u"
  shows "wp (exec_group_op env h org_id op) (\<lambda>_ s'. group_kept u (w_db s) (w_db s')) s"
  by (cases op)
    (use preserves_wp [OF preserves_group_readers(1)] preserves_wp [OF preserves_group_readers(2)]
      preserves_wp [OF preserves_group_readers(3)] preserves_wp [OF preserves_group_readers(4)]
      preserves_wp [OF preserves_group_readers(5)] preserves_wp [OF preserves_group_readers(6)]
      preserves_wp [OF preserves_group_readers(7)] preserves_wp [OF preserves_group_readers(8)]
      preserves_wp [OF preserves_group_readers(9)] assms
     in \<open>simp_all add: wp_post_group wp_put_policy wp_group_writers group_kept_refl\<close>)

section \<open>What a group opens\<close>

lemma left_join_some: "x \<in> set xs \<Longrightarrow> y \<in> set (f x) \<Longrightarrow> (x, Some y) \<in> set (left_join xs f)"
  by (force simp: left_join_def split: list.splits)

lemma left_join_total: "x \<in> set xs \<Longrightarrow> \<exists>y. (x, y) \<in> set (left_join xs f)"
  by (cases "f x") (force simp: left_join_def)+

text \<open>A link from a membership through a group to a collection of the item shows the item.\<close>

lemma visible_through_group:
  assumes "x \<in> set (t_ciphers d)" "ci_organization_uuid x = Some (me_org_uuid m)"
    and "m \<in> set (t_users_organizations d)" "me_user_uuid m = user_uuid"
    and "(ci_uuid x, c) \<in> set (t_ciphers_collections d)"
    and "(g, me_uuid m) \<in> set (t_groups_users d)"
    and "cg \<in> set (t_collections_groups d)" "cg_groups_uuid cg = g" "cg_collections_uuid cg = c"
  shows "\<exists>uc. (((((x, Some m), Some (ci_uuid x, c)), uc), Some (g, me_uuid m)), Some cg) \<in> set (visible_join user_uuid d)"
proof -
  let ?j1 = "left_join (t_ciphers d) (\<lambda>c. filter (\<lambda>m. opt_is (ci_organization_uuid c) (me_org_uuid m) \<and>
      me_user_uuid m = user_uuid) (t_users_organizations d))"
  let ?j2 = "left_join ?j1 (\<lambda>(c, m). filter (\<lambda>(ci, co). ci = ci_uuid c) (t_ciphers_collections d))"
  let ?j3 = "left_join ?j2 (\<lambda>((c, m), cc). filter (\<lambda>uc. map_option snd cc = Some (uc_collection_uuid uc) \<and>
      uc_user_uuid uc = user_uuid) (t_users_collections d))"
  have "(x, Some m) \<in> set ?j1"
    by (rule left_join_some) (use assms in \<open>simp_all add: opt_is_def\<close>)
  then have "((x, Some m), Some (ci_uuid x, c)) \<in> set ?j2"
    by (rule left_join_some) (use assms in simp)
  from left_join_total [OF this] obtain uc where "(((x, Some m), Some (ci_uuid x, c)), uc) \<in> set ?j3" ..
  then show ?thesis
    unfolding visible_join_def Let_def
    by (intro exI [of _ uc] left_join_some) (use assms in simp_all)
qed

lemma refers_insert_ignore:
  "refers rows col ps k \<Longrightarrow> (case col x of None \<Rightarrow> True | Some v \<Rightarrow> v \<in> k ` set ps) \<Longrightarrow>
    refers (insert_ignore key x rows) col ps k"
  by (auto simp: refers_def insert_ignore_def)

lemma refers_upsert_group:
  "refers rows col ps gr_uuid \<Longrightarrow> refers rows col (upsert gr_uuid group_conflict x ps) gr_uuid"
  unfolding refers_def kt_groups.keys_upsert by (auto split: option.splits)

lemma refers_groups:
  assumes "refers (t_groups d) (Some \<circ> gr_organizations_uuid) ps k" "gr_organizations_uuid x \<in> k ` set ps"
  shows "refers (upsert gr_uuid group_conflict x (t_groups d)) (Some \<circ> gr_organizations_uuid) ps k"
  using assms by (auto simp: refers_def set_upsert group_conflict_def)

lemma fk_add_group:
  assumes "fk_ok d"
  shows "gr_organizations_uuid x \<in> og_uuid ` set (t_organizations d) \<Longrightarrow>
      fk_ok (d\<lparr>t_groups := upsert gr_uuid group_conflict x (t_groups d)\<rparr>)"
    and "g \<in> gr_uuid ` set (t_groups d) \<Longrightarrow> m \<in> me_uuid ` set (t_users_organizations d) \<Longrightarrow>
      fk_ok (d\<lparr>t_groups_users := insert_ignore (\<lambda>x. x) (g, m) (t_groups_users d)\<rparr>)"
    and "cg_groups_uuid a \<in> gr_uuid ` set (t_groups d) \<Longrightarrow> cg_collections_uuid a \<in> co_uuid ` set (t_collections d) \<Longrightarrow>
      fk_ok (d\<lparr>t_collections_groups := insert_ignore collection_group_key a (t_collections_groups d)\<rparr>)"
  using assms unfolding fk_defs
  by (simp_all add: refers_groups refers_insert_ignore refers_upsert_group)

definition opens :: "group_body \<Rightarrow> string \<Rightarrow> string \<Rightarrow> bool" where
  "opens body m c \<longleftrightarrow> gb_users body = Some [m] \<and> gb_collections body = Some [c]"

text \<open>The tables a new group does not touch, and the rows it leaves when it has one member and one collection.\<close>

definition same_items :: "db \<Rightarrow> db \<Rightarrow> bool" where
  "same_items d d' \<longleftrightarrow> t_ciphers d' = t_ciphers d \<and> t_users_organizations d' = t_users_organizations d \<and>
     t_ciphers_collections d' = t_ciphers_collections d \<and> t_collections d' = t_collections d"

definition group_linked :: "string \<Rightarrow> string \<Rightarrow> db \<Rightarrow> bool" where
  "group_linked m c d \<longleftrightarrow> (\<exists>cg\<in>set (t_collections_groups d).
     (cg_groups_uuid cg, m) \<in> set (t_groups_users d) \<and> cg_collections_uuid cg = c)"

lemma linked_event [simp]:
  "group_linked m c (d\<lparr>t_event := es\<rparr>) = group_linked m c d"
  "same_items d (d'\<lparr>t_event := es\<rparr>) = same_items d d'"
  by (simp_all add: group_linked_def same_items_def)

lemma collection_group_new_ids [simp]:
  "cg_groups_uuid (collection_group_new c g ro hp ma) = g"
  "cg_collections_uuid (collection_group_new c g ro hp ma) = c"
  by (simp_all add: collection_group_new_def)

lemma wp_group_saveI:
  assumes "\<And>n. \<not> e_fault env n" "e_fk env \<longrightarrow> fk_ok (w_db s)"
    and "gr_organizations_uuid x \<in> og_uuid ` set (t_organizations (w_db s))"
    and "\<And>y s'. gr_uuid y = gr_uuid x \<Longrightarrow> e_fk env \<longrightarrow> fk_ok (w_db s') \<Longrightarrow>
      gr_uuid x \<in> gr_uuid ` set (t_groups (w_db s')) \<Longrightarrow> same_items (w_db s) (w_db s') \<Longrightarrow> Q (Inr y) s'"
  shows "wp (group_save env x) Q s"
  using assms(1-3)
  by (auto simp: group_save_def Let_def wp_rules fk_add_group kt_groups.keys_upsert same_items_def intro!: assms(4))

lemma wp_group_user_setI:
  assumes "\<And>n. \<not> e_fault env n" "e_fk env \<longrightarrow> fk_ok (w_db s)"
    and "g \<in> gr_uuid ` set (t_groups (w_db s))" "m \<in> me_uuid ` set (t_users_organizations (w_db s))"
    and "\<And>s'. e_fk env \<longrightarrow> fk_ok (w_db s') \<Longrightarrow> t_groups (w_db s') = t_groups (w_db s) \<Longrightarrow>
      (g, m) \<in> set (t_groups_users (w_db s')) \<Longrightarrow> same_items (w_db s) (w_db s') \<Longrightarrow> Q (Inr ()) s'"
  shows "wp (group_user_set env g m) Q s"
  using assms(1-4) by (auto simp: group_user_set_def wp_rules fk_add_group same_items_def intro!: assms(5))

lemma wp_add_collectionI:
  assumes "\<And>n. \<not> e_fault env n" "e_fk env \<longrightarrow> fk_ok (w_db s)"
    and "g \<in> gr_uuid ` set (t_groups (w_db s))" "c \<in> co_uuid ` set (t_collections (w_db s))"
    and "(g, m) \<in> set (t_groups_users (w_db s))"
    and "\<And>s'. group_linked m c (w_db s') \<Longrightarrow> same_items (w_db s) (w_db s') \<Longrightarrow> Q () s'"
  shows "wp (add_group_collections env g [c]) Q s"
proof -
  let ?cg = "collection_group_new c g False False False"
  have "\<exists>x\<in>set (insert_ignore collection_group_key ?cg (t_collections_groups (w_db s))).
      collection_group_key x = collection_group_key ?cg"
    by (auto simp: set_insert_ignore)
  then have "group_linked m c ((w_db s)\<lparr>t_collections_groups :=
      insert_ignore collection_group_key ?cg (t_collections_groups (w_db s))\<rparr>)"
    using assms(5) by (auto simp: collection_group_key_def group_linked_def)
  with assms(1-4) show ?thesis
    by (auto simp: add_group_collections_def wp_rules fk_add_group same_items_def intro!: assms(6))
qed

lemma wp_post_group_links:
  assumes "\<And>n. \<not> e_fault env n" "e_fk env \<longrightarrow> fk_ok (w_db s)" "opens body m c"
    and "find (\<lambda>m. me_user_uuid m = uid h \<and> me_org_uuid m = org_id) (t_users_organizations (w_db s)) = Some a"
    and "me_atype a \<le> 1" "org_id \<in> og_uuid ` set (t_organizations (w_db s))"
    and "m \<in> me_uuid ` set (t_users_organizations (w_db s))" "c \<in> co_uuid ` set (t_collections (w_db s))"
  shows "wp (post_group env h org_id body)
    (\<lambda>resp s'. resp_status resp = 200 \<and> group_linked m c (w_db s') \<and> same_items (w_db s) (w_db s')) s"
  using assms
  by (auto simp: post_group_def require_admin_def require_member_def membership_find_by_user_and_org_def opens_def
      group_new_def if_some_def wp_rules
      intro!: wp_group_saveI wp_group_user_setI wp_add_collectionI wp_log_eventI wp_notify_orgI
      simp: same_items_def)

section \<open>Properties\<close>

text \<open>C10.
  Whatever request for policies or groups a user sends for whatever organization, and whichever
  calls fail, a group of an organization that the user does not administer keeps its row, its members
  and its access rows, and a policy of such an organization stays as it was.
\<close>

theorem group_requests_isolated:
  assumes "out_of_reach (w_db s) h u" and "\<And>n. e_uuid env n \<noteq> u"
    and "run_state (exec_group_op env h org_id op) s = (resp, s')"
  shows "group_rows u (w_db s') = group_rows u (w_db s)"
  using wpD [OF wp_exec_group_op [OF assms(1,2)] assms(3)] by (simp add: group_kept_def)

definition sample_group :: group where
  "sample_group = \<lparr>gr_uuid = ''gr'', gr_organizations_uuid = ''org'', gr_name = ''staff'', gr_access_all = 0,
     gr_external_id = None, gr_creation_date = ''2026'', gr_revision_date = ''2026''\<rparr>"

text \<open>Bob owns the organization \<open>own\<close> and had a plain membership, now revoked, in the other one.\<close>

definition sample_group_world :: world where
  "sample_group_world = sample_world (sample_db\<lparr>t_collections := [sample_collection],
     t_ciphers_collections := [(''co'', ''col'')], t_groups := [sample_group], t_groups_users := [(''gr'', ''ma'')],
     t_organizations := [sample_organization ''org'', sample_organization ''own''],
     t_users_organizations := [sample_membership ''ma'' ''alice'' ''org'' 0 2,
       sample_membership ''mb'' ''bob'' ''org'' 2 (- 1), sample_membership ''mo'' ''bob'' ''own'' 0 2]\<rparr>)"

lemmas sample_group_defs = sample_group_def sample_group_world_def sample_collection_def sample_defs

theorem group_requests_isolated_witness:
  "group_rows ''gr'' (w_db (snd (run_state (exec_group_op sample_env (sample_headers ''bob'') ''own''
     (DeleteGroup ''gr'')) sample_group_world))) = group_rows ''gr'' (w_db sample_group_world)"
  by (rule group_requests_isolated [OF _ _ surjective_pairing])
    (simp_all add: out_of_reach_def administers_def sample_group_defs)

text \<open>C38.
  A group of one organization opens the collections of another.  A user who administers an
  organization and has any membership in a second one, be it a plain or a revoked one, makes a
  group in the first with the membership and a collection of the second.  When no call fails the
  request succeeds, foreign keys enforced or not, and the user sees the items of that collection.
\<close>

theorem foreign_group_opens_collection:
  assumes "\<And>n. \<not> e_fault env n" and "e_fk env \<longrightarrow> fk_ok (w_db s)"
    and "find (\<lambda>m. me_user_uuid m = uid h \<and> me_org_uuid m = org_id) (t_users_organizations (w_db s)) = Some a"
    and "me_atype a \<le> 1" and "org_id \<in> og_uuid ` set (t_organizations (w_db s))"
    and "m \<in> set (t_users_organizations (w_db s))" and "me_user_uuid m = uid h"
    and "c \<in> co_uuid ` set (t_collections (w_db s))"
    and "x \<in> set (t_ciphers (w_db s))" and "ci_organization_uuid x = Some (me_org_uuid m)"
    and "(ci_uuid x, c) \<in> set (t_ciphers_collections (w_db s))"
    and "opens body (me_uuid m) c" and "run_state (post_group env h org_id body) s = (resp, s')"
  shows "resp_status resp = 200 \<and>
    (\<exists>xs. fst (run_state (cipher_find_visible_to_user env (uid h)) s') = Inr xs \<and> x \<in> set xs)"
proof -
  have linked: "resp_status resp = 200 \<and> group_linked (me_uuid m) c (w_db s') \<and> same_items (w_db s) (w_db s')"
    by (rule wpD [OF wp_post_group_links [OF assms(1,2,12,3,4,5) _ assms(8)] assms(13)]) (use assms(6) in simp)
  then obtain g cg where "(g, me_uuid m) \<in> set (t_groups_users (w_db s'))" "cg \<in> set (t_collections_groups (w_db s'))"
    "cg_groups_uuid cg = g" "cg_collections_uuid cg = c"
    unfolding group_linked_def by blast
  then have "\<exists>uc. (((((x, Some m), Some (ci_uuid x, c)), uc), Some (g, me_uuid m)), Some cg)
      \<in> set (visible_join (uid h) (w_db s'))"
    using linked assms(6,7,9-11) by (intro visible_through_group) (simp_all add: same_items_def)
  then show ?thesis
    using linked assms(1) by (force simp: cipher_find_visible_to_user_def d1_query_def)
qed

definition sample_group_body :: group_body where
  "sample_group_body = \<lparr>gb_name = ''mine'', gb_access_all = None, gb_external_id = None,
     gb_users = Some [''mb''], gb_collections = Some [''col'']\<rparr>"

theorem foreign_group_opens_collection_witness:
  "\<exists>xs. fst (run_state (cipher_find_visible_to_user sample_env_fk ''bob'')
     (snd (run_state (post_group sample_env_fk (sample_headers ''bob'') ''own'' sample_group_body) sample_group_world)))
     = Inr xs \<and> sample_cipher ''co'' None (Some ''org'') \<in> set xs"
proof -
  have bob: "uid (sample_headers ''bob'') = ''bob''" by (simp add: sample_defs)
  show ?thesis
    by (rule foreign_group_opens_collection [where h = "sample_headers ''bob''" and c = "''col''" and
          m = "sample_membership ''mb'' ''bob'' ''org'' 2 (- 1)" and a = "sample_membership ''mo'' ''bob'' ''own'' 0 2",
          OF _ _ _ _ _ _ _ _ _ _ _ _ surjective_pairing, THEN conjunct2, unfolded bob])
      (simp_all add: opens_def sample_group_body_def sample_group_defs fk_defs refers_def)
qed

end
