(* ===== verification/Sync.thy ===== *)
theory Sync
  imports Accounts Policies Sends Ciphers Folders
begin

text \<open>
  \<open>worker/src/api/sync.rs\<close>: the whole vault of the caller in one answer.  The properties relate the
  answer to the query for visible items, and through it to the handlers that take access away.
\<close>

section \<open>The handler\<close>

text \<open>The profile has the fields of \<open>profile_json\<close> in \<open>accounts.rs\<close>, in the same order.\<close>

definition profile_for_sync :: "user \<Rightarrow> json list \<Rightarrow> bool \<Rightarrow> json" where
  "profile_for_sync u organizations two_factor_enabled = profile_json_with u two_factor_enabled organizations"

definition policy_to_json :: "env \<Rightarrow> org_policy \<Rightarrow> json" where
  "policy_to_json env p = JObj [(''Object'', JStr ''policy''), (''Id'', JStr (op_uuid p)),
     (''OrganizationId'', JStr (op_org_uuid p)), (''Type'', JInt (op_atype p)),
     (''Data'', opt_default JNull (e_json_parse env (op_data p))), (''Enabled'', JBool (op_enabled p = 1))]"

text \<open>The loop over the memberships fills three lists.\<close>

definition sync_memberships ::
  "env \<Rightarrow> membership list \<Rightarrow> user_collection list \<Rightarrow> (json list \<times> json list \<times> json list) act" where
  "sync_memberships env memberships user_acls =
     for_acc memberships ([], [], []) (\<lambda>m (organizations_json, collections_json, policies_json). do {
       found \<leftarrow> organization_find_by_uuid env (me_org_uuid m);
       let org_name = (case found of Inr (Some o') \<Rightarrow> og_name o' | _ \<Rightarrow> ''(unknown)'');
       cs \<leftarrow> unwrap_or [] (collection_find_by_org env (me_org_uuid m));
       ps \<leftarrow> unwrap_or [] (org_policy_find_by_org env (me_org_uuid m));
       return (organizations_json @ [membership_json m org_name],
         collections_json @ map (\<lambda>c. collection_to_json_for c (me_atype m)
           (find (\<lambda>a. uc_collection_uuid a = co_uuid c) user_acls)) cs,
         policies_json @ map (policy_to_json env) ps) })"

text \<open>The loop over the items.\<close>

definition sync_ciphers :: "env \<Rightarrow> cipher list \<Rightarrow> string list \<Rightarrow> string list \<Rightarrow> json list act" where
  "sync_ciphers env ciphers favorite_uuids user_folder_ids =
     for_acc ciphers [] (\<lambda>c ciphers_json. do {
       coll_ids \<leftarrow> cipher_coll_ids env c;
       ids \<leftarrow> folder_cipher_list_by_cipher env (ci_uuid c);
       let folder_id = (case ids of Inr ids \<Rightarrow> find (\<lambda>f. f \<in> set user_folder_ids) ids | Inl _ \<Rightarrow> None);
       j \<leftarrow> cipher_to_json_with_attachments env c (ci_uuid c \<in> set favorite_uuids) coll_ids folder_id;
       return (ciphers_json @ [j]) })"

definition get_sync :: "env \<Rightarrow> headers \<Rightarrow> response act" where
  "get_sync env h = do {
     folders \<leftarrow> unwrap_or [] (folder_find_by_user env (uid h));
     ciphers \<leftarrow> unwrap_or [] (cipher_find_visible_to_user env (uid h));
     favorite_uuids \<leftarrow> unwrap_or [] (favorite_cipher_uuids_for_user env (uid h));
     memberships \<leftarrow> unwrap_or [] (membership_find_by_user env (uid h));
     user_acls \<leftarrow> unwrap_or [] (user_collection_find_by_user env (uid h));
     (organizations_json, collections_json, policies_json) \<leftarrow> sync_memberships env memberships user_acls;
     ciphers_json \<leftarrow> sync_ciphers env ciphers favorite_uuids (map fo_uuid folders);
     sends \<leftarrow> unwrap_or [] (send_find_by_user env (uid h));
     fs \<leftarrow> unwrap_or [] (two_factor_find_by_user env (uid h));
     return (json_response 200 (JObj [(''Object'', JStr ''sync''),
       (''Profile'', profile_for_sync (hd_user h) organizations_json (\<exists>f\<in>set fs. tf_enabled f = 1)),
       (''Folders'', JArr (map folder_to_json folders)), (''Collections'', JArr collections_json),
       (''Policies'', JArr policies_json), (''Ciphers'', JArr ciphers_json),
       (''Domains'', JObj [(''Object'', JStr ''domains''),
         (''EquivalentDomains'', opt_default JNull (e_json_parse env (us_equivalent_domains (hd_user h)))),
         (''GlobalEquivalentDomains'', JArr []),
         (''ExcludedGlobalEquivalentDomains'',
            opt_default (JArr []) (e_json_parse env (us_excluded_globals (hd_user h))))]),
       (''Sends'', JArr (map (send_json env) sends)), (''unofficialServer'', JBool True)])) }"

section \<open>What the answer shows\<close>

text \<open>The member of a JSON answer with that name, when it is a list.\<close>

fun answer_list :: "string \<Rightarrow> response \<Rightarrow> json list" where
  "answer_list k (Response _ (JsonBody (JObj ms))) = (case map_of ms k of Some (JArr xs) \<Rightarrow> xs | _ \<Rightarrow> [])"
| "answer_list k _ = []"

definition shows_item :: "env \<Rightarrow> cipher \<Rightarrow> json \<Rightarrow> bool" where
  "shows_item env c j \<longleftrightarrow> (\<exists>favorite coll_ids folder attachments.
     j = cipher_to_json_inner env c favorite coll_ids folder attachments)"

text \<open>The WHERE clause of the query for the items a user sees.\<close>

definition visible_items :: "string \<Rightarrow> db \<Rightarrow> cipher list" where
  "visible_items u d = remdups (map (\<lambda>(((((c, m), cc), uc), gu), cg). c)
     (filter (\<lambda>(((((c, m), cc), uc), gu), cg).
          opt_is (ci_user_uuid c) u \<or> map_option me_access_all m = Some 1 \<or> uc \<noteq> None \<or> cg \<noteq> None)
        (visible_join u d)))"

lemma wp_find_visible:
  "wp (cipher_find_visible_to_user env u) Q s =
     Q (if e_fault env (w_tick s) then Inl D1Error else Inr (visible_items u (w_db s))) (bump s)"
  by (simp add: cipher_find_visible_to_user_def visible_items_def wp_rules)

lemma wp_for_acc_each:
  assumes "\<And>x b s'. w_db s' = w_db s \<Longrightarrow> wp (f x b) (\<lambda>b' s''. w_db s'' = w_db s \<and> (\<exists>j. b' = b @ [j] \<and> R x j)) s'"
    and "w_db s' = w_db s"
  shows "wp (for_acc xs b f) (\<lambda>b' s''. w_db s'' = w_db s \<and> (\<exists>js. b' = b @ js \<and> list_all2 R xs js)) s'"
  using assms(2)
proof (induction xs arbitrary: b s')
  case (Cons x xs)
  show ?case
    by (simp, rule wp_mono [OF assms(1) [OF Cons.prems]], elim conjE exE, rule wp_mono [OF Cons.IH]) auto
qed simp

lemma wp_sync_ciphers:
  "wp (sync_ciphers env cs favs fos) (\<lambda>js s'. w_db s' = w_db s \<and> list_all2 (shows_item env) cs js) s"
  unfolding sync_ciphers_def
  by (rule wp_mono [OF wp_for_acc_each [where R = "shows_item env", of s]])
    (auto simp: cipher_coll_ids_def cipher_collection_list_by_cipher_def folder_cipher_list_by_cipher_def
      cipher_to_json_with_attachments_def attachment_find_by_cipher_def shows_item_def Let_def wp_rules)

lemma wp_sync_membershipsI:
  assumes "\<And>r s'. w_db s' = w_db s \<Longrightarrow> Q r s'"
  shows "wp (sync_memberships env ms acls) Q s"
proof -
  have "preserves (\<lambda>s'. w_db s' = w_db s) (sync_memberships env ms acls)"
    unfolding sync_memberships_def Let_def split_beta by (intro preserves_rules)
  from preserves_wp [OF this refl] show ?thesis
    by (rule wp_mono) (rule assms)
qed

lemma wp_sync_ciphersI:
  assumes "\<And>js s'. w_db s' = w_db s \<Longrightarrow> list_all2 (shows_item env) cs js \<Longrightarrow> Q js s'"
  shows "wp (sync_ciphers env cs favs fos) Q s"
  by (rule wp_mono [OF wp_sync_ciphers]) (simp add: assms)

lemma wp_get_sync:
  "wp (get_sync env h) (\<lambda>resp s'. resp_status resp = 200 \<and> w_db s' = w_db s \<and>
     list_all2 (shows_item env) (if e_fault env (Suc (w_tick s)) then [] else visible_items (uid h) (w_db s))
       (answer_list ''Ciphers'' resp)) s"
  unfolding get_sync_def folder_find_by_user_def favorite_cipher_uuids_for_user_def membership_find_by_user_def
    user_collection_find_by_user_def send_find_by_user_def two_factor_find_by_user_def
  by (auto simp: wp_rules wp_find_visible split_beta intro!: wp_sync_membershipsI wp_sync_ciphersI)

section \<open>Who sees an item\<close>

text \<open>An access row of a user to a collection shows its items, membership or not.\<close>

lemma visible_through_collection:
  assumes "x \<in> set (t_ciphers d)" "(ci_uuid x, c) \<in> set (t_ciphers_collections d)"
    and "a \<in> set (t_users_collections d)" "uc_user_uuid a = u" "uc_collection_uuid a = c"
  shows "x \<in> set (visible_items u d)"
proof -
  let ?j1 = "left_join (t_ciphers d) (\<lambda>c. filter (\<lambda>m. opt_is (ci_organization_uuid c) (me_org_uuid m) \<and>
      me_user_uuid m = u) (t_users_organizations d))"
  let ?j2 = "left_join ?j1 (\<lambda>(c, m). filter (\<lambda>(ci, co). ci = ci_uuid c) (t_ciphers_collections d))"
  let ?j3 = "left_join ?j2 (\<lambda>((c, m), cc). filter (\<lambda>uc. map_option snd cc = Some (uc_collection_uuid uc) \<and>
      uc_user_uuid uc = u) (t_users_collections d))"
  let ?j4 = "left_join ?j3 (\<lambda>(((c, m), cc), uc). filter (\<lambda>(g, mu). map_option me_uuid m = Some mu) (t_groups_users d))"
  from left_join_total [OF assms(1)] obtain m where "(x, m) \<in> set ?j1" ..
  then have "((x, m), Some (ci_uuid x, c)) \<in> set ?j2"
    by (rule left_join_some) (use assms in simp)
  then have "(((x, m), Some (ci_uuid x, c)), Some a) \<in> set ?j3"
    by (rule left_join_some) (use assms in simp)
  from left_join_total [OF this] obtain gu where "((((x, m), Some (ci_uuid x, c)), Some a), gu) \<in> set ?j4" ..
  from left_join_total [OF this] obtain cg where
    "(((((x, m), Some (ci_uuid x, c)), Some a), gu), cg) \<in> set (visible_join u d)"
    unfolding visible_join_def Let_def ..
  then show ?thesis
    unfolding visible_items_def by force
qed

lemma list_all2_member: "list_all2 R xs ys \<Longrightarrow> x \<in> set xs \<Longrightarrow> \<exists>y\<in>set ys. R x y"
  by (induction rule: list_all2_induct) auto

text \<open>A removal takes the row of the membership and writes to the audit log.\<close>

definition only_removed :: "string \<Rightarrow> db \<Rightarrow> db \<Rightarrow> bool" where
  "only_removed member_id d d' \<longleftrightarrow> (\<exists>es. d' = d\<lparr>t_users_organizations :=
     delete_where (\<lambda>x. me_uuid x = member_id) (t_users_organizations d), t_event := es\<rparr>)"

lemma only_removed_event:
  "d' = d\<lparr>t_users_organizations := delete_where (\<lambda>x. me_uuid x = member_id) (t_users_organizations d), t_event := es\<rparr> \<Longrightarrow>
    only_removed member_id d d'"
  unfolding only_removed_def by (rule exI)

lemma wp_remove_member:
  "wp (remove_member env h org_id member_id)
     (\<lambda>resp s'. resp_status resp = 200 \<longrightarrow> only_removed member_id (w_db s) (w_db s')) s"
  unfolding remove_member_def
proof (rule wp_behind_admin, goal_cases)
  case (2 actor s1)
  show ?case
  proof (rule wp_load_member, goal_cases)
    case (2 m s2)
    have "wp (log_org_event env ORG_USER_REMOVED org_id u (Some v) dt) (\<lambda>_. wp (notify_user env w SYNC_VAULT w)
        (\<lambda>_ s'. only_removed member_id (w_db s) (w_db s'))) s'"
      if "w_db s' = (w_db s)\<lparr>t_users_organizations := delete_where (\<lambda>x. me_uuid x = member_id) (t_users_organizations (w_db s))\<rparr>"
      for s' u v w dt
      by (intro wp_log_eventI wp_notify_userI) (simp add: that only_removed_event)
    then show ?case
      using 2 \<open>w_db s1 = w_db s\<close> by (simp add: membership_delete_def wp_rules)
  qed simp
qed simp

section \<open>Properties\<close>

text \<open>C39.
  A member who is removed keeps reading.  The removal deletes the membership and leaves the access
  rows of the user to collections, and the query for visible items asks for such a row only: after a
  successful removal the user is in the organization no more, and while the database answers the sync
  still shows every item of a collection that the user had been given.
\<close>

theorem removed_member_still_syncs:
  assumes "run_state (remove_member env h org_id (me_uuid m)) s = (resp, t)" and "resp_status resp = 200"
    and "m \<in> set (t_users_organizations (w_db s))" and "me_user_uuid m = uid h'" and "me_org_uuid m = org_id"
    and "distinct (map membership_pair (t_users_organizations (w_db s)))"
    and "a \<in> set (t_users_collections (w_db s))" and "uc_user_uuid a = uid h'"
    and "x \<in> set (t_ciphers (w_db s))" and "(ci_uuid x, uc_collection_uuid a) \<in> set (t_ciphers_collections (w_db s))"
    and "\<And>n. \<not> e_fault env n" and "run_state (get_sync env h') t = (resp', t')"
  shows "no_member (w_db t) h' org_id \<and> (\<exists>j\<in>set (answer_list ''Ciphers'' resp'). shows_item env x j)"
proof -
  have "only_removed (me_uuid m) (w_db s) (w_db t)"
    using wpD [OF wp_remove_member assms(1)] assms(2) by simp
  then obtain es where db: "w_db t = (w_db s)\<lparr>t_users_organizations :=
      delete_where (\<lambda>x. me_uuid x = me_uuid m) (t_users_organizations (w_db s)), t_event := es\<rparr>"
    unfolding only_removed_def ..
  have "y = m" if "y \<in> set (t_users_organizations (w_db s))" "me_user_uuid y = uid h'" "me_org_uuid y = org_id" for y
    using inj_onD [of membership_pair "set (t_users_organizations (w_db s))" y m] assms(3-6) that by (simp add: distinct_map membership_pair_def)
  then have gone: "no_member (w_db t) h' org_id"
    by (auto simp: no_member_def db)
  have "x \<in> set (visible_items (uid h') (w_db t))"
    using assms(7-10) by (intro visible_through_collection [where a = a]) (simp_all add: db)
  moreover have "list_all2 (shows_item env) (visible_items (uid h') (w_db t)) (answer_list ''Ciphers'' resp')"
    using wpD [OF wp_get_sync assms(12)] assms(11) by simp
  ultimately show ?thesis
    using gone by (simp add: list_all2_member)
qed

text \<open>Bob is a plain member with an access row to the collection; Alice, an owner, removes that member.\<close>

definition sample_removal_world :: world where
  "sample_removal_world = sample_world (sample_db\<lparr>t_collections := [sample_collection],
     t_ciphers_collections := [(''co'', ''col'')],
     t_users_collections := [user_collection_new ''bob'' ''col'' True False False],
     t_users_organizations := [sample_membership ''ma'' ''alice'' ''org'' 0 2, sample_membership ''mb'' ''bob'' ''org'' 2 2]\<rparr>)"

theorem removed_member_still_syncs_witness:
  "\<exists>j\<in>set (answer_list ''Ciphers'' (fst (run_state (get_sync sample_env_fk (sample_headers ''bob''))
     (snd (run_state (remove_member sample_env_fk (sample_headers ''alice'') ''org'' ''mb'') sample_removal_world))))).
     shows_item sample_env_fk (sample_cipher ''co'' None (Some ''org'')) j"
proof -
  let ?m = "sample_membership ''mb'' ''bob'' ''org'' 2 2"
  have "wp (remove_member sample_env_fk (sample_headers ''alice'') ''org'' (me_uuid ?m)) (\<lambda>resp _. resp_status resp = 200)
      sample_removal_world"
    by (simp add: remove_member_def require_org_admin_def require_membership_def membership_find_by_user_and_org_def
        load_member_def membership_find_by_uuid_def membership_delete_def membership_find_by_org_def eval_simps
        sample_removal_world_def sample_collection_def user_collection_new_def fk_defs refers_def)
  then have "resp_status (fst (run_state (remove_member sample_env_fk (sample_headers ''alice'') ''org'' (me_uuid ?m))
      sample_removal_world)) = 200"
    by (rule wp_run)
  note removed = this
  have mb: "me_uuid ?m = ''mb''" by (simp add: sample_membership_def)
  let ?a = "user_collection_new ''bob'' ''col'' True False False" and ?c = "sample_cipher ''co'' None (Some ''org'')"
  have world: "?m \<in> set (t_users_organizations (w_db sample_removal_world))"
    "distinct (map membership_pair (t_users_organizations (w_db sample_removal_world)))"
    "?a \<in> set (t_users_collections (w_db sample_removal_world))" "?c \<in> set (t_ciphers (w_db sample_removal_world))"
    "(ci_uuid ?c, uc_collection_uuid ?a) \<in> set (t_ciphers_collections (w_db sample_removal_world))"
    by (simp_all add: sample_removal_world_def membership_pair_def user_collection_new_def sample_defs)
  have bob: "me_user_uuid ?m = uid (sample_headers ''bob'')" "me_org_uuid ?m = ''org''"
    "uc_user_uuid ?a = uid (sample_headers ''bob'')" "\<And>n. \<not> e_fault sample_env_fk n"
    by (simp_all add: user_collection_new_def sample_defs)
  from removed_member_still_syncs [OF surjective_pairing removed world(1) bob(1,2) world(2,3) bob(3) world(4,5) bob(4)
      surjective_pairing, unfolded mb]
  show ?thesis by (rule conjunct2)
qed

end
