(* ===== verification/Event_Log.thy ===== *)
theory Event_Log
  imports Organizations
begin

text \<open>
  The endpoints of \<open>worker/src/api/events.rs\<close>: the audit log of an organization, of an item and of a
  member, and the events that clients report.  The functions of the same file that the other handlers
  call are in the theory \<open>Notify_Events\<close>.
\<close>

section \<open>Reading the log\<close>

definition event_json :: "event \<Rightarrow> json" where
  "event_json e = JObj [(''Object'', JStr ''event''), (''Type'', JInt (ev_event_type e)),
     (''UserId'', jopt (ev_user_uuid e)), (''OrganizationId'', jopt (ev_org_uuid e)),
     (''CipherId'', jopt (ev_cipher_uuid e)), (''CollectionId'', jopt (ev_collection_uuid e)),
     (''GroupId'', jopt (ev_group_uuid e)), (''OrganizationUserId'', jopt (ev_org_user_uuid e)),
     (''ActingUserId'', jopt (ev_act_user_uuid e)), (''DeviceType'', jopt_int (ev_device_type e)),
     (''IpAddress'', jopt (ev_ip_address e)), (''Date'', JStr (ev_event_date e)),
     (''PolicyId'', jopt (ev_policy_uuid e)), (''ProviderId'', jopt (ev_provider_uuid e))]"

abbreviation event_list :: "event list \<Rightarrow> response" where
  "event_list events \<equiv> json_response 200 (json_list (map event_json events))"

text \<open>The start and the end that the query gives; one reading of the clock serves both defaults.\<close>

definition default_event_range :: "env \<Rightarrow> string option \<Rightarrow> string option \<Rightarrow> (string \<times> string) act" where
  "default_event_range env start end = do {
     now \<leftarrow> utc_now env;
     return (opt_default (e_ago env now (30 * 86400)) start, opt_default (e_now env now) end) }"

definition org_events :: "env \<Rightarrow> headers \<Rightarrow> string \<Rightarrow> string option \<Rightarrow> string option \<Rightarrow> response act" where
  "org_events env h org_id start end = do {
     found \<leftarrow> unwrap_or None (membership_find_by_user_and_org env (uid h) org_id);
     if found = None then return (err_json 404 ''Organization not found'')
     else do {
       (start, end) \<leftarrow> default_event_range env start end;
       events \<leftarrow> unwrap_or [] (event_find_by_org_in_range env org_id start end);
       return (event_list events) } }"

definition cipher_events :: "env \<Rightarrow> headers \<Rightarrow> string \<Rightarrow> string option \<Rightarrow> string option \<Rightarrow> response act" where
  "cipher_events env h cipher_id start end = do {
     found \<leftarrow> unwrap_or None (cipher_find_by_uuid env cipher_id);
     case found of
       None \<Rightarrow> return (err_json 404 ''Cipher not found'')
     | Some cipher \<Rightarrow> do {
         visible \<leftarrow> (case ci_user_uuid cipher of
             Some owner \<Rightarrow> return (owner = uid h)
           | None \<Rightarrow> (case ci_organization_uuid cipher of
               Some org \<Rightarrow> do {
                 m \<leftarrow> unwrap_or None (membership_find_by_user_and_org env (uid h) org);
                 return (m \<noteq> None) }
             | None \<Rightarrow> return False));
         if \<not> visible then return (err_json 404 ''Cipher not found'')
         else do {
           (start, end) \<leftarrow> default_event_range env start end;
           events \<leftarrow> unwrap_or [] (event_find_by_cipher_in_range env cipher_id start end);
           return (event_list events) } } }"

definition member_events ::
  "env \<Rightarrow> headers \<Rightarrow> string \<Rightarrow> string \<Rightarrow> string option \<Rightarrow> string option \<Rightarrow> response act" where
  "member_events env h org_id member_id start end = do {
     found \<leftarrow> unwrap_or None (membership_find_by_user_and_org env (uid h) org_id);
     if found = None then return (err_json 404 ''Organization not found'')
     else try_ret (load_member env ''Membership not found'' org_id member_id) (\<lambda>e. e) (\<lambda>target. do {
       (start, end) \<leftarrow> default_event_range env start end;
       events \<leftarrow> unwrap_or [] (event_find_by_user_in_range env (me_user_uuid target) start end);
       return (event_list events) }) }"

section \<open>Events from clients\<close>

record collect_event =
  ce_atype :: int
  ce_cipher_id :: "string option"
  ce_org_id :: "string option"
  ce_date :: "string option"

definition collect_events :: "env \<Rightarrow> headers \<Rightarrow> collect_event list \<Rightarrow> response act" where
  "collect_events env h events = do {
     _ \<leftarrow> for_each events (\<lambda>ce. do {
       e \<leftarrow> event_new env (ce_atype ce);
       let e = e\<lparr>ev_user_uuid := Some (uid h), ev_act_user_uuid := Some (uid h),
         ev_cipher_uuid := ce_cipher_id ce, ev_org_uuid := ce_org_id ce, ev_device_type := Some (dev_type h)\<rparr>;
       let e = (case ce_date ce of Some d \<Rightarrow> e\<lparr>ev_event_date := d\<rparr> | None \<Rightarrow> e);
       ignore (event_save env e) });
     return (json_response 200 (JObj [])) }"

section \<open>Who reads and who writes\<close>

lemma wp_event_rangeI:
  assumes "\<And>r s'. w_db s' = w_db s \<Longrightarrow> Q r s'"
  shows "wp (default_event_range env start end) Q s"
  using assms by (simp add: default_event_range_def wp_rules)

text \<open>
  A log answer of an organization is for a user with a row in its list of members, and holds
  events of that organization only, at most a thousand.
\<close>

theorem org_events_sound:
  assumes "run_state (org_events env h org_id start end) s = (resp, s')" and "resp_status resp = 200"
  shows "\<not> no_member (w_db s) h org_id \<and> w_db s' = w_db s \<and>
    (\<exists>es. resp = event_list es \<and> length es \<le> 1000 \<and>
       (\<forall>e\<in>set es. e \<in> set (t_event (w_db s)) \<and> ev_org_uuid e = Some org_id))"
proof -
  have page: "set (take 1000 (by_date_desc (filter P es))) \<subseteq> {e \<in> set es. P e}" for P es
    using set_take_subset [of 1000 "by_date_desc (filter P es)"] by (auto simp: by_date_desc_def)
  define ok where "ok = (\<lambda>resp. \<exists>es. resp = event_list es \<and> length es \<le> 1000 \<and>
      (\<forall>e\<in>set es. e \<in> set (t_event (w_db s)) \<and> ev_org_uuid e = Some org_id))"
  have empty: "ok (event_list [])" unfolding ok_def by (rule exI [of _ "[]"]) simp
  have full: "ok (event_list (take 1000 (by_date_desc (filter (\<lambda>e. opt_is (ev_org_uuid e) org_id \<and> in_range a b e)
      (t_event (w_db s))))))" for a b
    unfolding ok_def using page [of "\<lambda>e. opt_is (ev_org_uuid e) org_id \<and> in_range a b e" "t_event (w_db s)"]
    by (intro exI conjI refl) (auto simp: opt_is_def)
  have "wp (org_events env h org_id start end) (\<lambda>resp s'. resp_status resp = 200 \<longrightarrow>
      \<not> no_member (w_db s) h org_id \<and> w_db s' = w_db s \<and> ok resp) s"
    using empty full
    by (auto simp: org_events_def membership_find_by_user_and_org_def event_find_by_org_in_range_def wp_rules
        no_member_def split_beta dest!: find_SomeD intro!: wp_event_rangeI)
  from wpD [OF this assms(1)] assms(2) show ?thesis by (simp add: ok_def)
qed

text \<open>
  A client cannot report for someone else: every row that the endpoint adds or changes names the
  caller as the user and as the acting user.  The organization of the event is what the client says.
\<close>

theorem collected_events_name_caller:
  assumes "run_state (collect_events env h events) s = (resp, s')" and "e \<in> set (t_event (w_db s'))"
  shows "e \<in> set (t_event (w_db s)) \<or> (ev_user_uuid e = Some (uid h) \<and> ev_act_user_uuid e = Some (uid h))"
proof -
  define ok where "ok = (\<lambda>e. e \<in> set (t_event (w_db s)) \<or>
      (ev_user_uuid e = Some (uid h) \<and> ev_act_user_uuid e = Some (uid h)))"
  have mine: "ok e" if "ev_user_uuid e = Some (uid h)" "ev_act_user_uuid e = Some (uid h)" for e
    using that by (simp add: ok_def)
  have save: "wp (event_save env e) (\<lambda>_ s'. \<forall>e\<in>set (t_event (w_db s')). ok e) t"
    if "\<forall>e\<in>set (t_event (w_db t)). ok e" "ok e" for e t
    using that by (auto simp: event_save_def wp_rules set_upsert event_conflict_def)
  have start: "\<forall>e\<in>set (t_event (w_db s)). ok e" by (simp add: ok_def)
  have "wp (collect_events env h events) (\<lambda>_ s'. \<forall>e\<in>set (t_event (w_db s')). ok e) s"
    unfolding collect_events_def wp_bind wp_return
    by (rule wp_for_each_invariant [where I = "\<lambda>s. \<forall>e\<in>set (t_event (w_db s)). ok e", OF start])
      (auto simp: event_new_def Let_def wp_rules mine intro!: save split: option.splits)
  from wpD [OF this assms(1)] assms(2) show ?thesis by (simp add: ok_def)
qed

end
