(* ===== verification/Admin.thy ===== *)
theory Admin
  imports Accounts
begin

text \<open>
  The admin panel of \<open>worker/src/api/admin.rs\<close>: every handler that changes the tables, the buckets or the
  configuration or sends mail, and the JSON handlers for the configuration and for one user; and the
  handlers of \<open>worker/src/api/meta.rs\<close> that change something: account keys, equivalent domains and the
  directory import.  The pages of the panel, its login and logout, the listings of all users and
  organizations and the test of the outgoing connection are not here; a session of the panel is the
  cookie that a request brings.
\<close>

section \<open>The guard of the panel\<close>

abbreviation COOKIE_NAME :: string where "COOKIE_NAME \<equiv> ''VW_ADMIN_SESSION''"

definition ok_admin :: "env \<Rightarrow> string option \<Rightarrow> bool" where
  "ok_admin env cookie =
     (case e_vars env ''ADMIN_TOKEN'' of
        None \<Rightarrow> False
      | Some admin_token \<Rightarrow> admin_token \<noteq> [] \<and>
          (\<exists>c\<in>set (map trim (split_on '';'' [] (opt_default [] cookie))).
             strip_prefix (COOKIE_NAME @ ''='') c = Some admin_token))"

definition error_resp :: "nat \<Rightarrow> string \<Rightarrow> response" where
  "error_resp code msg = json_response code (JObj [(''Message'', JStr msg), (''Object'', JStr ''error'')])"

definition as_admin :: "env \<Rightarrow> string option \<Rightarrow> response act \<Rightarrow> response act" where
  "as_admin env cookie k = (if \<not> ok_admin env cookie then return (error_resp 401 ''auth required'') else k)"

section \<open>Users\<close>

definition admin_load_user :: "env \<Rightarrow> string \<Rightarrow> (world, response + user) state" where
  "admin_load_user env user_id =
     try_ret (user_find_by_uuid env user_id) (\<lambda>_. Inl (error_resp 500 ''db error'')) (\<lambda>found.
     return (case found of None \<Rightarrow> Inl (error_resp 404 ''User not found'') | Some u \<Rightarrow> Inr u))"

definition admin_disable_user :: "env \<Rightarrow> string option \<Rightarrow> string \<Rightarrow> response act" where
  "admin_disable_user env cookie user_id = as_admin env cookie (
     try_ret (admin_load_user env user_id) (\<lambda>e. e) (\<lambda>user. do {
       stamp \<leftarrow> new_uuid env;
       try_ret (user_save env (user\<lparr>us_enabled := 0, us_security_stamp := stamp\<rparr>))
         (\<lambda>_. error_resp 500 ''save failed'') (\<lambda>user. do {
         _ \<leftarrow> notify_user env (us_uuid user) LOG_OUT (us_uuid user);
         return (json_response 200 (JObj [(''Object'', JStr ''user''), (''Id'', JStr (us_uuid user)),
           (''Enabled'', JBool False)])) }) }))"

definition admin_enable_user :: "env \<Rightarrow> string option \<Rightarrow> string \<Rightarrow> response act" where
  "admin_enable_user env cookie user_id = as_admin env cookie (
     try_ret (admin_load_user env user_id) (\<lambda>e. e) (\<lambda>user.
     try_ret (user_save env (user\<lparr>us_enabled := 1\<rparr>)) (\<lambda>_. error_resp 500 ''save failed'') (\<lambda>user.
     return (json_response 200 (JObj [(''Object'', JStr ''user''), (''Id'', JStr (us_uuid user)),
       (''Enabled'', JBool True)])))))"

text \<open>\<open>run_sql\<close> with its result dropped, as every caller does.\<close>

definition run_sql :: "env \<Rightarrow> (db \<Rightarrow> db) \<Rightarrow> unit act" where
  "run_sql env f = ignore (d1_exec env (\<lambda>d. Some (f d)))"

definition admin_deauth_user :: "env \<Rightarrow> string option \<Rightarrow> string \<Rightarrow> response act" where
  "admin_deauth_user env cookie user_id = as_admin env cookie (
     try_ret (admin_load_user env user_id) (\<lambda>e. e) (\<lambda>user. do {
       stamp \<leftarrow> new_uuid env;
       try_ret (user_save env (user\<lparr>us_security_stamp := stamp\<rparr>)) (\<lambda>_. error_resp 500 ''save failed'') (\<lambda>user. do {
         _ \<leftarrow> run_sql env (\<lambda>d. d\<lparr>t_devices := delete_where (\<lambda>x. de_user_uuid x = us_uuid user) (t_devices d)\<rparr>);
         _ \<leftarrow> notify_user env (us_uuid user) LOG_OUT (us_uuid user);
         return (json_response 200 (JObj [(''Object'', JStr ''user''), (''Id'', JStr (us_uuid user))])) }) }))"

definition admin_remove_2fa :: "env \<Rightarrow> string option \<Rightarrow> string \<Rightarrow> response act" where
  "admin_remove_2fa env cookie user_id = as_admin env cookie (do {
     _ \<leftarrow> run_sql env (\<lambda>d. d\<lparr>t_twofactor := delete_where (\<lambda>x. tf_user_uuid x = user_id) (t_twofactor d)\<rparr>);
     _ \<leftarrow> notify_user env user_id LOG_OUT user_id;
     _ \<leftarrow> log_user_event env USER_DISABLED_2FA user_id 14;
     return (json_response 200 (JObj [(''Object'', JStr ''user''), (''Id'', JStr user_id)])) })"

text \<open>The files and the statements are those of \<open>delete_account\<close>; here a statement that fails is passed over.\<close>

definition admin_delete_user :: "env \<Rightarrow> string option \<Rightarrow> string \<Rightarrow> response act" where
  "admin_delete_user env cookie user_id = as_admin env cookie (do {
     _ \<leftarrow> drop_user_files env user_id;
     _ \<leftarrow> for_each (account_deletes env user_id) (run_sql env);
     _ \<leftarrow> notify_user env user_id LOG_OUT user_id;
     return (json_response 200 (JObj [(''Object'', JStr ''user''), (''Id'', JStr user_id),
       (''Deleted'', JBool True)])) })"

definition admin_delete_org :: "env \<Rightarrow> string option \<Rightarrow> string \<Rightarrow> response act" where
  "admin_delete_org env cookie org_id = as_admin env cookie (do {
     members \<leftarrow> unwrap_or [] (membership_find_by_org env org_id);
     r \<leftarrow> d1_query env (\<lambda>d. concat (map (\<lambda>a. map (\<lambda>c. (at_cipher_uuid a, at_id a))
            (filter (\<lambda>c. ci_uuid c = at_cipher_uuid a \<and> ci_organization_uuid c = Some org_id) (t_ciphers d)))
            (t_attachments d)));
     _ \<leftarrow> (case r of
         Inr rows \<Rightarrow> for_each rows (\<lambda>(c, a). ignore (r2_delete_attachment env (c @ ''/'' @ a)))
       | Inl _ \<Rightarrow> return ());
     let of_org = (\<lambda>d u. \<exists>c\<in>set (t_collections d). co_org_uuid c = org_id \<and> co_uuid c = u);
     _ \<leftarrow> for_each [
         (\<lambda>d. d\<lparr>t_ciphers_collections := delete_where (\<lambda>(_, u). of_org d u) (t_ciphers_collections d)\<rparr>),
         (\<lambda>d. d\<lparr>t_users_collections :=
            delete_where (\<lambda>x. of_org d (uc_collection_uuid x)) (t_users_collections d)\<rparr>),
         (\<lambda>d. d\<lparr>t_collections_groups :=
            delete_where (\<lambda>x. of_org d (cg_collections_uuid x)) (t_collections_groups d)\<rparr>),
         (\<lambda>d. d\<lparr>t_collections := delete_where (\<lambda>c. co_org_uuid c = org_id) (t_collections d)\<rparr>),
         (\<lambda>d. d\<lparr>t_groups_users := delete_where (\<lambda>(g, _). \<exists>x\<in>set (t_groups d).
            gr_organizations_uuid x = org_id \<and> gr_uuid x = g) (t_groups_users d)\<rparr>),
         (\<lambda>d. d\<lparr>t_groups := delete_where (\<lambda>g. gr_organizations_uuid g = org_id) (t_groups d)\<rparr>),
         delete_ciphers env (\<lambda>c. ci_organization_uuid c = Some org_id),
         (\<lambda>d. d\<lparr>t_users_organizations :=
            delete_where (\<lambda>m. me_org_uuid m = org_id) (t_users_organizations d)\<rparr>),
         (\<lambda>d. d\<lparr>t_org_policies := delete_where (\<lambda>p. op_org_uuid p = org_id) (t_org_policies d)\<rparr>),
         (\<lambda>d. d\<lparr>t_organization_api_key :=
            delete_where (\<lambda>k. ok_org_uuid k = org_id) (t_organization_api_key d)\<rparr>),
         (\<lambda>d. d\<lparr>t_organizations := delete_where (\<lambda>x. og_uuid x = org_id) (t_organizations d)\<rparr>)] (run_sql env);
     _ \<leftarrow> for_each (map me_user_uuid members) (\<lambda>u. notify_user env u SYNC_VAULT u);
     return (json_response 200 (JObj [(''Object'', JStr ''organization''), (''Id'', JStr org_id),
       (''Deleted'', JBool True)])) })"

definition admin_invite_resend :: "env \<Rightarrow> string option \<Rightarrow> string \<Rightarrow> response act" where
  "admin_invite_resend env cookie user_id = as_admin env cookie (do {
     found \<leftarrow> user_find_by_uuid env user_id;
     case found of
       Inr (Some user) \<Rightarrow> do {
         ok \<leftarrow> ratelimit_check env EMAIL_SEND_LIMIT (us_email user);
         if \<not> ok then return (error_resp 429 ''Too many reminders sent to that user'')
         else do {
           _ \<leftarrow> ea_mail env (us_email user) ''Vaultwarden invitation reminder''
                  (''An admin has re-sent your invitation. Sign in at '' @ env_var_or_empty env ''DOMAIN''
                   @ '' to set your master password.'');
           return (json_response 200 (JObj [])) } }
     | _ \<Rightarrow> return (error_resp 404 ''user not found'') })"

definition admin_unlink_sso :: "env \<Rightarrow> string option \<Rightarrow> string \<Rightarrow> response act" where
  "admin_unlink_sso env cookie user_id = as_admin env cookie (do {
     _ \<leftarrow> run_sql env (\<lambda>d. d\<lparr>t_sso_users := delete_where (\<lambda>x. su_user_uuid x = user_id) (t_sso_users d)\<rparr>);
     _ \<leftarrow> log_user_event env ORG_USER_UNLINKED_SSO user_id 14;
     return (json_response 200 (JObj [(''Object'', JStr ''user''), (''Id'', JStr user_id)])) })"

definition admin_update_revision :: "env \<Rightarrow> string option \<Rightarrow> response act" where
  "admin_update_revision env cookie = as_admin env cookie (do {
     now \<leftarrow> now_iso env;
     _ \<leftarrow> run_sql env (\<lambda>d. d\<lparr>t_users := map (\<lambda>u. u\<lparr>us_updated_at := now\<rparr>) (t_users d)\<rparr>);
     return (json_response 200 (JObj [])) })"

definition admin_invite_user :: "env \<Rightarrow> string option \<Rightarrow> string \<Rightarrow> response act" where
  "admin_invite_user env cookie email = as_admin env cookie (
     let email = to_lowercase (trim email) in
     if email = [] then return (error_resp 400 ''email is required'')
     else do {
       ok \<leftarrow> ratelimit_check env EMAIL_SEND_LIMIT email;
       if \<not> ok then return (error_resp 429 ''Too many invitations to that email'')
       else do {
         found \<leftarrow> user_find_by_email env email;
         case found of
           Inr (Some _) \<Rightarrow> return (error_resp 400 ''user already exists'')
         | _ \<Rightarrow> do {
             u \<leftarrow> user_new env email None;
             try_ret (user_save env (u\<lparr>us_enabled := 1\<rparr>)) (\<lambda>_. error_resp 500 ''save failed'') (\<lambda>u. do {
               _ \<leftarrow> ea_mail env email (''You'' @ [CHR 0x27] @ ''ve been invited to Vaultwarden'')
                      (''An admin has provisioned an account for you. Sign in at ''
                       @ env_var_or_empty env ''DOMAIN'' @ '' to set your master password.'');
               return (json_response 200 (JObj [(''Object'', JStr ''user''), (''Id'', JStr (us_uuid u)),
                 (''Email'', JStr email)])) }) } } })"

definition admin_set_org_type :: "env \<Rightarrow> string option \<Rightarrow> string \<Rightarrow> string \<Rightarrow> int \<Rightarrow> response act" where
  "admin_set_org_type env cookie user_id org_id user_type = as_admin env cookie (do {
     found \<leftarrow> membership_find_by_user_and_org env user_id org_id;
     case found of
       Inr (Some m) \<Rightarrow>
         try_ret (membership_save env (m\<lparr>me_atype := user_type\<rparr>)) (\<lambda>_. error_resp 500 ''save failed'') (\<lambda>_. do {
           _ \<leftarrow> log_org_event env ORG_USER_UPDATED org_id user_id (Some (me_uuid m)) 14;
           _ \<leftarrow> notify_user env user_id SYNC_VAULT user_id;
           return (json_response 200 (JObj [(''Object'', JStr ''user''), (''Id'', JStr user_id),
             (''Type'', JInt user_type)])) })
     | _ \<Rightarrow> return (error_resp 404 ''membership not found'') })"

text \<open>The text of the error is that of the mail transport.\<close>

definition admin_test_smtp :: "env \<Rightarrow> string \<Rightarrow> string option \<Rightarrow> string \<Rightarrow> response act" where
  "admin_test_smtp env mail_error cookie email = as_admin env cookie (
     let to = trim email in
     if to = [] then return (error_resp 400 ''email is required'')
     else do {
       ok \<leftarrow> ratelimit_check env EMAIL_SEND_LIMIT to;
       if \<not> ok then return (error_resp 429 ''Too many test messages'')
       else try_ret (mail_send env \<lparr>mm_from_email = fst (e_mail_from env), mm_from_name = snd (e_mail_from env),
           mm_to = to, mm_subject = ''Vaultwarden test message'',
           mm_text = ''If you got this, your mail provider is working.'', mm_html = None\<rparr>)
         (\<lambda>_. error_resp 500 mail_error) (\<lambda>_. return (json_response 200 (JObj []))) })"

section \<open>The account of the caller\<close>

abbreviation message :: "nat \<Rightarrow> string \<Rightarrow> response" where
  "message code msg \<equiv> json_response code (JObj [(''Message'', JStr msg)])"

definition rotate_security_stamp :: "env \<Rightarrow> headers \<Rightarrow> response act" where
  "rotate_security_stamp env h = do {
     stamp \<leftarrow> new_uuid env;
     try_ret (user_save env ((hd_user h)\<lparr>us_security_stamp := stamp\<rparr>)) (\<lambda>_. message 500 ''save failed'') (\<lambda>user. do {
       _ \<leftarrow> notify_user env (us_uuid user) LOG_OUT (us_uuid user);
       _ \<leftarrow> log_user_event env USER_CHANGED_PASSWORD (us_uuid user) (dev_type h);
       return (json_response 200 (JObj [])) }) }"

definition set_account_keys :: "env \<Rightarrow> headers \<Rightarrow> string \<Rightarrow> string \<Rightarrow> response act" where
  "set_account_keys env h public_key encrypted_private_key =
     try_ret (user_save env ((hd_user h)\<lparr>us_public_key := Some public_key,
         us_private_key := Some encrypted_private_key\<rparr>)) (\<lambda>_. message 500 ''save failed'') (\<lambda>user.
     return (json_response 200 (JObj [(''Object'', JStr ''keys''), (''PublicKey'', jopt (us_public_key user)),
       (''PrivateKey'', jopt (us_private_key user))])))"

definition domains_json :: "env \<Rightarrow> user \<Rightarrow> json" where
  "domains_json env u = JObj [(''Object'', JStr ''domains''),
     (''EquivalentDomains'', opt_default (JArr []) (e_json_parse env (us_equivalent_domains u))),
     (''GlobalEquivalentDomains'', JArr []),
     (''ExcludedGlobalEquivalentDomains'', opt_default (JArr []) (e_json_parse env (us_excluded_globals u)))]"

definition settings_domains :: "env \<Rightarrow> headers \<Rightarrow> response act" where
  "settings_domains env h = return (json_response 200 (domains_json env (hd_user h)))"

definition settings_domains_save :: "env \<Rightarrow> headers \<Rightarrow> json option \<Rightarrow> json option \<Rightarrow> response act" where
  "settings_domains_save env h equivalent_domains excluded = do {
     let user = hd_user h;
     let user = (case equivalent_domains of Some eq \<Rightarrow> user\<lparr>us_equivalent_domains := e_json_print env eq\<rparr> | None \<Rightarrow> user);
     let user = (case excluded of Some excl \<Rightarrow> user\<lparr>us_excluded_globals := e_json_print env excl\<rparr> | None \<Rightarrow> user);
     try_ret (user_save env user) (\<lambda>_. message 500 ''save failed'') (\<lambda>user.
       return (json_response 200 (domains_json env user))) }"

record rotate_keys_body =
  rk_master_password_hash :: "string option"
  rk_key :: "string option"
  rk_keys :: "(string \<times> string) option"
  rk_folders :: "(string \<times> string) list option"
  rk_ciphers :: "(string \<times> string) list option"
  rk_sends :: "(string \<times> string) list option"

text \<open>The new keys of the items, once the user is stored; an entry for an item of someone else is passed over.\<close>

definition rekey_items :: "env \<Rightarrow> string \<Rightarrow> rotate_keys_body \<Rightarrow> unit act" where
  "rekey_items env u body = do {
     _ \<leftarrow> if_some (rk_folders body) (\<lambda>fs. for_each fs (\<lambda>(i, _). do {
       found \<leftarrow> folder_find_by_uuid env i;
       case found of
         Inr (Some f) \<Rightarrow> if fo_user_uuid f = u then ignore (folder_save env f) else return ()
       | _ \<Rightarrow> return () }));
     _ \<leftarrow> if_some (rk_ciphers body) (\<lambda>cs. for_each cs (\<lambda>(i, key). do {
       found \<leftarrow> cipher_find_by_uuid env i;
       case found of
         Inr (Some c) \<Rightarrow> if ci_user_uuid c = Some u then ignore (cipher_save env (c\<lparr>ci_key := Some key\<rparr>)) else return ()
       | _ \<Rightarrow> return () }));
     if_some (rk_sends body) (\<lambda>ss. for_each ss (\<lambda>(i, key). do {
       found \<leftarrow> send_find_by_uuid env i;
       case found of
         Inr (Some x) \<Rightarrow> if se_user_uuid x = Some u then ignore (send_save env (x\<lparr>se_akey := key\<rparr>)) else return ()
       | _ \<Rightarrow> return () })) }"

definition rotate_user_account_keys :: "env \<Rightarrow> headers \<Rightarrow> rotate_keys_body \<Rightarrow> response act" where
  "rotate_user_account_keys env h body =
     (case (case non_empty (rk_master_password_hash body) of
              None \<Rightarrow> Some True
            | Some pw \<Rightarrow> check_valid_password env (hd_user h) pw) of
        None \<Rightarrow> return panicked
      | Some False \<Rightarrow> return (message 401 ''Invalid password'')
      | Some True \<Rightarrow> do {
          let user = hd_user h;
          let user = (case rk_key body of Some k \<Rightarrow> user\<lparr>us_akey := k\<rparr> | None \<Rightarrow> user);
          let user = (case rk_keys body of
              Some (pub, priv) \<Rightarrow> user\<lparr>us_public_key := Some pub, us_private_key := Some priv\<rparr>
            | None \<Rightarrow> user);
          stamp \<leftarrow> new_uuid env;
          try_ret (user_save env (user\<lparr>us_security_stamp := stamp\<rparr>)) (\<lambda>_. message 500 ''save failed'') (\<lambda>user. do {
            _ \<leftarrow> rekey_items env (us_uuid user) body;
            _ \<leftarrow> log_user_event env USER_CHANGED_PASSWORD (us_uuid user) (dev_type h);
            _ \<leftarrow> notify_user env (us_uuid user) LOG_OUT (us_uuid user);
            return (json_response 200 JNull) }) })"

section \<open>Directory import and test mail\<close>

definition require_public_org :: "env \<Rightarrow> string option \<Rightarrow> (world, response + string) state" where
  "require_public_org env auth_header =
     (case Option.bind auth_header bearer_token of
        None \<Rightarrow> return (Inl (message 401 ''missing Bearer token''))
      | Some token \<Rightarrow>
          if token = [] then return (Inl (message 401 ''empty token''))
          else do {
            rows \<leftarrow> unwrap_or [] (d1_query env (\<lambda>d. filter (\<lambda>k. ok_atype k = 0) (t_organization_api_key d)));
            return (case find (\<lambda>k. ok_api_key k = token) rows of
                Some k \<Rightarrow> Inr (ok_org_uuid k)
              | None \<Rightarrow> Inl (message 401 ''invalid org token'')) })"

record import_member =
  im_email :: string
  im_external_id :: "string option"
  im_deleted :: bool

text \<open>One member of the import, with the numbers of the invited and the removed so far.\<close>

definition import_one :: "env \<Rightarrow> string \<Rightarrow> import_member \<Rightarrow> nat \<times> nat \<Rightarrow> (nat \<times> nat) act" where
  "import_one env org_id member = (\<lambda>(invited, removed).
     let email = to_lowercase (trim (im_email member)) in
     if email = [] then return (invited, removed)
     else if im_deleted member then do {
       found \<leftarrow> user_find_by_email env email;
       case found of
         Inr (Some user) \<Rightarrow> do {
           r \<leftarrow> membership_find_by_user_and_org env (us_uuid user) org_id;
           case r of
             Inr (Some m) \<Rightarrow> try_ret (membership_delete env m) (\<lambda>_. (invited, removed)) (\<lambda>_.
               return (invited, Suc removed))
           | _ \<Rightarrow> return (invited, removed) }
       | _ \<Rightarrow> return (invited, removed) }
     else do {
       found \<leftarrow> user_find_by_email env email;
       try_ret (case found of
           Inr (Some u) \<Rightarrow> return (Inr u)
         | _ \<Rightarrow> do {
             u \<leftarrow> user_new env email None;
             user_save env (u\<lparr>us_enabled := 1, us_external_id := im_external_id member\<rparr>) })
         (\<lambda>_. (invited, removed)) (\<lambda>invitee. do {
         old \<leftarrow> unwrap_or None (membership_find_by_user_and_org env (us_uuid invitee) org_id);
         if old \<noteq> None then return (invited, removed)
         else do {
           m \<leftarrow> membership_new env (us_uuid invitee) org_id [] 2 0;
           try_ret (membership_save env m) (\<lambda>_. (invited, removed)) (\<lambda>_. do {
             r \<leftarrow> organization_find_by_uuid env org_id;
             let org_name = (case r of Inr (Some o') \<Rightarrow> og_name o' | _ \<Rightarrow> ''your organization'');
             _ \<leftarrow> ea_mail env email (''Join '' @ org_name @ '' on Vaultwarden'')
                    (''You'' @ [CHR 0x27] @ ''ve been added to '' @ org_name @ '' via directory sync. Sign in at ''
                     @ env_var_or_empty env ''DOMAIN'' @ '' to accept.'');
             return (Suc invited, removed) }) } }) })"

definition public_org_import :: "env \<Rightarrow> string option \<Rightarrow> import_member list \<Rightarrow> response act" where
  "public_org_import env auth_header members =
     try_ret (require_public_org env auth_header) (\<lambda>e. e) (\<lambda>org_id. do {
       (invited, removed) \<leftarrow> for_acc members (0, 0) (import_one env org_id);
       return (json_response 200 (JObj [(''Object'', JStr ''publicOrganizationImport''),
         (''Invited'', JInt (int invited)), (''Removed'', JInt (int removed))])) })"

text \<open>The handler has no guard and no rate limit.\<close>

definition test_smtp :: "env \<Rightarrow> string \<Rightarrow> string option \<Rightarrow> response act" where
  "test_smtp env mail_error email =
     try_ret (mail_send env \<lparr>mm_from_email = fst (e_mail_from env), mm_from_name = snd (e_mail_from env),
         mm_to = opt_default ''test@example.com'' email, mm_subject = ''Vaultwarden test message'',
         mm_text = ''If you received this, your mail provider is working.'', mm_html = None\<rparr>)
       (\<lambda>_. message 500 mail_error) (\<lambda>_. return (json_response 200 JNull))"

section \<open>The configuration\<close>

text \<open>\<open>ConfigOverrides\<close> of \<open>worker/src/config.rs\<close>, as serde writes and reads it.\<close>

record config_overrides =
  cf_signups_allowed :: "bool option"
  cf_signups_verify :: "bool option"
  cf_invitations_allowed :: "bool option"
  cf_disable_invitations :: "bool option"
  cf_email_2fa_enabled :: "bool option"
  cf_require_device_email :: "bool option"
  cf_max_login_attempts :: "int option"

definition config_default :: config_overrides where
  "config_default = \<lparr>cf_signups_allowed = None, cf_signups_verify = None, cf_invitations_allowed = None,
     cf_disable_invitations = None, cf_email_2fa_enabled = None, cf_require_device_email = None,
     cf_max_login_attempts = None\<rparr>"

definition jopt_bool :: "bool option \<Rightarrow> json" where
  "jopt_bool b = (case b of None \<Rightarrow> JNull | Some v \<Rightarrow> JBool v)"

definition config_to_json :: "config_overrides \<Rightarrow> json" where
  "config_to_json c = JObj [(''signups_allowed'', jopt_bool (cf_signups_allowed c)),
     (''signups_verify'', jopt_bool (cf_signups_verify c)),
     (''invitations_allowed'', jopt_bool (cf_invitations_allowed c)),
     (''disable_invitations'', jopt_bool (cf_disable_invitations c)),
     (''email_2fa_enabled'', jopt_bool (cf_email_2fa_enabled c)),
     (''require_device_email'', jopt_bool (cf_require_device_email c)),
     (''max_login_attempts'', jopt_int (cf_max_login_attempts c))]"

text \<open>A member that may be absent or null; \<open>None\<close> is a member of another type.\<close>

definition opt_bool_member :: "string \<Rightarrow> json \<Rightarrow> bool option option" where
  "opt_bool_member k j = (case json_get k j of
     None \<Rightarrow> Some None | Some JNull \<Rightarrow> Some None | Some (JBool b) \<Rightarrow> Some (Some b) | _ \<Rightarrow> None)"

definition opt_u32_member :: "string \<Rightarrow> json \<Rightarrow> int option option" where
  "opt_u32_member k j = (case json_get k j of
     None \<Rightarrow> Some None | Some JNull \<Rightarrow> Some None
   | Some (JInt n) \<Rightarrow> if 0 \<le> n \<and> n < 2 ^ 32 then Some (Some n) else None
   | _ \<Rightarrow> None)"

definition config_of_json :: "json \<Rightarrow> config_overrides option" where
  "config_of_json j =
     (case (opt_bool_member ''signups_allowed'' j, opt_bool_member ''signups_verify'' j,
            opt_bool_member ''invitations_allowed'' j, opt_bool_member ''disable_invitations'' j,
            opt_bool_member ''email_2fa_enabled'' j, opt_bool_member ''require_device_email'' j,
            opt_u32_member ''max_login_attempts'' j) of
        (Some a, Some b, Some c, Some d, Some e, Some f, Some g) \<Rightarrow>
          Some \<lparr>cf_signups_allowed = a, cf_signups_verify = b, cf_invitations_allowed = c,
            cf_disable_invitations = d, cf_email_2fa_enabled = e, cf_require_device_email = f,
            cf_max_login_attempts = g\<rparr>
      | _ \<Rightarrow> None)"

definition config_load :: "env \<Rightarrow> config_overrides act" where
  "config_load env = do {
     r \<leftarrow> config_get env;
     return (case r of
         Inr (Some s) \<Rightarrow> opt_default config_default (Option.bind (e_json_parse env s) config_of_json)
       | _ \<Rightarrow> config_default) }"

definition config_save :: "env \<Rightarrow> config_overrides \<Rightarrow> (unit + unit) act" where
  "config_save env c = config_put env (e_json_print env (config_to_json c))"

definition get_config :: "env \<Rightarrow> string option \<Rightarrow> response act" where
  "get_config env cookie = as_admin env cookie (do {
     cfg \<leftarrow> config_load env;
     return (json_response 200 (config_to_json cfg)) })"

text \<open>The text of a failed save is that of the platform's error.\<close>

definition post_config :: "env \<Rightarrow> string \<Rightarrow> string option \<Rightarrow> config_overrides \<Rightarrow> response act" where
  "post_config env kv_error cookie body = as_admin env cookie (
     try_ret (config_save env body) (\<lambda>_. error_resp 500 (''save failed: '' @ kv_error)) (\<lambda>_.
     return (json_response 200 (config_to_json body))))"

definition config_backup_stub :: "env \<Rightarrow> string option \<Rightarrow> response act" where
  "config_backup_stub env cookie = as_admin env cookie (return (json_response 200 (JObj [
     (''Message'', JStr ''D1 backups are managed by Cloudflare; no in-Worker action available.'')])))"

definition config_delete_stub :: "env \<Rightarrow> string \<Rightarrow> string option \<Rightarrow> response act" where
  "config_delete_stub env kv_error cookie = as_admin env cookie (
     try_ret (config_save env config_default) (\<lambda>_. error_resp 500 (''save failed: '' @ kv_error)) (\<lambda>_.
     return (json_response 200 (JObj []))))"

definition diagnostics_config :: "env \<Rightarrow> string option \<Rightarrow> response act" where
  "diagnostics_config env cookie = as_admin env cookie (
     let domain = env_var_or_empty env ''DOMAIN'' in
     return (json_response 200 (JObj [(''domain'', JStr domain),
       (''domain_set'', JBool (e_vars env ''DOMAIN'' \<noteq> None)), (''domain_origin'', JStr domain),
       (''smtp_host'', JNull), (''smtp_ssl'', JBool False), (''smtp_explicit_tls'', JBool False),
       (''smtp_security'', JNull), (''smtp_from'', JStr (fst (e_mail_from env))),
       (''smtp_from_name'', JStr (snd (e_mail_from env))), (''admin_url'', JStr (domain @ ''/admin''))])))"

section \<open>One user\<close>

definition admin_user_members :: "user \<Rightarrow> (string \<times> json) list" where
  "admin_user_members user = [(''Id'', JStr (us_uuid user)), (''Email'', JStr (us_email user)),
     (''Name'', JStr (us_name user)), (''Enabled'', JBool (us_enabled user = 1)),
     (''Verified'', JBool (us_verified_at user \<noteq> None)), (''CreatedAt'', JStr (us_created_at user)),
     (''UpdatedAt'', JStr (us_updated_at user))]"

definition admin_user_by_mail :: "env \<Rightarrow> string option \<Rightarrow> string \<Rightarrow> response act" where
  "admin_user_by_mail env cookie email = as_admin env cookie (do {
     found \<leftarrow> user_find_by_email env (to_lowercase email);
     return (case found of
         Inr (Some user) \<Rightarrow> json_response 200 (JObj (admin_user_members user))
       | _ \<Rightarrow> error_resp 404 ''user not found'') })"

text \<open>The memberships with the names of their organizations, by name, and the number of items.\<close>

definition admin_user_detail :: "env \<Rightarrow> string option \<Rightarrow> string \<Rightarrow> response act" where
  "admin_user_detail env cookie user_id = as_admin env cookie (do {
     found \<leftarrow> user_find_by_uuid env user_id;
     case found of
       Inr (Some user) \<Rightarrow> do {
         orgs \<leftarrow> unwrap_or [] (d1_query env (\<lambda>d. sort_key (\<lambda>(_, name, _). name)
           [(me_org_uuid m, og_name g, me_atype m). m \<leftarrow> t_users_organizations d, g \<leftarrow> t_organizations d,
             me_user_uuid m = us_uuid user \<and> og_uuid g = me_org_uuid m]));
         n \<leftarrow> unwrap_or 0 (d1_query env (\<lambda>d. length (filter (\<lambda>c. ci_user_uuid c = Some (us_uuid user)) (t_ciphers d))));
         return (json_response 200 (JObj (admin_user_members user @ [(''CipherCount'', JInt (int n)),
           (''Organizations'', JArr (map (\<lambda>(i, name, ty). JObj [(''id'', JStr i), (''name'', JStr name),
             (''type'', JInt ty)]) orgs))]))) }
     | _ \<Rightarrow> return (Response 404 (TextBody ''user not found'')) })"

section \<open>All requests of the panel\<close>

datatype admin_op =
    DisableUser string
  | EnableUser string
  | DeauthUser string
  | Remove2fa string
  | DeleteUser string
  | DeleteOrg string
  | InviteResend string
  | UnlinkSso string
  | UpdateRevision
  | InviteUser string
  | SetOrgType string string int
  | TestSmtp string string
  | GetConfig
  | PostConfig string config_overrides
  | ConfigBackup
  | ConfigDelete string
  | DiagnosticsConfig
  | UserByMail string
  | UserDetail string

fun exec_admin_op :: "env \<Rightarrow> string option \<Rightarrow> admin_op \<Rightarrow> response act" where
  "exec_admin_op env cookie (DisableUser u) = admin_disable_user env cookie u"
| "exec_admin_op env cookie (EnableUser u) = admin_enable_user env cookie u"
| "exec_admin_op env cookie (DeauthUser u) = admin_deauth_user env cookie u"
| "exec_admin_op env cookie (Remove2fa u) = admin_remove_2fa env cookie u"
| "exec_admin_op env cookie (DeleteUser u) = admin_delete_user env cookie u"
| "exec_admin_op env cookie (DeleteOrg g) = admin_delete_org env cookie g"
| "exec_admin_op env cookie (InviteResend u) = admin_invite_resend env cookie u"
| "exec_admin_op env cookie (UnlinkSso u) = admin_unlink_sso env cookie u"
| "exec_admin_op env cookie UpdateRevision = admin_update_revision env cookie"
| "exec_admin_op env cookie (InviteUser email) = admin_invite_user env cookie email"
| "exec_admin_op env cookie (SetOrgType u g ty) = admin_set_org_type env cookie u g ty"
| "exec_admin_op env cookie (TestSmtp err email) = admin_test_smtp env err cookie email"
| "exec_admin_op env cookie GetConfig = get_config env cookie"
| "exec_admin_op env cookie (PostConfig err body) = post_config env err cookie body"
| "exec_admin_op env cookie ConfigBackup = config_backup_stub env cookie"
| "exec_admin_op env cookie (ConfigDelete err) = config_delete_stub env err cookie"
| "exec_admin_op env cookie DiagnosticsConfig = diagnostics_config env cookie"
| "exec_admin_op env cookie (UserByMail email) = admin_user_by_mail env cookie email"
| "exec_admin_op env cookie (UserDetail u) = admin_user_detail env cookie u"

lemma exec_admin_op_guarded:
  "\<not> ok_admin env cookie \<Longrightarrow> exec_admin_op env cookie op = return (error_resp 401 ''auth required'')"
  by (cases op) (simp_all add: as_admin_def admin_disable_user_def admin_enable_user_def admin_deauth_user_def
      admin_remove_2fa_def admin_delete_user_def admin_delete_org_def admin_invite_resend_def admin_unlink_sso_def
      admin_update_revision_def admin_invite_user_def admin_set_org_type_def admin_test_smtp_def
      get_config_def post_config_def config_backup_stub_def config_delete_stub_def diagnostics_config_def
      admin_user_by_mail_def admin_user_detail_def)

text \<open>What was stored comes back: serde reads the configuration that it wrote.\<close>

lemma config_roundtrip:
  assumes "case cf_max_login_attempts c of None \<Rightarrow> True | Some n \<Rightarrow> 0 \<le> n \<and> n < 2 ^ 32"
  shows "config_of_json (config_to_json c) = Some c"
  using assms
  by (simp add: config_of_json_def config_to_json_def opt_bool_member_def opt_u32_member_def jopt_bool_def
      jopt_int_def split: option.splits)

text \<open>The cookies of a header: its parts between semicolons, without the blanks around them.\<close>

definition cookies :: "string \<Rightarrow> string list" where
  "cookies header = map trim (split_on '';'' [] header)"

section \<open>Properties\<close>

text \<open>C12.
  The handlers of the panel that act are closed without its secret.  These are all that change the
  tables, the buckets, the configuration or the messages sent, and those that answer with JSON on the
  configuration or on one user.  When one of them changes anything or answers anything but 401, then
  the deployment has a secret that is not empty and one of the cookies of the request, a part of its
  cookie header between semicolons with the blanks around it cut off, is exactly the name of the
  session cookie, an equals sign and that secret.
\<close>

theorem admin_requests_need_token:
  assumes "run_state (exec_admin_op env cookie op) s = (resp, s')" and "s' \<noteq> s \<or> resp_status resp \<noteq> 401"
  shows "\<exists>token header. e_vars env ''ADMIN_TOKEN'' = Some token \<and> token \<noteq> [] \<and> cookie = Some header \<and>
    ''VW_ADMIN_SESSION='' @ token \<in> set (cookies header)"
proof -
  have "ok_admin env cookie"
    by (rule ccontr) (use assms exec_admin_op_guarded [of env cookie op] in \<open>auto simp: error_resp_def\<close>)
  then obtain token c where token: "e_vars env ''ADMIN_TOKEN'' = Some token" "token \<noteq> []"
    and c: "c \<in> set (cookies (opt_default [] cookie))" "strip_prefix ''VW_ADMIN_SESSION='' c = Some token"
    by (auto simp: ok_admin_def cookies_def split: option.splits)
  have "c = ''VW_ADMIN_SESSION='' @ token"
    using c(2) by (auto simp: strip_prefix_def prefix_def split: if_splits)
  moreover have "cookies [] = [[]]"
    by (simp add: cookies_def trim_def)
  ultimately show ?thesis
    using token c(1) by (cases cookie) (auto simp: opt_default_def)
qed

definition sample_admin_env :: env where
  "sample_admin_env = sample_env\<lparr>e_vars := [''ADMIN_TOKEN'' \<mapsto> ''s3cret'']\<rparr>"

abbreviation sample_cookie :: string where
  "sample_cookie \<equiv> ''lang=en; VW_ADMIN_SESSION=s3cret''"

lemma sample_cookie_ok: "ok_admin sample_admin_env (Some sample_cookie)"
  by (simp add: ok_admin_def sample_admin_env_def opt_default_def trim_def is_whitespace_def strip_prefix_def)

lemma sample_disable:
  "wp (admin_disable_user sample_admin_env (Some sample_cookie) ''alice'') (\<lambda>resp _. resp_status resp = 200)
     (sample_world sample_db)"
  unfolding admin_disable_user_def as_admin_def if_not_P [OF sample_cookie_ok [THEN not_not [THEN iffD2]]]
  by (simp add: admin_load_user_def user_find_by_uuid_def user_save_def user_conflict_def sample_admin_env_def eval_simps)

theorem admin_requests_need_token_witness:
  "\<exists>token header. e_vars sample_admin_env ''ADMIN_TOKEN'' = Some token \<and> token \<noteq> [] \<and>
     Some sample_cookie = Some header \<and> ''VW_ADMIN_SESSION='' @ token \<in> set (cookies header)"
proof -
  have "resp_status (fst (run_state (exec_admin_op sample_admin_env (Some sample_cookie) (DisableUser ''alice''))
      (sample_world sample_db))) \<noteq> 401"
    using wp_run [OF sample_disable] by simp
  then show ?thesis
    by (intro admin_requests_need_token [OF surjective_pairing] disjI2)
qed

text \<open>C13.
  Disabling a user ends the sessions of that user at once: after the request has succeeded, whatever
  token a request brings and whichever calls fail, the guard of the other endpoints lets in nobody
  with that user's id.
\<close>

theorem disabled_user_locked_out:
  assumes "run_state (admin_disable_user env cookie u) s = (resp, t)" and "resp_status resp = 200"
    and "run_state (from_request_parts env auth) t = (Inr h, t')"
  shows "uid h \<noteq> u"
proof -
  define off where "off = (\<lambda>d :: db. \<forall>x\<in>set (t_users d). us_uuid x = u \<longrightarrow> us_enabled x = 0)"
  have save: "wp (user_save env x) (\<lambda>r s'. case r of Inl _ \<Rightarrow> True | Inr _ \<Rightarrow> off (w_db s')) s0"
    if "us_uuid x = u" "us_enabled x = 0" for x s0
    using that by (auto simp: user_save_def wp_rules Let_def off_def set_upsert user_conflict_def image_iff split: if_splits)
  have "wp (admin_disable_user env cookie u) (\<lambda>resp s'. resp_status resp = 200 \<longrightarrow> off (w_db s')) s"
    by (auto simp: admin_disable_user_def as_admin_def admin_load_user_def user_find_by_uuid_def error_resp_def wp_rules
        dest!: find_SomeD split: option.splits sum.splits intro!: wp_mono [OF save] wp_notify_userI)
  from wpD [OF this assms(1)] assms(2) have off: "off (w_db t)" by simp
  have "wp (from_request_parts env auth) (\<lambda>r _. case r of Inl _ \<Rightarrow> True | Inr h \<Rightarrow>
      hd_user h \<in> set (t_users (w_db t)) \<and> us_enabled (hd_user h) \<noteq> 0) t"
    by (auto simp: from_request_parts_def user_find_by_uuid_def device_find_def wp_rules
        split: option.splits sum.splits dest!: find_SomeD)
  from wpD [OF this assms(3)] off show ?thesis by (auto simp: off_def)
qed

text \<open>Alice is disabled, and Bob, whose token every request brings here, still gets in.\<close>

definition sample_lockout_env :: env where
  "sample_lockout_env = sample_admin_env\<lparr>e_jwt_decode := \<lambda>_ _ _. Inr (login_claims_to_json (sample_claims ''bob''))\<rparr>"

theorem disabled_user_locked_out_witness:
  "uid (sample_headers ''bob'') \<noteq> ''alice''"
proof -
  let ?disable = "admin_disable_user sample_lockout_env (Some sample_cookie) ''alice''"
    and ?guard = "from_request_parts sample_lockout_env (Some ''Bearer t'')"
  have ok: "ok_admin sample_lockout_env (Some sample_cookie)"
    using sample_cookie_ok by (simp add: ok_admin_def sample_lockout_env_def)
  have "wp ?disable (\<lambda>resp t. resp_status resp = 200 \<and> wp ?guard (\<lambda>r _. r = Inr (sample_headers ''bob'')) t)
      (sample_world sample_db)"
    unfolding admin_disable_user_def as_admin_def if_not_P [OF ok [THEN not_not [THEN iffD2]]]
    by (simp add: admin_load_user_def user_find_by_uuid_def user_save_def user_conflict_def from_request_parts_def
        bearer_token_def strip_prefix_def jwt_check_def login_claims_roundtrip device_find_def
        sample_lockout_env_def sample_admin_env_def eval_simps)
  from wp_run [OF this] have ran: "resp_status (fst (run_state ?disable (sample_world sample_db))) = 200"
    and guard: "wp ?guard (\<lambda>r _. r = Inr (sample_headers ''bob'')) (snd (run_state ?disable (sample_world sample_db)))"
    by simp_all
  have "run_state ?guard (snd (run_state ?disable (sample_world sample_db))) = (Inr (sample_headers ''bob''),
      snd (run_state ?guard (snd (run_state ?disable (sample_world sample_db)))))"
    using wp_run [OF guard] by (simp add: prod_eq_iff)
  from disabled_user_locked_out [OF surjective_pairing ran this] show ?thesis .
qed

end
