(* ===== verification/Token_Kinds.thy ===== *)
theory Token_Kinds
  imports Auth_Safety Accounts Sends
begin

text \<open>
  The five kinds of tokens that \<open>worker/src/auth.rs\<close> issues, and the five places where the handlers take
  one: a token that serves in one place is refused in the other four.
\<close>

section \<open>Places that take a token\<close>

datatype token_use =
    AsLogin
  | AsRegistration register_finish_data
  | AsFileLink string string
  | AsEmailLink string
  | AsDeletionLink string

text \<open>The request that presents the token; behind the guard any handler may follow.\<close>

fun present_token :: "env \<Rightarrow> string \<Rightarrow> token_use \<Rightarrow> response act" where
  "present_token env token AsLogin = do {
     r \<leftarrow> from_request_parts env (Some (''Bearer '' @ token));
     return (case r of Inl e \<Rightarrow> e | Inr _ \<Rightarrow> Response 200 NoBody) }"
| "present_token env token (AsRegistration body) =
     register_finish env (body\<lparr>rf_email_verification_token := Some token\<rparr>)"
| "present_token env token (AsFileLink send_uuid file_id) =
     public_access_file_download env send_uuid file_id (Some token)"
| "present_token env token (AsEmailLink user_id) = verify_email_token env user_id token"
| "present_token env token (AsDeletionLink user_id) = delete_recover_token env user_id token"

fun use_kind :: "token_use \<Rightarrow> nat" where
  "use_kind AsLogin = 0"
| "use_kind (AsRegistration _) = 1"
| "use_kind (AsFileLink _ _) = 2"
| "use_kind (AsEmailLink _) = 3"
| "use_kind (AsDeletionLink _) = 4"

fun use_issuer :: "env \<Rightarrow> token_use \<Rightarrow> string" where
  "use_issuer env AsLogin = e_login_issuer env"
| "use_issuer env (AsRegistration _) = register_verify_issuer env"
| "use_issuer env (AsFileLink _ _) = send_file_issuer env"
| "use_issuer env (AsEmailLink _) = verify_email_issuer env"
| "use_issuer env (AsDeletionLink _) = delete_recover_issuer env"

section \<open>What the JWT library promises\<close>

text \<open>
  \<open>Validation::set_issuer\<close>: a token that names an issuer is decoded only for that issuer.  A token that
  names none is not refused for it.
\<close>

definition issuer_checked :: "env \<Rightarrow> bool" where
  "issuer_checked env \<longleftrightarrow> (\<forall>now token iss j x.
     e_jwt_decode env now token iss = Inr j \<longrightarrow> json_get ''iss'' j = Some (JStr x) \<longrightarrow> x = iss)"

text \<open>The claims are those that the token carries, whenever and for whichever issuer it is decoded.\<close>

definition claims_fixed :: "env \<Rightarrow> bool" where
  "claims_fixed env \<longleftrightarrow> (\<forall>now now' token iss iss' j j'.
     e_jwt_decode env now token iss = Inr j \<longrightarrow> e_jwt_decode env now' token iss' = Inr j' \<longrightarrow> j = j')"

section \<open>Lemmas\<close>

text \<open>The claims of each kind have to name an issuer, or serde refuses them.\<close>

lemma as_str_SomeD: "as_str x = Some s \<Longrightarrow> x = Some (JStr s)"
  by (cases x rule: as_str.cases) simp_all

definition names_issuer :: "(json \<Rightarrow> 'c option) \<Rightarrow> bool" where
  "names_issuer of_json \<longleftrightarrow> (\<forall>j. of_json j \<noteq> None \<longrightarrow> (\<exists>x. json_get ''iss'' j = Some (JStr x)))"

lemma claims_name_issuer [simp]:
  "names_issuer login_claims_of_json" "names_issuer register_verify_claims_of_json"
  "names_issuer send_file_claims_of_json" "names_issuer user_link_claims_of_json"
  by (auto simp: names_issuer_def login_claims_of_json_def register_verify_claims_of_json_def
      send_file_claims_of_json_def user_link_claims_of_json_def dest!: as_str_SomeD split: option.splits)

text \<open>Some time the library decodes the token for this issuer, to claims that name one.\<close>

definition decodes_for :: "env \<Rightarrow> string \<Rightarrow> string \<Rightarrow> bool" where
  "decodes_for env token iss \<longleftrightarrow>
     (\<exists>now j x. e_jwt_decode env now token iss = Inr j \<and> json_get ''iss'' j = Some (JStr x))"

definition only_clock :: "world \<Rightarrow> world \<Rightarrow> bool" where
  "only_clock s s' \<longleftrightarrow> s' = s\<lparr>w_tick := w_tick s'\<rparr>"

lemma only_clock_simps [simp]: "only_clock s s" "only_clock s (bump s)"
  by (simp_all add: only_clock_def bump_def)

lemma wp_refused_decode:
  assumes "\<not> decodes_for env token iss" "names_issuer of_json" "\<And>e. Q (Inl e) (bump s)"
  shows "wp (jwt_decode env of_json token iss) Q s"
proof -
  have "\<exists>e. jwt_check env now of_json token iss = Inl e" for now
    using assms(1,2) by (fastforce simp: jwt_check_def decodes_for_def names_issuer_def split: sum.split option.split)
  then show ?thesis
    using assms(3) unfolding wp_jwt_decode by metis
qed

lemma wp_present_refused:
  assumes "\<not> decodes_for env token (use_issuer env use)" "token \<noteq> []"
  shows "wp (present_token env token use) (\<lambda>resp s'. resp_status resp \<ge> 400 \<and> only_clock s s') s"
  using assms
  by (cases use) (auto simp: from_request_parts_def bearer_token_def strip_prefix_def register_finish_def
      check_verification_token_def public_access_file_download_def verify_email_token_def
      delete_recover_token_def link_user_def non_empty_def Let_def intro!: wp_refused_decode)

lemma issuers_of_kinds:
  assumes "e_login_issuer env = domain @ ''|login''" "use_kind use1 \<noteq> use_kind use2"
  shows "use_issuer env use1 \<noteq> use_issuer env use2"
  using issuers_distinct [OF assms(1)] assms(2) by (cases use1; cases use2) auto

section \<open>Properties\<close>

text \<open>C19.
  A token is of one kind: a token with which one of the five requests succeeds (an authenticated request, the
  end of a registration, the download of a send's file, the confirmation of an address, the deletion of
  an account by link) is refused, at any time and in any state, by the requests of the four other kinds: they
  answer with an error and change nothing.  Of the JWT library this uses that it decodes a token
  that names an issuer for no other issuer, and that the claims are those in the token; that a token has
  to name its issuer is the check of the claims.
\<close>

theorem token_kinds_separate:
  assumes "e_login_issuer env = domain @ ''|login''" and "issuer_checked env" and "claims_fixed env"
    and "token \<noteq> []" and "use_kind use1 \<noteq> use_kind use2"
    and "run_state (present_token env token use1) s1 = (resp1, s1')" and "resp_status resp1 = 200"
    and "run_state (present_token env token use2) s2 = (resp2, s2')"
  shows "resp_status resp2 \<ge> 400 \<and> s2' = s2\<lparr>w_tick := w_tick s2'\<rparr>"
proof -
  have "decodes_for env token (use_issuer env use1)"
    using wpD [OF wp_present_refused assms(6)] assms(4,7) by fastforce
  moreover have "use_issuer env use1 \<noteq> use_issuer env use2"
    by (rule issuers_of_kinds [OF assms(1,5)])
  ultimately have "\<not> decodes_for env token (use_issuer env use2)"
    using assms(2,3) unfolding decodes_for_def issuer_checked_def claims_fixed_def by metis
  from wpD [OF wp_present_refused [OF this assms(4)] assms(8)] show ?thesis
    by (simp add: only_clock_def)
qed

text \<open>A library that knows one token, of the login kind.\<close>

definition sample_token_env :: env where
  "sample_token_env = sample_env\<lparr>e_jwt_decode := \<lambda>_ token iss. if iss = ''https://vault|login''
     then Inr (login_claims_to_json ((sample_claims ''alice'')\<lparr>lc_iss := ''https://vault|login''\<rparr>)) else Inl ''InvalidIssuer''\<rparr>"

theorem token_kinds_separate_witness:
  "400 \<le> resp_status (fst (run_state (present_token sample_token_env ''t'' (AsDeletionLink ''alice''))
     (sample_world sample_db)))"
proof -
  have "wp (present_token sample_token_env ''t'' AsLogin) (\<lambda>resp _. resp_status resp = 200) (sample_world sample_db)"
    by (simp add: from_request_parts_def bearer_token_def strip_prefix_def jwt_check_def sample_token_env_def
        login_claims_roundtrip user_find_by_uuid_def device_find_def eval_simps)
  from wp_run [OF this] have ok: "resp_status (fst (run_state (present_token sample_token_env ''t'' AsLogin)
      (sample_world sample_db))) = 200" .
  have "issuer_checked sample_token_env" "claims_fixed sample_token_env"
    by (auto simp: issuer_checked_def claims_fixed_def sample_token_env_def login_claims_to_json_def split: if_splits)
  from token_kinds_separate [OF _ this _ _ surjective_pairing ok surjective_pairing,
      of "''https://vault''" "AsDeletionLink ''alice''" "sample_world sample_db"]
  show ?thesis by (simp add: sample_token_env_def sample_env_def)
qed

end
