(* ===== verification/Spec2Isabelle.thy ===== *)
theory Spec2Isabelle
  imports Folders Ciphers_Effects Emergency_Safety Sends_Safety Auth_Safety Login_Safety Auth_Requests
    Attachments Cron Collections Organizations Accounts
    Policies Sync Event_Log Admin Token_Kinds
begin

text \<open>
  Verification of the Vaultwarden server for Cloudflare Workers (\<open>src/worker\<close>).

  \<^bold>\<open>The program.\<close>  The server is a password vault: clients store encrypted items (ciphers) in folders,
  share them through organizations, collections and groups, publish one-off sends, and name emergency
  contacts who may take over a vault after a waiting time.  It runs as one Worker.  \<open>lib.rs\<close> routes a
  request to a handler in \<open>api/\<close>; most handlers run behind the guard \<open>Headers\<close> of \<open>auth.rs\<close>, which turns a
  bearer token into a user and a device.  A handler reads and writes rows of the D1 database through
  \<open>db/models/\<close>, files in two R2 buckets, and counters of \<open>ratelimit.rs\<close> in a key-value store; it tells connected
  clients through \<open>api/notify.rs\<close>, writes the audit log through \<open>api/events.rs\<close> and sends mail.  A schedule
  calls \<open>run_purges\<close> of \<open>lib.rs\<close>.

  \<^bold>\<open>State and effects.\<close>  A handler is a computation in the state monad of the library over the record \<open>world\<close>:
  the tables (\<open>db\<close>, one list of rows per table of \<open>worker/migrations\<close>), the two buckets, the two namespaces of
  the key-value store, the messages sent, and a counter of the calls to the outside.  Its argument \<open>env\<close> holds what the code calls and does
  not define.  Each call to D1, R2 or the key-value store may be refused, by the parameter \<open>e_fault\<close> applied to the number of
  the call, so a theorem without a hypothesis on \<open>e_fault\<close> holds for every pattern of failures; statements that
  break a UNIQUE constraint are refused, and with \<open>e_fk\<close> those that break a foreign key too.  Where the code drops the
  error of a call and a bound depends on it, the bound counts the requests in which a call failed (\<open>watched\<close>).
  The key-value store is eventually consistent: it is the list of its writes, and \<open>e_kv_lag\<close> says how many of the latest
  ones a read misses.  The JWT library decodes a token at a reading of the clock, for an issuer; a hypothesis
  that it accepts a token holds only until the expiry in the token.  The clock, UUIDs,
  random bytes, PBKDF2, HMAC, TOTP, the JWT codec, \<open>serde_json\<close>, the base 32 and base 64 codecs, date parsing and SQLite's
  \<open>datetime\<close> are parameters, and what a theorem needs of one of them is a hypothesis of that theorem.
  Errors are values: a model function returns \<open>Inl\<close> the error or \<open>Inr\<close> the result, a handler returns the
  response with its status, and a panic is the response \<open>panicked\<close> or the value \<open>None\<close>.

  \<^bold>\<open>Theories.\<close>
    \<^item> \<open>Prelude\<close>, \<open>Program_Logic\<close>: JSON, responses, strings, the SQL statements on lists of rows with the
      contract \<open>keyed_table\<close> of a table with a primary key; the control flow of the handlers, weakest
      preconditions (\<open>wp\<close>, \<open>wp_rules\<close>) and invariants of computations (\<open>preserves\<close>, \<open>preserves_rules\<close>).
    \<^item> \<open>Schema\<close>, \<open>World\<close>: the rows, the foreign keys, the world, the environment and the calls to the services.
    \<^item> \<open>Models_Vault\<close>, \<open>Models_Access\<close>, \<open>Models_Org\<close>, \<open>Models_Factors\<close>: the functions of \<open>db/models/*.rs\<close>.
      \<open>keyed_table\<close> is interpreted for each table with an upsert.
    \<^item> \<open>Auth\<close>, \<open>Notify_Events\<close>, \<open>Guards\<close>, \<open>Ratelimit\<close>: \<open>auth.rs\<close> and \<open>crypto.rs\<close>; \<open>notify.rs\<close> and the logging half
      of \<open>events.rs\<close>; the contract \<open>guarded_loader\<close> between a handler and the function that loads its row,
      interpreted for folders, items, sends, attachments, grants, login requests and devices;
      \<open>ratelimit.rs\<close>.  \<open>Sample_Data\<close> is the small server that the witnesses run on.
    \<^item> \<open>Folders\<close>; \<open>Cipher_Json\<close>, \<open>Ciphers\<close>, \<open>Ciphers_Bulk\<close> (\<open>ciphers.rs\<close>) with \<open>Ciphers_Safety\<close> and \<open>Ciphers_Effects\<close>;
      \<open>Attachments\<close>; \<open>Multipart\<close> and \<open>Sends\<close> (\<open>sends.rs\<close>) with \<open>Sends_Safety\<close>; \<open>Emergency_Access\<close> with
      \<open>Emergency_Safety\<close>; \<open>Two_Factor\<close>, \<open>Security_Keys\<close> (\<open>two_factor.rs\<close>, \<open>webauthn.rs\<close>), \<open>Identity\<close> (\<open>identity.rs\<close>) with
      \<open>Auth_Safety\<close> and \<open>Login_Safety\<close>; \<open>Auth_Requests\<close> (\<open>auth_requests.rs\<close>, \<open>devices.rs\<close>); \<open>Collections\<close>;
      \<open>Organizations\<close>; \<open>Policies\<close> (policies and groups); \<open>Accounts\<close>; \<open>Sync\<close>; \<open>Event_Log\<close> (the endpoints of
      \<open>events.rs\<close>); \<open>Admin\<close> (\<open>admin.rs\<close>, \<open>config.rs\<close>, \<open>meta.rs\<close>); \<open>Cron\<close> (the schedule of \<open>lib.rs\<close>).  \<open>Token_Kinds\<close>
      has the places of four of these files that take a token.  In each the definitions
      follow the file of the same name, one per function, under the name of the function where it is free.

  \<^bold>\<open>What is shown.\<close>
    \<^item> Isolation: item, collection, group and organization requests of a user leave alone what the user has
      no part in, whichever calls fail (\<open>item_requests_isolated\<close>, \<open>collection_requests_isolated\<close>,
      \<open>group_requests_isolated\<close>), and are answered with an error (\<open>item_requests_of_others_denied\<close>,
      \<open>org_requests_of_outsiders_denied\<close>).  The item facts are the locales \<open>item_invariant\<close> and
      \<open>item_invariant_bulk\<close>, interpreted for the isolation of items and for the exclusive ownership
      of an item (\<open>ownership_stays_exclusive\<close>, over sequences of requests).
    \<^item> Sessions: the guard is sound, a password login needs the password and the second factor, a login
      request needs an approval, a token that serves in one place is refused in every place for another kind, a
      login yields a token that the guard accepts for an hour, password changes and disabling a user end
      sessions, mail codes are limited in number of attempts up to the failing calls, and the handlers of the
      admin panel that act are closed without its secret.
    \<^item> Emergency access refines an abstract machine of grants (an inductive step relation); on its histories a
      recovery needs a confirmed contact and an approval or the timer, the grants stay
      well-formed, a takeover changes the grantor only and a view shows the grantor's items only.
    \<^item> Roles: only owners hand out roles above the plain user.
    \<^item> Sends, files and limits: the access limit up to the failing calls, soundness and completeness of anonymous access, round trips of send files,
      attachments and multipart bodies, the bound of the rate limiter up to the lag of its store, the cron job keeps live data,
      the trash round trip, and the deletion of an account.
    \<^item> Behaviour of the code that is not what it means to be, as theorems on the same definitions: passwords of
      sends that are never checked, a panic on a malformed upload, the timer that
      approves early, collections any member deletes, passwords plain members reset, groups that open the
      collections of another organization, removed members who go on reading, refresh tokens that survive a
      password change.  Further theorems of this kind, next to the definitions they are about, are
      \<open>delete_linked_item_refused\<close>, \<open>delete_folder_with_items_refused\<close>, \<open>delete_account_blocked_by_pending_login\<close>,
      \<open>remember_row_locks_out\<close> and \<open>yubikey_login_refused\<close>.

  \<^bold>\<open>Bounds and termination.\<close>  Loops over lists are structural recursion.  The loop of the source with no list to
  run over is the scan of a multipart body: it is a recursive function with a termination proof, since a
  round that goes on moves the cursor forward, and \<open>multipart_scan_terminates\<close> bounds its rounds by one more than
  a sixth of the length of the body, as each consumes a boundary and a blank line.  The decimal text
  of a number \<open>n\<close> is computed with fuel \<open>n + 1\<close>, more than its digits, and read back by a
  lemma; \<open>split_on\<close> ends by the length of the text.  Columns of type \<open>i32\<close> are
  \<open>int\<close>, with the conversion to \<open>u32\<close> written out where the code casts; bytes are words of eight
  bits.  The limiter's \<open>f64\<close> arithmetic is done in rationals.

  \<^bold>\<open>Definitions and source lines.\<close>  A helper that is only a part of one function of the source, a row's behaviour on conflict, a
  constant and the derived conversion of a type to JSON belong to the lines of the function or type they
  are used in; the larger ones are listed with their own lines.

  \<^bold>\<open>Not modelled.\<close>
    \<^item> The routing table, the Durable Objects, the bootstrap and the debug routes of \<open>lib.rs\<close>: wiring to the platform.
    \<^item> Of \<open>admin.rs\<close> the login and the logout, which set the cookie, the pages, listings and static files and the test of the
      outgoing connection: none of them changes what is stored.  Of \<open>meta.rs\<close> the constant answers, one listing and the
      lookup at another server.  Of \<open>accounts.rs\<close> the revision date.
    \<^item> \<open>icons.rs\<close>, \<open>web_vault.rs\<close>, \<open>notifications.rs\<close>, \<open>mail.rs\<close>, \<open>templates.rs\<close>, \<open>observability.rs\<close>: fetching, WebSockets, HTTP calls of mail
      providers, page texts and logging.
    \<^item> The interleaving of two requests between their calls: a request runs to its end.
    \<^item> The upstream server in \<open>src/src\<close>, which the Worker is a port of and does not link.
\<close>

end
